(* ===== verification/Prelude.thy ===== *)
theory Prelude
  imports Main "HOL-Library.Word" "HOL-Library.Monad_Syntax"
begin

text \<open>
  Shared vocabulary of the development: the C integer types as words, C arrays of a fixed
  size with checked accesses, and a total-correctness judgement for computations that may
  run into undefined behaviour.

  A C computation is a value of an option type.  \<open>None\<close> stands for undefined behaviour or
  an abort: an array index out of range, a division by zero, a failed \<open>assert\<close>, the use of
  an uninitialised local or of a null pointer.  \<open>Some x\<close> is a normal return.
  Every C \<open>int\<close> expression is evaluated on the unbounded type \<open>int\<close>; conversions to the
  unsigned types are written out, as the usual promotions of C do.
\<close>

unbundle bit_operations_syntax

section \<open>Machine integers\<close>

type_synonym u6 = "6 word"
type_synonym u8 = "8 word"
type_synonym u16 = "16 word"
type_synonym u32 = "32 word"
type_synonym u64 = "64 word"

lemma uint_u8_bounds: "0 \<le> uint (x::u8)" "uint (x::u8) < 256"
  using uint_bounded [of x] by simp_all

lemma uint_u16_bounds: "0 \<le> uint (x::u16)" "uint (x::u16) < 65536"
  using uint_bounded [of x] by simp_all

lemma unat_u8: "unat (x::u8) < 256"
  using unsigned_less [of x, where ?'a = nat] by simp

lemma unat_u16: "unat (x::u16) < 65536"
  using unsigned_less [of x, where ?'a = nat] by simp

lemma uint_wi8: "uint (word_of_int k :: u8) = k mod 256"
  by (simp add: uint_word_of_int)

lemma uint_wi16: "uint (word_of_int k :: u16) = k mod 65536"
  by (simp add: uint_word_of_int)

lemma uint_wi32: "uint (word_of_int k :: u32) = k mod 4294967296"
  by (simp add: uint_word_of_int)

text \<open>The two bytes of a 16-bit value, and their composition (little endian pairs).\<close>

definition mk16 :: "u8 \<Rightarrow> u8 \<Rightarrow> u16" where
  "mk16 hi lo = push_bit 8 (ucast hi) OR ucast lo"

definition hi8 :: "u16 \<Rightarrow> u8" where
  "hi8 w = ucast (drop_bit 8 w)"

definition lo8 :: "u16 \<Rightarrow> u8" where
  "lo8 w = ucast w"

lemma hi8_mk16 [simp]: "hi8 (mk16 h l) = h"
  by (rule bit_word_eqI) (auto simp: hi8_def mk16_def bit_simps dest: bit_imp_le_length)

lemma lo8_mk16 [simp]: "lo8 (mk16 h l) = l"
  by (rule bit_word_eqI) (auto simp: lo8_def mk16_def bit_simps)

lemma mk16_hi8_lo8 [simp]: "mk16 (hi8 w) (lo8 w) = w"
  by (rule bit_word_eqI) (auto simp: hi8_def lo8_def mk16_def bit_simps dest: bit_imp_le_length)

lemma mk16_inject [simp]: "mk16 h l = mk16 h' l' \<longleftrightarrow> h = h' \<and> l = l'"
  by (metis hi8_mk16 lo8_mk16)

lemma unat_mk16: "unat (mk16 h l) = 256 * unat h + unat l"
proof -
  have "mk16 h l = push_bit 8 (ucast h) + ucast l"
    unfolding mk16_def
    by (rule disjunctive_add_eq_or [symmetric], rule bit_word_eqI) (auto simp: bit_simps dest: bit_imp_le_length)
  also have "\<dots> = of_nat (256 * unat h + unat l)"
    by (simp add: push_bit_eq_mult mult.commute)
  finally have "unat (mk16 h l) = (256 * unat h + unat l) mod 65536"
    by (simp only: unat_of_nat) simp
  then show ?thesis using unat_u8 [of h] unat_u8 [of l] by simp
qed

text \<open>A byte read as the signed type \<open>int8_t\<close>.\<close>

definition s8 :: "u8 \<Rightarrow> int" where
  "s8 b = sint b"

section \<open>Arrays of a fixed size\<close>

text \<open>
  A C array of \<open>n\<close> elements is a function on indices, and an access goes through the
  declared size.  The index is a C \<open>int\<close>, so it may be negative.
\<close>

type_synonym 'a arr = "nat \<Rightarrow> 'a"

definition arr_rd :: "nat \<Rightarrow> 'a arr \<Rightarrow> int \<Rightarrow> 'a option" where
  "arr_rd n a i = (if 0 \<le> i \<and> i < int n then Some (a (nat i)) else None)"

definition arr_wr :: "nat \<Rightarrow> 'a arr \<Rightarrow> int \<Rightarrow> 'a \<Rightarrow> 'a arr option" where
  "arr_wr n a i v = (if 0 \<le> i \<and> i < int n then Some (a(nat i := v)) else None)"

lemma arr_rd_in [simp]: "0 \<le> i \<Longrightarrow> i < int n \<Longrightarrow> arr_rd n a i = Some (a (nat i))"
  by (simp add: arr_rd_def)

lemma arr_wr_in [simp]: "0 \<le> i \<Longrightarrow> i < int n \<Longrightarrow> arr_wr n a i v = Some (a(nat i := v))"
  by (simp add: arr_wr_def)

lemma arr_rd_Some: "arr_rd n a i = Some v \<longleftrightarrow> 0 \<le> i \<and> i < int n \<and> v = a (nat i)"
  by (auto simp: arr_rd_def)

lemma arr_wr_Some: "arr_wr n a i v = Some a' \<longleftrightarrow> 0 \<le> i \<and> i < int n \<and> a' = a(nat i := v)"
  by (auto simp: arr_wr_def)

lemma arr_rd_nat [simp]: "arr_rd n a (int i) = (if i < n then Some (a i) else None)"
  by (simp add: arr_rd_def)

lemma arr_wr_nat [simp]: "arr_wr n a (int i) v = (if i < n then Some (a(i := v)) else None)"
  by (simp add: arr_wr_def)

section \<open>Returning with a postcondition\<close>

text \<open>\<open>returns m Q\<close>: the computation \<open>m\<close> meets no undefined behaviour and its result
  satisfies \<open>Q\<close>.  The rules below are collected in \<open>wp\<close>.\<close>

definition returns :: "'a option \<Rightarrow> ('a \<Rightarrow> bool) \<Rightarrow> bool" where
  "returns m Q = (case m of None \<Rightarrow> False | Some x \<Rightarrow> Q x)"

named_theorems wp \<open>rules that compute \<open>returns\<close>\<close>
named_theorems frame \<open>what an operation leaves unchanged\<close>

lemma returns_Some [wp, simp]: "returns (Some x) Q = Q x"
  by (simp add: returns_def)

lemma returns_None [wp, simp]: "returns None Q = False"
  by (simp add: returns_def)

lemma returns_bind [wp, simp]: "returns (m \<bind> f) Q = returns m (\<lambda>x. returns (f x) Q)"
  by (cases m) simp_all

lemma returns_if [wp]: "returns (if b then m else m') Q = (if b then returns m Q else returns m' Q)"
  by simp

lemma returns_let [wp]: "returns (let x = t in f x) Q = (let x = t in returns (f x) Q)"
  by simp

lemma returns_arr_rd [wp, simp]:
  "returns (arr_rd n a i) Q \<longleftrightarrow> 0 \<le> i \<and> i < int n \<and> Q (a (nat i))"
  by (auto simp: arr_rd_def)

lemma returns_arr_wr [wp, simp]:
  "returns (arr_wr n a i v) Q \<longleftrightarrow> 0 \<le> i \<and> i < int n \<and> Q (a(nat i := v))"
  by (auto simp: arr_wr_def)

lemma returns_iff: "returns m Q \<longleftrightarrow> (\<exists>x. m = Some x \<and> Q x)"
  by (cases m) simp_all

lemma returnsE [elim?]: "returns m Q \<Longrightarrow> (\<And>x. m = Some x \<Longrightarrow> Q x \<Longrightarrow> P) \<Longrightarrow> P"
  by (auto simp: returns_iff)

lemma returns_mono: "returns m Q \<Longrightarrow> (\<And>x. Q x \<Longrightarrow> Q' x) \<Longrightarrow> returns m Q'"
  by (auto simp: returns_iff)

lemma returns_conj: "returns m (\<lambda>x. P x \<and> Q x) \<longleftrightarrow> returns m P \<and> returns m Q"
  by (cases m) auto

lemma returnsD: "returns m Q \<Longrightarrow> m = Some x \<Longrightarrow> Q x"
  by simp

lemma bind_eq_Some: "(m \<bind> f) = Some y \<longleftrightarrow> (\<exists>x. m = Some x \<and> f x = Some y)"
  by (cases m) simp_all

section \<open>Carries and borrows\<close>

text \<open>
  The code finds a half carry as bit 4 (or bit 12) of \<open>x XOR y XOR (x + y)\<close>.
  These lemmas relate that bit to the arithmetic carry out of the low bits.
\<close>

lemma and_exp_eq_0_iff: "(x::int) AND 2 ^ n = 0 \<longleftrightarrow> \<not> bit x n"
  by (simp add: and_exp_eq_0_iff_not_bit)

lemma div_add_carry:
  fixes x y m :: int
  assumes "1 < m"
  shows "(x + y + of_bool c) div m =
    x div m + y div m + (if x mod m + y mod m + of_bool c \<ge> m then 1 else 0)"
proof -
  let ?l = "x mod m + y mod m + of_bool c"
  have b: "0 \<le> x mod m" "x mod m < m" "0 \<le> y mod m" "y mod m < m"
    using assms by simp_all
  have h: "x mod m + x div m * m = x" "y mod m + y div m * m = y" by simp_all
  have "x + y + of_bool c = ?l + (x div m + y div m) * m"
    unfolding distrib_right using h by linarith
  moreover have "(?l + (x div m + y div m) * m) div m = (x div m + y div m) + ?l div m"
    using assms by (intro div_mult_self1) simp
  ultimately have eq: "(x + y + of_bool c) div m = x div m + y div m + ?l div m"
    by (simp only:)
  have "0 \<le> (of_bool c :: int)" "of_bool c \<le> (1 :: int)" by simp_all
  with b have l: "0 \<le> ?l" "?l < 2 * m" by linarith+
  show ?thesis
  proof (cases "?l \<ge> m")
    case True
    have "?l div m = (?l - m) div m + 1"
      using assms div_add_self2 [of m "?l - m"] by simp
    also have "(?l - m) div m = 0"
      using l True by (intro div_pos_pos_trivial) auto
    finally show ?thesis using eq True by simp
  next
    case False
    then have "?l div m = 0" using l by (intro div_pos_pos_trivial) auto
    with eq False show ?thesis by simp
  qed
qed

lemma bit_xor_add_carry:
  assumes "0 < n"
  shows "bit (x XOR y XOR (x + y + of_bool c)) n \<longleftrightarrow>
    x mod 2 ^ n + y mod 2 ^ n + of_bool c \<ge> (2::int) ^ n"
proof -
  have "1 < (2::int) ^ n" using assms by simp
  from div_add_carry [OF this, of x y c] show ?thesis
    by (simp add: bit_xor_iff bit_iff_odd [of x n] bit_iff_odd [of y n]
        bit_iff_odd [of "x + y + of_bool c" n]) argo
qed

lemma bit_xor_add:
  "0 < n \<Longrightarrow> bit (x XOR y XOR (x + y)) n \<longleftrightarrow> x mod 2 ^ n + y mod 2 ^ n \<ge> (2::int) ^ n"
  using bit_xor_add_carry [of n x y False] by simp

lemma bit_xor_diff:
  assumes "0 < n"
  shows "bit (x XOR y XOR (x - y)) n \<longleftrightarrow> x mod 2 ^ n < y mod (2::int) ^ n"
proof -
  let ?m = "(2::int) ^ n"
  have "bit (x XOR y XOR (x - y)) n \<longleftrightarrow> bit ((x - y) XOR y XOR ((x - y) + y)) n"
    by (simp add: ac_simps)
  also have "\<dots> \<longleftrightarrow> (x - y) mod ?m + y mod ?m \<ge> ?m"
    using assms by (rule bit_xor_add)
  also have "\<dots> \<longleftrightarrow> x mod ?m < y mod ?m"
  proof -
    have eq: "(x - y) mod ?m = (x mod ?m - y mod ?m) mod ?m" by (simp add: mod_diff_eq)
    have b: "0 \<le> x mod ?m" "x mod ?m < ?m" "0 \<le> y mod ?m" "y mod ?m < ?m" by simp_all
    show ?thesis
    proof (cases "x mod ?m < y mod ?m")
      case True
      with b have "(x mod ?m - y mod ?m + ?m) mod ?m = x mod ?m - y mod ?m + ?m"
        by (intro mod_pos_pos_trivial) linarith+
      then have "(x mod ?m - y mod ?m) mod ?m = x mod ?m - y mod ?m + ?m"
        by simp
      with eq b True show ?thesis by linarith
    next
      case False
      with b have "(x mod ?m - y mod ?m) mod ?m = x mod ?m - y mod ?m"
        by (intro mod_pos_pos_trivial) linarith+
      with eq b False show ?thesis by linarith
    qed
  qed
  finally show ?thesis .
qed

end
