(* ===== verification/Registers.thy ===== *)
theory Registers
  imports Prelude
begin

text \<open>
  The register file (\<open>struct registers\<close> of src/emu/cpu/cpu.h), the flag bits of F and the
  macros of src/emu/cpu/cpu_ops.c that set and clear them.

  The C struct overlays each 16-bit pair with its two bytes by a \<open>union\<close>; the low byte comes
  first, as on the little-endian host the code assumes.  The model keeps the bytes and
  reads and writes a pair through them, so a write to BC is a write to B and C.
\<close>

section \<open>The register file\<close>

record registers =
  r_f :: u8
  r_a :: u8
  r_c :: u8
  r_b :: u8
  r_e :: u8
  r_d :: u8
  r_l :: u8
  r_h :: u8
  r_sp :: u16
  r_pc :: u16

text \<open>The names of the access macros \<open>REG_A\<close>, \<open>REG_BC\<close> and so on.  F has no name of its
  own here: no operand of an instruction is F.\<close>

datatype reg8 = REG_A | REG_B | REG_C | REG_D | REG_E | REG_H | REG_L

datatype reg16 = REG_AF | REG_BC | REG_DE | REG_HL | REG_SP | REG_PC

fun get8 :: "reg8 \<Rightarrow> registers \<Rightarrow> u8" where
  "get8 REG_A r = r_a r"
| "get8 REG_B r = r_b r"
| "get8 REG_C r = r_c r"
| "get8 REG_D r = r_d r"
| "get8 REG_E r = r_e r"
| "get8 REG_H r = r_h r"
| "get8 REG_L r = r_l r"

fun set8 :: "reg8 \<Rightarrow> u8 \<Rightarrow> registers \<Rightarrow> registers" where
  "set8 REG_A v r = r\<lparr>r_a := v\<rparr>"
| "set8 REG_B v r = r\<lparr>r_b := v\<rparr>"
| "set8 REG_C v r = r\<lparr>r_c := v\<rparr>"
| "set8 REG_D v r = r\<lparr>r_d := v\<rparr>"
| "set8 REG_E v r = r\<lparr>r_e := v\<rparr>"
| "set8 REG_H v r = r\<lparr>r_h := v\<rparr>"
| "set8 REG_L v r = r\<lparr>r_l := v\<rparr>"

fun get16 :: "reg16 \<Rightarrow> registers \<Rightarrow> u16" where
  "get16 REG_AF r = mk16 (r_a r) (r_f r)"
| "get16 REG_BC r = mk16 (r_b r) (r_c r)"
| "get16 REG_DE r = mk16 (r_d r) (r_e r)"
| "get16 REG_HL r = mk16 (r_h r) (r_l r)"
| "get16 REG_SP r = r_sp r"
| "get16 REG_PC r = r_pc r"

fun set16 :: "reg16 \<Rightarrow> u16 \<Rightarrow> registers \<Rightarrow> registers" where
  "set16 REG_AF v r = r\<lparr>r_a := hi8 v, r_f := lo8 v\<rparr>"
| "set16 REG_BC v r = r\<lparr>r_b := hi8 v, r_c := lo8 v\<rparr>"
| "set16 REG_DE v r = r\<lparr>r_d := hi8 v, r_e := lo8 v\<rparr>"
| "set16 REG_HL v r = r\<lparr>r_h := hi8 v, r_l := lo8 v\<rparr>"
| "set16 REG_SP v r = r\<lparr>r_sp := v\<rparr>"
| "set16 REG_PC v r = r\<lparr>r_pc := v\<rparr>"

section \<open>Assignable locations\<close>

text \<open>
  The macros of cpu_ops.c take an lvalue and read and assign it.  What they rely on is the
  contract below; every register and register pair meets it.
\<close>

locale lvalue =
  fixes rd :: "'s \<Rightarrow> 'v"
    and wr :: "'v \<Rightarrow> 's \<Rightarrow> 's"
  assumes rd_wr: "rd (wr v s) = v"
    and wr_rd: "wr (rd s) s = s"
    and wr_wr: "wr v (wr w s) = wr v s"
begin

lemma wr_inject: "wr v s = wr w s \<longleftrightarrow> v = w"
  using rd_wr by metis

lemma modify_modify: "wr (f (rd (wr (g (rd s)) s))) (wr (g (rd s)) s) = wr (f (g (rd s))) s"
  by (simp add: rd_wr wr_wr)

lemma modify_inverse: "(\<And>v. f (g v) = v) \<Longrightarrow> wr (f (rd (wr (g (rd s)) s))) (wr (g (rd s)) s) = s"
  by (simp add: modify_modify wr_rd)

end

interpretation l8: lvalue "get8 r" "set8 r" for r
  by unfold_locales (cases r; simp)+

interpretation l16: lvalue "get16 q" "set16 q" for q
  by unfold_locales (cases q; simp)+

lemmas reg_lvalue [simp] = l8.rd_wr l8.wr_rd l8.wr_wr l16.rd_wr l16.wr_rd l16.wr_wr

lemma get8_set8: "get8 r (set8 q v s) = (if r = q then v else get8 r s)"
  by (cases r; cases q) simp_all

lemma set8_frame [simp]:
  "r_f (set8 r v s) = r_f s" "r_sp (set8 r v s) = r_sp s" "r_pc (set8 r v s) = r_pc s"
  by (cases r; simp)+

lemma get8_r_f_update [simp]: "get8 r (s\<lparr>r_f := x\<rparr>) = get8 r s"
  by (cases r) simp_all

lemma get8_r_pc_update [simp]: "get8 r (s\<lparr>r_pc := x\<rparr>) = get8 r s"
  by (cases r) simp_all

lemma get8_r_sp_update [simp]: "get8 r (s\<lparr>r_sp := x\<rparr>) = get8 r s"
  by (cases r) simp_all

section \<open>Flags\<close>

definition FLAG_ZERO :: u8 where "FLAG_ZERO = 0x80"
definition FLAG_SUB :: u8 where "FLAG_SUB = 0x40"
definition FLAG_HCARRY :: u8 where "FLAG_HCARRY = 0x20"
definition FLAG_CARRY :: u8 where "FLAG_CARRY = 0x10"

lemmas flag_defs = FLAG_ZERO_def FLAG_SUB_def FLAG_HCARRY_def FLAG_CARRY_def

definition UNSET_FLAG :: "u8 \<Rightarrow> registers \<Rightarrow> registers" where
  "UNSET_FLAG flag r = r\<lparr>r_f := r_f r AND NOT flag\<rparr>"

definition SET_FLAG :: "u8 \<Rightarrow> registers \<Rightarrow> registers" where
  "SET_FLAG flag r = r\<lparr>r_f := r_f r OR flag\<rparr>"

definition UNSET_FLAGS_ALL :: "registers \<Rightarrow> registers" where
  "UNSET_FLAGS_ALL = UNSET_FLAG (FLAG_SUB OR FLAG_ZERO OR FLAG_CARRY OR FLAG_HCARRY)"

definition BOOL_TO_ZERO_FLAG :: "bool \<Rightarrow> u8" where
  "BOOL_TO_ZERO_FLAG x = push_bit 7 (of_bool x)"

definition BOOL_TO_SUB_FLAG :: "bool \<Rightarrow> u8" where
  "BOOL_TO_SUB_FLAG x = push_bit 6 (of_bool x)"

definition BOOL_TO_HALF_CARRY_FLAG :: "bool \<Rightarrow> u8" where
  "BOOL_TO_HALF_CARRY_FLAG x = push_bit 5 (of_bool x)"

definition BOOL_TO_CARRY_FLAG :: "bool \<Rightarrow> u8" where
  "BOOL_TO_CARRY_FLAG x = push_bit 4 (of_bool x)"

lemmas flag_macros = UNSET_FLAG_def SET_FLAG_def UNSET_FLAGS_ALL_def
  BOOL_TO_ZERO_FLAG_def BOOL_TO_SUB_FLAG_def BOOL_TO_HALF_CARRY_FLAG_def BOOL_TO_CARRY_FLAG_def

text \<open>Reading the four flags, as the code tests them.\<close>

definition zf :: "registers \<Rightarrow> bool" where "zf r = (r_f r AND FLAG_ZERO \<noteq> 0)"
definition nf :: "registers \<Rightarrow> bool" where "nf r = (r_f r AND FLAG_SUB \<noteq> 0)"
definition hf :: "registers \<Rightarrow> bool" where "hf r = (r_f r AND FLAG_HCARRY \<noteq> 0)"
definition cf :: "registers \<Rightarrow> bool" where "cf r = (r_f r AND FLAG_CARRY \<noteq> 0)"

text \<open>The reference for the flag byte: its four flags, its low nibble zero.\<close>

definition flags :: "bool \<Rightarrow> bool \<Rightarrow> bool \<Rightarrow> bool \<Rightarrow> u8" where
  "flags z n h c = (if z then 0x80 else 0) OR (if n then 0x40 else 0)
     OR (if h then 0x20 else 0) OR (if c then 0x10 else 0)"

definition f_ok :: "registers \<Rightarrow> bool" where
  "f_ok r = (r_f r AND 0x0f = 0)"

lemma of_bool_flag [simp]:
  "push_bit 7 (of_bool b :: u8) = (if b then 0x80 else 0)"
  "push_bit 6 (of_bool b :: u8) = (if b then 0x40 else 0)"
  "push_bit 5 (of_bool b :: u8) = (if b then 0x20 else 0)"
  "push_bit 4 (of_bool b :: u8) = (if b then 0x10 else 0)"
  by simp_all

text \<open>A byte is determined by its eight bits; the flag algebra is decided bit by bit.\<close>

lemma all_less_8: "(\<forall>n<8. P n) \<longleftrightarrow> P 0 \<and> P 1 \<and> P 2 \<and> P 3 \<and> P 4 \<and> P 5 \<and> P 6 \<and> P (7::nat)"
proof -
  have "{..<8::nat} = {0, 1, 2, 3, 4, 5, 6, 7}" by auto
  then have "(\<forall>n<8. P n) \<longleftrightarrow> (\<forall>n \<in> {0, 1, 2, 3, 4, 5, 6, 7}. P n)" by (metis lessThan_iff)
  then show ?thesis by simp
qed

lemma u8_eq_iff: "(x::u8) = y \<longleftrightarrow>
  bit x 0 = bit y 0 \<and> bit x 1 = bit y 1 \<and> bit x 2 = bit y 2 \<and> bit x 3 = bit y 3 \<and>
  bit x 4 = bit y 4 \<and> bit x 5 = bit y 5 \<and> bit x 6 = bit y 6 \<and> bit x 7 = bit y 7"
proof -
  have "x = y \<longleftrightarrow> (\<forall>n<8. bit x n = bit y n)"
    by (auto intro!: bit_word_eqI)
  then show ?thesis by (simp only: all_less_8)
qed

lemma bit_u8_exp: "k < 8 \<Longrightarrow> bit (2 ^ k :: u8) i \<longleftrightarrow> i = k"
  by (auto simp: bit_exp_iff)

lemma flags_bits:
  "bit (flags z n h c) i \<longleftrightarrow>
    (i = 7 \<and> z) \<or> (i = 6 \<and> n) \<or> (i = 5 \<and> h) \<or> (i = 4 \<and> c)"
proof -
  have "bit (0x80 :: u8) i \<longleftrightarrow> i = 7" "bit (0x40 :: u8) i \<longleftrightarrow> i = 6"
    "bit (0x20 :: u8) i \<longleftrightarrow> i = 5" "bit (0x10 :: u8) i \<longleftrightarrow> i = 4"
    using bit_u8_exp [of 7 i] bit_u8_exp [of 6 i] bit_u8_exp [of 5 i] bit_u8_exp [of 4 i] by simp_all
  moreover have "bit (if b then m else 0) i \<longleftrightarrow> bit m i \<and> b" for b and m :: u8
    by simp
  ultimately show ?thesis by (simp only: flags_def bit_or_iff)
qed

lemma flags_inject [simp]: "flags z n h c = flags z' n' h' c' \<longleftrightarrow> z = z' \<and> n = n' \<and> h = h' \<and> c = c'"
  by (auto simp: u8_eq_iff flags_bits)

lemma flag_masks:
  "x AND FLAG_ZERO \<noteq> 0 \<longleftrightarrow> bit x 7" "x AND FLAG_SUB \<noteq> 0 \<longleftrightarrow> bit x 6"
  "x AND FLAG_HCARRY \<noteq> 0 \<longleftrightarrow> bit x 5" "x AND FLAG_CARRY \<noteq> 0 \<longleftrightarrow> bit x 4"
  using and_exp_eq_0_iff_not_bit [of x 7] and_exp_eq_0_iff_not_bit [of x 6]
    and_exp_eq_0_iff_not_bit [of x 5] and_exp_eq_0_iff_not_bit [of x 4]
  by (simp_all add: flag_defs)

lemma f_ok_bits: "f_ok r \<longleftrightarrow> \<not> bit (r_f r) 0 \<and> \<not> bit (r_f r) 1 \<and> \<not> bit (r_f r) 2 \<and> \<not> bit (r_f r) 3"
proof -
  have "bit (0x0f :: u8) i \<longleftrightarrow> i < 4" for i
    using bit_mask_iff [where ?'a = u8, of 4 i] by (auto simp: mask_numeral)
  then show ?thesis
    by (simp add: f_ok_def u8_eq_iff bit_and_iff)
qed

text \<open>The bits of the masks, and reading a flag after setting or clearing one.\<close>

lemma bit_masks [simp]:
  "bit FLAG_ZERO i \<longleftrightarrow> i = 7" "bit FLAG_SUB i \<longleftrightarrow> i = 6"
  "bit FLAG_HCARRY i \<longleftrightarrow> i = 5" "bit FLAG_CARRY i \<longleftrightarrow> i = 4"
  "bit (BOOL_TO_ZERO_FLAG b) i \<longleftrightarrow> i = 7 \<and> b" "bit (BOOL_TO_SUB_FLAG b) i \<longleftrightarrow> i = 6 \<and> b"
  "bit (BOOL_TO_HALF_CARRY_FLAG b) i \<longleftrightarrow> i = 5 \<and> b" "bit (BOOL_TO_CARRY_FLAG b) i \<longleftrightarrow> i = 4 \<and> b"
  using flags_bits [of True False False False i] flags_bits [of False True False False i]
    flags_bits [of False False True False i] flags_bits [of False False False True i]
  by (simp_all add: flags_def flag_defs BOOL_TO_ZERO_FLAG_def BOOL_TO_SUB_FLAG_def
      BOOL_TO_HALF_CARRY_FLAG_def BOOL_TO_CARRY_FLAG_def)

lemma flag_bits:
  "zf r \<longleftrightarrow> bit (r_f r) 7" "nf r \<longleftrightarrow> bit (r_f r) 6" "hf r \<longleftrightarrow> bit (r_f r) 5" "cf r \<longleftrightarrow> bit (r_f r) 4"
  by (simp_all only: zf_def nf_def hf_def cf_def flag_masks)

text \<open>Under the invariant \<open>f_ok\<close> the flag byte is its four flags and nothing else.\<close>

lemma r_f_flags: "f_ok r \<Longrightarrow> r_f r = flags (zf r) (nf r) (hf r) (cf r)"
  by (simp add: u8_eq_iff flags_bits flag_bits f_ok_bits)

lemma f_ok_flags [simp]: "r_f r = flags z n h c \<Longrightarrow> f_ok r"
  by (simp add: f_ok_bits flags_bits)

lemma flags_sel [simp]:
  "r_f r = flags z n h c \<Longrightarrow> zf r = z" "r_f r = flags z n h c \<Longrightarrow> nf r = n"
  "r_f r = flags z n h c \<Longrightarrow> hf r = h" "r_f r = flags z n h c \<Longrightarrow> cf r = c"
  by (simp_all add: flag_bits flags_bits)

lemma flags_upd [simp]:
  "zf (r\<lparr>r_f := flags z n h c\<rparr>) = z" "nf (r\<lparr>r_f := flags z n h c\<rparr>) = n"
  "hf (r\<lparr>r_f := flags z n h c\<rparr>) = h" "cf (r\<lparr>r_f := flags z n h c\<rparr>) = c"
  "f_ok (r\<lparr>r_f := flags z n h c\<rparr>)"
  by simp_all

lemma f_ok_UNSET_FLAG [simp]: "f_ok r \<Longrightarrow> f_ok (UNSET_FLAG m r)"
  by (simp add: f_ok_bits UNSET_FLAG_def bit_and_iff)

lemma f_ok_UNSET_FLAGS_ALL [simp]: "f_ok r \<Longrightarrow> f_ok (UNSET_FLAGS_ALL r)"
  by (simp add: UNSET_FLAGS_ALL_def)

lemma f_ok_SET_FLAG [simp]: "f_ok r \<Longrightarrow> m AND 0x0f = 0 \<Longrightarrow> f_ok (SET_FLAG m r)"
  by (simp add: f_ok_def SET_FLAG_def bit.conj_disj_distrib2)

lemma f_ok_set8 [simp]: "f_ok (set8 q v r) = f_ok r"
  by (simp add: f_ok_def)

lemma UNSET_FLAGS_ALL_f: "f_ok r \<Longrightarrow> r_f (UNSET_FLAGS_ALL r) = 0"
  by (simp add: UNSET_FLAGS_ALL_def UNSET_FLAG_def u8_eq_iff f_ok_bits bit_and_iff bit_or_iff
      bit_not_iff flag_defs)

lemma flag_macro_frame [simp]:
  "get8 q (SET_FLAG m r) = get8 q r" "get8 q (UNSET_FLAG m r) = get8 q r"
  "get8 q (UNSET_FLAGS_ALL r) = get8 q r"
  "r_pc (SET_FLAG m r) = r_pc r" "r_pc (UNSET_FLAG m r) = r_pc r"
  "r_pc (UNSET_FLAGS_ALL r) = r_pc r"
  "r_sp (SET_FLAG m r) = r_sp r" "r_sp (UNSET_FLAG m r) = r_sp r"
  "r_sp (UNSET_FLAGS_ALL r) = r_sp r"
  by (simp_all add: SET_FLAG_def UNSET_FLAG_def UNSET_FLAGS_ALL_def)

lemma flag_SET_FLAG [simp]:
  "zf (SET_FLAG m r) \<longleftrightarrow> zf r \<or> bit m 7" "nf (SET_FLAG m r) \<longleftrightarrow> nf r \<or> bit m 6"
  "hf (SET_FLAG m r) \<longleftrightarrow> hf r \<or> bit m 5" "cf (SET_FLAG m r) \<longleftrightarrow> cf r \<or> bit m 4"
  by (simp_all add: flag_bits SET_FLAG_def bit_or_iff)

lemma flag_UNSET_FLAG [simp]:
  "zf (UNSET_FLAG m r) \<longleftrightarrow> zf r \<and> \<not> bit m 7" "nf (UNSET_FLAG m r) \<longleftrightarrow> nf r \<and> \<not> bit m 6"
  "hf (UNSET_FLAG m r) \<longleftrightarrow> hf r \<and> \<not> bit m 5" "cf (UNSET_FLAG m r) \<longleftrightarrow> cf r \<and> \<not> bit m 4"
  by (simp_all add: flag_bits UNSET_FLAG_def bit_and_iff bit_not_iff)

lemma flag_UNSET_FLAGS_ALL [simp]:
  "\<not> zf (UNSET_FLAGS_ALL r)" "\<not> nf (UNSET_FLAGS_ALL r)"
  "\<not> hf (UNSET_FLAGS_ALL r)" "\<not> cf (UNSET_FLAGS_ALL r)"
  by (simp_all add: UNSET_FLAGS_ALL_def bit_or_iff)

lemma flag_frame [simp]:
  "zf (set8 q v r) = zf r" "nf (set8 q v r) = nf r" "hf (set8 q v r) = hf r" "cf (set8 q v r) = cf r"
  "zf (r\<lparr>r_a := a\<rparr>) = zf r" "nf (r\<lparr>r_a := a\<rparr>) = nf r" "hf (r\<lparr>r_a := a\<rparr>) = hf r"
  "cf (r\<lparr>r_a := a\<rparr>) = cf r"
  by (simp_all add: flag_bits)

text \<open>A chain of flag macros on a file with a clean F is one assignment of F.  The masks set
  must not touch the low nibble.\<close>

definition flag_mask :: "u8 \<Rightarrow> bool" where
  "flag_mask m = (m AND 0x0f = 0)"

lemma flag_mask_bits: "flag_mask m \<longleftrightarrow> \<not> bit m 0 \<and> \<not> bit m 1 \<and> \<not> bit m 2 \<and> \<not> bit m 3"
  using f_ok_bits [of "undefined\<lparr>r_f := m\<rparr>"] by (simp add: f_ok_def flag_mask_def)

lemma flag_mask_simps [simp]:
  "flag_mask FLAG_ZERO" "flag_mask FLAG_SUB" "flag_mask FLAG_HCARRY" "flag_mask FLAG_CARRY"
  "flag_mask (BOOL_TO_ZERO_FLAG b)" "flag_mask (BOOL_TO_SUB_FLAG b)"
  "flag_mask (BOOL_TO_HALF_CARRY_FLAG b)" "flag_mask (BOOL_TO_CARRY_FLAG b)"
  "flag_mask (m OR m') \<longleftrightarrow> flag_mask m \<and> flag_mask m'"
  by (auto simp: flag_mask_bits bit_or_iff)

lemma f_ok_SET [simp]: "f_ok r \<Longrightarrow> flag_mask m \<Longrightarrow> f_ok (SET_FLAG m r)"
  by (simp add: flag_mask_def)

lemma registers_f_eqI:
  assumes "f_ok r" "zf r = z" "nf r = n" "hf r = h" "cf r = c"
    and "r_a r = r_a q" "r_b r = r_b q" "r_c r = r_c q" "r_d r = r_d q" "r_e r = r_e q"
      "r_h r = r_h q" "r_l r = r_l q" "r_sp r = r_sp q" "r_pc r = r_pc q"
  shows "r = q\<lparr>r_f := flags z n h c\<rparr>"
  using r_f_flags [of r] assms by simp

lemma flag_macro_r_f_0 [simp]:
  "(SET_FLAG m r)\<lparr>r_f := x\<rparr> = r\<lparr>r_f := x\<rparr>" "(UNSET_FLAG m r)\<lparr>r_f := x\<rparr> = r\<lparr>r_f := x\<rparr>"
  "(UNSET_FLAGS_ALL r)\<lparr>r_f := x\<rparr> = r\<lparr>r_f := x\<rparr>"
  by (simp_all add: SET_FLAG_def UNSET_FLAG_def UNSET_FLAGS_ALL_def)

lemma set8_r_f_update: "(set8 q v r)\<lparr>r_f := x\<rparr> = set8 q v (r\<lparr>r_f := x\<rparr>)"
  by (cases q) simp_all

lemma flag_macro_regs [simp]:
  "r_a (SET_FLAG m r) = r_a r" "r_b (SET_FLAG m r) = r_b r" "r_c (SET_FLAG m r) = r_c r"
  "r_d (SET_FLAG m r) = r_d r" "r_e (SET_FLAG m r) = r_e r" "r_h (SET_FLAG m r) = r_h r"
  "r_l (SET_FLAG m r) = r_l r"
  "r_a (UNSET_FLAG m r) = r_a r" "r_b (UNSET_FLAG m r) = r_b r" "r_c (UNSET_FLAG m r) = r_c r"
  "r_d (UNSET_FLAG m r) = r_d r" "r_e (UNSET_FLAG m r) = r_e r" "r_h (UNSET_FLAG m r) = r_h r"
  "r_l (UNSET_FLAG m r) = r_l r"
  "r_a (UNSET_FLAGS_ALL r) = r_a r" "r_b (UNSET_FLAGS_ALL r) = r_b r"
  "r_c (UNSET_FLAGS_ALL r) = r_c r" "r_d (UNSET_FLAGS_ALL r) = r_d r"
  "r_e (UNSET_FLAGS_ALL r) = r_e r" "r_h (UNSET_FLAGS_ALL r) = r_h r"
  "r_l (UNSET_FLAGS_ALL r) = r_l r"
  by (simp_all add: SET_FLAG_def UNSET_FLAG_def UNSET_FLAGS_ALL_def)

lemma f_ok_frame [simp]: "f_ok (r\<lparr>r_a := a\<rparr>) = f_ok r" "f_ok (r\<lparr>r_pc := w\<rparr>) = f_ok r"
  "f_ok (r\<lparr>r_sp := w\<rparr>) = f_ok r"
  by (simp_all add: f_ok_def)

end
