(* ===== verification/Alu.thy ===== *)
theory Alu
  imports Registers
begin

text \<open>
  The arithmetic, logic, rotate and bit macros of src/emu/cpu/cpu_ops.c as functions on the
  register file.  An operand is the value of a C expression of type \<open>int\<close>: \<open>uint\<close> of a
  \<open>uint8_t\<close> register, or \<open>s8\<close> of a byte the code loads into an \<open>int8_t\<close>.
  A macro that assigns its operand (\<open>DO_RLC(value)\<close> and the like) returns the new value and
  the register file with the new flags.
\<close>

section \<open>Tests on sums and differences\<close>

definition IS_ADD_ZERO :: "int \<Rightarrow> int \<Rightarrow> bool" where
  "IS_ADD_ZERO op1 op2 = ((word_of_int (op1 + op2) :: u8) = 0)"

definition IS_ADD_HALF_CARRY :: "int \<Rightarrow> int \<Rightarrow> bool" where
  "IS_ADD_HALF_CARRY op1 op2 = ((op1 XOR op2 XOR (op1 + op2)) AND 0x10 \<noteq> 0)"

definition IS_ADD_CARRY :: "int \<Rightarrow> int \<Rightarrow> bool" where
  "IS_ADD_CARRY op1 op2 = (uint (word_of_int (op1 + op2) :: u8) < op1)"

definition IS_ADD16_HALF_CARRY :: "int \<Rightarrow> int \<Rightarrow> bool" where
  "IS_ADD16_HALF_CARRY op1 op2 = ((op1 XOR op2 XOR (op1 + op2)) AND 0x1000 \<noteq> 0)"

definition IS_ADD16_CARRY :: "int \<Rightarrow> int \<Rightarrow> bool" where
  "IS_ADD16_CARRY op1 op2 = (uint (word_of_int (op1 + op2) :: u16) < op1)"

definition IS_SUB_ZERO :: "int \<Rightarrow> int \<Rightarrow> bool" where
  "IS_SUB_ZERO op1 op2 = ((word_of_int (op1 - op2) :: u8) = 0)"

definition IS_SUB_HALF_CARRY :: "int \<Rightarrow> int \<Rightarrow> bool" where
  "IS_SUB_HALF_CARRY op1 op2 = ((op1 XOR op2 XOR (op1 - op2)) AND 0x10 \<noteq> 0)"

definition IS_SUB_CARRY :: "int \<Rightarrow> int \<Rightarrow> bool" where
  "IS_SUB_CARRY op1 op2 = (op1 < uint (word_of_int (op1 - op2) :: u8))"

definition IS_CP_ZERO :: "int \<Rightarrow> int \<Rightarrow> bool" where
  "IS_CP_ZERO op1 op2 = ((word_of_int (op1 - op2) :: u8) = 0)"

definition IS_CP_CARRY :: "int \<Rightarrow> int \<Rightarrow> bool" where
  "IS_CP_CARRY op1 op2 = (op1 < uint (word_of_int (op1 - op2) :: u8))"

definition IS_CP_HALF_CARRY :: "int \<Rightarrow> int \<Rightarrow> bool" where
  "IS_CP_HALF_CARRY op1 op2 = ((op1 XOR op2 XOR (op1 - op2)) AND 0x10 \<noteq> 0)"

section \<open>Increment and decrement\<close>

definition OP_INC_REG :: "reg8 \<Rightarrow> registers \<Rightarrow> registers" where
  "OP_INC_REG reg r =
    (let r = UNSET_FLAG (FLAG_SUB OR FLAG_HCARRY OR FLAG_ZERO) r;
         r = SET_FLAG (BOOL_TO_ZERO_FLAG (IS_ADD_ZERO (uint (get8 reg r)) 1)) r;
         r = SET_FLAG (BOOL_TO_HALF_CARRY_FLAG (IS_ADD_HALF_CARRY (uint (get8 reg r)) 1)) r
     in set8 reg (get8 reg r + 1) r)"

definition OP_DEC_REG :: "reg8 \<Rightarrow> registers \<Rightarrow> registers" where
  "OP_DEC_REG reg r =
    (let r = UNSET_FLAG (FLAG_ZERO OR FLAG_HCARRY) r;
         r = SET_FLAG (BOOL_TO_ZERO_FLAG (IS_SUB_ZERO (uint (get8 reg r)) 1)) r;
         r = SET_FLAG (BOOL_TO_HALF_CARRY_FLAG (IS_SUB_HALF_CARRY (uint (get8 reg r)) 1)) r;
         r = SET_FLAG FLAG_SUB r
     in set8 reg (get8 reg r - 1) r)"

section \<open>Addition and subtraction\<close>

definition DO_ADD :: "int \<Rightarrow> int \<Rightarrow> registers \<Rightarrow> registers" where
  "DO_ADD reg carry r =
    (let r = UNSET_FLAGS_ALL r;
         r = SET_FLAG (BOOL_TO_CARRY_FLAG (IS_ADD_CARRY (uint (r_a r)) (reg + carry))) r;
         r = SET_FLAG (BOOL_TO_HALF_CARRY_FLAG (IS_ADD_HALF_CARRY (uint (r_a r)) (reg + carry))) r;
         r = SET_FLAG (BOOL_TO_ZERO_FLAG (IS_ADD_ZERO (uint (r_a r)) (reg + carry))) r
     in r\<lparr>r_a := word_of_int (uint (r_a r) + (reg + carry))\<rparr>)"

definition DO_ADD16 :: "reg16 \<Rightarrow> registers \<Rightarrow> registers" where
  "DO_ADD16 reg r =
    (let r = UNSET_FLAG (FLAG_CARRY OR FLAG_HCARRY OR FLAG_SUB) r;
         r = SET_FLAG (BOOL_TO_CARRY_FLAG
               (IS_ADD16_CARRY (uint (get16 REG_HL r)) (uint (get16 reg r)))) r;
         r = SET_FLAG (BOOL_TO_HALF_CARRY_FLAG
               (IS_ADD16_HALF_CARRY (uint (get16 REG_HL r)) (uint (get16 reg r)))) r
     in set16 REG_HL (get16 REG_HL r + get16 reg r) r)"

definition DO_ADC :: "int \<Rightarrow> registers \<Rightarrow> registers" where
  "DO_ADC reg r =
    (let carry = of_bool (cf r) :: int;
         r = UNSET_FLAGS_ALL r;
         r = (if (reg XOR uint (r_a r) XOR (uint (r_a r) + reg + carry)) AND 0x10 \<noteq> 0
              then SET_FLAG FLAG_HCARRY r else r);
         r = SET_FLAG (BOOL_TO_ZERO_FLAG (IS_ADD_ZERO (uint (r_a r)) (reg + carry))) r;
         r = (if (uint (r_a r) + reg + carry) AND 0xff00 \<noteq> 0 then SET_FLAG FLAG_CARRY r else r)
     in r\<lparr>r_a := word_of_int (uint (r_a r) + (reg + carry))\<rparr>)"

text \<open>The body that \<open>op_adc_a_ind_hl\<close> and \<open>op_adc_a_n8\<close> write out instead of the macro.\<close>

definition adc_word :: "u8 \<Rightarrow> registers \<Rightarrow> registers" where
  "adc_word word r =
    (let carry = of_bool (cf r) :: int;
         sum = (word_of_int (uint (r_a r) + uint word + carry) :: u16);
         r = UNSET_FLAGS_ALL r;
         r = (if (uint word XOR uint sum XOR uint (r_a r)) AND 0x10 \<noteq> 0
              then SET_FLAG FLAG_HCARRY r else r);
         r = r\<lparr>r_a := word_of_int (uint (r_a r) + (uint word + carry))\<rparr>;
         r = (if sum AND 0xff00 \<noteq> 0 then SET_FLAG FLAG_CARRY r else r)
     in if r_a r = 0 then SET_FLAG FLAG_ZERO r else r)"

definition DO_SUB :: "int \<Rightarrow> int \<Rightarrow> registers \<Rightarrow> registers" where
  "DO_SUB reg carry r =
    (let r = UNSET_FLAGS_ALL r;
         r = SET_FLAG (BOOL_TO_CARRY_FLAG (IS_SUB_CARRY (uint (r_a r)) (reg + carry))) r;
         r = SET_FLAG (BOOL_TO_HALF_CARRY_FLAG (IS_SUB_HALF_CARRY (uint (r_a r)) (reg + carry))) r;
         r = SET_FLAG (BOOL_TO_ZERO_FLAG (IS_SUB_ZERO (uint (r_a r)) (reg + carry))) r;
         r = SET_FLAG FLAG_SUB r
     in r\<lparr>r_a := word_of_int (uint (r_a r) - (reg + carry))\<rparr>)"

definition DO_SBC :: "int \<Rightarrow> registers \<Rightarrow> registers" where
  "DO_SBC reg r =
    (let carry = of_bool (cf r) :: int;
         r = UNSET_FLAGS_ALL r;
         sum = (word_of_int (uint (r_a r) - (reg + carry)) :: u16);
         r = (if (reg XOR uint (r_a r) XOR uint sum) AND 0x10 \<noteq> 0
              then SET_FLAG FLAG_HCARRY r else r);
         r = (if sum AND 0xff00 \<noteq> 0 then SET_FLAG FLAG_CARRY r else r);
         r = r\<lparr>r_a := word_of_int (uint (r_a r) - (reg + carry))\<rparr>;
         r = SET_FLAG FLAG_SUB r
     in if r_a r = 0 then SET_FLAG FLAG_ZERO r else r)"

text \<open>The body of \<open>op_sbc_a_ind_hl\<close> and \<open>op_sbc_a_n8\<close>.\<close>

definition sbc_word :: "u8 \<Rightarrow> registers \<Rightarrow> registers" where
  "sbc_word word r =
    (let carry = of_bool (cf r) :: int;
         sum = (word_of_int (uint (r_a r) - (uint word + carry)) :: u16);
         r = UNSET_FLAGS_ALL r;
         r = (if (uint word XOR uint sum XOR uint (r_a r)) AND 0x10 \<noteq> 0
              then SET_FLAG FLAG_HCARRY r else r);
         r = r\<lparr>r_a := word_of_int (uint (r_a r) - (uint word + carry))\<rparr>;
         r = (if sum AND 0xff00 \<noteq> 0 then SET_FLAG FLAG_CARRY r else r);
         r = (if r_a r = 0 then SET_FLAG FLAG_ZERO r else r)
     in SET_FLAG FLAG_SUB r)"

definition DO_CP :: "int \<Rightarrow> registers \<Rightarrow> registers" where
  "DO_CP value r =
    (let r = UNSET_FLAGS_ALL r;
         r = SET_FLAG (BOOL_TO_ZERO_FLAG (IS_CP_ZERO (uint (r_a r)) value)) r;
         r = SET_FLAG (BOOL_TO_CARRY_FLAG (IS_CP_CARRY (uint (r_a r)) value)) r;
         r = SET_FLAG (BOOL_TO_HALF_CARRY_FLAG (IS_CP_HALF_CARRY (uint (r_a r)) value)) r
     in SET_FLAG FLAG_SUB r)"

section \<open>Logic\<close>

definition DO_AND :: "u8 \<Rightarrow> registers \<Rightarrow> registers" where
  "DO_AND value r =
    (let r = r\<lparr>r_a := r_a r AND value\<rparr>;
         r = UNSET_FLAGS_ALL r;
         r = SET_FLAG FLAG_HCARRY r
     in SET_FLAG (BOOL_TO_ZERO_FLAG (r_a r = 0)) r)"

definition DO_XOR :: "u8 \<Rightarrow> registers \<Rightarrow> registers" where
  "DO_XOR value r =
    (let r = r\<lparr>r_a := r_a r XOR value\<rparr>;
         r = UNSET_FLAGS_ALL r
     in SET_FLAG (BOOL_TO_ZERO_FLAG (r_a r = 0)) r)"

definition DO_OR :: "u8 \<Rightarrow> registers \<Rightarrow> registers" where
  "DO_OR value r =
    (let r = r\<lparr>r_a := r_a r OR value\<rparr>;
         r = UNSET_FLAGS_ALL r
     in SET_FLAG (BOOL_TO_ZERO_FLAG (r_a r = 0)) r)"

section \<open>Rotates, shifts and bits\<close>

definition DO_RLC :: "u8 \<Rightarrow> registers \<Rightarrow> u8 \<times> registers" where
  "DO_RLC value r =
    (let carry = (value AND 0x80 \<noteq> 0);
         r = UNSET_FLAGS_ALL r;
         r = SET_FLAG (BOOL_TO_CARRY_FLAG carry) r;
         value = push_bit 1 value;
         value = value AND NOT 1;
         value = value OR of_bool carry
     in (value, SET_FLAG (BOOL_TO_ZERO_FLAG (value = 0)) r))"

definition DO_RL :: "u8 \<Rightarrow> registers \<Rightarrow> u8 \<times> registers" where
  "DO_RL value r =
    (let carry = cf r;
         bit7 = (value AND 0x80 \<noteq> 0);
         r = UNSET_FLAGS_ALL r;
         r = SET_FLAG (BOOL_TO_CARRY_FLAG bit7) r;
         value = push_bit 1 value;
         value = value OR of_bool carry
     in (value, SET_FLAG (BOOL_TO_ZERO_FLAG (value = 0)) r))"

definition DO_RRC :: "u8 \<Rightarrow> registers \<Rightarrow> u8 \<times> registers" where
  "DO_RRC value r =
    (let r = UNSET_FLAGS_ALL r;
         r = SET_FLAG (BOOL_TO_CARRY_FLAG (value AND 1 \<noteq> 0)) r;
         carry = (if value AND 1 \<noteq> 0 then 0x80 else 0);
         value = drop_bit 1 value;
         value = value AND NOT 0x80;
         value = value OR carry
     in (value, SET_FLAG (BOOL_TO_ZERO_FLAG (value = 0)) r))"

definition DO_RR :: "u8 \<Rightarrow> registers \<Rightarrow> u8 \<times> registers" where
  "DO_RR value r =
    (let carry = cf r;
         bit0 = (value AND 1 \<noteq> 0);
         r = UNSET_FLAGS_ALL r;
         r = SET_FLAG (BOOL_TO_CARRY_FLAG bit0) r;
         value = drop_bit 1 value;
         value = value AND NOT 0x80;
         value = value OR push_bit 7 (of_bool carry)
     in (value, SET_FLAG (BOOL_TO_ZERO_FLAG (value = 0)) r))"

definition DO_SLA :: "u8 \<Rightarrow> registers \<Rightarrow> u8 \<times> registers" where
  "DO_SLA value r =
    (let r = UNSET_FLAGS_ALL r;
         carry = (value AND 0x80 \<noteq> 0);
         value = push_bit 1 value;
         r = SET_FLAG (BOOL_TO_CARRY_FLAG carry) r
     in (value, SET_FLAG (BOOL_TO_ZERO_FLAG (value = 0)) r))"

definition DO_SRA :: "u8 \<Rightarrow> registers \<Rightarrow> u8 \<times> registers" where
  "DO_SRA value r =
    (let r = UNSET_FLAGS_ALL r;
         bit7 = value AND 0x80;
         carry = (value AND 1 \<noteq> 0);
         value = drop_bit 1 value;
         value = value AND NOT bit7;
         value = value OR bit7;
         r = SET_FLAG (BOOL_TO_CARRY_FLAG carry) r
     in (value, SET_FLAG (BOOL_TO_ZERO_FLAG (value = 0)) r))"

definition DO_SRL :: "u8 \<Rightarrow> registers \<Rightarrow> u8 \<times> registers" where
  "DO_SRL value r =
    (let carry_flag = BOOL_TO_CARRY_FLAG (value AND 1 \<noteq> 0);
         value = drop_bit 1 value;
         zero_flag = BOOL_TO_ZERO_FLAG (value = 0);
         r = UNSET_FLAGS_ALL r
     in (value, SET_FLAG (zero_flag OR carry_flag) r))"

definition DO_SWP :: "u8 \<Rightarrow> registers \<Rightarrow> u8 \<times> registers" where
  "DO_SWP value r =
    (let low_nibble = value AND 0x0f;
         value = drop_bit 4 value;
         value = value OR push_bit 4 low_nibble;
         r = UNSET_FLAGS_ALL r
     in (value, SET_FLAG (BOOL_TO_ZERO_FLAG (value = 0)) r))"

text \<open>\<open>enum bits\<close>: BIT0 to BIT7.\<close>

definition BITn :: "nat \<Rightarrow> u8" where
  "BITn n = push_bit n 1"

definition DO_BIT :: "u8 \<Rightarrow> u8 \<Rightarrow> registers \<Rightarrow> registers" where
  "DO_BIT bitm value r =
    (let r = UNSET_FLAG (FLAG_ZERO OR FLAG_SUB) r;
         r = SET_FLAG FLAG_HCARRY r;
         is_zero = (value AND bitm = 0)
     in SET_FLAG (BOOL_TO_ZERO_FLAG is_zero) r)"

definition DO_RST :: "u8 \<Rightarrow> u8 \<Rightarrow> u8" where
  "DO_RST bitm value = value AND NOT bitm"

definition DO_SET :: "u8 \<Rightarrow> u8 \<Rightarrow> u8" where
  "DO_SET bitm value = value OR bitm"

section \<open>Decimal adjust and flag instructions\<close>

text \<open>\<open>acc\<close> and \<open>tmp\<close> are \<open>uint16_t\<close>.  The subtrahend 60 of the subtract branch is
  decimal in the source.\<close>

definition op_daa :: "registers \<Rightarrow> registers" where
  "op_daa r =
    (let acc = (ucast (r_a r) :: u16);
         tmp = (ucast (r_a r) :: u16);
         acc =
           (if nf r then
              let acc = (if hf r then (acc - 6) AND 0xff else acc)
              in if cf r then acc - 60 else acc
            else
              let acc = (if \<not> hf r then (if tmp AND 0xf > 9 then acc + 6 else acc) else acc + 6)
              in if \<not> cf r then (if acc > 0x9f then acc + 0x60 else acc) else acc + 0x60);
         r = r\<lparr>r_f := r_f r AND NOT FLAG_HCARRY\<rparr>;
         r = r\<lparr>r_a := ucast (acc AND 0xff)\<rparr>;
         acc = acc AND 0x100;
         r = (if acc = 0x100 then r\<lparr>r_f := r_f r OR FLAG_CARRY\<rparr> else r)
     in if r_a r = 0 then r\<lparr>r_f := r_f r OR FLAG_ZERO\<rparr>
        else r\<lparr>r_f := r_f r AND NOT FLAG_ZERO\<rparr>)"

definition op_cpl :: "registers \<Rightarrow> registers" where
  "op_cpl r = SET_FLAG (FLAG_SUB OR FLAG_HCARRY) (r\<lparr>r_a := NOT (r_a r)\<rparr>)"

definition op_scf :: "registers \<Rightarrow> registers" where
  "op_scf r = UNSET_FLAG (FLAG_SUB OR FLAG_HCARRY) (SET_FLAG FLAG_CARRY r)"

definition op_ccf :: "registers \<Rightarrow> registers" where
  "op_ccf r =
    (let carry = \<not> cf r;
         r = r\<lparr>r_f := r_f r AND NOT FLAG_CARRY\<rparr>;
         r = r\<lparr>r_f := r_f r OR BOOL_TO_CARRY_FLAG carry\<rparr>
     in UNSET_FLAG (FLAG_SUB OR FLAG_HCARRY) r)"

text \<open>The flag and sum part of \<open>op_ld_hl_sp_e8\<close>: HL is SP plus a signed byte.\<close>

definition ld_hl_sp_e8 :: "int \<Rightarrow> registers \<Rightarrow> registers" where
  "ld_hl_sp_e8 load r =
    (let r = UNSET_FLAGS_ALL r;
         r = SET_FLAG (BOOL_TO_HALF_CARRY_FLAG (IS_ADD_HALF_CARRY (uint (r_sp r)) load)) r;
         r = set16 REG_HL (word_of_int (uint (r_sp r) + load)) r
     in if uint (get16 REG_HL r) < load then SET_FLAG FLAG_CARRY r
        else if uint (r_l r) < uint (word_of_int load :: u8) then SET_FLAG FLAG_CARRY r
        else r)"

text \<open>The flag and sum part of \<open>op_add_sp_e8\<close>.\<close>

definition add_sp_e8 :: "int \<Rightarrow> registers \<Rightarrow> registers" where
  "add_sp_e8 load r =
    (let r = UNSET_FLAGS_ALL r;
         r = SET_FLAG (BOOL_TO_HALF_CARRY_FLAG (IS_ADD_HALF_CARRY (uint (r_sp r)) load)) r;
         r = r\<lparr>r_sp := word_of_int (uint (r_sp r) + load)\<rparr>
     in if uint (r_sp r) < load then SET_FLAG FLAG_CARRY r
        else if uint (r_sp r AND 0xff) < uint (word_of_int load :: u8) then SET_FLAG FLAG_CARRY r
        else r)"

end
