(* ===== verification/Cpu.thy ===== *)
theory Cpu
  imports Registers
begin

text \<open>
  The state of the CPU module (\<open>struct cpu_state\<close> and \<open>cpu_t\<close> of src/emu/cpu/cpu.h) and the
  operations of src/emu/cpu/cpu.c that touch nothing else: its memory-mapped registers,
  work RAM and high RAM, the interrupt switches, and the two counters that
  \<open>cpu_exec_next\<close> advances after an instruction.
  Messages on \<open>stderr\<close> are not part of the state.
\<close>

record cpu_state =
  regs :: registers
  div_reg :: u8
  if_reg :: u8
  ie_reg :: u8
  cycles :: u64
  div_counter :: u6
  tima_enabled :: bool
  tima_reg :: u8
  tma_reg :: u8
  tac_reg :: u8
  tac_counter :: u8
  tac_divider :: u32
  is_halted :: bool
  ime_enabled :: bool
  disable_bootrom :: bool

record cpu_t = cpu_state +
  wram :: "u8 arr"
  hram :: "u8 arr"

definition WRAM_SIZE :: nat where "WRAM_SIZE = 0x2000"
definition HRAM_SIZE :: nat where "HRAM_SIZE = 0x7f"

lemmas ram_sizes = WRAM_SIZE_def HRAM_SIZE_def

text \<open>\<open>cpu\<close> has static storage: every field starts at zero.\<close>

definition registers0 :: registers where
  "registers0 = \<lparr>r_f = 0, r_a = 0, r_c = 0, r_b = 0, r_e = 0, r_d = 0, r_l = 0, r_h = 0,
     r_sp = 0, r_pc = 0\<rparr>"

definition cpu0 :: cpu_t where
  "cpu0 = \<lparr>regs = registers0, div_reg = 0, if_reg = 0, ie_reg = 0, cycles = 0, div_counter = 0,
     tima_enabled = False, tima_reg = 0, tma_reg = 0, tac_reg = 0, tac_counter = 0,
     tac_divider = 0, is_halted = False, ime_enabled = False, disable_bootrom = False,
     wram = (\<lambda>_. 0), hram = (\<lambda>_. 0)\<rparr>"

section \<open>Interrupt switches and requests\<close>

text \<open>\<open>enum interrupt_mask\<close> of include/cpu.h, the argument of \<open>cpu_request_intr\<close>.\<close>

datatype interrupt_mask =
  REQUEST_INTR_VBLANK | REQUEST_INTR_LCD | REQUEST_INTR_TIMER | REQUEST_INTR_JOYPAD

fun interrupt_mask_value :: "interrupt_mask \<Rightarrow> u8" where
  "interrupt_mask_value REQUEST_INTR_VBLANK = 0x1"
| "interrupt_mask_value REQUEST_INTR_LCD = 0x2"
| "interrupt_mask_value REQUEST_INTR_TIMER = 0x4"
| "interrupt_mask_value REQUEST_INTR_JOYPAD = 0x8"

definition cpu_request_intr :: "interrupt_mask \<Rightarrow> cpu_t \<Rightarrow> cpu_t" where
  "cpu_request_intr im c = c\<lparr>if_reg := if_reg c OR interrupt_mask_value im\<rparr>"

definition cpu_disable_intr :: "cpu_t \<Rightarrow> cpu_t" where
  "cpu_disable_intr c = c\<lparr>ime_enabled := False\<rparr>"

definition cpu_enable_intr :: "cpu_t \<Rightarrow> cpu_t" where
  "cpu_enable_intr c = c\<lparr>ime_enabled := True\<rparr>"

definition cpu_halt :: "cpu_t \<Rightarrow> cpu_t" where
  "cpu_halt c = c\<lparr>is_halted := True\<rparr>"

section \<open>Memory-mapped access\<close>

definition cpu_rd :: "u16 \<Rightarrow> cpu_t \<Rightarrow> u8 option" where
  "cpu_rd addr c =
    (if addr \<ge> 0xc000 \<and> addr \<le> 0xdfff then arr_rd WRAM_SIZE (wram c) (uint addr - 0xc000)
     else if addr \<ge> 0xff80 \<and> addr \<le> 0xfffe then arr_rd HRAM_SIZE (hram c) (uint addr - 0xff80)
     else if addr = 0xffff then Some (ie_reg c)
     else if addr = 0xff0f then Some (if_reg c)
     else if addr = 0xff04 then Some (div_reg c)
     else if addr = 0xff05 then Some (tima_reg c)
     else if addr = 0xff06 then Some (tma_reg c)
     else if addr = 0xff07 then Some (tac_reg c)
     else if addr = 0xff50 then Some (of_bool (disable_bootrom c))
     else Some 0)"

definition TAC_BITMASK_CLOCK_SELECT :: u8 where "TAC_BITMASK_CLOCK_SELECT = 0x3"
definition TAC_BITMASK_TIMA_ENABLE :: u8 where "TAC_BITMASK_TIMA_ENABLE = 0x4"

text \<open>The inner \<open>switch\<close> on the clock select bits.\<close>

definition tac_divider_of :: "u8 \<Rightarrow> u32 \<Rightarrow> u32" where
  "tac_divider_of value old =
    (let sel = value AND TAC_BITMASK_CLOCK_SELECT
     in if sel = 0 then 256 else if sel = 1 then 4 else if sel = 2 then 16
        else if sel = 3 then 64 else old)"

definition cpu_wr :: "u16 \<Rightarrow> u8 \<Rightarrow> cpu_t \<Rightarrow> cpu_t option" where
  "cpu_wr addr value c =
    (if addr \<ge> 0xc000 \<and> addr \<le> 0xdfff then
       do { m \<leftarrow> arr_wr WRAM_SIZE (wram c) (uint addr - 0xc000) value; Some (c\<lparr>wram := m\<rparr>) }
     else if addr \<ge> 0xff80 \<and> addr \<le> 0xfffe then
       do { m \<leftarrow> arr_wr HRAM_SIZE (hram c) (uint addr - 0xff80) value; Some (c\<lparr>hram := m\<rparr>) }
     else if addr = 0xffff then Some (c\<lparr>ie_reg := value\<rparr>)
     else if addr = 0xff0f then Some (c\<lparr>if_reg := value AND 0x1f\<rparr>)
     else if addr = 0xff04 then Some (c\<lparr>div_reg := 0\<rparr>)
     else if addr = 0xff05 then Some (c\<lparr>tima_reg := value\<rparr>)
     else if addr = 0xff06 then Some (c\<lparr>tma_reg := value\<rparr>)
     else if addr = 0xff07 then
       Some (c\<lparr>tac_reg := value AND 7,
               tima_enabled := (value AND TAC_BITMASK_TIMA_ENABLE \<noteq> 0),
               tac_divider := tac_divider_of value (tac_divider c)\<rparr>)
     else if addr = 0xff50 then Some (c\<lparr>disable_bootrom := (value \<noteq> 0)\<rparr>)
     else Some c)"

section \<open>The divider and the timer\<close>

text \<open>The code that \<open>cpu_exec_next\<close> runs after an instruction of \<open>n\<close> cycles.  The counter
  of the divider has six bits (\<open>unsigned _BitInt(6)\<close>).\<close>

definition div_step :: "int \<Rightarrow> cpu_t \<Rightarrow> cpu_t" where
  "div_step n c =
    (let c' = (if (word_of_int (uint (div_counter c) + n) :: u6) < div_counter c
               then c\<lparr>div_reg := div_reg c + 1\<rparr> else c)
     in c'\<lparr>div_counter := div_counter c' + word_of_int n\<rparr>)"

text \<open>The quotient and remainder are taken on \<open>uint32_t\<close>, and a zero divisor is undefined.\<close>

definition timer_step :: "int \<Rightarrow> cpu_t \<Rightarrow> cpu_t option" where
  "timer_step n c =
    (if tima_enabled c then
       (let sum = (word_of_int (uint (tac_counter c) + n) :: u32)
        in if tac_divider c = 0 then None
           else if sum div tac_divider c \<noteq> 0 then
             (let c = c\<lparr>tima_reg := tima_reg c + 1\<rparr>;
                  c = (if tima_reg c = 0
                       then cpu_request_intr REQUEST_INTR_TIMER (c\<lparr>tima_reg := tma_reg c\<rparr>)
                       else c)
              in Some (c\<lparr>tac_counter := ucast (sum mod tac_divider c)\<rparr>))
           else Some (c\<lparr>tac_counter := tac_counter c + word_of_int n\<rparr>))
     else Some c)"

section \<open>The invariant of the CPU state\<close>

text \<open>F has a clear low nibble, only the five defined interrupt requests can be pending, and
  an enabled timer has one of the four divisors.\<close>

definition timer_ok :: "cpu_t \<Rightarrow> bool" where
  "timer_ok c = (tima_enabled c \<longrightarrow> tac_divider c \<in> {4, 16, 64, 256})"

definition cpu_ok :: "cpu_t \<Rightarrow> bool" where
  "cpu_ok c = (f_ok (regs c) \<and> if_reg c AND 0xe0 = 0 \<and> timer_ok c)"

lemma cpu_ok_cpu0: "cpu_ok cpu0"
  by (simp add: cpu_ok_def cpu0_def registers0_def f_ok_def timer_ok_def)

end
