(* ===== verification/Oam_Hash.thy ===== *)
theory Oam_Hash
  imports Prelude
begin

text \<open>
  The index of sprites by the upper nibble of their Y coordinate: \<open>oam_hash\<close> and
  \<open>oam_rehash\<close> of src/emu/ppu.c.

  \<open>oam_hash\<close> is an array of 17 rows of 40 pointers into \<open>ppu.oam\<close>.  The model keeps the
  array flat, as it lies in memory, and a pointer is its offset in \<open>oam\<close> (\<open>None\<close> is the
  null pointer).  The loops of the code walk a row until they meet a null pointer; when a
  row is full they walk into the next one, and past the last row the access is undefined.
\<close>

type_synonym oam_hash = "nat option arr"

definition OAM_SIZE :: nat where "OAM_SIZE = 0x100"
definition HASH_ROWS :: nat where "HASH_ROWS = 17"
definition HASH_COLS :: nat where "HASH_COLS = 40"
definition HASH_SIZE :: nat where "HASH_SIZE = 17 * 40"

lemmas hash_sizes = HASH_ROWS_def HASH_COLS_def HASH_SIZE_def OAM_SIZE_def

section \<open>The operations\<close>

text \<open>The first loop of \<open>oam_rehash\<close>: find the pointer, then move the rest of the row left.\<close>

function rehash_remove :: "nat \<Rightarrow> nat \<Rightarrow> bool \<Rightarrow> oam_hash \<Rightarrow> oam_hash option" where
  "rehash_remove t p found h =
    (if p \<ge> HASH_SIZE then None
     else case h p of
       None \<Rightarrow> Some h
     | Some x \<Rightarrow>
         if x = t \<or> found
         then (if p + 1 \<ge> HASH_SIZE then None
               else rehash_remove t (p + 1) True (h(p := h (p + 1))))
         else rehash_remove t (p + 1) found h)"
  by pat_completeness auto
termination
  by (relation "measure (\<lambda>(t, p, found, h). HASH_SIZE - p)") auto

declare rehash_remove.simps [simp del]

text \<open>The second loop: go to the end of the row and append.\<close>

function rehash_append :: "nat \<Rightarrow> nat \<Rightarrow> oam_hash \<Rightarrow> oam_hash option" where
  "rehash_append t p h =
    (if p \<ge> HASH_SIZE then None
     else case h p of
       None \<Rightarrow> Some (h(p := Some t))
     | Some _ \<Rightarrow> rehash_append t (p + 1) h)"
  by pat_completeness auto
termination
  by (relation "measure (\<lambda>(t, p, h). HASH_SIZE - p)") auto

declare rehash_append.simps [simp del]

definition row_start :: "u8 \<Rightarrow> nat" where
  "row_start y = unat (drop_bit 4 y) * HASH_COLS"

definition oam_rehash :: "nat \<Rightarrow> u8 \<Rightarrow> u8 arr \<Rightarrow> oam_hash \<Rightarrow> oam_hash option" where
  "oam_rehash addr new_y oam h =
    do { y \<leftarrow> arr_rd OAM_SIZE oam (int addr);
         h \<leftarrow> rehash_remove addr (row_start y) False h;
         rehash_append addr (row_start new_y) h }"

section \<open>The loops on a terminated segment\<close>

text \<open>\<open>segment h p xs\<close>: from \<open>p\<close> on the array holds the pointers \<open>xs\<close> and then a null.\<close>

definition segment :: "oam_hash \<Rightarrow> nat \<Rightarrow> nat list \<Rightarrow> bool" where
  "segment h p xs \<longleftrightarrow> (\<forall>i<length xs. h (p + i) = Some (xs ! i)) \<and> h (p + length xs) = None"

lemma segmentD: "segment h p xs \<Longrightarrow> i < length xs \<Longrightarrow> h (p + i) = Some (xs ! i)"
  by (simp add: segment_def)

lemma segment_Nil [simp]: "segment h p [] \<longleftrightarrow> h p = None"
  by (simp add: segment_def)

lemma segment_Cons [simp]: "segment h p (x # xs) \<longleftrightarrow> h p = Some x \<and> segment h (Suc p) xs"
  by (auto simp: segment_def All_less_Suc2)

lemma segment_upd_outside [simp]: "q < p \<Longrightarrow> segment (h(q := z)) p xs = segment h p xs"
  by (auto simp: segment_def)

lemma append_segment:
  "segment h p xs \<Longrightarrow> p + length xs < HASH_SIZE \<Longrightarrow>
    rehash_append t p h = Some (h(p + length xs := Some t))"
proof (induction xs arbitrary: p)
  case Nil
  then show ?case by (simp add: rehash_append.simps fun_eq_iff)
next
  case (Cons x xs)
  then have "rehash_append t (Suc p) h = Some (h(Suc p + length xs := Some t))"
    by (intro Cons.IH) auto
  with Cons.prems show ?case by (simp add: rehash_append.simps [of t p] fun_eq_iff)
qed

text \<open>Shifting a segment left by one from \<open>p\<close>.\<close>

definition shifted :: "oam_hash \<Rightarrow> nat \<Rightarrow> nat \<Rightarrow> oam_hash" where
  "shifted h p n = (\<lambda>q. if p \<le> q \<and> q < p + n then h (q + 1) else h q)"

lemma shifted_step: "shifted (h(p := h (Suc p))) (Suc p) n = shifted h p (Suc n)"
  by (auto simp: shifted_def fun_eq_iff)

lemma remove_found:
  "segment h p xs \<Longrightarrow> p + length xs < HASH_SIZE \<Longrightarrow>
    rehash_remove t p True h = Some (shifted h p (length xs))"
proof (induction xs arbitrary: p h)
  case Nil
  then show ?case by (auto simp: rehash_remove.simps shifted_def fun_eq_iff)
next
  case (Cons x xs)
  then have "rehash_remove t (Suc p) True (h(p := h (Suc p))) =
      Some (shifted (h(p := h (Suc p))) (Suc p) (length xs))"
    by (intro Cons.IH) (simp_all only: segment_Cons segment_upd_outside lessI, simp)
  with Cons.prems show ?case by (simp add: rehash_remove.simps [of t p] shifted_step)
qed

lemma remove_absent:
  "segment h p xs \<Longrightarrow> p + length xs < HASH_SIZE \<Longrightarrow> t \<notin> set xs \<Longrightarrow>
    rehash_remove t p False h = Some h"
proof (induction xs arbitrary: p)
  case Nil
  then show ?case by (simp add: rehash_remove.simps)
next
  case (Cons x xs)
  then have "rehash_remove t (Suc p) False h = Some h" by (intro Cons.IH) auto
  with Cons.prems show ?case by (simp add: rehash_remove.simps [of t p])
qed

lemma remove_present:
  "segment h p (ys @ t # zs) \<Longrightarrow> p + length ys + length zs + 1 < HASH_SIZE \<Longrightarrow> t \<notin> set ys \<Longrightarrow>
    rehash_remove t p False h = Some (shifted h (p + length ys) (Suc (length zs)))"
proof (induction ys arbitrary: p)
  case Nil
  then have "segment h (Suc p) zs" "Suc p + length zs < HASH_SIZE" by simp_all
  then have "rehash_remove t (Suc p) True (h(p := h (Suc p))) =
      Some (shifted (h(p := h (Suc p))) (Suc p) (length zs))"
    by (intro remove_found) (simp_all only: segment_upd_outside lessI)
  with Nil.prems show ?case by (simp add: rehash_remove.simps [of t p] shifted_step)
next
  case (Cons y ys)
  then have "rehash_remove t (Suc p) False h = Some (shifted h (Suc p + length ys) (Suc (length zs)))"
    by (intro Cons.IH) auto
  with Cons.prems show ?case by (simp add: rehash_remove.simps [of t p])
qed

section \<open>The abstract view: one list of sprites per row\<close>

definition row :: "oam_hash \<Rightarrow> nat \<Rightarrow> nat option list" where
  "row h b = map (\<lambda>i. h (b * HASH_COLS + i)) [0..<HASH_COLS]"

definition bucket :: "oam_hash \<Rightarrow> nat \<Rightarrow> nat list" where
  "bucket h b = map the (takeWhile (\<lambda>x. x \<noteq> None) (row h b))"

definition nibble :: "u8 arr \<Rightarrow> nat \<Rightarrow> nat" where
  "nibble oam x = unat (drop_bit 4 (oam x))"

text \<open>A sprite is the offset of its first byte in \<open>oam\<close>: a multiple of four below 160.\<close>

definition sprite :: "nat \<Rightarrow> bool" where
  "sprite x = (x < 160 \<and> x mod 4 = 0)"

text \<open>The invariant: a row is its sprites without gaps and then null pointers only, no sprite
  occurs twice, and each is in the row of its Y nibble.\<close>

definition row_ok :: "u8 arr \<Rightarrow> oam_hash \<Rightarrow> nat \<Rightarrow> bool" where
  "row_ok oam h b =
    (row h b = map Some (bucket h b) @ replicate (HASH_COLS - length (bucket h b)) None \<and>
     distinct (bucket h b) \<and> (\<forall>x \<in> set (bucket h b). sprite x \<and> nibble oam x = b))"

definition hash_ok :: "u8 arr \<Rightarrow> oam_hash \<Rightarrow> bool" where
  "hash_ok oam h = (\<forall>b<HASH_ROWS. row_ok oam h b)"

lemma hash_ok_init: "hash_ok oam (\<lambda>_. None)"
proof -
  have "row (\<lambda>_. None) b = replicate HASH_COLS None" for b
    by (auto simp: row_def intro: nth_equalityI)
  then have "row_ok oam (\<lambda>_. None) b" for b
    by (simp add: row_ok_def bucket_def HASH_COLS_def)
  then show ?thesis by (simp add: hash_ok_def)
qed

lemma length_row [simp]: "length (row h b) = HASH_COLS"
  by (simp add: row_def)

lemma bucket_le: "length (bucket h b) \<le> HASH_COLS"
  using length_takeWhile_le [of "\<lambda>x. x \<noteq> None" "row h b"] by (simp add: bucket_def)

text \<open>A row that reads \<open>xs\<close> and then nulls has the bucket \<open>xs\<close>.\<close>

lemma bucketI:
  assumes "row h b = map Some xs @ replicate n None"
  shows "bucket h b = xs"
proof -
  have "takeWhile (\<lambda>x. x \<noteq> None) (map Some xs @ replicate n None) = map Some xs"
    by (simp add: takeWhile_append comp_def)
  then show ?thesis by (simp add: bucket_def assms comp_def)
qed

lemma nibble_bound: "nibble oam x < 16"
proof -
  have "unat (drop_bit 4 (oam x)) = unat (oam x) div 16"
    by (simp add: unat_drop_bit_eq drop_bit_eq_div unat_div)
  moreover have "unat (oam x) < 256" by (rule unat_u8)
  ultimately show ?thesis by (simp add: nibble_def)
qed

lemma row_start_nibble: "row_start (oam x) = nibble oam x * HASH_COLS"
  by (simp add: row_start_def nibble_def)

text \<open>All sprites: there are forty.\<close>

definition sprites :: "nat list" where
  "sprites = map (\<lambda>k. 4 * k) [0..<40]"

lemma sprite_iff: "sprite x \<longleftrightarrow> x \<in> set sprites"
proof
  assume "sprite x"
  then have "x = 4 * (x div 4)" "x div 4 < 40" by (auto simp: sprite_def)
  then show "x \<in> set sprites" by (auto simp: sprites_def image_iff)
qed (auto simp: sprites_def sprite_def)

lemma row_nth: "i < HASH_COLS \<Longrightarrow> row h b ! i = h (b * HASH_COLS + i)"
  by (simp add: row_def)

text \<open>When a row is full all sprites are in it, so the next row is empty: reading past a full
  row meets a null pointer.\<close>

lemma full_row:
  assumes "hash_ok oam h" "b < 16" "length (bucket h b) = HASH_COLS"
  shows "bucket h (Suc b) = []"
proof -
  have ok: "row_ok oam h b" "row_ok oam h (Suc b)"
    using assms by (auto simp: hash_ok_def HASH_ROWS_def)
  have sub: "set (bucket h b) \<subseteq> set sprites"
    using ok(1) by (auto simp: row_ok_def sprite_iff)
  have "card (set (bucket h b)) = 40"
    using ok(1) assms(3) by (simp add: row_ok_def distinct_card HASH_COLS_def)
  moreover have "card (set sprites) = 40" by (simp add: sprites_def card_image inj_on_def)
  ultimately have "set (bucket h b) = set sprites"
    using sub by (intro card_subset_eq) auto
  then have all: "sprite x \<Longrightarrow> nibble oam x = b" for x
    using ok(1) by (auto simp: row_ok_def sprite_iff)
  have "x \<notin> set (bucket h (Suc b))" for x
    using ok(2) all by (fastforce simp: row_ok_def)
  then show ?thesis by (metis list.set_intros(1) neq_Nil_conv)
qed

lemma row_segment:
  assumes ok: "hash_ok oam h" and b: "b < 16"
  shows "segment h (b * HASH_COLS) (bucket h b)"
proof -
  let ?xs = "bucket h b"
  have row: "row h b = map Some ?xs @ replicate (HASH_COLS - length ?xs) None"
    using ok b by (auto simp: hash_ok_def row_ok_def HASH_ROWS_def)
  have "h (b * HASH_COLS + i) = Some (?xs ! i)" if "i < length ?xs" for i
    using that bucket_le [of h b] row_nth [of i h b] by (simp add: row nth_append)
  moreover have "h (b * HASH_COLS + length ?xs) = None"
  proof (cases "length ?xs < HASH_COLS")
    case True
    then show ?thesis using row_nth [of "length ?xs" h b] by (simp add: row nth_append)
  next
    case False
    then have "length ?xs = HASH_COLS" using bucket_le [of h b] by simp
    with full_row [OF ok b] have "bucket h (Suc b) = []" by simp
    moreover have "row_ok oam h (Suc b)" using ok b by (simp add: hash_ok_def HASH_ROWS_def)
    ultimately have "row h (Suc b) = replicate HASH_COLS None" by (simp add: row_ok_def)
    then have "h (Suc b * HASH_COLS + 0) = None"
      using row_nth [of 0 h "Suc b"] by (simp add: HASH_COLS_def)
    with \<open>length ?xs = HASH_COLS\<close> show ?thesis by (simp add: add.commute)
  qed
  ultimately show ?thesis by (simp add: segment_def)
qed

lemma segment_in_bounds: "b < 16 \<Longrightarrow> b * HASH_COLS + length (bucket h b) < HASH_SIZE"
  using bucket_le [of h b] by (simp add: hash_sizes)

section \<open>\<open>oam_rehash\<close> moves one sprite between the lists\<close>

lemma row_okI:
  assumes "row h b = map Some xs @ replicate (HASH_COLS - length xs) None"
    and "distinct xs" "\<forall>x \<in> set xs. sprite x \<and> nibble oam x = b"
  shows "bucket h b = xs" "row_ok oam h b"
  using assms bucketI [OF assms(1)] by (simp_all add: row_ok_def)

lemma row_eqI:
  assumes "length xs \<le> HASH_COLS"
    and "\<And>i. i < length xs \<Longrightarrow> h (b * HASH_COLS + i) = Some (xs ! i)"
    and "\<And>i. length xs \<le> i \<Longrightarrow> i < HASH_COLS \<Longrightarrow> h (b * HASH_COLS + i) = None"
  shows "row h b = map Some xs @ replicate (HASH_COLS - length xs) None"
  using assms by (intro nth_equalityI) (auto simp: row_nth nth_append)

lemma row_entries:
  assumes "row_ok oam h b"
  shows "i < length (bucket h b) \<Longrightarrow> h (b * HASH_COLS + i) = Some (bucket h b ! i)"
    and "length (bucket h b) \<le> i \<Longrightarrow> i < HASH_COLS \<Longrightarrow> h (b * HASH_COLS + i) = None"
proof -
  have row: "row h b = map Some (bucket h b) @ replicate (HASH_COLS - length (bucket h b)) None"
    using assms by (simp add: row_ok_def)
  show "i < length (bucket h b) \<Longrightarrow> h (b * HASH_COLS + i) = Some (bucket h b ! i)"
    using row_nth [of i h b] bucket_le [of h b] by (simp add: row nth_append)
  show "length (bucket h b) \<le> i \<Longrightarrow> i < HASH_COLS \<Longrightarrow> h (b * HASH_COLS + i) = None"
    using row_nth [of i h b] by (simp add: row nth_append)
qed

lemma row_cong: "(\<And>i. i < HASH_COLS \<Longrightarrow> h (b * HASH_COLS + i) = h' (b * HASH_COLS + i)) \<Longrightarrow> row h b = row h' b"
  by (simp add: row_def)

lemma bucket_cong: "row h b = row h' b \<Longrightarrow> bucket h b = bucket h' b"
  by (simp add: bucket_def)

lemma row_ok_cong: "row h b = row h' b \<Longrightarrow> row_ok oam h b = row_ok oam h' b"
  by (simp add: row_ok_def bucket_def)

lemma row_ok_oam_cong:
  assumes "row_ok oam h b" "\<forall>x \<in> set (bucket h b). sprite x \<longrightarrow> nibble oam' x = nibble oam x"
  shows "row_ok oam' h b"
  using assms by (simp add: row_ok_def)

text \<open>Positions of different rows are different.\<close>

lemma other_row:
  assumes "b \<noteq> c" "i < HASH_COLS" "j < HASH_COLS"
  shows "b * HASH_COLS + i \<noteq> c * HASH_COLS + j"
proof
  assume "b * HASH_COLS + i = c * HASH_COLS + j"
  then have "(b * HASH_COLS + i) div HASH_COLS = (c * HASH_COLS + j) div HASH_COLS" by simp
  with assms show False by (simp add: div_mult_self3 HASH_COLS_def)
qed

lemma remove_bucket:
  assumes ok: "hash_ok oam h" and b: "b = nibble oam t"
  shows "\<exists>h'. rehash_remove t (b * HASH_COLS) False h = Some h' \<and> hash_ok oam h' \<and>
    (\<forall>c<HASH_ROWS. bucket h' c = remove1 t (bucket h c))"
proof (cases "t \<in> set (bucket h b)")
  case False
  have b16: "b < 16" using b nibble_bound by simp
  have "rehash_remove t (b * HASH_COLS) False h = Some h"
    using row_segment [OF ok b16] segment_in_bounds [OF b16] False by (rule remove_absent)
  moreover have "t \<notin> set (bucket h c)" if "c < HASH_ROWS" for c
    using ok False b that by (auto simp: hash_ok_def row_ok_def)
  ultimately show ?thesis using ok by (auto simp: remove1_idem)
next
  case True
  have b16: "b < 16" using b nibble_bound by simp
  have rok: "row_ok oam h b" using ok b16 by (simp add: hash_ok_def HASH_ROWS_def)
  then have dist: "distinct (bucket h b)" by (simp add: row_ok_def)
  obtain ys zs where xs: "bucket h b = ys @ t # zs" and ys: "t \<notin> set ys"
    using split_list_first [OF True] by blast
  have len: "length ys + length zs + 1 \<le> HASH_COLS" using bucket_le [of h b] xs by simp
  let ?h = "shifted h (b * HASH_COLS + length ys) (Suc (length zs))"
  have seg: "segment h (b * HASH_COLS) (ys @ t # zs)" using row_segment [OF ok b16] xs by simp
  have rem: "rehash_remove t (b * HASH_COLS) False h = Some ?h"
    using seg segment_in_bounds [OF b16, of h] ys by (intro remove_present) (simp_all add: xs)
  have rowb: "row ?h b = map Some (ys @ zs) @ replicate (HASH_COLS - length (ys @ zs)) None"
  proof (rule row_eqI)
    show "length (ys @ zs) \<le> HASH_COLS" using len by simp
    fix i
    show "?h (b * HASH_COLS + i) = Some ((ys @ zs) ! i)" if i: "i < length (ys @ zs)"
    proof (cases "i < length ys")
      case True
      with seg xs show ?thesis by (auto simp: shifted_def segment_def nth_append)
    next
      case False
      with i have "?h (b * HASH_COLS + i) = h (b * HASH_COLS + Suc i)" by (simp add: shifted_def)
      also have "\<dots> = Some ((ys @ t # zs) ! Suc i)" using i by (intro segmentD [OF seg]) simp
      also have "(ys @ t # zs) ! Suc i = (ys @ zs) ! i" using False by (simp add: nth_append Suc_diff_le)
      finally show ?thesis .
    qed
    show "?h (b * HASH_COLS + i) = None" if i: "length (ys @ zs) \<le> i" "i < HASH_COLS"
    proof (cases "i = length (ys @ zs)")
      case True
      then have "?h (b * HASH_COLS + i) = h (b * HASH_COLS + length (ys @ t # zs))"
        by (simp add: shifted_def)
      also have "\<dots> = None" using seg unfolding segment_def by blast
      finally show ?thesis .
    next
      case False
      then show ?thesis using i row_entries(2) [OF rok, of i] xs by (simp add: shifted_def)
    qed
  qed
  have other: "row ?h c = row h c" if "c \<noteq> b" for c
  proof (rule row_cong)
    fix i assume i: "i < HASH_COLS"
    have "\<not> (b * HASH_COLS + length ys \<le> c * HASH_COLS + i \<and>
        c * HASH_COLS + i < b * HASH_COLS + length ys + Suc (length zs))"
      using other_row [OF that i, of "c * HASH_COLS + i - b * HASH_COLS"] len by linarith
    then show "?h (c * HASH_COLS + i) = h (c * HASH_COLS + i)" by (auto simp: shifted_def)
  qed
  have bb: "bucket ?h b = ys @ zs" "row_ok oam ?h b"
    using row_okI [OF rowb, of oam] rok dist xs by (auto simp: row_ok_def)
  have "hash_ok oam ?h"
    unfolding hash_ok_def
  proof (intro allI impI)
    fix c assume "c < HASH_ROWS"
    then show "row_ok oam ?h c"
      using bb ok row_ok_cong [OF other, of c oam] by (cases "c = b") (auto simp: hash_ok_def)
  qed
  moreover have "bucket ?h c = remove1 t (bucket h c)" if c: "c < HASH_ROWS" for c
  proof (cases "c = b")
    case True
    then show ?thesis using bb xs ys by (simp add: remove1_append)
  next
    case False
    then have "t \<notin> set (bucket h c)" using ok c b by (auto simp: hash_ok_def row_ok_def)
    with False show ?thesis using bucket_cong [OF other] by (simp add: remove1_idem)
  qed
  ultimately show ?thesis using rem by blast
qed

lemma append_bucket:
  assumes ok: "hash_ok oam h" and sp: "sprite t" and b: "b = nibble oam' t"
    and absent: "\<forall>c<HASH_ROWS. t \<notin> set (bucket h c)"
    and oam': "\<forall>x. sprite x \<longrightarrow> x \<noteq> t \<longrightarrow> oam' x = oam x"
  shows "\<exists>h'. rehash_append t (b * HASH_COLS) h = Some h' \<and> hash_ok oam' h' \<and>
    (\<forall>c<HASH_ROWS. bucket h' c = (if c = b then bucket h c @ [t] else bucket h c))"
proof -
  have b16: "b < 16" using b nibble_bound by simp
  let ?xs = "bucket h b"
  let ?h = "h(b * HASH_COLS + length ?xs := Some t)"
  have rok: "row_ok oam h b" using ok b16 by (simp add: hash_ok_def HASH_ROWS_def)
  have app: "rehash_append t (b * HASH_COLS) h = Some ?h"
    using row_segment [OF ok b16] segment_in_bounds [OF b16] by (rule append_segment)
  have t: "t \<notin> set ?xs" using absent b16 by (simp add: HASH_ROWS_def)
  have len: "length ?xs < HASH_COLS"
  proof -
    have "set ?xs \<subseteq> set sprites - {t}"
      using rok t by (auto simp: row_ok_def sprite_iff)
    then have "card (set ?xs) \<le> card (set sprites - {t})" by (intro card_mono) auto
    also have "\<dots> = 39" using sp by (simp add: sprite_iff card_Diff_singleton)
        (simp add: sprites_def card_image inj_on_def)
    finally show ?thesis using rok by (simp add: row_ok_def distinct_card HASH_COLS_def)
  qed
  have rowb: "row ?h b = map Some (?xs @ [t]) @ replicate (HASH_COLS - length (?xs @ [t])) None"
  proof (rule row_eqI)
    show "length (?xs @ [t]) \<le> HASH_COLS" using len by simp
    fix i
    show "?h (b * HASH_COLS + i) = Some ((?xs @ [t]) ! i)" if "i < length (?xs @ [t])"
      using that row_entries(1) [OF rok, of i] by (cases "i = length ?xs") (simp_all add: nth_append)
    show "?h (b * HASH_COLS + i) = None" if "length (?xs @ [t]) \<le> i" "i < HASH_COLS"
      using that row_entries(2) [OF rok, of i] by simp
  qed
  have other: "row ?h c = row h c" if "c \<noteq> b" for c
  proof (rule row_cong)
    fix i assume "i < HASH_COLS"
    then have "c * HASH_COLS + i \<noteq> b * HASH_COLS + length ?xs" using that len by (intro other_row)
    then show "?h (c * HASH_COLS + i) = h (c * HASH_COLS + i)" by simp
  qed
  have nib: "nibble oam' x = nibble oam x" if "sprite x" "x \<noteq> t" for x
    using oam' that by (simp add: nibble_def)
  have elems: "\<forall>x \<in> set (?xs @ [t]). sprite x \<and> nibble oam' x = b"
  proof
    fix x assume "x \<in> set (?xs @ [t])"
    then consider "x = t" | "x \<in> set ?xs" "x \<noteq> t" using t by auto
    then show "sprite x \<and> nibble oam' x = b"
    proof cases
      case 2
      then have "sprite x" "nibble oam x = b" using rok by (simp_all add: row_ok_def)
      with nib [OF _ 2(2)] show ?thesis by simp
    qed (simp add: sp b)
  qed
  have "distinct (?xs @ [t])" using rok t by (simp add: row_ok_def)
  then have bb: "bucket ?h b = ?xs @ [t]" "row_ok oam' ?h b"
    using row_okI [OF rowb _ elems] by blast+
  have "hash_ok oam' ?h"
    unfolding hash_ok_def
  proof (intro allI impI)
    fix c assume c: "c < HASH_ROWS"
    show "row_ok oam' ?h c"
    proof (cases "c = b")
      case False
      have "row_ok oam h c" "t \<notin> set (bucket h c)" using ok absent c by (auto simp: hash_ok_def)
      from this(1) have "row_ok oam' h c"
        by (rule row_ok_oam_cong) (use \<open>t \<notin> set (bucket h c)\<close> nib in blast)
      then show ?thesis using row_ok_cong [OF other [OF False]] by simp
    qed (use bb in simp)
  qed
  moreover have "bucket ?h c = (if c = b then bucket h c @ [t] else bucket h c)" for c
    using bb bucket_cong [OF other] by auto
  ultimately show ?thesis using app by blast
qed

lemma oam_rehash_refines:
  assumes ok: "hash_ok oam h" and sp: "sprite t"
  shows "\<exists>h'. oam_rehash t y oam h = Some h' \<and> hash_ok (oam(t := y)) h' \<and>
    (\<forall>c<HASH_ROWS. bucket h' c =
      (if c = unat (drop_bit 4 y) then remove1 t (bucket h c) @ [t] else remove1 t (bucket h c)))"
proof -
  obtain h1 where h1: "rehash_remove t (nibble oam t * HASH_COLS) False h = Some h1"
    "hash_ok oam h1" "\<forall>c<HASH_ROWS. bucket h1 c = remove1 t (bucket h c)"
    using remove_bucket [OF ok refl, of t] by blast
  have nib: "unat (drop_bit 4 y) = nibble (oam(t := y)) t" by (simp add: nibble_def)
  have absent: "\<forall>c<HASH_ROWS. t \<notin> set (bucket h1 c)"
    using h1(3) ok by (auto simp: hash_ok_def row_ok_def)
  have "\<exists>h'. rehash_append t (unat (drop_bit 4 y) * HASH_COLS) h1 = Some h' \<and>
      hash_ok (oam(t := y)) h' \<and>
      (\<forall>c<HASH_ROWS. bucket h' c = (if c = unat (drop_bit 4 y) then bucket h1 c @ [t] else bucket h1 c))"
    by (rule append_bucket [OF h1(2) sp nib absent]) simp
  then obtain h2 where h2: "rehash_append t (unat (drop_bit 4 y) * HASH_COLS) h1 = Some h2"
    "hash_ok (oam(t := y)) h2"
    "\<forall>c<HASH_ROWS. bucket h2 c = (if c = unat (drop_bit 4 y) then bucket h1 c @ [t] else bucket h1 c)"
    by blast
  have "t < OAM_SIZE" using sp by (simp add: sprite_def OAM_SIZE_def)
  then have "oam_rehash t y oam h = Some h2"
    using h1(1) h2(1) by (simp add: oam_rehash_def row_start_nibble) (simp add: row_start_def)
  moreover have "\<forall>c<HASH_ROWS. bucket h2 c =
      (if c = unat (drop_bit 4 y) then remove1 t (bucket h c) @ [t] else remove1 t (bucket h c))"
    using h2(3) h1(3) by (simp split del: if_split cong: if_cong)
  ultimately show ?thesis using h2(2) by blast
qed

text \<open>Writing a byte that is not the Y coordinate, or a Y coordinate with the same upper nibble,
  leaves the index valid.\<close>

lemma hash_ok_same_nibble:
  assumes "hash_ok oam h" "\<And>x. sprite x \<Longrightarrow> nibble oam' x = nibble oam x"
  shows "hash_ok oam' h"
  unfolding hash_ok_def
proof (intro allI impI)
  fix b assume "b < HASH_ROWS"
  then have "row_ok oam h b" using assms(1) by (simp add: hash_ok_def)
  then show "row_ok oam' h b" by (rule row_ok_oam_cong) (simp add: assms(2))
qed

end
