(* ===== verification/Ppu_State.thy ===== *)
theory Ppu_State
  imports Oam_Hash
begin

text \<open>
  The state of the PPU (\<open>struct ppu_regs\<close> and \<open>ppu_t\<close> of src/emu/ppu.c), the constants of
  its timing and of its registers, and the read side of its memory interface
  (\<open>rd_reg\<close>, \<open>ppu_rd\<close>).
\<close>

datatype ppu_mode = PPU_HBLANK | PPU_VBLANK | PPU_OAM | PPU_DRAW

record ppu_regs =
  lcdc :: u8
  ly :: u8
  lyc :: u8
  stat :: u8
  scx :: u8
  scy :: u8
  dma :: u8
  bgp :: u8
  obp0 :: u8
  obp1 :: u8
  wx :: u8
  wy :: u8

text \<open>\<open>dots_remaining\<close> is an \<open>int16_t\<close>: it is read with \<open>sint\<close>.\<close>

record ppu_t = ppu_regs +
  tile_data :: "u8 arr"
  tile_map1 :: "u8 arr"
  tile_map2 :: "u8 arr"
  oam :: "u8 arr"
  mode :: ppu_mode
  dots_remaining :: u16
  frame_count :: u64
  vblank_dots :: u32

definition TILE_DATA_SIZE :: nat where "TILE_DATA_SIZE = 0x1800"
definition TILE_MAP_SIZE :: nat where "TILE_MAP_SIZE = 0x400"

lemmas ppu_sizes = TILE_DATA_SIZE_def TILE_MAP_SIZE_def OAM_SIZE_def

text \<open>\<open>ppu\<close> has static storage, and the first mode of the enumeration is \<open>PPU_HBLANK\<close>.\<close>

definition ppu0 :: ppu_t where
  "ppu0 = \<lparr>lcdc = 0, ly = 0, lyc = 0, stat = 0, scx = 0, scy = 0, dma = 0, bgp = 0, obp0 = 0,
     obp1 = 0, wx = 0, wy = 0, tile_data = (\<lambda>_. 0), tile_map1 = (\<lambda>_. 0), tile_map2 = (\<lambda>_. 0),
     oam = (\<lambda>_. 0), mode = PPU_HBLANK, dots_remaining = 0, frame_count = 0, vblank_dots = 0\<rparr>"

section \<open>Constants\<close>

definition STAT_INTR_VBLANK :: u8 where "STAT_INTR_VBLANK = 0b00010000"
definition STAT_INTR_OAM :: u8 where "STAT_INTR_OAM = 0b00100000"
definition STAT_INTR_LYLC :: u8 where "STAT_INTR_LYLC = 0b01000000"
definition LY_LYC_FLAG :: u8 where "LY_LYC_FLAG = 0x4"

lemmas stat_defs = STAT_INTR_VBLANK_def STAT_INTR_OAM_def STAT_INTR_LYLC_def LY_LYC_FLAG_def

definition LCDC_BITMASK_BG_ENABLE :: u8 where "LCDC_BITMASK_BG_ENABLE = 1"
definition LCDC_BITMASK_OBJ_ENABLE :: u8 where "LCDC_BITMASK_OBJ_ENABLE = 2"
definition LCDC_BITMASK_OBJ_SIZE :: u8 where "LCDC_BITMASK_OBJ_SIZE = 4"
definition LCDC_BITMASK_BG_TILE_MAP :: u8 where "LCDC_BITMASK_BG_TILE_MAP = 8"
definition LCDC_BITMASK_BGWIN_TILE_DATA :: u8 where "LCDC_BITMASK_BGWIN_TILE_DATA = 16"
definition LCDC_BITMASK_WIN_ENABLE :: u8 where "LCDC_BITMASK_WIN_ENABLE = 32"
definition LCDC_BITMASK_WIN_TILE_MAP :: u8 where "LCDC_BITMASK_WIN_TILE_MAP = 64"
definition LCDC_BITMASK_PPU_ENABLE :: u8 where "LCDC_BITMASK_PPU_ENABLE = 128"

lemmas lcdc_defs = LCDC_BITMASK_BG_ENABLE_def LCDC_BITMASK_OBJ_ENABLE_def
  LCDC_BITMASK_OBJ_SIZE_def LCDC_BITMASK_BG_TILE_MAP_def LCDC_BITMASK_BGWIN_TILE_DATA_def
  LCDC_BITMASK_WIN_ENABLE_def LCDC_BITMASK_WIN_TILE_MAP_def LCDC_BITMASK_PPU_ENABLE_def

definition DOTS_DRAW :: int where "DOTS_DRAW = 230"
definition DOTS_HBLANK :: int where "DOTS_HBLANK = 145"
definition DOTS_OAM :: int where "DOTS_OAM = 80"
definition DOTS_VBLANK :: int where "DOTS_VBLANK = 4560"
definition DOTS_VBLANK_LINE :: int where "DOTS_VBLANK_LINE = 4560 div 10"

lemmas dots_defs = DOTS_DRAW_def DOTS_HBLANK_def DOTS_OAM_def DOTS_VBLANK_def DOTS_VBLANK_LINE_def

text \<open>A register bit test of C: \<open>v & mask\<close> used as a truth value.\<close>

definition has :: "u8 \<Rightarrow> u8 \<Rightarrow> bool" where
  "has v b = (v AND b \<noteq> 0)"

section \<open>Reading\<close>

definition rd_reg :: "u16 \<Rightarrow> ppu_t \<Rightarrow> u8" where
  "rd_reg addr p =
    (if addr = 0xff40 then lcdc p
     else if addr = 0xff41 then stat p
     else if addr = 0xff42 then scy p
     else if addr = 0xff43 then scx p
     else if addr = 0xff44 then ly p
     else if addr = 0xff45 then lyc p
     else if addr = 0xff46 then dma p
     else if addr = 0xff47 then bgp p
     else if addr = 0xff48 then obp0 p
     else if addr = 0xff49 then obp1 p
     else if addr = 0xff4a then wy p
     else if addr = 0xff4b then wx p
     else 0)"

definition ppu_rd :: "u16 \<Rightarrow> ppu_t \<Rightarrow> u8 option" where
  "ppu_rd addr p =
    (if addr \<ge> 0xff40 then Some (rd_reg addr p)
     else if addr \<ge> 0x8000 \<and> addr \<le> 0x97ff then
       arr_rd TILE_DATA_SIZE (tile_data p) (uint addr - 0x8000)
     else if addr \<ge> 0x9800 \<and> addr \<le> 0x9bff then
       arr_rd TILE_MAP_SIZE (tile_map1 p) (uint addr - 0x9800)
     else if addr \<ge> 0x9c00 \<and> addr \<le> 0x9fff then
       arr_rd TILE_MAP_SIZE (tile_map2 p) (uint addr - 0x9c00)
     else if addr \<ge> 0xfe00 \<and> addr \<le> 0xfe9f then
       arr_rd OAM_SIZE (oam p) (uint addr - 0xfe00)
     else Some 0)"

text \<open>\<open>ppu_reset\<close>, which a change of the enable bit of LCDC runs.\<close>

definition ppu_reset :: "ppu_t \<Rightarrow> ppu_t" where
  "ppu_reset p = p\<lparr>dots_remaining := word_of_int DOTS_OAM, mode := PPU_OAM, ly := 0\<rparr>"

definition ppu_get_frame_count :: "ppu_t \<Rightarrow> u64" where
  "ppu_get_frame_count p = frame_count p"

end
