(* ===== verification/Mbc1.thy ===== *)
theory Mbc1
  imports Prelude
begin

text \<open>
  The cartridge: src/emu/mem/mbc1.c behind the interface \<open>mbc_iface_t\<close> of
  src/emu/mem/mbc.h, and the header report of src/emu/mem/mbc.c.

  The ROM file is a C stream: its size, its bytes and its position.  \<open>fseek\<close> with
  \<open>SEEK_SET\<close> sets the position; \<open>fread\<close> copies as many bytes as the file still has
  and leaves the rest of the buffer as it was.
\<close>

section \<open>Streams\<close>

record stream =
  f_size :: nat
  f_byte :: "nat \<Rightarrow> u8"
  f_pos :: nat

definition fseek_set :: "nat \<Rightarrow> stream \<Rightarrow> stream" where
  "fseek_set off f = f\<lparr>f_pos := off\<rparr>"

text \<open>\<open>fread(buf + base, 1, n, f)\<close> into an array of \<open>sz\<close> elements.\<close>

definition fread_into :: "nat \<Rightarrow> u8 arr \<Rightarrow> nat \<Rightarrow> nat \<Rightarrow> stream \<Rightarrow> (u8 arr \<times> stream) option" where
  "fread_into sz buf base n f =
    (if base + n \<le> sz then
       (let k = min n (f_size f - f_pos f)
        in Some (\<lambda>i. if base \<le> i \<and> i < base + k then f_byte f (f_pos f + (i - base)) else buf i,
                 f\<lparr>f_pos := f_pos f + k\<rparr>))
     else None)"

section \<open>State and access\<close>

record mbc1 =
  mbc1_rom :: "u8 arr"
  mbc1_ram :: "u8 arr"
  rom :: stream

definition MBC1_ROM_SIZE :: nat where "MBC1_ROM_SIZE = 0x8000 + 0x4000 * 0x1f"
definition MBC1_RAM_SIZE :: nat where "MBC1_RAM_SIZE = 0x2000 * 4"

lemmas mbc_sizes = MBC1_ROM_SIZE_def MBC1_RAM_SIZE_def

text \<open>\<open>fseek(rom, off, SEEK_SET); fread(mbc1_rom + base, 1, n, rom);\<close>\<close>

definition load_rom :: "nat \<Rightarrow> nat \<Rightarrow> nat \<Rightarrow> mbc1 \<Rightarrow> mbc1 option" where
  "load_rom off base n m =
    do { (buf, f) \<leftarrow> fread_into MBC1_ROM_SIZE (mbc1_rom m) base n (fseek_set off (rom m));
         Some (m\<lparr>mbc1_rom := buf, rom := f\<rparr>) }"

text \<open>The bank number a write of \<open>value\<close> selects: zero becomes one before the mask.\<close>

definition rom_bank :: "u8 \<Rightarrow> u8" where
  "rom_bank value = (let value = (if value = 0 then value + 1 else value) in value AND 0x1f)"

definition mbc1_wr_mem :: "u16 \<Rightarrow> u8 \<Rightarrow> mbc1 \<Rightarrow> mbc1 option" where
  "mbc1_wr_mem addr value m =
    (if addr = 0xff50 then load_rom 0 0 0x256 m
     else do {
       m \<leftarrow> (if addr \<ge> 0x8000 then
               do { ram \<leftarrow> arr_wr MBC1_RAM_SIZE (mbc1_ram m) (uint addr - 0xa000) value;
                    Some (m\<lparr>mbc1_ram := ram\<rparr>) }
             else Some m);
       if addr \<ge> 0x2000 \<and> addr \<le> 0x3fff then load_rom (0x4000 * unat (rom_bank value)) 0x4000 0x4000 m
       else Some m })"

definition mbc1_rd_mem :: "u16 \<Rightarrow> mbc1 \<Rightarrow> u8 option" where
  "mbc1_rd_mem addr m =
    (if addr \<ge> 0xa000 \<and> addr \<le> 0xbfff then arr_rd MBC1_RAM_SIZE (mbc1_ram m) (uint addr - 0xa000)
     else arr_rd MBC1_ROM_SIZE (mbc1_rom m) (uint addr))"

text \<open>The buffers are static, so zero at the start.  The first 32 KiB come from the ROM stream,
  which \<open>main\<close> has just opened, and the start is then overlaid with the boot ROM.  The boot
  stream is whatever \<open>fopen\<close> gave for its fixed path; a null stream is undefined behaviour.\<close>

definition mbc1_init :: "stream \<Rightarrow> stream option \<Rightarrow> mbc1 option" where
  "mbc1_init romf boot =
    do { (buf, f) \<leftarrow> fread_into MBC1_ROM_SIZE (\<lambda>_. 0) 0 0x8000 romf;
         b \<leftarrow> boot;
         (buf', _) \<leftarrow> fread_into MBC1_ROM_SIZE buf 0 0x256 (fseek_set 0 b);
         Some \<lparr>mbc1_rom = buf', mbc1_ram = (\<lambda>_. 0), rom = f\<rparr> }"

section \<open>The interface every controller implements\<close>

text \<open>
  The monitor calls a controller through \<open>mbc_iface_t\<close>.  It hands \<open>rd_mem\<close> the addresses
  0x0000-0x7fff and 0xa000-0xbfff and \<open>wr_mem\<close> these and 0xff50.  A controller must
  answer all of them, and cartridge RAM must keep what is written to it.
\<close>

definition rom_addr :: "u16 \<Rightarrow> bool" where "rom_addr a = (a \<le> 0x7fff)"
definition xram_addr :: "u16 \<Rightarrow> bool" where "xram_addr a = (a \<ge> 0xa000 \<and> a \<le> 0xbfff)"

lemmas cart_addr_defs = rom_addr_def xram_addr_def

locale mbc_iface =
  fixes rd_mem :: "u16 \<Rightarrow> 'm \<Rightarrow> u8 option"
    and wr_mem :: "u16 \<Rightarrow> u8 \<Rightarrow> 'm \<Rightarrow> 'm option"
  assumes rd_total: "rom_addr a \<or> xram_addr a \<Longrightarrow> \<exists>v. rd_mem a m = Some v"
    and wr_total: "rom_addr a \<or> xram_addr a \<or> a = 0xff50 \<Longrightarrow> \<exists>m'. wr_mem a v m = Some m'"
    and ram_rd_wr: "xram_addr a \<Longrightarrow> wr_mem a v m = Some m' \<Longrightarrow> rd_mem a m' = Some v"
    and ram_frame: "xram_addr b \<Longrightarrow> wr_mem a v m = Some m' \<Longrightarrow> a \<noteq> b \<Longrightarrow> rd_mem b m' = rd_mem b m"
    and rom_frame: "rom_addr b \<Longrightarrow> xram_addr a \<Longrightarrow> wr_mem a v m = Some m' \<Longrightarrow> rd_mem b m' = rd_mem b m"
begin

text \<open>A run of writes, as the monitor makes them one by one.\<close>

fun wr_all :: "(u16 \<times> u8) list \<Rightarrow> 'm \<Rightarrow> 'm option" where
  "wr_all [] m = Some m"
| "wr_all ((a, v) # ws) m = wr_mem a v m \<bind> wr_all ws"

lemma wr_all_total:
  "\<forall>(a, v) \<in> set ws. rom_addr a \<or> xram_addr a \<or> a = 0xff50 \<Longrightarrow> \<exists>m'. wr_all ws m = Some m'"
proof (induction ws arbitrary: m)
  case (Cons w ws)
  obtain a v where w: "w = (a, v)" by force
  with Cons.prems obtain m1 where "wr_mem a v m = Some m1" using wr_total by fastforce
  moreover obtain m' where "wr_all ws m1 = Some m'" using Cons by force
  ultimately show ?case using w by simp
qed simp

lemma ram_keeps:
  "xram_addr b \<Longrightarrow> wr_all ws m = Some m' \<Longrightarrow> b \<notin> fst ` set ws \<Longrightarrow> rd_mem b m' = rd_mem b m"
proof (induction ws arbitrary: m)
  case (Cons w ws)
  obtain a v where w: "w = (a, v)" by force
  with Cons.prems obtain m1 where m1: "wr_mem a v m = Some m1" "wr_all ws m1 = Some m'"
    by (auto simp: bind_eq_Some)
  then have "rd_mem b m' = rd_mem b m1" using Cons by simp
  with m1 w Cons.prems ram_frame [of b a v m m1] show ?case by auto
qed simp

lemma ram_last_write:
  assumes "xram_addr a" "wr_mem a v m = Some m1" "wr_all ws m1 = Some m'" "a \<notin> fst ` set ws"
  shows "rd_mem a m' = Some v"
  using ram_keeps [OF assms(1,3,4)] ram_rd_wr [OF assms(1,2)] by simp

end

section \<open>MBC1 implements the interface\<close>

lemma addr_bounds:
  "rom_addr a \<Longrightarrow> uint a < 0x8000" "xram_addr a \<Longrightarrow> 0xa000 \<le> uint a" "xram_addr a \<Longrightarrow> uint a < 0xc000"
  by (simp_all add: cart_addr_defs word_le_def)

lemma fread_into_Some:
  "fread_into sz buf base n f = Some (buf', f') \<Longrightarrow>
    i < base \<or> base + n \<le> i \<Longrightarrow> buf' i = buf i"
  by (auto simp: fread_into_def Let_def split: if_splits)

lemma load_rom_total: "base + n \<le> MBC1_ROM_SIZE \<Longrightarrow> \<exists>m'. load_rom off base n m = Some m'"
  by (simp add: load_rom_def fread_into_def Let_def)

lemma load_rom_frame [frame]: "load_rom off base n m = Some m' \<Longrightarrow> mbc1_ram m' = mbc1_ram m"
  by (auto simp: load_rom_def bind_eq_Some split: prod.splits)

lemma mbc1_rd_rom: "rom_addr a \<Longrightarrow> mbc1_rd_mem a m = Some (mbc1_rom m (unat a))"
  using addr_bounds(1) [of a]
  by (auto simp: mbc1_rd_mem_def cart_addr_defs mbc_sizes arr_rd_def word_le_def simp flip: nat_uint_eq)

lemma mbc1_rd_ram: "xram_addr a \<Longrightarrow> mbc1_rd_mem a m = Some (mbc1_ram m (nat (uint a - 0xa000)))"
  using addr_bounds(2,3) [of a] by (simp add: mbc1_rd_mem_def cart_addr_defs mbc_sizes)

lemma mbc1_wr_ram:
  "xram_addr a \<Longrightarrow> mbc1_wr_mem a v m =
    Some (m\<lparr>mbc1_ram := (mbc1_ram m)(nat (uint a - 0xa000) := v)\<rparr>)"
  using addr_bounds(2,3) [of a]
  by (auto simp: mbc1_wr_mem_def cart_addr_defs mbc_sizes word_le_def word_uint_eq_iff)

lemma mbc1_wr_rom:
  "rom_addr a \<Longrightarrow> mbc1_wr_mem a v m =
    (if a \<ge> 0x2000 \<and> a \<le> 0x3fff then load_rom (0x4000 * unat (rom_bank v)) 0x4000 0x4000 m else Some m)"
  using addr_bounds(1) [of a] by (auto simp: mbc1_wr_mem_def word_le_def word_uint_eq_iff)

lemma mbc1_wr_50: "mbc1_wr_mem 0xff50 v m = load_rom 0 0 0x256 m"
  by (simp add: mbc1_wr_mem_def)

lemma mbc1_wr_keeps_ram:
  "rom_addr a \<or> a = 0xff50 \<Longrightarrow> mbc1_wr_mem a v m = Some m' \<Longrightarrow> mbc1_ram m' = mbc1_ram m"
  by (auto simp: mbc1_wr_rom mbc1_wr_50 split: if_splits dest: load_rom_frame)

lemma mbc1_wr_any:
  assumes "mbc1_wr_mem a v m = Some m'"
  shows "mbc1_ram m' = (if a = 0xff50 \<or> a < 0x8000 then mbc1_ram m
    else (mbc1_ram m)(nat (uint a - 0xa000) := v)) \<and> (a = 0xff50 \<or> a < 0x8000 \<or> 0xa000 \<le> uint a)"
proof (cases "a = 0xff50")
  case True
  with assms show ?thesis by (simp add: mbc1_wr_mem_def load_rom_frame)
next
  case False
  show ?thesis
  proof (cases "a \<ge> 0x8000")
    case True
    then have "\<not> a \<le> 0x3fff" by (auto simp: word_le_def)
    with True False assms show ?thesis
      by (auto simp: mbc1_wr_mem_def bind_eq_Some arr_wr_Some not_less)
  next
    case 2: False
    with False assms show ?thesis
      by (simp add: mbc1_wr_mem_def load_rom_frame not_le split: if_splits)
  qed
qed

interpretation mbc1: mbc_iface mbc1_rd_mem mbc1_wr_mem
proof unfold_locales
  fix a b :: u16 and v :: u8 and m m' :: mbc1
  show "rom_addr a \<or> xram_addr a \<Longrightarrow> \<exists>v. mbc1_rd_mem a m = Some v"
    by (auto simp: mbc1_rd_rom mbc1_rd_ram)
  show "rom_addr a \<or> xram_addr a \<or> a = 0xff50 \<Longrightarrow> \<exists>m'. mbc1_wr_mem a v m = Some m'"
    using load_rom_total by (auto simp: mbc1_wr_rom mbc1_wr_ram mbc1_wr_50 mbc_sizes)
  show "xram_addr a \<Longrightarrow> mbc1_wr_mem a v m = Some m' \<Longrightarrow> mbc1_rd_mem a m' = Some v"
    by (auto simp: mbc1_wr_ram mbc1_rd_ram)
  show "mbc1_rd_mem b m' = mbc1_rd_mem b m"
    if "xram_addr b" "mbc1_wr_mem a v m = Some m'" "a \<noteq> b"
    using mbc1_wr_any [OF that(2)] that(1,3) addr_bounds(2) [OF that(1)]
    by (auto simp: mbc1_rd_ram word_uint_eq_iff split: if_splits)
  show "rom_addr b \<Longrightarrow> xram_addr a \<Longrightarrow> mbc1_wr_mem a v m = Some m' \<Longrightarrow>
      mbc1_rd_mem b m' = mbc1_rd_mem b m"
    by (auto simp: mbc1_wr_ram mbc1_rd_rom)
qed

end
