(* ===== verification/Mbc.thy ===== *)
theory Mbc
  imports Mbc1
begin

text \<open>
  The start of the cartridge module (src/emu/mem/mbc.c): \<open>mbc_init\<close> initialises the only
  controller there is and prints what the cartridge header says.  The lines it prints are the
  output here; the title, a C string inside the header, is left out.
\<close>

definition cart_type :: "string list" where
  "cart_type = [
     ''ROM ONLY'',
     ''MBC1'',
     ''MBC1+RAM'',
     ''MBC1+RAM+BATTERY'',
     ''invalid'',
     ''MBC2'',
     ''MBC2+BATTERY'',
     ''invalid'',
     ''ROM+RAM 11'',
     ''ROM+RAM+BATTERY 11'',
     ''invalid'',
     ''MMM01'',
     ''MMM01+RAM'',
     ''MMM01+RAM+BATTERY'',
     ''invalid'',
     ''MBC3+TIMER+BATTERY'',
     ''MBC3+TIMER+RAM+BATTERY 12'',
     ''MBC3'',
     ''MBC3+RAM 12'',
     ''MBC3+RAM+BATTERY 12'',
     ''invalid'',
     ''invalid'',
     ''invalid'',
     ''invalid'',
     ''invalid'',
     ''invalid'',
     ''MBC5'',
     ''MBC5+RAM'',
     ''MBC5+RAM+BATTERY'',
     ''MBC5+RUMBLE'',
     ''MBC5+RUMBLE+RAM'',
     ''MBC5+RUMBLE+RAM+BATTERY'',
     ''invalid'',
     ''MBC6'',
     ''invalid'',
     ''MBC7+SENSOR+RUMBLE+RAM+BATTERY'']"

definition rom_size :: "u8 \<Rightarrow> string" where
  "rom_size b =
    (if b = 0 then ''32KiB''
     else if b = 1 then ''64KiB''
     else if b = 2 then ''128KiB''
     else if b = 3 then ''256KiB''
     else if b = 4 then ''512KiB''
     else if b = 5 then ''1MiB''
     else if b = 6 then ''2MiB''
     else if b = 7 then ''4MiB''
     else if b = 8 then ''8MiB''
     else ''Unknown'')"

definition ram_size :: "u8 \<Rightarrow> string" where
  "ram_size b =
    (if b = 0 then ''No RAM''
     else if b = 2 then ''8KiB''
     else if b = 3 then ''32KiB''
     else if b = 4 then ''128KiB''
     else if b = 5 then ''64KiB''
     else ''Unknown'')"

definition yes_no :: "bool \<Rightarrow> string" where
  "yes_no b = (if b then ''Yes'' else ''No'')"

text \<open>The header bytes of the ROM image and the report; the index into \<open>cart_type\<close> is the
  header byte itself.\<close>

definition header_report :: "u8 arr \<Rightarrow> string list option" where
  "header_report img =
    do { cgb \<leftarrow> arr_rd MBC1_ROM_SIZE img 0x143;
         sgb \<leftarrow> arr_rd MBC1_ROM_SIZE img 0x146;
         cart \<leftarrow> arr_rd MBC1_ROM_SIZE img 0x147;
         cart_line \<leftarrow> arr_rd (length cart_type) (nth cart_type) (uint cart);
         rom_b \<leftarrow> arr_rd MBC1_ROM_SIZE img 0x148;
         ram_b \<leftarrow> arr_rd MBC1_ROM_SIZE img 0x149;
         Some [''CGB Support: '' @ yes_no (cgb AND 0x80 \<noteq> 0),
               ''SGB Support: '' @ yes_no (sgb = 3),
               ''Cart Type: '' @ cart_line,
               ''ROM Size: '' @ rom_size rom_b,
               ''RAM Size: '' @ ram_size ram_b] }"

definition mbc_init :: "stream \<Rightarrow> stream option \<Rightarrow> (string list \<times> mbc1) option" where
  "mbc_init romf boot =
    do { m \<leftarrow> mbc1_init romf boot;
         out \<leftarrow> header_report (mbc1_rom m);
         Some (out, m) }"

section \<open>When the report is defined\<close>

lemma length_cart_type: "length cart_type = 36"
  by (simp add: cart_type_def)

lemma header_report_defined:
  "header_report img \<noteq> None \<longleftrightarrow> uint (img 0x147) < 36"
proof (cases "uint (img 0x147) < 36")
  case True
  then show ?thesis by (simp add: header_report_def mbc_sizes length_cart_type)
next
  case False
  then have "arr_rd 36 (nth cart_type) (uint (img 0x147)) = None" by (simp add: arr_rd_def)
  with False show ?thesis by (simp add: header_report_def mbc_sizes length_cart_type)
qed

end
