(* ===== verification/Throttle.thy ===== *)
theory Throttle
  imports Prelude
begin

text \<open>
  The frame limiter \<open>monitor_throttle_fps\<close> of src/monitor.c, called once per frame.

  Its \<open>static\<close> variables are the record below; only the seconds of \<open>last\<close> are ever read.
  The clock is outside the program: the seconds of \<open>now\<close> are an argument.  The result also
  says how long the function sleeps, in nanoseconds; \<open>None\<close> means that it returns before.
\<close>

record throttle =
  frame_count_last :: u64
  last_sec :: int
  sleep_factor :: int

definition throttle0 :: throttle where
  "throttle0 = \<lparr>frame_count_last = 0, last_sec = 0, sleep_factor = 60\<rparr>"

text \<open>The adjustment made when a second has passed.\<close>

definition adjust_sleep :: "u64 \<Rightarrow> int \<Rightarrow> int" where
  "adjust_sleep fps s = (if fps > 60 then s - 1 else if fps < 60 then s + 1 else s)"

text \<open>The division of the sleeping time by zero is undefined.\<close>

definition monitor_throttle_fps ::
    "int \<Rightarrow> u64 \<Rightarrow> throttle \<Rightarrow> (int option \<times> throttle) option" where
  "monitor_throttle_fps now_sec frames t =
    (if frame_count_last t = 0 then
       Some (None, t\<lparr>frame_count_last := frames, last_sec := now_sec\<rparr>)
     else
       (let t = (if now_sec > last_sec t then
                   (let fps = frames - frame_count_last t
                    in t\<lparr>sleep_factor := adjust_sleep fps (sleep_factor t),
                         frame_count_last := frames, last_sec := now_sec\<rparr>)
                 else t)
        in if sleep_factor t = 0 then None
           else Some (Some (1000000000 div sleep_factor t), t)))"

lemma throttle_total: "sleep_factor t > 1 \<Longrightarrow> \<exists>r. monitor_throttle_fps n f t = Some r"
  by (auto simp: monitor_throttle_fps_def adjust_sleep_def Let_def)

end
