(* ===== verification/Machine.thy ===== *)
theory Machine
  imports Cpu Ppu_State Mbc Throttle
begin

text \<open>
  The whole state of the emulated machine: the globals of the modules side by side.

  \<open>cpu\<close> (src/emu/cpu/cpu.c), \<open>ppu\<close> and \<open>oam_hash\<close> (src/emu/ppu.c), the cartridge
  (src/emu/mem/mbc1.c), \<open>tmp_ioregs\<close>, the key states and the limiter of src/monitor.c, and
  the pixel buffer \<open>dmg_buf\<close> of src/render.c.  \<open>clock\<close> is the sequence of the seconds that
  \<open>clock_gettime\<close> is going to return, and \<open>shown\<close> is the buffer as it was at the last call of
  \<open>render_draw_framebuffer\<close>, which hands it to the compositing library.
\<close>

record joypad =
  start_released :: bool
  select_released :: bool
  a_released :: bool
  b_released :: bool
  up_released :: bool
  down_released :: bool
  left_released :: bool
  right_released :: bool

definition joypad0 :: joypad where
  "joypad0 = \<lparr>start_released = True, select_released = True, a_released = True,
     b_released = True, up_released = True, down_released = True, left_released = True,
     right_released = True\<rparr>"

record gb =
  cpu :: cpu_t
  ppu :: ppu_t
  oam_hash :: oam_hash
  mbc :: mbc1
  tmp_ioregs :: "u8 arr"
  joypad :: joypad
  throttle :: throttle
  clock :: "nat \<Rightarrow> int"
  dmg_buf :: "u32 arr"
  shown :: "u32 arr"

definition IOREGS_SIZE :: nat where "IOREGS_SIZE = 0xffff"

text \<open>The machine when \<open>main\<close> enters \<open>monitor_run\<close>: everything but the cartridge is as the
  loader left it.  (\<open>render_init\<close> allocates \<open>dmg_buf\<close> without clearing it.)\<close>

definition power_on :: "mbc1 \<Rightarrow> (nat \<Rightarrow> int) \<Rightarrow> u32 arr \<Rightarrow> gb" where
  "power_on m clk buf = \<lparr>cpu = cpu0, ppu = ppu0, oam_hash = (\<lambda>_. None), mbc = m,
     tmp_ioregs = (\<lambda>_. 0), joypad = joypad0, throttle = throttle0, clock = clk, dmg_buf = buf,
     shown = (\<lambda>_. 0)\<rparr>"

section \<open>Working on one part\<close>

text \<open>The C code updates a global in place.  These run an operation of one part on the whole
  machine.\<close>

definition on_cpu :: "(cpu_t \<Rightarrow> cpu_t) \<Rightarrow> gb \<Rightarrow> gb" where
  "on_cpu f g = g\<lparr>cpu := f (cpu g)\<rparr>"

definition on_ppu :: "(ppu_t \<Rightarrow> ppu_t) \<Rightarrow> gb \<Rightarrow> gb" where
  "on_ppu f g = g\<lparr>ppu := f (ppu g)\<rparr>"

definition on_regs :: "(registers \<Rightarrow> registers) \<Rightarrow> gb \<Rightarrow> gb" where
  "on_regs f = on_cpu (\<lambda>c. c\<lparr>regs := f (regs c)\<rparr>)"

definition gregs :: "gb \<Rightarrow> registers" where
  "gregs g = regs (cpu g)"

lemma on_cpu_simps [simp]:
  "cpu (on_cpu f g) = f (cpu g)" "ppu (on_cpu f g) = ppu g" "oam_hash (on_cpu f g) = oam_hash g"
  "mbc (on_cpu f g) = mbc g" "tmp_ioregs (on_cpu f g) = tmp_ioregs g"
  "joypad (on_cpu f g) = joypad g" "throttle (on_cpu f g) = throttle g"
  "clock (on_cpu f g) = clock g" "dmg_buf (on_cpu f g) = dmg_buf g" "shown (on_cpu f g) = shown g"
  by (simp_all add: on_cpu_def)

lemma on_ppu_simps [simp]:
  "cpu (on_ppu f g) = cpu g" "ppu (on_ppu f g) = f (ppu g)" "oam_hash (on_ppu f g) = oam_hash g"
  "mbc (on_ppu f g) = mbc g" "tmp_ioregs (on_ppu f g) = tmp_ioregs g"
  "joypad (on_ppu f g) = joypad g" "throttle (on_ppu f g) = throttle g"
  "clock (on_ppu f g) = clock g" "dmg_buf (on_ppu f g) = dmg_buf g" "shown (on_ppu f g) = shown g"
  by (simp_all add: on_ppu_def)

lemma on_regs_simps [simp]:
  "cpu (on_regs f g) = (cpu g)\<lparr>regs := f (regs (cpu g))\<rparr>" "ppu (on_regs f g) = ppu g"
  "oam_hash (on_regs f g) = oam_hash g" "mbc (on_regs f g) = mbc g"
  "tmp_ioregs (on_regs f g) = tmp_ioregs g" "joypad (on_regs f g) = joypad g"
  "throttle (on_regs f g) = throttle g" "clock (on_regs f g) = clock g"
  "dmg_buf (on_regs f g) = dmg_buf g" "shown (on_regs f g) = shown g"
  "gregs (on_regs f g) = f (gregs g)"
  by (simp_all add: on_regs_def gregs_def)

lemma on_regs_comp [simp]: "on_regs f (on_regs h g) = on_regs (\<lambda>r. f (h r)) g"
  by (simp add: on_regs_def on_cpu_def)

lemma on_regs_cong: "f (gregs g) = h (gregs g) \<Longrightarrow> on_regs f g = on_regs h g"
  by (simp add: on_regs_def on_cpu_def gregs_def)

lemma on_regs_id [simp]: "f (gregs g) = gregs g \<Longrightarrow> on_regs f g = g"
  by (simp add: on_regs_def on_cpu_def gregs_def)

section \<open>The invariant\<close>

definition gb_ok :: "gb \<Rightarrow> bool" where
  "gb_ok g = (cpu_ok (cpu g) \<and> hash_ok (oam (ppu g)) (oam_hash g))"

lemma gb_ok_power_on: "gb_ok (power_on m clk buf)"
  by (simp add: gb_ok_def power_on_def cpu_ok_cpu0 hash_ok_init)

text \<open>A machine to evaluate on: an empty cartridge whose ROM file is 128 KiB, each byte telling
  the bank it comes from.\<close>

definition sample_cart :: mbc1 where
  "sample_cart = \<lparr>mbc1_rom = (\<lambda>_. 0), mbc1_ram = (\<lambda>_. 0),
     rom = \<lparr>f_size = 0x20000, f_byte = (\<lambda>i. of_nat (i div 0x4000)), f_pos = 0\<rparr>\<rparr>"

definition sample_gb :: gb where
  "sample_gb = power_on sample_cart (\<lambda>_. 0) (\<lambda>_. 0)"

lemma sample_gb_ok: "gb_ok sample_gb"
  by (simp add: sample_gb_def gb_ok_power_on)

end
