(* ===== verification/Monitor.thy ===== *)
theory Monitor
  imports Machine
begin

text \<open>
  The memory map: \<open>monitor_rd_mem\<close> and \<open>monitor_wr_mem\<close> of src/monitor.c, which send an
  access to the CPU, the PPU, the cartridge or the plain I/O array, together with the write
  side of the PPU (\<open>wr_reg\<close>, \<open>ppu_wr\<close> of src/emu/ppu.c).  The two are mutually
  recursive: a write to 0xff46 copies 160 bytes to the sprite memory through the monitor.
\<close>

section \<open>Reading\<close>

definition joypad_buttons :: "joypad \<Rightarrow> u8" where
  "joypad_buttons j =
    push_bit 3 (of_bool (start_released j)) OR push_bit 2 (of_bool (select_released j)) OR
    push_bit 1 (of_bool (b_released j)) OR of_bool (a_released j)"

definition joypad_directions :: "joypad \<Rightarrow> u8" where
  "joypad_directions j =
    push_bit 3 (of_bool (down_released j)) OR push_bit 2 (of_bool (up_released j)) OR
    push_bit 1 (of_bool (left_released j)) OR of_bool (right_released j)"

definition rd_joypad :: "u8 \<Rightarrow> joypad \<Rightarrow> u8" where
  "rd_joypad sel j =
    (if sel AND 0x30 = 0x30 then 0x3f
     else if sel AND 0x10 \<noteq> 0 then sel OR joypad_buttons j
     else sel OR joypad_directions j)"

definition monitor_rd_mem :: "u16 \<Rightarrow> gb \<Rightarrow> u8 option" where
  "monitor_rd_mem addr g =
    (if (addr \<ge> 0x8000 \<and> addr \<le> 0x9fff) \<or> (addr \<ge> 0xfe00 \<and> addr \<le> 0xfe9f) \<or>
        (addr \<ge> 0xff40 \<and> addr \<le> 0xff4b) then ppu_rd addr (ppu g)
     else if addr \<ge> 0xc000 \<and> addr \<le> 0xdfff then cpu_rd addr (cpu g)
     else if addr \<ge> 0xff80 \<and> addr \<le> 0xfffe then cpu_rd addr (cpu g)
     else if addr \<le> 0xbfff then mbc1_rd_mem addr (mbc g)
     else if addr \<in> {0xffff, 0xff0f, 0xff04, 0xff05, 0xff06, 0xff07, 0xff50} then cpu_rd addr (cpu g)
     else if addr = 0xff00 then
       do { sel \<leftarrow> arr_rd IOREGS_SIZE (tmp_ioregs g) (uint addr); Some (rd_joypad sel (joypad g)) }
     else arr_rd IOREGS_SIZE (tmp_ioregs g) (uint addr))"

section \<open>Writing\<close>

definition gb_cpu_wr :: "u16 \<Rightarrow> u8 \<Rightarrow> gb \<Rightarrow> gb option" where
  "gb_cpu_wr addr value g = do { c \<leftarrow> cpu_wr addr value (cpu g); Some (g\<lparr>cpu := c\<rparr>) }"

definition gb_mbc_wr :: "u16 \<Rightarrow> u8 \<Rightarrow> gb \<Rightarrow> gb option" where
  "gb_mbc_wr addr value g = do { m \<leftarrow> mbc1_wr_mem addr value (mbc g); Some (g\<lparr>mbc := m\<rparr>) }"

definition gb_io_wr :: "u16 \<Rightarrow> u8 \<Rightarrow> gb \<Rightarrow> gb option" where
  "gb_io_wr addr value g =
    do { io \<leftarrow> arr_wr IOREGS_SIZE (tmp_ioregs g) (uint addr) value; Some (g\<lparr>tmp_ioregs := io\<rparr>) }"

text \<open>The write of LCDC, the first case of \<open>wr_reg\<close>.\<close>

definition wr_lcdc :: "u8 \<Rightarrow> ppu_t \<Rightarrow> ppu_t" where
  "wr_lcdc value p =
    (let p = (if lcdc p AND 0x80 \<noteq> value AND 0x80 then
                (let p = ppu_reset p
                 in if value AND 0x80 = 0 then p\<lparr>stat := stat p AND NOT 3\<rparr> else p)
              else p)
     in p\<lparr>lcdc := value\<rparr>)"

text \<open>The write of a byte of sprite memory, the OAM case of \<open>ppu_wr\<close>.\<close>

definition ppu_wr_oam :: "nat \<Rightarrow> u8 \<Rightarrow> gb \<Rightarrow> gb option" where
  "ppu_wr_oam a value g =
    do { old \<leftarrow> arr_rd OAM_SIZE (oam (ppu g)) (int a);
         h \<leftarrow> (if a mod 4 = 0 \<and> drop_bit 4 old \<noteq> drop_bit 4 value
               then oam_rehash a value (oam (ppu g)) (oam_hash g) else Some (oam_hash g));
         m \<leftarrow> arr_wr OAM_SIZE (oam (ppu g)) (int a) value;
         Some (on_ppu (\<lambda>p. p\<lparr>oam := m\<rparr>) (g\<lparr>oam_hash := h\<rparr>)) }"

definition is_dma :: "u16 \<Rightarrow> nat" where
  "is_dma addr = (if addr = 0xff46 then 0x200 else 0)"

lemma dma_target: "i < 0xa0 \<Longrightarrow> (0xfe00 + of_nat i :: u16) \<noteq> 0xff46"
proof
  assume i: "i < 0xa0" and "(0xfe00 + of_nat i :: u16) = 0xff46"
  then have "unat (0xfe00 + of_nat i :: u16) = 0xff46" by simp
  moreover have "(0xfe00 + of_nat i :: u16) = of_nat (0xfe00 + i)" by simp
  ultimately have "(0xfe00 + i) mod 0x10000 = 0xff46" by (simp only: unat_of_nat) simp
  with i show False by simp
qed

text \<open>The four mutually recursive operations; \<open>dma_loop i src\<close> is the \<open>for\<close> loop of the case
  0xff46 of \<open>wr_reg\<close> from \<open>i\<close> on.\<close>

function wr_reg :: "u16 \<Rightarrow> u8 \<Rightarrow> gb \<Rightarrow> gb option"
  and dma_loop :: "nat \<Rightarrow> u16 \<Rightarrow> gb \<Rightarrow> gb option"
  and ppu_wr :: "u16 \<Rightarrow> u8 \<Rightarrow> gb \<Rightarrow> gb option"
  and monitor_wr_mem :: "u16 \<Rightarrow> u8 \<Rightarrow> gb \<Rightarrow> gb option"
where
  "wr_reg addr value g =
    (if addr = 0xff40 then Some (on_ppu (wr_lcdc value) g)
     else if addr = 0xff41 then Some (on_ppu (\<lambda>p. p\<lparr>stat := value\<rparr>) g)
     else if addr = 0xff42 then Some (on_ppu (\<lambda>p. p\<lparr>scy := value\<rparr>) g)
     else if addr = 0xff43 then Some (on_ppu (\<lambda>p. p\<lparr>scx := value\<rparr>) g)
     else if addr = 0xff44 then Some (on_ppu (\<lambda>p. p\<lparr>ly := value\<rparr>) g)
     else if addr = 0xff45 then Some (on_ppu (\<lambda>p. p\<lparr>lyc := value\<rparr>) g)
     else if addr = 0xff46 then dma_loop 0 (push_bit 8 (ucast value)) g
     else if addr = 0xff47 then Some (on_ppu (\<lambda>p. p\<lparr>bgp := value\<rparr>) g)
     else if addr = 0xff48 then Some (on_ppu (\<lambda>p. p\<lparr>obp0 := value\<rparr>) g)
     else if addr = 0xff49 then Some (on_ppu (\<lambda>p. p\<lparr>obp1 := value\<rparr>) g)
     else if addr = 0xff4a then Some (on_ppu (\<lambda>p. p\<lparr>wy := value\<rparr>) g)
     else if addr = 0xff4b then Some (on_ppu (\<lambda>p. p\<lparr>wx := value\<rparr>) g)
     else Some g)"
| "dma_loop i src g =
    (if i < 0xa0 then
       do { v \<leftarrow> monitor_rd_mem (src + of_nat i) g;
            g \<leftarrow> monitor_wr_mem (0xfe00 + of_nat i) v g;
            dma_loop (i + 1) src g }
     else Some g)"
| "ppu_wr addr value g =
    (if addr \<ge> 0xff40 then wr_reg addr value g
     else if addr \<ge> 0x8000 \<and> addr \<le> 0x97ff then
       do { m \<leftarrow> arr_wr TILE_DATA_SIZE (tile_data (ppu g)) (uint addr - 0x8000) value;
            Some (on_ppu (\<lambda>p. p\<lparr>tile_data := m\<rparr>) g) }
     else if addr \<ge> 0x9800 \<and> addr \<le> 0x9bff then
       do { m \<leftarrow> arr_wr TILE_MAP_SIZE (tile_map1 (ppu g)) (uint addr - 0x9800) value;
            Some (on_ppu (\<lambda>p. p\<lparr>tile_map1 := m\<rparr>) g) }
     else if addr \<ge> 0x9c00 \<and> addr \<le> 0x9fff then
       do { m \<leftarrow> arr_wr TILE_MAP_SIZE (tile_map2 (ppu g)) (uint addr - 0x9c00) value;
            Some (on_ppu (\<lambda>p. p\<lparr>tile_map2 := m\<rparr>) g) }
     else if addr \<ge> 0xfe00 \<and> addr \<le> 0xfe9f then ppu_wr_oam (nat (uint addr - 0xfe00)) value g
     else Some g)"
| "monitor_wr_mem addr value g =
    (if addr \<in> {0xffff, 0xff0f, 0xff04, 0xff05, 0xff06, 0xff07} then gb_cpu_wr addr value g
     else if addr = 0xff50 then do { g \<leftarrow> gb_cpu_wr addr value g; gb_mbc_wr addr value g }
     else if (addr \<ge> 0x8000 \<and> addr \<le> 0x9fff) \<or> (addr \<ge> 0xfe00 \<and> addr \<le> 0xfe9f) \<or>
        (addr \<ge> 0xff40 \<and> addr \<le> 0xff4b) then ppu_wr addr value g
     else if addr \<ge> 0xc000 \<and> addr \<le> 0xdfff then gb_cpu_wr addr value g
     else if addr \<ge> 0xff80 \<and> addr \<le> 0xfffe then gb_cpu_wr addr value g
     else if addr \<le> 0xbfff then gb_mbc_wr addr value g
     else if addr = 0xff00 then gb_io_wr addr (value AND 0x30) g
     else gb_io_wr addr value g)"
  by pat_completeness auto

termination
  by (relation "measure (\<lambda>x. case x of
        Inl (Inl (addr, value, g)) \<Rightarrow> is_dma addr + 1
      | Inl (Inr (i, src, g)) \<Rightarrow> (0xa0 - i) + 4
      | Inr (Inl (addr, value, g)) \<Rightarrow> is_dma addr + 2
      | Inr (Inr (addr, value, g)) \<Rightarrow> is_dma addr + 3)")
    (auto simp: is_dma_def dma_target)

declare wr_reg.simps [simp del] dma_loop.simps [simp del] ppu_wr.simps [simp del]
  monitor_wr_mem.simps [simp del]

end
