(* ===== verification/Cpu_Ops.thy ===== *)
theory Cpu_Ops
  imports Alu Monitor
begin

text \<open>
  The instructions: the functions \<open>op_...\<close> of src/emu/cpu/cpu_ops.c.  A function that the
  source generates from a macro for every register is one definition with the register as
  its argument.  Each runs on the whole machine, since memory operands go through the
  monitor, and returns the number of machine cycles with the new machine.
\<close>

type_synonym op = "gb \<Rightarrow> (int \<times> gb) option"

abbreviation R8 :: "reg8 \<Rightarrow> gb \<Rightarrow> u8" where "R8 q g \<equiv> get8 q (gregs g)"
abbreviation R16 :: "reg16 \<Rightarrow> gb \<Rightarrow> u16" where "R16 q g \<equiv> get16 q (gregs g)"

section \<open>Access macros\<close>

definition RD_WORD :: "u16 \<Rightarrow> gb \<Rightarrow> u16 option" where
  "RD_WORD addr g =
    do { lo \<leftarrow> monitor_rd_mem addr g;
         hi \<leftarrow> monitor_rd_mem (addr + 1) g;
         Some (mk16 hi lo) }"

text \<open>The arguments of the macro are expressions, evaluated anew for each of its two writes.\<close>

definition WR_WORD :: "(gb \<Rightarrow> u16 option) \<Rightarrow> (gb \<Rightarrow> u16) \<Rightarrow> gb \<Rightarrow> gb option" where
  "WR_WORD addr value g =
    do { a \<leftarrow> addr g;
         g \<leftarrow> monitor_wr_mem a (lo8 (value g)) g;
         a \<leftarrow> addr g;
         monitor_wr_mem (a + 1) (hi8 (value g)) g }"

definition ADVANCE_PC :: "u16 \<Rightarrow> gb \<Rightarrow> gb" where
  "ADVANCE_PC x = on_regs (\<lambda>r. r\<lparr>r_pc := r_pc r + x\<rparr>)"

definition DO_LD_REG :: "reg8 \<Rightarrow> u8 \<Rightarrow> gb \<Rightarrow> gb" where
  "DO_LD_REG dst src = on_regs (set8 dst src)"

definition DO_LD_REG16 :: "reg16 \<Rightarrow> u16 \<Rightarrow> gb \<Rightarrow> gb" where
  "DO_LD_REG16 dst src = on_regs (set16 dst src)"

section \<open>Loads\<close>

definition op_nop :: op where
  "op_nop g = Some (1, g)"

definition OP_LD_REG_REG :: "reg8 \<Rightarrow> reg8 \<Rightarrow> op" where
  "OP_LD_REG_REG dst src g = Some (1, DO_LD_REG dst (R8 src g) g)"

definition op_ld_b_ind_hl :: op where
  "op_ld_b_ind_hl g =
    do { load \<leftarrow> monitor_rd_mem (R16 REG_HL g) g;
         Some (2, DO_LD_REG REG_B load g) }"

definition OP_LD_REG16_MEM :: "reg16 \<Rightarrow> op" where
  "OP_LD_REG16_MEM reg g =
    do { load \<leftarrow> RD_WORD (R16 REG_PC g) g;
         Some (3, ADVANCE_PC 2 (DO_LD_REG16 reg load g)) }"

definition OP_LD_MEM_REG :: "reg16 \<Rightarrow> reg8 \<Rightarrow> op" where
  "OP_LD_MEM_REG addr reg g =
    do { g \<leftarrow> monitor_wr_mem (R16 addr g) (R8 reg g) g;
         Some (2, g) }"

definition OP_LD_REG_MEM :: "reg8 \<Rightarrow> op" where
  "OP_LD_REG_MEM reg g =
    do { load \<leftarrow> monitor_rd_mem (R16 REG_PC g) g;
         Some (2, ADVANCE_PC 1 (DO_LD_REG reg load g)) }"

definition OP_LD_A_IND_REG :: "reg16 \<Rightarrow> op" where
  "OP_LD_A_IND_REG reg g =
    do { load \<leftarrow> monitor_rd_mem (R16 reg g) g;
         Some (2, DO_LD_REG REG_A load g) }"

definition op_ld_a_ind_a16 :: op where
  "op_ld_a_ind_a16 g =
    do { addr \<leftarrow> RD_WORD (R16 REG_PC g) g;
         v \<leftarrow> monitor_rd_mem addr g;
         Some (4, ADVANCE_PC 2 (DO_LD_REG REG_A v g)) }"

definition op_ld_sp_hl :: op where
  "op_ld_sp_hl g = Some (1, DO_LD_REG16 REG_SP (R16 REG_HL g) g)"

definition op_ldi_ind_hl_a :: op where
  "op_ldi_ind_hl_a g =
    do { g \<leftarrow> monitor_wr_mem (R16 REG_HL g) (R8 REG_A g) g;
         Some (2, on_regs (\<lambda>r. set16 REG_HL (get16 REG_HL r + 1) r) g) }"

definition op_ldi_a_ind_hl :: op where
  "op_ldi_a_ind_hl g =
    do { v \<leftarrow> monitor_rd_mem (R16 REG_HL g) g;
         Some (2, on_regs (\<lambda>r. set16 REG_HL (get16 REG_HL r + 1) r) (DO_LD_REG REG_A v g)) }"

definition op_ldd_ind_hl_a :: op where
  "op_ldd_ind_hl_a g =
    do { g \<leftarrow> monitor_wr_mem (R16 REG_HL g) (R8 REG_A g) g;
         Some (2, on_regs (\<lambda>r. set16 REG_HL (get16 REG_HL r - 1) r) g) }"

definition op_ldd_a_ind_hl :: op where
  "op_ldd_a_ind_hl g =
    do { v \<leftarrow> monitor_rd_mem (R16 REG_HL g) g;
         Some (2, on_regs (\<lambda>r. set16 REG_HL (get16 REG_HL r - 1) r) (DO_LD_REG REG_A v g)) }"

text \<open>\<open>op_ld_c_ind_hl\<close> and its fellows for D, E, H and L return 1, unlike \<open>op_ld_b_ind_hl\<close>.\<close>

definition op_ld_r_ind_hl :: "reg8 \<Rightarrow> op" where
  "op_ld_r_ind_hl reg g =
    do { load \<leftarrow> monitor_rd_mem (R16 REG_HL g) g;
         Some (1, DO_LD_REG reg load g) }"

definition op_ld_ind_a16_sp :: op where
  "op_ld_ind_a16_sp g =
    do { g \<leftarrow> WR_WORD (\<lambda>g. RD_WORD (R16 REG_PC g) g) (R16 REG_SP) g;
         Some (5, ADVANCE_PC 2 g) }"

definition op_ld_ind_hl_n8 :: op where
  "op_ld_ind_hl_n8 g =
    do { load \<leftarrow> monitor_rd_mem (R16 REG_PC g) g;
         g \<leftarrow> monitor_wr_mem (R16 REG_HL g) load g;
         Some (3, ADVANCE_PC 1 g) }"

definition op_ld_ind_a16_a :: op where
  "op_ld_ind_a16_a g =
    do { addr \<leftarrow> RD_WORD (R16 REG_PC g) g;
         g \<leftarrow> monitor_wr_mem addr (R8 REG_A g) g;
         Some (4, ADVANCE_PC 2 g) }"

definition op_ld_hl_sp_e8 :: op where
  "op_ld_hl_sp_e8 g =
    do { load \<leftarrow> monitor_rd_mem (R16 REG_PC g) g;
         Some (3, ADVANCE_PC 1 (on_regs (ld_hl_sp_e8 (s8 load)) g)) }"

definition op_ldh_ind_a8_a :: op where
  "op_ldh_ind_a8_a g =
    do { b \<leftarrow> monitor_rd_mem (R16 REG_PC g) g;
         g \<leftarrow> monitor_wr_mem (ucast b OR 0xff00) (R8 REG_A g) g;
         Some (2, ADVANCE_PC 1 g) }"

definition op_ldh_ind_c_a :: op where
  "op_ldh_ind_c_a g =
    do { g \<leftarrow> monitor_wr_mem (0xff00 + ucast (R8 REG_C g)) (R8 REG_A g) g;
         Some (2, g) }"

definition op_ldh_a_ind_a8 :: op where
  "op_ldh_a_ind_a8 g =
    do { b \<leftarrow> monitor_rd_mem (R16 REG_PC g) g;
         v \<leftarrow> monitor_rd_mem (0xff00 + ucast b) g;
         Some (3, ADVANCE_PC 1 (DO_LD_REG REG_A v g)) }"

definition op_ldh_a_ind_c :: op where
  "op_ldh_a_ind_c g =
    do { v \<leftarrow> monitor_rd_mem (0xff00 + ucast (R8 REG_C g)) g;
         Some (2, DO_LD_REG REG_A v g) }"

section \<open>Increment and decrement\<close>

definition op_inc_r :: "reg8 \<Rightarrow> op" where
  "op_inc_r reg g = Some (1, on_regs (OP_INC_REG reg) g)"

definition op_inc_rr :: "reg16 \<Rightarrow> op" where
  "op_inc_rr reg g = Some (2, on_regs (\<lambda>r. set16 reg (get16 reg r + 1) r) g)"

definition op_inc_ind_hl :: op where
  "op_inc_ind_hl g =
    do { load \<leftarrow> monitor_rd_mem (R16 REG_HL g) g;
         g \<leftarrow> Some (on_regs (UNSET_FLAG (FLAG_ZERO OR FLAG_HCARRY OR FLAG_SUB)) g);
         g \<leftarrow> Some (on_regs (SET_FLAG (BOOL_TO_HALF_CARRY_FLAG
                ((uint load XOR 1 XOR (uint load + 1)) AND 0x10 \<noteq> 0))) g);
         load \<leftarrow> Some (load + 1);
         g \<leftarrow> monitor_wr_mem (R16 REG_HL g) load g;
         Some (3, on_regs (SET_FLAG (BOOL_TO_ZERO_FLAG (load = 0))) g) }"

definition op_dec_r :: "reg8 \<Rightarrow> op" where
  "op_dec_r reg g = Some (1, on_regs (OP_DEC_REG reg) g)"

definition op_dec_rr :: "reg16 \<Rightarrow> op" where
  "op_dec_rr reg g = Some (2, on_regs (\<lambda>r. set16 reg (get16 reg r - 1) r) g)"

definition op_dec_ind_hl :: op where
  "op_dec_ind_hl g =
    do { load \<leftarrow> monitor_rd_mem (R16 REG_HL g) g;
         g \<leftarrow> Some (on_regs (UNSET_FLAG (FLAG_ZERO OR FLAG_HCARRY)) g);
         g \<leftarrow> Some (on_regs (SET_FLAG (BOOL_TO_HALF_CARRY_FLAG
                ((uint load XOR 1 XOR (uint load - 1)) AND 0x10 \<noteq> 0))) g);
         g \<leftarrow> Some (on_regs (SET_FLAG FLAG_SUB) g);
         load \<leftarrow> Some (load - 1);
         g \<leftarrow> monitor_wr_mem (R16 REG_HL g) load g;
         Some (3, on_regs (SET_FLAG (BOOL_TO_ZERO_FLAG (load = 0))) g) }"

section \<open>Arithmetic\<close>

definition OP_ADD_REG :: "reg8 \<Rightarrow> op" where
  "OP_ADD_REG reg g = Some (1, on_regs (DO_ADD (uint (R8 reg g)) 0) g)"

definition OP_ADD_REG16 :: "reg16 \<Rightarrow> op" where
  "OP_ADD_REG16 reg g = Some (2, on_regs (DO_ADD16 reg) g)"

definition op_add_a_ind_hl :: op where
  "op_add_a_ind_hl g =
    do { load \<leftarrow> monitor_rd_mem (R16 REG_HL g) g;
         Some (2, on_regs (DO_ADD (s8 load) 0) g) }"

definition op_add_a_n8 :: op where
  "op_add_a_n8 g =
    do { load \<leftarrow> monitor_rd_mem (R16 REG_PC g) g;
         Some (2, on_regs (DO_ADD (s8 load) 0) (ADVANCE_PC 1 g)) }"

definition op_add_sp_e8 :: op where
  "op_add_sp_e8 g =
    do { load \<leftarrow> monitor_rd_mem (R16 REG_PC g) g;
         Some (4, ADVANCE_PC 1 (on_regs (add_sp_e8 (s8 load)) g)) }"

definition OP_ADC_REG :: "reg8 \<Rightarrow> op" where
  "OP_ADC_REG reg g = Some (1, on_regs (DO_ADC (uint (R8 reg g))) g)"

definition op_adc_a_ind_hl :: op where
  "op_adc_a_ind_hl g =
    do { word \<leftarrow> monitor_rd_mem (R16 REG_HL g) g;
         Some (2, on_regs (adc_word word) g) }"

definition op_adc_a_n8 :: op where
  "op_adc_a_n8 g =
    do { word \<leftarrow> monitor_rd_mem (R16 REG_PC g) g;
         Some (2, ADVANCE_PC 1 (on_regs (adc_word word) g)) }"

text \<open>\<open>DO_SUB\<close> ends with \<open>return 1\<close>, so the \<open>return 2\<close> of the functions with a memory
  operand is never reached.\<close>

definition OP_SUB_REG :: "reg8 \<Rightarrow> op" where
  "OP_SUB_REG reg g = Some (1, on_regs (DO_SUB (uint (R8 reg g)) 0) g)"

definition op_sub_a_ind_hl :: op where
  "op_sub_a_ind_hl g =
    do { load \<leftarrow> monitor_rd_mem (R16 REG_HL g) g;
         Some (1, on_regs (DO_SUB (s8 load) 0) g) }"

definition op_sub_a_n8 :: op where
  "op_sub_a_n8 g =
    do { load \<leftarrow> monitor_rd_mem (R16 REG_PC g) g;
         Some (1, on_regs (DO_SUB (s8 load) 0) (ADVANCE_PC 1 g)) }"

definition OP_SBC_REG :: "reg8 \<Rightarrow> op" where
  "OP_SBC_REG reg g = Some (1, on_regs (DO_SBC (uint (R8 reg g))) g)"

definition op_sbc_a_ind_hl :: op where
  "op_sbc_a_ind_hl g =
    do { word \<leftarrow> monitor_rd_mem (R16 REG_HL g) g;
         Some (2, on_regs (sbc_word word) g) }"

definition op_sbc_a_n8 :: op where
  "op_sbc_a_n8 g =
    do { word \<leftarrow> monitor_rd_mem (R16 REG_PC g) g;
         Some (2, ADVANCE_PC 1 (on_regs (sbc_word word) g)) }"

section \<open>Rotates, shifts and bits\<close>

text \<open>A macro that assigns its operand, used on a register.\<close>

definition on_reg8 :: "(u8 \<Rightarrow> registers \<Rightarrow> u8 \<times> registers) \<Rightarrow> reg8 \<Rightarrow> registers \<Rightarrow> registers" where
  "on_reg8 f reg r = (let (v, r) = f (get8 reg r) r in set8 reg v r)"

text \<open>The same macro on a local copy of the byte at HL, which is then written back.\<close>

definition on_ind_hl :: "(u8 \<Rightarrow> registers \<Rightarrow> u8 \<times> registers) \<Rightarrow> op" where
  "on_ind_hl f g =
    do { load \<leftarrow> monitor_rd_mem (R16 REG_HL g) g;
         (load, r) \<leftarrow> Some (f load (gregs g));
         g \<leftarrow> Some (on_regs (\<lambda>_. r) g);
         g \<leftarrow> monitor_wr_mem (R16 REG_HL g) load g;
         Some (4, g) }"

definition OP_RLC_REG :: "reg8 \<Rightarrow> op" where
  "OP_RLC_REG reg g = Some (2, on_regs (on_reg8 DO_RLC reg) g)"
definition op_rlc_ind_hl :: op where "op_rlc_ind_hl = on_ind_hl DO_RLC"
definition op_rlca :: op where
  "op_rlca g = Some (1, on_regs (UNSET_FLAG FLAG_ZERO) (on_regs (on_reg8 DO_RLC REG_A) g))"

definition op_stop_n8 :: op where
  "op_stop_n8 g = Some (2, ADVANCE_PC 1 g)"

definition OP_RL_REG :: "reg8 \<Rightarrow> op" where
  "OP_RL_REG reg g = Some (2, on_regs (on_reg8 DO_RL reg) g)"
definition op_rl_ind_hl :: op where "op_rl_ind_hl = on_ind_hl DO_RL"
definition op_rla :: op where
  "op_rla g = Some (1, on_regs (UNSET_FLAG FLAG_ZERO) (on_regs (on_reg8 DO_RL REG_A) g))"

definition OP_RRC_REG :: "reg8 \<Rightarrow> op" where
  "OP_RRC_REG reg g = Some (2, on_regs (on_reg8 DO_RRC reg) g)"
definition op_rrc_ind_hl :: op where "op_rrc_ind_hl = on_ind_hl DO_RRC"
definition op_rrca :: op where
  "op_rrca g = Some (1, on_regs (UNSET_FLAG FLAG_ZERO) (on_regs (on_reg8 DO_RRC REG_A) g))"

definition OP_RR_REG :: "reg8 \<Rightarrow> op" where
  "OP_RR_REG reg g = Some (2, on_regs (on_reg8 DO_RR reg) g)"
definition op_rr_ind_hl :: op where "op_rr_ind_hl = on_ind_hl DO_RR"
definition op_rra :: op where
  "op_rra g = Some (1, on_regs (UNSET_FLAG FLAG_ZERO) (on_regs (on_reg8 DO_RR REG_A) g))"

definition OP_SLA_REG :: "reg8 \<Rightarrow> op" where
  "OP_SLA_REG reg g = Some (2, on_regs (on_reg8 DO_SLA reg) g)"
definition op_sla_ind_hl :: op where "op_sla_ind_hl = on_ind_hl DO_SLA"

definition OP_SRA_REG :: "reg8 \<Rightarrow> op" where
  "OP_SRA_REG reg g = Some (2, on_regs (on_reg8 DO_SRA reg) g)"
definition op_sra_ind_hl :: op where "op_sra_ind_hl = on_ind_hl DO_SRA"

definition OP_SRL_REG :: "reg8 \<Rightarrow> op" where
  "OP_SRL_REG reg g = Some (2, on_regs (on_reg8 DO_SRL reg) g)"
definition op_srl_ind_hl :: op where "op_srl_ind_hl = on_ind_hl DO_SRL"

definition OP_SWP_REG :: "reg8 \<Rightarrow> op" where
  "OP_SWP_REG reg g = Some (2, on_regs (on_reg8 DO_SWP reg) g)"
definition op_swp_ind_hl :: op where "op_swp_ind_hl = on_ind_hl DO_SWP"

definition OP_BIT_REG :: "nat \<Rightarrow> reg8 \<Rightarrow> op" where
  "OP_BIT_REG n reg g = Some (2, on_regs (DO_BIT (BITn n) (R8 reg g)) g)"

definition op_bit_ind_hl :: "nat \<Rightarrow> op" where
  "op_bit_ind_hl n g =
    do { load \<leftarrow> monitor_rd_mem (R16 REG_HL g) g;
         Some (3, on_regs (DO_BIT (BITn n) load) g) }"

definition OP_RST_REG :: "nat \<Rightarrow> reg8 \<Rightarrow> op" where
  "OP_RST_REG n reg g = Some (2, on_regs (on_reg8 (\<lambda>v r. (DO_RST (BITn n) v, r)) reg) g)"
definition op_rst_ind_hl :: "nat \<Rightarrow> op" where
  "op_rst_ind_hl n = on_ind_hl (\<lambda>v r. (DO_RST (BITn n) v, r))"

definition OP_SET_REG :: "nat \<Rightarrow> reg8 \<Rightarrow> op" where
  "OP_SET_REG n reg g = Some (2, on_regs (on_reg8 (\<lambda>v r. (DO_SET (BITn n) v, r)) reg) g)"
definition op_set_ind_hl :: "nat \<Rightarrow> op" where
  "op_set_ind_hl n = on_ind_hl (\<lambda>v r. (DO_SET (BITn n) v, r))"

end
