(* ===== verification/Cpu_Control.thy ===== *)
theory Cpu_Control
  imports Cpu_Ops
begin

text \<open>
  The rest of the instructions of src/emu/cpu/cpu_ops.c: logic and comparison, jumps, calls
  and returns, the stack, and the instructions without an operand.
\<close>

section \<open>Logic and comparison\<close>

definition OP_AND_REG :: "reg8 \<Rightarrow> op" where
  "OP_AND_REG reg g = Some (1, on_regs (DO_AND (R8 reg g)) g)"

definition op_and_a_ind_hl :: op where
  "op_and_a_ind_hl g =
    do { load \<leftarrow> monitor_rd_mem (R16 REG_HL g) g;
         Some (2, on_regs (DO_AND load) g) }"

definition op_and_a_n8 :: op where
  "op_and_a_n8 g =
    do { load \<leftarrow> monitor_rd_mem (R16 REG_PC g) g;
         Some (2, on_regs (DO_AND load) (ADVANCE_PC 1 g)) }"

definition OP_XOR_REG :: "reg8 \<Rightarrow> op" where
  "OP_XOR_REG reg g = Some (1, on_regs (DO_XOR (R8 reg g)) g)"

definition op_xor_a_ind_hl :: op where
  "op_xor_a_ind_hl g =
    do { load \<leftarrow> monitor_rd_mem (R16 REG_HL g) g;
         Some (2, on_regs (DO_XOR load) g) }"

definition op_xor_a_n8 :: op where
  "op_xor_a_n8 g =
    do { load \<leftarrow> monitor_rd_mem (R16 REG_PC g) g;
         Some (2, on_regs (DO_XOR load) (ADVANCE_PC 1 g)) }"

definition OP_OR_REG :: "reg8 \<Rightarrow> op" where
  "OP_OR_REG reg g = Some (1, on_regs (DO_OR (R8 reg g)) g)"

definition op_or_a_ind_hl :: op where
  "op_or_a_ind_hl g =
    do { load \<leftarrow> monitor_rd_mem (R16 REG_HL g) g;
         Some (2, on_regs (DO_OR load) g) }"

definition op_or_a_n8 :: op where
  "op_or_a_n8 g =
    do { load \<leftarrow> monitor_rd_mem (R16 REG_PC g) g;
         Some (2, on_regs (DO_OR load) (ADVANCE_PC 1 g)) }"

definition OP_CP_REG :: "reg8 \<Rightarrow> op" where
  "OP_CP_REG reg g = Some (1, on_regs (DO_CP (uint (R8 reg g))) g)"

definition op_cp_a_ind_hl :: op where
  "op_cp_a_ind_hl g =
    do { load \<leftarrow> monitor_rd_mem (R16 REG_HL g) g;
         Some (2, on_regs (DO_CP (uint load)) g) }"

definition op_cp_a_n8 :: op where
  "op_cp_a_n8 g =
    do { load \<leftarrow> monitor_rd_mem (R16 REG_PC g) g;
         Some (2, on_regs (DO_CP (uint load)) (ADVANCE_PC 1 g)) }"

section \<open>Jumps\<close>

text \<open>The four conditions that the conditional instructions pass to their macros.\<close>

datatype cond = COND_NZ | COND_Z | COND_NC | COND_C

fun holds :: "cond \<Rightarrow> registers \<Rightarrow> bool" where
  "holds COND_NZ r = (\<not> zf r)"
| "holds COND_Z r = zf r"
| "holds COND_NC r = (\<not> cf r)"
| "holds COND_C r = cf r"

definition DO_JMP :: "u16 \<Rightarrow> op" where
  "DO_JMP addr g = Some (4, DO_LD_REG16 REG_PC addr g)"

definition op_jmp_a16 :: op where
  "op_jmp_a16 g =
    do { addr \<leftarrow> RD_WORD (R16 REG_PC g) g;
         DO_JMP addr g }"

definition OP_JMP_COND :: "cond \<Rightarrow> op" where
  "OP_JMP_COND c g =
    (if holds c (gregs g) then
       do { addr \<leftarrow> RD_WORD (R16 REG_PC g) g;
            DO_JMP addr g }
     else Some (3, ADVANCE_PC 2 g))"

definition op_jmp_hl :: op where
  "op_jmp_hl g = Some (1, DO_LD_REG16 REG_PC (R16 REG_HL g) g)"

text \<open>\<open>REG_PC += off\<close> adds an \<open>int8_t\<close> to a \<open>uint16_t\<close>.\<close>

definition DO_JR :: "int \<Rightarrow> op" where
  "DO_JR off g =
    Some (3, on_regs (\<lambda>r. r\<lparr>r_pc := word_of_int (uint (r_pc r) + off)\<rparr>) (ADVANCE_PC 1 g))"

definition op_jr_e8 :: op where
  "op_jr_e8 g =
    do { off \<leftarrow> monitor_rd_mem (R16 REG_PC g) g;
         DO_JR (s8 off) g }"

definition OP_JR_COND :: "cond \<Rightarrow> op" where
  "OP_JR_COND c g =
    (if holds c (gregs g) then
       do { off \<leftarrow> monitor_rd_mem (R16 REG_PC g) g;
            DO_JR (s8 off) g }
     else Some (2, ADVANCE_PC 1 g))"

section \<open>Calls, returns and the stack\<close>

definition SP_add :: "u16 \<Rightarrow> gb \<Rightarrow> gb" where
  "SP_add x = on_regs (\<lambda>r. r\<lparr>r_sp := r_sp r + x\<rparr>)"

definition SP_sub :: "u16 \<Rightarrow> gb \<Rightarrow> gb" where
  "SP_sub x = on_regs (\<lambda>r. r\<lparr>r_sp := r_sp r - x\<rparr>)"

text \<open>\<open>WR_WORD(REG_SP, reg)\<close> with a register as the value.\<close>

definition WR_STACK :: "reg16 \<Rightarrow> gb \<Rightarrow> gb option" where
  "WR_STACK reg = WR_WORD (\<lambda>g. Some (R16 REG_SP g)) (R16 reg)"

definition DO_CALL :: op where
  "DO_CALL g =
    do { addr \<leftarrow> RD_WORD (R16 REG_PC g) g;
         g \<leftarrow> Some (ADVANCE_PC 2 g);
         g \<leftarrow> Some (SP_sub 2 g);
         g \<leftarrow> WR_STACK REG_PC g;
         Some (6, DO_LD_REG16 REG_PC addr g) }"

definition op_call_a16 :: op where
  "op_call_a16 = DO_CALL"

definition OP_CALL_COND :: "cond \<Rightarrow> op" where
  "OP_CALL_COND c g = (if holds c (gregs g) then DO_CALL g else Some (3, ADVANCE_PC 2 g))"

definition DO_RET :: "gb \<Rightarrow> gb option" where
  "DO_RET g =
    do { addr \<leftarrow> RD_WORD (R16 REG_SP g) g;
         Some (SP_add 2 (DO_LD_REG16 REG_PC addr g)) }"

definition op_ret :: op where
  "op_ret g = do { g \<leftarrow> DO_RET g; Some (4, g) }"

definition OP_RET_COND :: "cond \<Rightarrow> op" where
  "OP_RET_COND c g =
    (if holds c (gregs g) then do { g \<leftarrow> DO_RET g; Some (5, g) } else Some (2, g))"

definition op_reti :: op where
  "op_reti g = do { g \<leftarrow> DO_RET g; Some (4, on_cpu cpu_enable_intr g) }"

definition OP_POP_REG :: "reg16 \<Rightarrow> op" where
  "OP_POP_REG reg g =
    do { v \<leftarrow> RD_WORD (R16 REG_SP g) g;
         Some (3, SP_add 2 (DO_LD_REG16 reg v g)) }"

definition op_pop_af :: op where
  "op_pop_af g =
    do { v \<leftarrow> RD_WORD (R16 REG_SP g) g;
         g \<leftarrow> Some (SP_add 2 (DO_LD_REG16 REG_AF v g));
         Some (3, on_regs (\<lambda>r. r\<lparr>r_f := r_f r AND 0xf0\<rparr>) g) }"

definition OP_PUSH_REG :: "reg16 \<Rightarrow> op" where
  "OP_PUSH_REG reg g =
    do { g \<leftarrow> WR_STACK reg (SP_sub 2 g);
         Some (3, g) }"

definition OP_RESTART :: "u16 \<Rightarrow> op" where
  "OP_RESTART addr g =
    do { g \<leftarrow> WR_STACK REG_PC (SP_sub 2 g);
         Some (4, DO_LD_REG16 REG_PC addr g) }"

section \<open>Instructions without an operand\<close>

definition op_daa_1 :: op where "op_daa_1 g = Some (1, on_regs op_daa g)"
definition op_cpl_1 :: op where "op_cpl_1 g = Some (1, on_regs op_cpl g)"
definition op_scf_1 :: op where "op_scf_1 g = Some (1, on_regs op_scf g)"
definition op_ccf_1 :: op where "op_ccf_1 g = Some (1, on_regs op_ccf g)"

definition op_halt :: op where "op_halt g = Some (1, on_cpu cpu_halt g)"
definition op_prefix :: op where "op_prefix g = Some (1, g)"
definition op_inval :: op where "op_inval g = Some (1, g)"
definition op_dis_ints :: op where "op_dis_ints g = Some (1, on_cpu cpu_disable_intr g)"
definition op_ena_ints :: op where "op_ena_ints g = Some (1, on_cpu cpu_enable_intr g)"

end
