(* ===== verification/Cpu_Table.thy ===== *)
theory Cpu_Table
  imports Cpu_Control
begin

text \<open>
  The dispatch table of src/emu/cpu/cpu_ops.c.  A pointer to a function \<open>op_...\<close> is a value
  of the datatype \<open>instr\<close>, one constructor per function or per family of functions, and
  \<open>run\<close> is the call through the pointer.  \<open>table_ops\<close> and \<open>op_len\<close> are the two tables of the
  source, entry by entry.
\<close>

section \<open>Instructions\<close>

datatype alu = ALU_ADD | ALU_ADC | ALU_SUB | ALU_SBC | ALU_AND | ALU_XOR | ALU_OR | ALU_CP

datatype rot = RLC | RRC | RL | RR | SLA | SRA | SWP | SRL

datatype (plugins only: code) instr =
    I_nop
  | I_ld reg8 reg8
  | I_ld_b_ind_hl
  | I_ld_r_ind_hl reg8
  | I_ld_n16 reg16
  | I_ld_ind_r reg16 reg8
  | I_ld_n8 reg8
  | I_ld_a_ind reg16
  | I_ld_a_ind_a16
  | I_ld_sp_hl
  | I_ldi_ind_hl_a
  | I_ldi_a_ind_hl
  | I_ldd_ind_hl_a
  | I_ldd_a_ind_hl
  | I_ld_ind_a16_sp
  | I_ld_ind_hl_n8
  | I_ld_ind_a16_a
  | I_ld_hl_sp_e8
  | I_ldh_ind_a8_a
  | I_ldh_ind_c_a
  | I_ldh_a_ind_a8
  | I_ldh_a_ind_c
  | I_inc reg8
  | I_inc16 reg16
  | I_inc_ind_hl
  | I_dec reg8
  | I_dec16 reg16
  | I_dec_ind_hl
  | I_alu alu reg8
  | I_alu_ind_hl alu
  | I_alu_n8 alu
  | I_add_hl reg16
  | I_add_sp_e8
  | I_rot rot reg8
  | I_rot_ind_hl rot
  | I_rot_a rot
  | I_stop_n8
  | I_bit nat reg8
  | I_bit_ind_hl nat
  | I_rst nat reg8
  | I_rst_ind_hl nat
  | I_set nat reg8
  | I_set_ind_hl nat
  | I_jmp_a16
  | I_jmp_cond cond
  | I_jmp_hl
  | I_jr_e8
  | I_jr_cond cond
  | I_call_a16
  | I_call_cond cond
  | I_ret
  | I_ret_cond cond
  | I_reti
  | I_pop reg16
  | I_pop_af
  | I_push reg16
  | I_restart u16
  | I_daa
  | I_cpl
  | I_scf
  | I_ccf
  | I_halt
  | I_prefix
  | I_inval
  | I_dis_ints
  | I_ena_ints

section \<open>Calling an instruction\<close>

primrec run_alu :: "alu \<Rightarrow> reg8 \<Rightarrow> op" where
  "run_alu ALU_ADD r = OP_ADD_REG r"
| "run_alu ALU_ADC r = OP_ADC_REG r"
| "run_alu ALU_SUB r = OP_SUB_REG r"
| "run_alu ALU_SBC r = OP_SBC_REG r"
| "run_alu ALU_AND r = OP_AND_REG r"
| "run_alu ALU_XOR r = OP_XOR_REG r"
| "run_alu ALU_OR r = OP_OR_REG r"
| "run_alu ALU_CP r = OP_CP_REG r"

primrec run_alu_ind_hl :: "alu \<Rightarrow> op" where
  "run_alu_ind_hl ALU_ADD = op_add_a_ind_hl"
| "run_alu_ind_hl ALU_ADC = op_adc_a_ind_hl"
| "run_alu_ind_hl ALU_SUB = op_sub_a_ind_hl"
| "run_alu_ind_hl ALU_SBC = op_sbc_a_ind_hl"
| "run_alu_ind_hl ALU_AND = op_and_a_ind_hl"
| "run_alu_ind_hl ALU_XOR = op_xor_a_ind_hl"
| "run_alu_ind_hl ALU_OR = op_or_a_ind_hl"
| "run_alu_ind_hl ALU_CP = op_cp_a_ind_hl"

primrec run_alu_n8 :: "alu \<Rightarrow> op" where
  "run_alu_n8 ALU_ADD = op_add_a_n8"
| "run_alu_n8 ALU_ADC = op_adc_a_n8"
| "run_alu_n8 ALU_SUB = op_sub_a_n8"
| "run_alu_n8 ALU_SBC = op_sbc_a_n8"
| "run_alu_n8 ALU_AND = op_and_a_n8"
| "run_alu_n8 ALU_XOR = op_xor_a_n8"
| "run_alu_n8 ALU_OR = op_or_a_n8"
| "run_alu_n8 ALU_CP = op_cp_a_n8"

primrec run_rot :: "rot \<Rightarrow> reg8 \<Rightarrow> op" where
  "run_rot RLC r = OP_RLC_REG r"
| "run_rot RRC r = OP_RRC_REG r"
| "run_rot RL r = OP_RL_REG r"
| "run_rot RR r = OP_RR_REG r"
| "run_rot SLA r = OP_SLA_REG r"
| "run_rot SRA r = OP_SRA_REG r"
| "run_rot SWP r = OP_SWP_REG r"
| "run_rot SRL r = OP_SRL_REG r"

primrec run_rot_ind_hl :: "rot \<Rightarrow> op" where
  "run_rot_ind_hl RLC = op_rlc_ind_hl"
| "run_rot_ind_hl RRC = op_rrc_ind_hl"
| "run_rot_ind_hl RL = op_rl_ind_hl"
| "run_rot_ind_hl RR = op_rr_ind_hl"
| "run_rot_ind_hl SLA = op_sla_ind_hl"
| "run_rot_ind_hl SRA = op_sra_ind_hl"
| "run_rot_ind_hl SWP = op_swp_ind_hl"
| "run_rot_ind_hl SRL = op_srl_ind_hl"

text \<open>The source has the four rotates of A only.\<close>

fun run_rot_a :: "rot \<Rightarrow> op" where
  "run_rot_a RLC = op_rlca"
| "run_rot_a RRC = op_rrca"
| "run_rot_a RL = op_rla"
| "run_rot_a RR = op_rra"
| "run_rot_a _ = op_inval"

primrec run :: "instr \<Rightarrow> op" where
  "run I_nop = op_nop"
| "run (I_ld d s) = OP_LD_REG_REG d s"
| "run I_ld_b_ind_hl = op_ld_b_ind_hl"
| "run (I_ld_r_ind_hl r) = op_ld_r_ind_hl r"
| "run (I_ld_n16 q) = OP_LD_REG16_MEM q"
| "run (I_ld_ind_r q r) = OP_LD_MEM_REG q r"
| "run (I_ld_n8 r) = OP_LD_REG_MEM r"
| "run (I_ld_a_ind q) = OP_LD_A_IND_REG q"
| "run I_ld_a_ind_a16 = op_ld_a_ind_a16"
| "run I_ld_sp_hl = op_ld_sp_hl"
| "run I_ldi_ind_hl_a = op_ldi_ind_hl_a"
| "run I_ldi_a_ind_hl = op_ldi_a_ind_hl"
| "run I_ldd_ind_hl_a = op_ldd_ind_hl_a"
| "run I_ldd_a_ind_hl = op_ldd_a_ind_hl"
| "run I_ld_ind_a16_sp = op_ld_ind_a16_sp"
| "run I_ld_ind_hl_n8 = op_ld_ind_hl_n8"
| "run I_ld_ind_a16_a = op_ld_ind_a16_a"
| "run I_ld_hl_sp_e8 = op_ld_hl_sp_e8"
| "run I_ldh_ind_a8_a = op_ldh_ind_a8_a"
| "run I_ldh_ind_c_a = op_ldh_ind_c_a"
| "run I_ldh_a_ind_a8 = op_ldh_a_ind_a8"
| "run I_ldh_a_ind_c = op_ldh_a_ind_c"
| "run (I_inc r) = op_inc_r r"
| "run (I_inc16 q) = op_inc_rr q"
| "run I_inc_ind_hl = op_inc_ind_hl"
| "run (I_dec r) = op_dec_r r"
| "run (I_dec16 q) = op_dec_rr q"
| "run I_dec_ind_hl = op_dec_ind_hl"
| "run (I_alu a r) = run_alu a r"
| "run (I_alu_ind_hl a) = run_alu_ind_hl a"
| "run (I_alu_n8 a) = run_alu_n8 a"
| "run (I_add_hl q) = OP_ADD_REG16 q"
| "run I_add_sp_e8 = op_add_sp_e8"
| "run (I_rot k r) = run_rot k r"
| "run (I_rot_ind_hl k) = run_rot_ind_hl k"
| "run (I_rot_a k) = run_rot_a k"
| "run I_stop_n8 = op_stop_n8"
| "run (I_bit n r) = OP_BIT_REG n r"
| "run (I_bit_ind_hl n) = op_bit_ind_hl n"
| "run (I_rst n r) = OP_RST_REG n r"
| "run (I_rst_ind_hl n) = op_rst_ind_hl n"
| "run (I_set n r) = OP_SET_REG n r"
| "run (I_set_ind_hl n) = op_set_ind_hl n"
| "run I_jmp_a16 = op_jmp_a16"
| "run (I_jmp_cond c) = OP_JMP_COND c"
| "run I_jmp_hl = op_jmp_hl"
| "run I_jr_e8 = op_jr_e8"
| "run (I_jr_cond c) = OP_JR_COND c"
| "run I_call_a16 = op_call_a16"
| "run (I_call_cond c) = OP_CALL_COND c"
| "run I_ret = op_ret"
| "run (I_ret_cond c) = OP_RET_COND c"
| "run I_reti = op_reti"
| "run (I_pop q) = OP_POP_REG q"
| "run I_pop_af = op_pop_af"
| "run (I_push q) = OP_PUSH_REG q"
| "run (I_restart a) = OP_RESTART a"
| "run I_daa = op_daa_1"
| "run I_cpl = op_cpl_1"
| "run I_scf = op_scf_1"
| "run I_ccf = op_ccf_1"
| "run I_halt = op_halt"
| "run I_prefix = op_prefix"
| "run I_inval = op_inval"
| "run I_dis_ints = op_dis_ints"
| "run I_ena_ints = op_ena_ints"

section \<open>The tables\<close>

definition op_len :: "nat list" where
  "op_len = [
     1, 3, 1, 1, 1, 1, 2, 1, 3, 1, 1, 1, 1, 1, 2, 1,
     2, 3, 1, 1, 1, 1, 2, 1, 2, 1, 1, 1, 1, 1, 2, 1,
     2, 3, 1, 1, 1, 1, 2, 1, 2, 1, 1, 1, 1, 1, 2, 1,
     2, 3, 1, 1, 1, 1, 2, 1, 2, 1, 1, 1, 1, 1, 2, 1,
     1, 1, 1, 1, 1, 1, 1, 1, 1, 1, 1, 1, 1, 1, 1, 1,
     1, 1, 1, 1, 1, 1, 1, 1, 1, 1, 1, 1, 1, 1, 1, 1,
     1, 1, 1, 1, 1, 1, 1, 1, 1, 1, 1, 1, 1, 1, 1, 1,
     1, 1, 1, 1, 1, 1, 1, 1, 1, 1, 1, 1, 1, 1, 1, 1,
     1, 1, 1, 1, 1, 1, 1, 1, 1, 1, 1, 1, 1, 1, 1, 1,
     1, 1, 1, 1, 1, 1, 1, 1, 1, 1, 1, 1, 1, 1, 1, 1,
     1, 1, 1, 1, 1, 1, 1, 1, 1, 1, 1, 1, 1, 1, 1, 1,
     1, 1, 1, 1, 1, 1, 1, 1, 1, 1, 1, 1, 1, 1, 1, 1,
     1, 1, 3, 3, 3, 1, 2, 1, 1, 1, 3, 2, 3, 3, 2, 1,
     1, 1, 3, 3, 3, 1, 2, 1, 1, 1, 3, 1, 3, 3, 2, 1,
     2, 1, 1, 3, 3, 1, 2, 1, 2, 1, 3, 1, 3, 3, 2, 1,
     2, 1, 1, 1, 3, 1, 2, 1, 2, 1, 3, 1, 3, 3, 2, 1]"

definition table_ops_0 :: "instr list" where
  "table_ops_0 = [
     I_nop, I_ld_n16 REG_BC, I_ld_ind_r REG_BC REG_A, I_inc16 REG_BC,
     I_inc REG_B, I_dec REG_B, I_ld_n8 REG_B, I_rot_a RLC,
     I_ld_ind_a16_sp, I_add_hl REG_BC, I_ld_a_ind REG_BC, I_dec16 REG_BC,
     I_inc REG_C, I_dec REG_C, I_ld_n8 REG_C, I_rot_a RRC,
     I_stop_n8, I_ld_n16 REG_DE, I_ld_ind_r REG_DE REG_A, I_inc16 REG_DE,
     I_inc REG_D, I_dec REG_D, I_ld_n8 REG_D, I_rot_a RL,
     I_jr_e8, I_add_hl REG_DE, I_ld_a_ind REG_DE, I_dec16 REG_DE,
     I_inc REG_E, I_dec REG_E, I_ld_n8 REG_E, I_rot_a RR,
     I_jr_cond COND_NZ, I_ld_n16 REG_HL, I_ldi_ind_hl_a, I_inc16 REG_HL,
     I_inc REG_H, I_dec REG_H, I_ld_n8 REG_H, I_daa,
     I_jr_cond COND_Z, I_add_hl REG_HL, I_ldi_a_ind_hl, I_dec16 REG_HL,
     I_inc REG_L, I_dec REG_L, I_ld_n8 REG_L, I_cpl,
     I_jr_cond COND_NC, I_ld_n16 REG_SP, I_ldd_ind_hl_a, I_inc16 REG_SP,
     I_inc_ind_hl, I_dec_ind_hl, I_ld_ind_hl_n8, I_scf,
     I_jr_cond COND_C, I_add_hl REG_SP, I_ldd_a_ind_hl, I_dec16 REG_SP,
     I_inc REG_A, I_dec REG_A, I_ld_n8 REG_A, I_ccf]"

definition table_ops_1 :: "instr list" where
  "table_ops_1 = [
     I_ld REG_B REG_B, I_ld REG_B REG_C, I_ld REG_B REG_D, I_ld REG_B REG_E,
     I_ld REG_B REG_H, I_ld REG_B REG_L, I_ld_b_ind_hl, I_ld REG_B REG_A,
     I_ld REG_C REG_B, I_ld REG_C REG_C, I_ld REG_C REG_D, I_ld REG_C REG_E,
     I_ld REG_C REG_H, I_ld REG_C REG_L, I_ld_r_ind_hl REG_C, I_ld REG_C REG_A,
     I_ld REG_D REG_B, I_ld REG_D REG_C, I_ld REG_D REG_D, I_ld REG_D REG_E,
     I_ld REG_D REG_H, I_ld REG_D REG_L, I_ld_r_ind_hl REG_D, I_ld REG_D REG_A,
     I_ld REG_E REG_B, I_ld REG_E REG_C, I_ld REG_E REG_D, I_ld REG_E REG_E,
     I_ld REG_E REG_H, I_ld REG_E REG_L, I_ld_r_ind_hl REG_E, I_ld REG_E REG_A,
     I_ld REG_H REG_B, I_ld REG_H REG_C, I_ld REG_H REG_D, I_ld REG_H REG_E,
     I_ld REG_H REG_H, I_ld REG_H REG_L, I_ld_r_ind_hl REG_H, I_ld REG_H REG_A,
     I_ld REG_L REG_B, I_ld REG_L REG_C, I_ld REG_L REG_D, I_ld REG_L REG_E,
     I_ld REG_L REG_H, I_ld REG_L REG_L, I_ld_r_ind_hl REG_L, I_ld REG_L REG_A,
     I_ld_ind_r REG_HL REG_B, I_ld_ind_r REG_HL REG_C, I_ld_ind_r REG_HL REG_D, I_ld_ind_r REG_HL REG_E,
     I_ld_ind_r REG_HL REG_H, I_ld_ind_r REG_HL REG_L, I_halt, I_ld_ind_r REG_HL REG_A,
     I_ld REG_A REG_B, I_ld REG_A REG_C, I_ld REG_A REG_D, I_ld REG_A REG_E,
     I_ld REG_A REG_H, I_ld REG_A REG_L, I_ld_a_ind REG_HL, I_ld REG_A REG_A]"

definition table_ops_2 :: "instr list" where
  "table_ops_2 = [
     I_alu ALU_ADD REG_B, I_alu ALU_ADD REG_C, I_alu ALU_ADD REG_D, I_alu ALU_ADD REG_E,
     I_alu ALU_ADD REG_H, I_alu ALU_ADD REG_L, I_alu_ind_hl ALU_ADD, I_alu ALU_ADD REG_A,
     I_alu ALU_ADC REG_B, I_alu ALU_ADC REG_C, I_alu ALU_ADC REG_D, I_alu ALU_ADC REG_E,
     I_alu ALU_ADC REG_H, I_alu ALU_ADC REG_L, I_alu_ind_hl ALU_ADC, I_alu ALU_ADC REG_A,
     I_alu ALU_SUB REG_B, I_alu ALU_SUB REG_C, I_alu ALU_SUB REG_D, I_alu ALU_SUB REG_E,
     I_alu ALU_SUB REG_H, I_alu ALU_SUB REG_L, I_alu_ind_hl ALU_SUB, I_alu ALU_SUB REG_A,
     I_alu ALU_SBC REG_B, I_alu ALU_SBC REG_C, I_alu ALU_SBC REG_D, I_alu ALU_SBC REG_E,
     I_alu ALU_SBC REG_H, I_alu ALU_SBC REG_L, I_alu_ind_hl ALU_SBC, I_alu ALU_SBC REG_A,
     I_alu ALU_AND REG_B, I_alu ALU_AND REG_C, I_alu ALU_AND REG_D, I_alu ALU_AND REG_E,
     I_alu ALU_AND REG_H, I_alu ALU_AND REG_L, I_alu_ind_hl ALU_AND, I_alu ALU_AND REG_A,
     I_alu ALU_XOR REG_B, I_alu ALU_XOR REG_C, I_alu ALU_XOR REG_D, I_alu ALU_XOR REG_E,
     I_alu ALU_XOR REG_H, I_alu ALU_XOR REG_L, I_alu_ind_hl ALU_XOR, I_alu ALU_XOR REG_A,
     I_alu ALU_OR REG_B, I_alu ALU_OR REG_C, I_alu ALU_OR REG_D, I_alu ALU_OR REG_E,
     I_alu ALU_OR REG_H, I_alu ALU_OR REG_L, I_alu_ind_hl ALU_OR, I_alu ALU_OR REG_A,
     I_alu ALU_CP REG_B, I_alu ALU_CP REG_C, I_alu ALU_CP REG_D, I_alu ALU_CP REG_E,
     I_alu ALU_CP REG_H, I_alu ALU_CP REG_L, I_alu_ind_hl ALU_CP, I_alu ALU_CP REG_A]"

definition table_ops_3 :: "instr list" where
  "table_ops_3 = [
     I_ret_cond COND_NZ, I_pop REG_BC, I_jmp_cond COND_NZ, I_jmp_a16,
     I_call_cond COND_NZ, I_push REG_BC, I_alu_n8 ALU_ADD, I_restart 0x0,
     I_ret_cond COND_Z, I_ret, I_jmp_cond COND_Z, I_prefix,
     I_call_cond COND_Z, I_call_a16, I_alu_n8 ALU_ADC, I_restart 0x8,
     I_ret_cond COND_NC, I_pop REG_DE, I_jmp_cond COND_NC, I_inval,
     I_call_cond COND_NC, I_push REG_DE, I_alu_n8 ALU_SUB, I_restart 0x10,
     I_ret_cond COND_C, I_reti, I_jmp_cond COND_C, I_inval,
     I_call_cond COND_C, I_inval, I_alu_n8 ALU_SBC, I_restart 0x18,
     I_ldh_ind_a8_a, I_pop REG_HL, I_ldh_ind_c_a, I_inval,
     I_inval, I_push REG_HL, I_alu_n8 ALU_AND, I_restart 0x20,
     I_add_sp_e8, I_jmp_hl, I_ld_ind_a16_a, I_inval,
     I_inval, I_inval, I_alu_n8 ALU_XOR, I_restart 0x28,
     I_ldh_a_ind_a8, I_pop_af, I_ldh_a_ind_c, I_dis_ints,
     I_inval, I_push REG_AF, I_alu_n8 ALU_OR, I_restart 0x30,
     I_ld_hl_sp_e8, I_ld_sp_hl, I_ld_a_ind_a16, I_ena_ints,
     I_inval, I_inval, I_alu_n8 ALU_CP, I_restart 0x38]"

definition table_ops_4 :: "instr list" where
  "table_ops_4 = [
     I_rot RLC REG_B, I_rot RLC REG_C, I_rot RLC REG_D, I_rot RLC REG_E,
     I_rot RLC REG_H, I_rot RLC REG_L, I_rot_ind_hl RLC, I_rot RLC REG_A,
     I_rot RRC REG_B, I_rot RRC REG_C, I_rot RRC REG_D, I_rot RRC REG_E,
     I_rot RRC REG_H, I_rot RRC REG_L, I_rot_ind_hl RRC, I_rot RRC REG_A,
     I_rot RL REG_B, I_rot RL REG_C, I_rot RL REG_D, I_rot RL REG_E,
     I_rot RL REG_H, I_rot RL REG_L, I_rot_ind_hl RL, I_rot RL REG_A,
     I_rot RR REG_B, I_rot RR REG_C, I_rot RR REG_D, I_rot RR REG_E,
     I_rot RR REG_H, I_rot RR REG_L, I_rot_ind_hl RR, I_rot RR REG_A,
     I_rot SLA REG_B, I_rot SLA REG_C, I_rot SLA REG_D, I_rot SLA REG_E,
     I_rot SLA REG_H, I_rot SLA REG_L, I_rot_ind_hl SLA, I_rot SLA REG_A,
     I_rot SRA REG_B, I_rot SRA REG_C, I_rot SRA REG_D, I_rot SRA REG_E,
     I_rot SRA REG_H, I_rot SRA REG_L, I_rot_ind_hl SRA, I_rot SRA REG_A,
     I_rot SWP REG_B, I_rot SWP REG_C, I_rot SWP REG_D, I_rot SWP REG_E,
     I_rot SWP REG_H, I_rot SWP REG_L, I_rot_ind_hl SWP, I_rot SWP REG_A,
     I_rot SRL REG_B, I_rot SRL REG_C, I_rot SRL REG_D, I_rot SRL REG_E,
     I_rot SRL REG_H, I_rot SRL REG_L, I_rot_ind_hl SRL, I_rot SRL REG_A]"

definition table_ops_5 :: "instr list" where
  "table_ops_5 = [
     I_bit 0 REG_B, I_bit 0 REG_C, I_bit 0 REG_D, I_bit 0 REG_E,
     I_bit 0 REG_H, I_bit 0 REG_L, I_bit_ind_hl 0, I_bit 0 REG_A,
     I_bit 1 REG_B, I_bit 1 REG_C, I_bit 1 REG_D, I_bit 1 REG_E,
     I_bit 1 REG_H, I_bit 1 REG_L, I_bit_ind_hl 1, I_bit 1 REG_A,
     I_bit 2 REG_B, I_bit 2 REG_C, I_bit 2 REG_D, I_bit 2 REG_E,
     I_bit 2 REG_H, I_bit 2 REG_L, I_bit_ind_hl 2, I_bit 2 REG_A,
     I_bit 3 REG_B, I_bit 3 REG_C, I_bit 3 REG_D, I_bit 3 REG_E,
     I_bit 3 REG_H, I_bit 3 REG_L, I_bit_ind_hl 3, I_bit 3 REG_A,
     I_bit 4 REG_B, I_bit 4 REG_C, I_bit 4 REG_D, I_bit 4 REG_E,
     I_bit 4 REG_H, I_bit 4 REG_L, I_bit_ind_hl 4, I_bit 4 REG_A,
     I_bit 5 REG_B, I_bit 5 REG_C, I_bit 5 REG_D, I_bit 5 REG_E,
     I_bit 5 REG_H, I_bit 5 REG_L, I_bit_ind_hl 5, I_bit 5 REG_A,
     I_bit 6 REG_B, I_bit 6 REG_C, I_bit 6 REG_D, I_bit 6 REG_E,
     I_bit 6 REG_H, I_bit 6 REG_L, I_bit_ind_hl 6, I_bit 6 REG_A,
     I_bit 7 REG_B, I_bit 7 REG_C, I_bit 7 REG_D, I_bit 7 REG_E,
     I_bit 7 REG_H, I_bit 7 REG_L, I_bit_ind_hl 7, I_bit 7 REG_A]"

definition table_ops_6 :: "instr list" where
  "table_ops_6 = [
     I_rst 0 REG_B, I_rst 0 REG_C, I_rst 0 REG_D, I_rst 0 REG_E,
     I_rst 0 REG_H, I_rst 0 REG_L, I_rst_ind_hl 0, I_rst 0 REG_A,
     I_rst 1 REG_B, I_rst 1 REG_C, I_rst 1 REG_D, I_rst 1 REG_E,
     I_rst 1 REG_H, I_rst 1 REG_L, I_rst_ind_hl 1, I_rst 1 REG_A,
     I_rst 2 REG_B, I_rst 2 REG_C, I_rst 2 REG_D, I_rst 2 REG_E,
     I_rst 2 REG_H, I_rst 2 REG_L, I_rst_ind_hl 2, I_rst 2 REG_A,
     I_rst 3 REG_B, I_rst 3 REG_C, I_rst 3 REG_D, I_rst 3 REG_E,
     I_rst 3 REG_H, I_rst 3 REG_L, I_rst_ind_hl 3, I_rst 3 REG_A,
     I_rst 4 REG_B, I_rst 4 REG_C, I_rst 4 REG_D, I_rst 4 REG_E,
     I_rst 4 REG_H, I_rst 4 REG_L, I_rst_ind_hl 4, I_rst 4 REG_A,
     I_rst 5 REG_B, I_rst 5 REG_C, I_rst 5 REG_D, I_rst 5 REG_E,
     I_rst 5 REG_H, I_rst 5 REG_L, I_rst_ind_hl 5, I_rst 5 REG_A,
     I_rst 6 REG_B, I_rst 6 REG_C, I_rst 6 REG_D, I_rst 6 REG_E,
     I_rst 6 REG_H, I_rst 6 REG_L, I_rst_ind_hl 6, I_rst 6 REG_A,
     I_rst 7 REG_B, I_rst 7 REG_C, I_rst 7 REG_D, I_rst 7 REG_E,
     I_rst 7 REG_H, I_rst 7 REG_L, I_rst_ind_hl 7, I_rst 7 REG_A]"

definition table_ops_7 :: "instr list" where
  "table_ops_7 = [
     I_set 0 REG_B, I_set 0 REG_C, I_set 0 REG_D, I_set 0 REG_E,
     I_set 0 REG_H, I_set 0 REG_L, I_set_ind_hl 0, I_set 0 REG_A,
     I_set 1 REG_B, I_set 1 REG_C, I_set 1 REG_D, I_set 1 REG_E,
     I_set 1 REG_H, I_set 1 REG_L, I_set_ind_hl 1, I_set 1 REG_A,
     I_set 2 REG_B, I_set 2 REG_C, I_set 2 REG_D, I_set 2 REG_E,
     I_set 2 REG_H, I_set 2 REG_L, I_set_ind_hl 2, I_set 2 REG_A,
     I_set 3 REG_B, I_set 3 REG_C, I_set 3 REG_D, I_set 3 REG_E,
     I_set 3 REG_H, I_set 3 REG_L, I_set_ind_hl 3, I_set 3 REG_A,
     I_set 4 REG_B, I_set 4 REG_C, I_set 4 REG_D, I_set 4 REG_E,
     I_set 4 REG_H, I_set 4 REG_L, I_set_ind_hl 4, I_set 4 REG_A,
     I_set 5 REG_B, I_set 5 REG_C, I_set 5 REG_D, I_set 5 REG_E,
     I_set 5 REG_H, I_set 5 REG_L, I_set_ind_hl 5, I_set 5 REG_A,
     I_set 6 REG_B, I_set 6 REG_C, I_set 6 REG_D, I_set 6 REG_E,
     I_set 6 REG_H, I_set 6 REG_L, I_set_ind_hl 6, I_set 6 REG_A,
     I_set 7 REG_B, I_set 7 REG_C, I_set 7 REG_D, I_set 7 REG_E,
     I_set 7 REG_H, I_set 7 REG_L, I_set_ind_hl 7, I_set 7 REG_A]"

definition table_ops :: "instr list" where
  "table_ops = table_ops_0 @ table_ops_1 @ table_ops_2 @ table_ops_3 @
     table_ops_4 @ table_ops_5 @ table_ops_6 @ table_ops_7"

lemmas table_ops_defs = table_ops_def table_ops_0_def table_ops_1_def table_ops_2_def
  table_ops_3_def table_ops_4_def table_ops_5_def table_ops_6_def table_ops_7_def

text \<open>The index of \<open>ops_table_dispatch\<close>, \<open>op|(prefix<<8)\<close>, and the call.\<close>

definition dispatch_index :: "u8 \<Rightarrow> bool \<Rightarrow> nat" where
  "dispatch_index op prefix = unat (ucast op OR push_bit 8 (of_bool prefix) :: u16)"

definition ops_table_dispatch :: "u8 \<Rightarrow> bool \<Rightarrow> op" where
  "ops_table_dispatch op prefix g =
    (let i = dispatch_index op prefix
     in if i < length table_ops then run (table_ops ! i) g else None)"

end
