(* ===== verification/Cpu_Decode.thy ===== *)
theory Cpu_Decode
  imports Cpu_Table
begin

text \<open>
  What the dispatch table promises.  An opcode of this CPU is read in three fields: its top two
  bits, the middle three and the lowest three.  \<open>decode\<close> is the instruction set written that
  way, independently of the table; the table of 512 entries is \<open>decode\<close> of its indices.
  \<open>instr_len\<close> is the number of bytes an instruction occupies, and \<open>op_len\<close>, which the
  debugger uses to list code, is compared with it.
\<close>

section \<open>The instruction set by bit fields\<close>

text \<open>Register operands, in the order of the hardware.  Field value 6 is the byte at HL and is
  treated apart wherever it can occur.\<close>

definition reg_field :: "nat \<Rightarrow> reg8" where
  "reg_field z = [REG_B, REG_C, REG_D, REG_E, REG_H, REG_L, REG_A, REG_A] ! z"

definition pair_field :: "nat \<Rightarrow> reg16" where
  "pair_field p = [REG_BC, REG_DE, REG_HL, REG_SP] ! p"

definition cond_field :: "nat \<Rightarrow> cond" where
  "cond_field y = [COND_NZ, COND_Z, COND_NC, COND_C] ! y"

definition alu_field :: "nat \<Rightarrow> alu" where
  "alu_field y = [ALU_ADD, ALU_ADC, ALU_SUB, ALU_SBC, ALU_AND, ALU_XOR, ALU_OR, ALU_CP] ! y"

definition rot_field :: "nat \<Rightarrow> rot" where
  "rot_field y = [RLC, RRC, RL, RR, SLA, SRA, SWP, SRL] ! y"

text \<open>Load of a register from the byte at HL: the source has three functions for it.\<close>

definition load_hl :: "reg8 \<Rightarrow> instr" where
  "load_hl r = (if r = REG_A then I_ld_a_ind REG_HL else if r = REG_B then I_ld_b_ind_hl
     else I_ld_r_ind_hl r)"

definition decode_0 :: "nat \<Rightarrow> nat \<Rightarrow> instr" where
  "decode_0 y z =
    (if z = 0 then
       (if y = 0 then I_nop else if y = 1 then I_ld_ind_a16_sp else if y = 2 then I_stop_n8
        else if y = 3 then I_jr_e8 else I_jr_cond (cond_field (y - 4)))
     else if z = 1 then
       (if even y then I_ld_n16 (pair_field (y div 2)) else I_add_hl (pair_field (y div 2)))
     else if z = 2 then
       [I_ld_ind_r REG_BC REG_A, I_ld_a_ind REG_BC, I_ld_ind_r REG_DE REG_A, I_ld_a_ind REG_DE,
        I_ldi_ind_hl_a, I_ldi_a_ind_hl, I_ldd_ind_hl_a, I_ldd_a_ind_hl] ! y
     else if z = 3 then
       (if even y then I_inc16 (pair_field (y div 2)) else I_dec16 (pair_field (y div 2)))
     else if z = 4 then (if y = 6 then I_inc_ind_hl else I_inc (reg_field y))
     else if z = 5 then (if y = 6 then I_dec_ind_hl else I_dec (reg_field y))
     else if z = 6 then (if y = 6 then I_ld_ind_hl_n8 else I_ld_n8 (reg_field y))
     else if y < 4 then I_rot_a (rot_field y)
     else [I_daa, I_cpl, I_scf, I_ccf] ! (y - 4))"

definition decode_1 :: "nat \<Rightarrow> nat \<Rightarrow> instr" where
  "decode_1 y z =
    (if y = 6 \<and> z = 6 then I_halt
     else if y = 6 then I_ld_ind_r REG_HL (reg_field z)
     else if z = 6 then load_hl (reg_field y)
     else I_ld (reg_field y) (reg_field z))"

definition decode_2 :: "nat \<Rightarrow> nat \<Rightarrow> instr" where
  "decode_2 y z = (if z = 6 then I_alu_ind_hl (alu_field y) else I_alu (alu_field y) (reg_field z))"

definition decode_3 :: "nat \<Rightarrow> nat \<Rightarrow> instr" where
  "decode_3 y z =
    (if z = 0 then
       (if y < 4 then I_ret_cond (cond_field y)
        else [I_ldh_ind_a8_a, I_add_sp_e8, I_ldh_a_ind_a8, I_ld_hl_sp_e8] ! (y - 4))
     else if z = 1 then
       (if even y then (if y = 6 then I_pop_af else I_pop (pair_field (y div 2)))
        else [I_ret, I_reti, I_jmp_hl, I_ld_sp_hl] ! (y div 2))
     else if z = 2 then
       (if y < 4 then I_jmp_cond (cond_field y)
        else [I_ldh_ind_c_a, I_ld_ind_a16_a, I_ldh_a_ind_c, I_ld_a_ind_a16] ! (y - 4))
     else if z = 3 then
       [I_jmp_a16, I_prefix, I_inval, I_inval, I_inval, I_inval, I_dis_ints, I_ena_ints] ! y
     else if z = 4 then (if y < 4 then I_call_cond (cond_field y) else I_inval)
     else if z = 5 then
       (if even y then I_push (if y = 6 then REG_AF else pair_field (y div 2))
        else if y = 1 then I_call_a16 else I_inval)
     else if z = 6 then I_alu_n8 (alu_field y)
     else I_restart (of_nat (8 * y)))"

definition decode_cb :: "nat \<Rightarrow> nat \<Rightarrow> nat \<Rightarrow> instr" where
  "decode_cb x y z =
    (if x = 0 then (if z = 6 then I_rot_ind_hl (rot_field y) else I_rot (rot_field y) (reg_field z))
     else if x = 1 then (if z = 6 then I_bit_ind_hl y else I_bit y (reg_field z))
     else if x = 2 then (if z = 6 then I_rst_ind_hl y else I_rst y (reg_field z))
     else (if z = 6 then I_set_ind_hl y else I_set y (reg_field z)))"

definition decode :: "nat \<Rightarrow> instr" where
  "decode n =
    (let x = n mod 256 div 64; y = n div 8 mod 8; z = n mod 8
     in if n \<ge> 256 then decode_cb x y z
        else if x = 0 then decode_0 y z
        else if x = 1 then decode_1 y z
        else if x = 2 then decode_2 y z
        else decode_3 y z)"

lemma table_ops_decode: "table_ops = map decode [0..<512]"
  by code_simp

lemma length_table_ops: "length table_ops = 512"
  by (simp add: table_ops_decode)

section \<open>Dispatch never leaves the table\<close>

lemma dispatch_index_eq: "dispatch_index op prefix = unat op + (if prefix then 256 else 0)"
proof -
  have "(ucast op OR push_bit 8 (of_bool prefix) :: u16) = mk16 (of_bool prefix) op"
    by (rule bit_word_eqI) (auto simp: mk16_def bit_simps)
  then show ?thesis by (simp add: dispatch_index_def unat_mk16)
qed

section \<open>Instruction lengths\<close>

definition instr_len :: "instr \<Rightarrow> nat" where
  "instr_len i = (case i of
      I_ld_n16 _ \<Rightarrow> 3 | I_ld_a_ind_a16 \<Rightarrow> 3 | I_ld_ind_a16_sp \<Rightarrow> 3 | I_ld_ind_a16_a \<Rightarrow> 3
    | I_jmp_a16 \<Rightarrow> 3 | I_jmp_cond _ \<Rightarrow> 3 | I_call_a16 \<Rightarrow> 3 | I_call_cond _ \<Rightarrow> 3
    | I_ld_n8 _ \<Rightarrow> 2 | I_ld_ind_hl_n8 \<Rightarrow> 2 | I_ld_hl_sp_e8 \<Rightarrow> 2 | I_ldh_ind_a8_a \<Rightarrow> 2
    | I_ldh_a_ind_a8 \<Rightarrow> 2 | I_alu_n8 _ \<Rightarrow> 2 | I_add_sp_e8 \<Rightarrow> 2 | I_stop_n8 \<Rightarrow> 2
    | I_jr_e8 \<Rightarrow> 2 | I_jr_cond _ \<Rightarrow> 2 | I_prefix \<Rightarrow> 2
    | _ \<Rightarrow> 1)"

text \<open>The opcodes without an instruction to which \<open>op_len\<close> gives three bytes.\<close>

definition inval_len3 :: "nat list" where
  "inval_len3 = [0xd3, 0xdd, 0xe3, 0xe4, 0xec, 0xed, 0xf4, 0xfc, 0xfd]"

lemma op_len_decode:
  "op_len = map (\<lambda>n. if n \<in> set inval_len3 then 3 else instr_len (decode n)) [0..<256]"
  by code_simp

end
