(* ===== verification/Monitor_Facts.thy ===== *)
theory Monitor_Facts
  imports Monitor
begin

text \<open>
  What the memory map guarantees: every access is defined, the invariant of the machine is
  kept, a write changes nothing of the CPU but its memory-mapped registers and RAM, and RAM
  reads back what was written.
\<close>

section \<open>What a write leaves alone\<close>

text \<open>The parts of the machine that no bus access changes.\<close>

definition bus_frame :: "gb \<Rightarrow> gb \<Rightarrow> bool" where
  "bus_frame g g' \<longleftrightarrow>
    regs (cpu g') = regs (cpu g) \<and> is_halted (cpu g') = is_halted (cpu g) \<and>
    ime_enabled (cpu g') = ime_enabled (cpu g) \<and> cycles (cpu g') = cycles (cpu g) \<and>
    div_counter (cpu g') = div_counter (cpu g) \<and> tac_counter (cpu g') = tac_counter (cpu g) \<and>
    joypad g' = joypad g \<and> throttle g' = throttle g \<and> clock g' = clock g \<and>
    dmg_buf g' = dmg_buf g \<and> shown g' = shown g \<and>
    frame_count (ppu g') = frame_count (ppu g) \<and> vblank_dots (ppu g') = vblank_dots (ppu g)"

lemma bus_frame_refl [simp]: "bus_frame g g"
  by (simp add: bus_frame_def)

lemma bus_frame_trans: "bus_frame g h \<Longrightarrow> bus_frame h k \<Longrightarrow> bus_frame g k"
  by (simp add: bus_frame_def)

definition wr_ok :: "gb \<Rightarrow> gb option \<Rightarrow> bool" where
  "wr_ok g m = returns m (\<lambda>g'. gb_ok g' \<and> bus_frame g g')"

lemma wr_ok_Some: "wr_ok g (Some g') \<longleftrightarrow> gb_ok g' \<and> bus_frame g g'"
  by (simp add: wr_ok_def)

lemma wr_ok_bind:
  "wr_ok g m \<Longrightarrow> (\<And>h. m = Some h \<Longrightarrow> gb_ok h \<Longrightarrow> wr_ok h (f h)) \<Longrightarrow> wr_ok g (m \<bind> f)"
  by (cases m) (auto simp: wr_ok_def returns_iff intro: bus_frame_trans)

lemma and_and_nibble: "(v AND 0x1f) AND 0xe0 = (0::u8)"
  by (simp add: and.assoc)

lemma clock_select_cases:
  "tac_divider_of v d = 4 \<or> tac_divider_of v d = 16 \<or> tac_divider_of v d = 64 \<or>
    tac_divider_of v d = 256"
proof -
  have "uint (v AND 3) = take_bit 2 (uint v)"
    by (simp add: uint_and take_bit_eq_mask mask_eq_exp_minus_1)
  then have eq: "uint (v AND 3) = uint v mod 4" by (simp add: take_bit_eq_mod)
  have "0 \<le> uint v mod 4" "uint v mod 4 < 4" by simp_all
  then have "uint v mod 4 = 0 \<or> uint v mod 4 = 1 \<or> uint v mod 4 = 2 \<or> uint v mod 4 = 3"
    by linarith
  then have "v AND 3 = 0 \<or> v AND 3 = 1 \<or> v AND 3 = 2 \<or> v AND 3 = 3"
    unfolding word_uint_eq_iff eq by simp
  then show ?thesis by (auto simp: tac_divider_of_def TAC_BITMASK_CLOCK_SELECT_def)
qed

lemma cpu_wr_ok:
  assumes "cpu_ok c"
  shows "returns (cpu_wr a v c) (\<lambda>c'. cpu_ok c' \<and> regs c' = regs c \<and>
    is_halted c' = is_halted c \<and> ime_enabled c' = ime_enabled c \<and> cycles c' = cycles c \<and>
    div_counter c' = div_counter c \<and> tac_counter c' = tac_counter c)"
proof -
  consider (wram) "0xc000 \<le> uint a" "uint a \<le> 0xdfff" | (hram) "0xff80 \<le> uint a" "uint a \<le> 0xfffe"
    | (reg) "\<not> (a \<ge> 0xc000 \<and> a \<le> 0xdfff)" "\<not> (a \<ge> 0xff80 \<and> a \<le> 0xfffe)"
    by (auto simp: word_le_def)
  then show ?thesis
  proof cases
    case wram
    then show ?thesis using assms by (simp add: cpu_wr_def word_le_def ram_sizes cpu_ok_def timer_ok_def)
  next
    case hram
    then show ?thesis using assms by (simp add: cpu_wr_def word_le_def ram_sizes cpu_ok_def timer_ok_def)
  next
    case reg
    show ?thesis
      unfolding cpu_wr_def if_not_P [OF reg(1)] if_not_P [OF reg(2)]
      using assms clock_select_cases [of v "tac_divider c"]
      by (simp add: cpu_ok_def timer_ok_def and_and_nibble)
  qed
qed

lemma gb_cpu_wr_ok: "gb_ok g \<Longrightarrow> wr_ok g (gb_cpu_wr a v g)"
  using cpu_wr_ok [of "cpu g" a v]
  by (auto simp: wr_ok_def gb_cpu_wr_def gb_ok_def bus_frame_def returns_iff)

lemma gb_mbc_wr_ok: "gb_ok g \<Longrightarrow> rom_addr a \<or> xram_addr a \<or> a = 0xff50 \<Longrightarrow> wr_ok g (gb_mbc_wr a v g)"
  using mbc1.wr_total [of a v "mbc g"]
  by (auto simp: wr_ok_def gb_mbc_wr_def gb_ok_def bus_frame_def)

lemma gb_io_wr_ok: "gb_ok g \<Longrightarrow> a \<noteq> 0xffff \<Longrightarrow> wr_ok g (gb_io_wr a v g)"
  using uint_u16_bounds [of a]
  by (simp add: wr_ok_def gb_io_wr_def gb_ok_def bus_frame_def IOREGS_SIZE_def word_uint_eq_iff)

text \<open>A write to sprite memory keeps the index of sprites valid.\<close>

lemma nibble_upd: "nibble (m(i := v)) x = (if x = i then unat (drop_bit 4 v) else nibble m x)"
  by (simp add: nibble_def)

lemma ppu_wr_oam_spec:
  assumes "gb_ok g" "i < 0xa0"
  shows "\<exists>h. ppu_wr_oam i v g = Some (on_ppu (\<lambda>p. p\<lparr>oam := (oam p)(i := v)\<rparr>) (g\<lparr>oam_hash := h\<rparr>)) \<and>
    hash_ok ((oam (ppu g))(i := v)) h"
proof -
  let ?m = "oam (ppu g)"
  have ok: "hash_ok ?m (oam_hash g)" using assms(1) by (simp add: gb_ok_def)
  have i: "i < OAM_SIZE" using assms(2) by (simp add: OAM_SIZE_def)
  show ?thesis
  proof (cases "i mod 4 = 0 \<and> drop_bit 4 (?m i) \<noteq> drop_bit 4 v")
    case True
    then have "sprite i" using assms(2) by (simp add: sprite_def)
    from oam_rehash_refines [OF ok this, of v] obtain h where
      "oam_rehash i v ?m (oam_hash g) = Some h" "hash_ok (?m(i := v)) h" by blast
    then show ?thesis using True i by (auto simp: ppu_wr_oam_def on_ppu_def)
  next
    case False
    have "nibble (?m(i := v)) x = nibble ?m x" if "sprite x" for x
      using False that by (auto simp: nibble_upd sprite_def nibble_def)
    then have "hash_ok (?m(i := v)) (oam_hash g)" by (rule hash_ok_same_nibble [OF ok])
    then show ?thesis using False i
      by (intro exI [of _ "oam_hash g"]) (auto simp: ppu_wr_oam_def on_ppu_def)
  qed
qed

lemma ppu_wr_oam_ok: "gb_ok g \<Longrightarrow> i < 0xa0 \<Longrightarrow> wr_ok g (ppu_wr_oam i v g)"
  using ppu_wr_oam_spec [of g i v] by (auto simp: wr_ok_def gb_ok_def bus_frame_def)

text \<open>Sprite memory as seen through the monitor.\<close>

lemma uint_oam_addr: "i < 0xa0 \<Longrightarrow> uint (0xfe00 + of_nat i :: u16) = 0xfe00 + int i"
proof -
  assume i: "i < 0xa0"
  have "(0xfe00 + of_nat i :: u16) = of_nat (0xfe00 + i)" by simp
  then have "uint (0xfe00 + of_nat i :: u16) = int ((0xfe00 + i) mod 0x10000)"
    by (simp only: uint_nat unat_of_nat) simp
  with i show ?thesis by simp
qed

lemma wr_oam: "i < 0xa0 \<Longrightarrow> monitor_wr_mem (0xfe00 + of_nat i) v g = ppu_wr_oam i v g"
proof -
  assume i: "i < 0xa0"
  let ?a = "0xfe00 + of_nat i :: u16"
  have u: "uint ?a = 0xfe00 + int i" using i by (rule uint_oam_addr)
  have "monitor_wr_mem ?a v g = ppu_wr ?a v g"
    unfolding monitor_wr_mem.simps [of ?a] using i by (simp add: word_le_def word_uint_eq_iff u del: of_nat_numeral)
  also have "\<dots> = ppu_wr_oam (nat (uint ?a - 0xfe00)) v g"
    unfolding ppu_wr.simps [of ?a] using i by (simp add: word_le_def u)
  finally show ?thesis by (simp add: u)
qed

lemma rd_oam: "i < 0xa0 \<Longrightarrow> monitor_rd_mem (0xfe00 + of_nat i) g = Some (oam (ppu g) i)"
proof -
  assume i: "i < 0xa0"
  let ?a = "0xfe00 + of_nat i :: u16"
  have u: "uint ?a = 0xfe00 + int i" using i by (rule uint_oam_addr)
  have "monitor_rd_mem ?a g = ppu_rd ?a (ppu g)"
    using i by (simp add: monitor_rd_mem_def word_le_def u)
  also have "\<dots> = Some (oam (ppu g) i)"
    using i by (simp add: ppu_rd_def word_le_def u OAM_SIZE_def)
  finally show ?thesis .
qed

section \<open>Every read is defined\<close>

lemma cpu_rd_regs [simp]: "cpu_rd a (c\<lparr>regs := r\<rparr>) = cpu_rd a c"
  by (simp add: cpu_rd_def)

lemma rd_on_regs [simp]: "monitor_rd_mem a (on_regs f g) = monitor_rd_mem a g"
  unfolding monitor_rd_mem_def on_regs_simps cpu_rd_regs ..

lemma rd_total: "\<exists>v. monitor_rd_mem a g = Some v"
proof -
  have b: "0 \<le> uint a" "uint a < 65536" by (rule uint_u16_bounds)+
  consider (vram) "0x8000 \<le> uint a" "uint a \<le> 0x9fff" | (oam) "0xfe00 \<le> uint a" "uint a \<le> 0xfe9f"
    | (preg) "0xff40 \<le> uint a" "uint a \<le> 0xff4b" | (wram) "0xc000 \<le> uint a" "uint a \<le> 0xdfff"
    | (hram) "0xff80 \<le> uint a" "uint a \<le> 0xfffe" | (cart) "rom_addr a \<or> xram_addr a"
    | (io) "0xe000 \<le> uint a" "\<not> (0xfe00 \<le> uint a \<and> uint a \<le> 0xfe9f)"
        "\<not> (0xff40 \<le> uint a \<and> uint a \<le> 0xff4b)" "\<not> (0xff80 \<le> uint a \<and> uint a \<le> 0xfffe)"
    using b unfolding cart_addr_defs word_le_def by simp linarith
  then show ?thesis
  proof cases
    case cart
    then have "\<not> (0x8000 \<le> a \<and> a \<le> 0x9fff)" "\<not> 0xc000 \<le> a" "a \<le> 0xbfff" "\<not> 0xfe00 \<le> a"
      "\<not> 0xff40 \<le> a" "\<not> 0xff80 \<le> a"
      by (auto simp: cart_addr_defs word_le_def)
    with mbc1.rd_total [OF cart] show ?thesis unfolding monitor_rd_mem_def by auto
  next
    case io
    then have "\<exists>v. cpu_rd a (cpu g) = Some v" by (auto simp: cpu_rd_def word_le_def ram_sizes)
    moreover have "a \<noteq> 0xffff \<Longrightarrow> uint a < 0xffff" using b by (simp add: word_uint_eq_iff)
    ultimately show ?thesis
      using io b by (auto simp: monitor_rd_mem_def word_le_def IOREGS_SIZE_def)
  qed (auto simp: monitor_rd_mem_def word_le_def ppu_rd_def cpu_rd_def ppu_sizes ram_sizes)
qed

lemma returns_rd: "returns (monitor_rd_mem a g) Q \<longleftrightarrow> Q (the (monitor_rd_mem a g))"
  using rd_total [of a g] by (auto simp: returns_iff)

section \<open>Every write is defined and keeps the invariant\<close>

text \<open>The sprite transfer.\<close>

lemma dma_loop_ok: "gb_ok g \<Longrightarrow> wr_ok g (dma_loop i src g)"
proof (induction "0xa0 - i" arbitrary: i g)
  case 0
  then show ?case by (simp add: dma_loop.simps [of i] wr_ok_Some)
next
  case (Suc n)
  then have i: "i < 0xa0" by simp
  obtain v where v: "monitor_rd_mem (src + of_nat i) g = Some v" using rd_total by blast
  have "wr_ok g (monitor_wr_mem (0xfe00 + of_nat i) v g \<bind> dma_loop (i + 1) src)"
    unfolding wr_oam [OF i]
    using ppu_wr_oam_ok [OF Suc.prems i] Suc by (intro wr_ok_bind) auto
  then show ?case using i v by (simp add: dma_loop.simps [of i])
qed

lemma wr_reg_ok: "gb_ok g \<Longrightarrow> wr_ok g (wr_reg a v g)"
  unfolding wr_reg.simps [of a]
  using dma_loop_ok [of g 0 "push_bit 8 (ucast v)"]
  by (simp add: wr_ok_Some gb_ok_def bus_frame_def wr_lcdc_def ppu_reset_def Let_def)

lemma ppu_wr_ok: "gb_ok g \<Longrightarrow> wr_ok g (ppu_wr a v g)"
proof -
  assume ok: "gb_ok g"
  have "wr_ok g (ppu_wr_oam (nat (uint a - 0xfe00)) v g)" if "uint a \<le> 0xfe9f"
    using that by (intro ppu_wr_oam_ok [OF ok]) linarith
  with ok wr_reg_ok [OF ok, of a v] show ?thesis
    unfolding ppu_wr.simps [of a]
    by (simp add: wr_ok_def gb_ok_def bus_frame_def word_le_def ppu_sizes)
qed

lemma monitor_wr_ok: "gb_ok g \<Longrightarrow> wr_ok g (monitor_wr_mem a v g)"
proof -
  assume ok: "gb_ok g"
  have "wr_ok g (gb_cpu_wr a v g \<bind> gb_mbc_wr a v)" if "a = 0xff50"
    using that gb_cpu_wr_ok [OF ok] gb_mbc_wr_ok by (intro wr_ok_bind) auto
  moreover have "a \<le> 0xbfff \<Longrightarrow> \<not> (a \<ge> 0x8000 \<and> a \<le> 0x9fff) \<Longrightarrow> rom_addr a \<or> xram_addr a"
    by (auto simp: cart_addr_defs word_le_def)
  ultimately show ?thesis
    unfolding monitor_wr_mem.simps [of a]
    using gb_cpu_wr_ok [OF ok] gb_mbc_wr_ok [OF ok] gb_io_wr_ok [OF ok] ppu_wr_ok [OF ok] by auto
qed

lemma returns_wr [wp]:
  assumes "gb_ok g" "\<And>g'. monitor_wr_mem a v g = Some g' \<Longrightarrow> gb_ok g' \<Longrightarrow> bus_frame g g' \<Longrightarrow> Q g'"
  shows "returns (monitor_wr_mem a v g) Q"
  using monitor_wr_ok [OF assms(1), of a v] assms(2) by (auto simp: wr_ok_def returns_iff)

end
