(* ===== verification/Bus.thy ===== *)
theory Bus
  imports Monitor_Facts
begin

text \<open>
  The memory map as an interface.  The instructions of the CPU know memory only through
  \<open>monitor_rd_mem\<close> and \<open>monitor_wr_mem\<close>; the locale \<open>memory_bus\<close> states what they may rely
  on: reads and writes return, the invariant is kept, and RAM keeps what is written to it.
  The theory proves these laws for the monitor and interprets the locale on it.
\<close>

section \<open>The interface\<close>

locale memory_bus =
  fixes rd :: "u16 \<Rightarrow> 's \<Rightarrow> u8 option"
    and wr :: "u16 \<Rightarrow> u8 \<Rightarrow> 's \<Rightarrow> 's option"
    and good :: "'s \<Rightarrow> bool"
    and ram :: "u16 \<Rightarrow> bool"
  assumes rd_returns: "\<exists>v. rd a s = Some v"
    and wr_returns: "good s \<Longrightarrow> \<exists>s'. wr a v s = Some s' \<and> good s'"
    and rd_wr: "good s \<Longrightarrow> wr a v s = Some s' \<Longrightarrow> ram b \<Longrightarrow> rd b s' = (if a = b then Some v else rd b s)"
begin

text \<open>A 16-bit access is two byte accesses, low byte first, the second at the next address.\<close>

definition wr2 :: "u16 \<Rightarrow> u16 \<Rightarrow> 's \<Rightarrow> 's option" where
  "wr2 a w s = do { s \<leftarrow> wr a (lo8 w) s; wr (a + 1) (hi8 w) s }"

definition rd2 :: "u16 \<Rightarrow> 's \<Rightarrow> u16 option" where
  "rd2 a s = do { l \<leftarrow> rd a s; h \<leftarrow> rd (a + 1) s; Some (mk16 h l) }"

lemma wr2_total: "good s \<Longrightarrow> \<exists>s'. wr2 a w s = Some s' \<and> good s'"
proof -
  assume "good s"
  then obtain t where t: "wr a (lo8 w) s = Some t" "good t" using wr_returns by blast
  then obtain s' where "wr (a + 1) (hi8 w) t = Some s'" "good s'" using wr_returns by blast
  with t show ?thesis by (simp add: wr2_def)
qed

lemma neq_next: "(a::u16) \<noteq> a + 1"
  by simp

lemma rd2_wr2: "good s \<Longrightarrow> wr2 a w s = Some s' \<Longrightarrow> ram a \<Longrightarrow> ram (a + 1) \<Longrightarrow> rd2 a s' = Some w"
proof -
  assume good: "good s" and w: "wr2 a w s = Some s'" and ram: "ram a" "ram (a + 1)"
  from w obtain t where t: "wr a (lo8 w) s = Some t" "wr (a + 1) (hi8 w) t = Some s'"
    by (auto simp: wr2_def bind_eq_Some)
  have "good t" using wr_returns [OF good, of a "lo8 w"] t(1) by auto
  with t good ram rd_wr [of s a "lo8 w" t a] rd_wr [of t "a + 1" "hi8 w" s' a]
    rd_wr [of t "a + 1" "hi8 w" s' "a + 1"]
  show ?thesis by (simp add: rd2_def)
qed

lemma rd_wr2_other:
  "good s \<Longrightarrow> wr2 a w s = Some s' \<Longrightarrow> ram b \<Longrightarrow> b \<noteq> a \<Longrightarrow> b \<noteq> a + 1 \<Longrightarrow> rd b s' = rd b s"
proof -
  assume good: "good s" and w: "wr2 a w s = Some s'" and ram: "ram b" "b \<noteq> a" "b \<noteq> a + 1"
  from w obtain t where t: "wr a (lo8 w) s = Some t" "wr (a + 1) (hi8 w) t = Some s'"
    by (auto simp: wr2_def bind_eq_Some)
  have "good t" using wr_returns [OF good, of a "lo8 w"] t(1) by auto
  with t good ram show ?thesis using rd_wr [of s a "lo8 w" t b] rd_wr [of t "a + 1" "hi8 w" s' b] by simp
qed

end

section \<open>RAM behind the monitor\<close>

text \<open>Video RAM, cartridge RAM, work RAM and high RAM.\<close>

definition in_range :: "int \<Rightarrow> int \<Rightarrow> u16 \<Rightarrow> bool" where
  "in_range lo hi a = (lo \<le> uint a \<and> uint a \<le> hi)"

definition ram_addr :: "u16 \<Rightarrow> bool" where
  "ram_addr a = (in_range 0x8000 0xdfff a \<or> in_range 0xff80 0xfffe a)"

text \<open>A write to the memory cells that start at address \<open>lo\<close>.\<close>

definition upd_range :: "int \<Rightarrow> int \<Rightarrow> u16 \<Rightarrow> u8 \<Rightarrow> u8 arr \<Rightarrow> u8 arr" where
  "upd_range lo hi a v m = (if in_range lo hi a then m(nat (uint a - lo) := v) else m)"

lemma upd_range_out [simp]: "\<not> in_range lo hi a \<Longrightarrow> upd_range lo hi a v m = m"
  by (simp add: upd_range_def)

lemma upd_range_get:
  "in_range lo hi b \<Longrightarrow> upd_range lo hi a v m (nat (uint b - lo)) =
    (if a = b then v else m (nat (uint b - lo)))"
  by (auto simp: upd_range_def in_range_def word_uint_eq_iff nat_eq_iff)

text \<open>The RAM arrays of the machine and what a write does to each.\<close>

definition ram_eff :: "u16 \<Rightarrow> u8 \<Rightarrow> gb \<Rightarrow> gb \<Rightarrow> bool" where
  "ram_eff a v g g' \<longleftrightarrow>
    tile_data (ppu g') = upd_range 0x8000 0x97ff a v (tile_data (ppu g)) \<and>
    tile_map1 (ppu g') = upd_range 0x9800 0x9bff a v (tile_map1 (ppu g)) \<and>
    tile_map2 (ppu g') = upd_range 0x9c00 0x9fff a v (tile_map2 (ppu g)) \<and>
    mbc1_ram (mbc g') = upd_range 0xa000 0xbfff a v (mbc1_ram (mbc g)) \<and>
    wram (cpu g') = upd_range 0xc000 0xdfff a v (wram (cpu g)) \<and>
    hram (cpu g') = upd_range 0xff80 0xfffe a v (hram (cpu g))"

definition same_ram :: "gb \<Rightarrow> gb \<Rightarrow> bool" where
  "same_ram g g' \<longleftrightarrow> tile_data (ppu g') = tile_data (ppu g) \<and> tile_map1 (ppu g') = tile_map1 (ppu g) \<and>
    tile_map2 (ppu g') = tile_map2 (ppu g) \<and> mbc1_ram (mbc g') = mbc1_ram (mbc g) \<and>
    wram (cpu g') = wram (cpu g) \<and> hram (cpu g') = hram (cpu g)"

lemma same_ram_refl [simp]: "same_ram g g"
  by (simp add: same_ram_def)

lemma same_ram_trans: "same_ram g h \<Longrightarrow> same_ram h k \<Longrightarrow> same_ram g k"
  by (simp add: same_ram_def)

lemma ram_eff_other: "\<not> ram_addr a \<Longrightarrow> ram_eff a v g g' \<longleftrightarrow> same_ram g g'"
  by (auto simp: ram_eff_def same_ram_def ram_addr_def in_range_def upd_range_def)

lemma dma_loop_ram: "gb_ok g \<Longrightarrow> dma_loop i src g = Some g' \<Longrightarrow> same_ram g g'"
proof (induction "0xa0 - i" arbitrary: i g)
  case 0
  then show ?case by (simp add: dma_loop.simps [of i])
next
  case (Suc n)
  then have i: "i < 0xa0" by simp
  obtain v h where v: "monitor_rd_mem (src + of_nat i) g = Some v"
    and h: "ppu_wr_oam i v g = Some h" "dma_loop (i + 1) src h = Some g'"
    using Suc.prems(2) i by (auto simp: dma_loop.simps [of i] wr_oam bind_eq_Some)
  have "gb_ok h" using ppu_wr_oam_ok [OF Suc.prems(1) i, of v] h(1) by (simp add: wr_ok_Some)
  then have "same_ram h g'" using Suc h(2) by (intro Suc.hyps(1)) auto
  moreover have "same_ram g h"
    using ppu_wr_oam_spec [OF Suc.prems(1) i, of v] h(1) by (auto simp: same_ram_def)
  ultimately show ?case by (rule same_ram_trans [rotated])
qed

lemma wr_reg_ram: "gb_ok g \<Longrightarrow> wr_reg a v g = Some g' \<Longrightarrow> same_ram g g'"
  unfolding wr_reg.simps [of a]
  by (auto simp: same_ram_def wr_lcdc_def ppu_reset_def Let_def
      dest: dma_loop_ram [unfolded same_ram_def] split: if_splits)

lemma ppu_wr_ram:
  assumes "gb_ok g" "ppu_wr a v g = Some g'" "a \<le> 0xff4b" "\<not> in_range 0xa000 0xdfff a"
  shows "ram_eff a v g g'"
proof -
  consider (reg) "0xff40 \<le> a" | (td) "in_range 0x8000 0x97ff a" | (m1) "in_range 0x9800 0x9bff a"
    | (m2) "in_range 0x9c00 0x9fff a" | (oam) "in_range 0xfe00 0xfe9f a"
    | (none) "\<not> 0xff40 \<le> a" "\<not> in_range 0x8000 0x9fff a" "\<not> in_range 0xfe00 0xfe9f a"
    unfolding in_range_def by linarith
  then show ?thesis
  proof cases
    case reg
    then have "same_ram g g'"
      using assms wr_reg_ram [of g a v g'] unfolding ppu_wr.simps [of a] by simp
    moreover have "\<not> ram_addr a" using reg assms(3) by (auto simp: ram_addr_def in_range_def word_le_def)
    ultimately show ?thesis by (simp add: ram_eff_other)
  next
    case oam
    then have i: "nat (uint a - 0xfe00) < 0xa0" by (auto simp: in_range_def)
    have "ppu_wr_oam (nat (uint a - 0xfe00)) v g = Some g'"
      using assms(2) oam unfolding ppu_wr.simps [of a] by (simp add: in_range_def word_le_def)
    then have "same_ram g g'" using ppu_wr_oam_spec [OF assms(1) i, of v] by (auto simp: same_ram_def)
    moreover have "\<not> ram_addr a" using oam by (auto simp: ram_addr_def in_range_def)
    ultimately show ?thesis by (simp add: ram_eff_other)
  next
    case td
    then have b: "0x8000 \<le> uint a" "uint a \<le> 0x97ff" by (simp_all add: in_range_def)
    with assms(2) have "g' = on_ppu (\<lambda>p. p\<lparr>tile_data := (tile_data p)(nat (uint a - 0x8000) := v)\<rparr>) g"
      unfolding ppu_wr.simps [of a] by (simp add: word_le_def ppu_sizes on_ppu_def)
    with b show ?thesis by (simp add: ram_eff_def in_range_def upd_range_def)
  next
    case m1
    then have b: "0x9800 \<le> uint a" "uint a \<le> 0x9bff" by (simp_all add: in_range_def)
    with assms(2) have "g' = on_ppu (\<lambda>p. p\<lparr>tile_map1 := (tile_map1 p)(nat (uint a - 0x9800) := v)\<rparr>) g"
      unfolding ppu_wr.simps [of a] by (simp add: word_le_def ppu_sizes on_ppu_def)
    with b show ?thesis by (simp add: ram_eff_def in_range_def upd_range_def)
  next
    case m2
    then have b: "0x9c00 \<le> uint a" "uint a \<le> 0x9fff" by (simp_all add: in_range_def)
    with assms(2) have "g' = on_ppu (\<lambda>p. p\<lparr>tile_map2 := (tile_map2 p)(nat (uint a - 0x9c00) := v)\<rparr>) g"
      unfolding ppu_wr.simps [of a] by (simp add: word_le_def ppu_sizes on_ppu_def)
    with b show ?thesis by (simp add: ram_eff_def in_range_def upd_range_def)
  next
    case none
    then have "g' = g" using assms(2) unfolding ppu_wr.simps [of a] in_range_def word_le_def
      by (simp split: if_splits)
    moreover have "\<not> ram_addr a"
      using none assms(3,4) unfolding ram_addr_def in_range_def word_le_def by auto
    ultimately show ?thesis by (simp add: ram_eff_other)
  qed
qed

lemma gb_cpu_wr_ram:
  assumes "gb_cpu_wr a v g = Some g'" "\<not> in_range 0x8000 0xbfff a"
  shows "ram_eff a v g g'"
proof -
  consider (wram) "in_range 0xc000 0xdfff a" | (hram) "in_range 0xff80 0xfffe a" | (other) "\<not> ram_addr a"
    using assms(2) unfolding ram_addr_def in_range_def by linarith
  then show ?thesis
  proof cases
    case other
    then have n: "\<not> (a \<ge> 0xc000 \<and> a \<le> 0xdfff)" "\<not> (a \<ge> 0xff80 \<and> a \<le> 0xfffe)"
      by (auto simp: ram_addr_def in_range_def word_le_def)
    from assms(1) have "same_ram g g'"
      unfolding gb_cpu_wr_def cpu_wr_def if_not_P [OF n(1)] if_not_P [OF n(2)]
      by (auto simp: same_ram_def split: if_splits)
    with other show ?thesis by (simp add: ram_eff_other)
  next
    case wram
    then have b: "0xc000 \<le> uint a" "uint a \<le> 0xdfff" by (simp_all add: in_range_def)
    with assms(1) have "g' = on_cpu (\<lambda>c. c\<lparr>wram := (wram c)(nat (uint a - 0xc000) := v)\<rparr>) g"
      by (simp add: gb_cpu_wr_def cpu_wr_def word_le_def ram_sizes on_cpu_def)
    with b show ?thesis by (simp add: ram_eff_def in_range_def upd_range_def)
  next
    case hram
    then have b: "0xff80 \<le> uint a" "uint a \<le> 0xfffe" by (simp_all add: in_range_def)
    with assms(1) have "g' = on_cpu (\<lambda>c. c\<lparr>hram := (hram c)(nat (uint a - 0xff80) := v)\<rparr>) g"
      by (simp add: gb_cpu_wr_def cpu_wr_def word_le_def ram_sizes on_cpu_def)
    with b show ?thesis by (simp add: ram_eff_def in_range_def upd_range_def)
  qed
qed

lemma gb_mbc_wr_ram:
  assumes "gb_mbc_wr a v g = Some g'" "rom_addr a \<or> xram_addr a \<or> a = 0xff50"
  shows "ram_eff a v g g'"
proof (cases "xram_addr a")
  case True
  then have "mbc g' = (mbc g)\<lparr>mbc1_ram := (mbc1_ram (mbc g))(nat (uint a - 0xa000) := v)\<rparr>"
    and "cpu g' = cpu g" "ppu g' = ppu g"
    using assms(1) by (auto simp: gb_mbc_wr_def mbc1_wr_ram)
  then show ?thesis
    using addr_bounds(2,3) [OF True] by (simp add: ram_eff_def upd_range_def in_range_def)
next
  case False
  then have "mbc1_ram (mbc g') = mbc1_ram (mbc g)"
    using assms by (auto simp: gb_mbc_wr_def bind_eq_Some dest: mbc1_wr_keeps_ram [rotated])
  then have "same_ram g g'"
    using assms(1) by (auto simp: gb_mbc_wr_def same_ram_def bind_eq_Some)
  moreover have "\<not> ram_addr a"
    using False assms(2) by (auto simp: ram_addr_def in_range_def cart_addr_defs word_le_def)
  ultimately show ?thesis by (simp add: ram_eff_other)
qed

lemma monitor_wr_ram:
  assumes ok: "gb_ok g" and w: "monitor_wr_mem a v g = Some g'"
  shows "ram_eff a v g g'"
proof -
  have b: "0 \<le> uint a" "uint a < 65536" by (rule uint_u16_bounds)+
  consider (cpu) "gb_cpu_wr a v g = Some g'" "\<not> in_range 0x8000 0xbfff a"
    | (boot) h where "a = 0xff50" "gb_cpu_wr a v g = Some h" "gb_mbc_wr a v h = Some g'"
    | (ppu) "ppu_wr a v g = Some g'" "a \<le> 0xff4b" "\<not> in_range 0xa000 0xdfff a"
    | (mbc) "gb_mbc_wr a v g = Some g'" "rom_addr a \<or> xram_addr a"
    | (io) u where "gb_io_wr a u g = Some g'" "\<not> ram_addr a"
  proof -
    let ?B1 = "a \<in> {0xffff, 0xff0f, 0xff04, 0xff05, 0xff06, 0xff07}"
    let ?B3 = "(a \<ge> 0x8000 \<and> a \<le> 0x9fff) \<or> (a \<ge> 0xfe00 \<and> a \<le> 0xfe9f) \<or> (a \<ge> 0xff40 \<and> a \<le> 0xff4b)"
    let ?B4 = "a \<ge> 0xc000 \<and> a \<le> 0xdfff"
    let ?B5 = "a \<ge> 0xff80 \<and> a \<le> 0xfffe"
    note int = in_range_def ram_addr_def cart_addr_defs word_le_def
    consider "?B1" | "\<not> ?B1" "a = 0xff50" | "\<not> ?B1" "a \<noteq> 0xff50" ?B3
      | "\<not> ?B1" "a \<noteq> 0xff50" "\<not> ?B3" "?B4 \<or> ?B5"
      | "\<not> ?B1" "a \<noteq> 0xff50" "\<not> ?B3" "\<not> ?B4" "\<not> ?B5" "a \<le> 0xbfff"
      | "\<not> ?B1" "a \<noteq> 0xff50" "\<not> ?B3" "\<not> ?B4" "\<not> ?B5" "\<not> a \<le> 0xbfff"
      by blast
    then show thesis
    proof cases
      case 1
      then have "\<not> in_range 0x8000 0xbfff a" by (auto simp: in_range_def)
      with 1 w show thesis by (intro that(1)) (simp_all add: monitor_wr_mem.simps [of a])
    next
      case 2
      then show thesis
        using w that(2) unfolding monitor_wr_mem.simps [of a] if_not_P [OF 2(1)] if_P [OF 2(2)]
        by (auto simp: bind_eq_Some)
    next
      case 3
      then have "a \<le> 0xff4b" "\<not> in_range 0xa000 0xdfff a" by (auto simp: int)
      with 3 w show thesis by (intro that(3)) (simp_all only: monitor_wr_mem.simps [of a] if_P if_not_P simp_thms)
    next
      case 4
      then have "\<not> in_range 0x8000 0xbfff a" by (auto simp: int)
      moreover have "gb_cpu_wr a v g = Some g'"
        using w 4(4) unfolding monitor_wr_mem.simps [of a] if_not_P [OF 4(1)] if_not_P [OF 4(2)]
          if_not_P [OF 4(3)] by (cases ?B4) (simp_all only: if_P if_not_P simp_thms)
      ultimately show thesis by (intro that(1))
    next
      case 5
      then have "rom_addr a \<or> xram_addr a" by (auto simp: int)
      moreover have "gb_mbc_wr a v g = Some g'"
        using w 5(6) unfolding monitor_wr_mem.simps [of a] if_not_P [OF 5(1)] if_not_P [OF 5(2)]
          if_not_P [OF 5(3)] if_not_P [OF 5(4)] if_not_P [OF 5(5)] by simp
      ultimately show thesis by (intro that(4))
    next
      case 6
      then have "\<not> ram_addr a" using b unfolding int by simp
      then show thesis
        using w that(5) unfolding monitor_wr_mem.simps [of a] if_not_P [OF 6(1)] if_not_P [OF 6(2)]
          if_not_P [OF 6(3)] if_not_P [OF 6(4)] if_not_P [OF 6(5)] if_not_P [OF 6(6)]
        by (cases "a = 0xff00") simp_all
    qed
  qed
  then show ?thesis
  proof cases
    case cpu
    then show ?thesis by (rule gb_cpu_wr_ram)
  next
    case boot
    then have "ram_eff a v g h" "ram_eff a v h g'" "\<not> ram_addr a"
      using gb_cpu_wr_ram [of a v g h] gb_mbc_wr_ram [of a v h g'] by (simp_all add: in_range_def ram_addr_def)
    then show ?thesis using same_ram_trans by (simp add: ram_eff_other)
  next
    case ppu
    then show ?thesis by (rule ppu_wr_ram [OF ok])
  next
    case mbc
    then show ?thesis using gb_mbc_wr_ram by blast
  next
    case io
    then have "same_ram g g'" by (auto simp: gb_io_wr_def same_ram_def bind_eq_Some)
    with io show ?thesis by (simp add: ram_eff_other)
  qed
qed

text \<open>What a read of RAM returns.\<close>

definition ram_byte :: "gb \<Rightarrow> u16 \<Rightarrow> u8" where
  "ram_byte g b =
    (if in_range 0x8000 0x97ff b then tile_data (ppu g) (nat (uint b - 0x8000))
     else if in_range 0x9800 0x9bff b then tile_map1 (ppu g) (nat (uint b - 0x9800))
     else if in_range 0x9c00 0x9fff b then tile_map2 (ppu g) (nat (uint b - 0x9c00))
     else if in_range 0xa000 0xbfff b then mbc1_ram (mbc g) (nat (uint b - 0xa000))
     else if in_range 0xc000 0xdfff b then wram (cpu g) (nat (uint b - 0xc000))
     else hram (cpu g) (nat (uint b - 0xff80)))"

lemma ram_regions:
  assumes "ram_addr b"
  obtains (td) "in_range 0x8000 0x97ff b" | (m1) "in_range 0x9800 0x9bff b"
    | (m2) "in_range 0x9c00 0x9fff b" | (xram) "in_range 0xa000 0xbfff b"
    | (wram) "in_range 0xc000 0xdfff b" | (hram) "in_range 0xff80 0xfffe b"
  using assms unfolding ram_addr_def in_range_def by linarith

lemma rd_ram: "ram_addr b \<Longrightarrow> monitor_rd_mem b g = Some (ram_byte g b)"
proof (erule ram_regions)
  assume "in_range 0xa000 0xbfff b"
  then have "xram_addr b" by (simp add: in_range_def xram_addr_def word_le_def)
  from mbc1_rd_ram [OF this] addr_bounds(2,3) [OF this] show ?thesis
    by (simp add: monitor_rd_mem_def ram_byte_def in_range_def word_le_def)
qed (simp_all add: monitor_rd_mem_def ppu_rd_def cpu_rd_def ram_byte_def in_range_def word_le_def
      ppu_sizes ram_sizes)

lemma ram_byte_wr:
  assumes "ram_eff a v g g'" "ram_addr b"
  shows "ram_byte g' b = (if a = b then v else ram_byte g b)"
  using assms(2)
proof (rule ram_regions)
qed (use assms(1) in \<open>simp_all add: ram_byte_def ram_eff_def upd_range_get\<close>)

interpretation bus: memory_bus monitor_rd_mem monitor_wr_mem gb_ok ram_addr
proof unfold_locales
  fix a b :: u16 and v :: u8 and g g' :: gb
  show "\<exists>v. monitor_rd_mem a g = Some v" by (rule rd_total)
  show "gb_ok g \<Longrightarrow> \<exists>g'. monitor_wr_mem a v g = Some g' \<and> gb_ok g'"
    using monitor_wr_ok [of g a v] by (auto simp: wr_ok_def returns_iff)
  show "monitor_rd_mem b g' = (if a = b then Some v else monitor_rd_mem b g)"
    if "gb_ok g" "monitor_wr_mem a v g = Some g'" "ram_addr b"
    using ram_byte_wr [OF monitor_wr_ram [OF that(1,2)] that(3)] that(3) by (simp add: rd_ram)
qed

end
