(* ===== verification/Alu_Facts.thy ===== *)
theory Alu_Facts
  imports Alu
begin

text \<open>
  What the macros of \<open>Alu\<close> compute: each is one assignment of its result and of the flag
  byte, with the flags given by plain arithmetic on the operands.
\<close>

named_theorems alu \<open>the arithmetic meaning of the flag tests\<close>

lemma and_16_iff [simp]: "((x::int) AND 16 \<noteq> 0) = bit x 4" "((x::int) AND 16 = 0) = (\<not> bit x 4)"
  using and_exp_eq_0_iff [of x 4] by simp_all

lemma and_4096_iff [simp]:
  "((x::int) AND 4096 \<noteq> 0) = bit x 12" "((x::int) AND 4096 = 0) = (\<not> bit x 12)"
  using and_exp_eq_0_iff [of x 12] by simp_all

lemma IS_ADD_HALF_CARRY_iff [alu]: "IS_ADD_HALF_CARRY x y \<longleftrightarrow> x mod 16 + y mod 16 \<ge> 16"
  using bit_xor_add [of 4 x y] by (simp add: IS_ADD_HALF_CARRY_def)

lemma IS_ADD16_HALF_CARRY_iff [alu]:
  "IS_ADD16_HALF_CARRY x y \<longleftrightarrow> x mod 4096 + y mod 4096 \<ge> 4096"
  using bit_xor_add [of 12 x y] by (simp add: IS_ADD16_HALF_CARRY_def)

lemma IS_SUB_HALF_CARRY_iff [alu]: "IS_SUB_HALF_CARRY x y \<longleftrightarrow> x mod 16 < y mod 16"
  using bit_xor_diff [of 4 x y] by (simp add: IS_SUB_HALF_CARRY_def)

lemma IS_CP_eq [alu]: "IS_CP_HALF_CARRY = IS_SUB_HALF_CARRY" "IS_CP_CARRY = IS_SUB_CARRY"
  "IS_CP_ZERO = IS_SUB_ZERO"
  by (simp_all add: fun_eq_iff IS_CP_HALF_CARRY_def IS_SUB_HALF_CARRY_def IS_CP_CARRY_def
      IS_SUB_CARRY_def IS_CP_ZERO_def IS_SUB_ZERO_def)

lemma add_mod_cases:
  assumes "0 \<le> a" "a < m" "0 \<le> b" "b \<le> m"
  shows "(a + b) mod m = (if a + b < m then a + b else a + b - (m::int))"
proof (cases "a + b < m")
  case False
  have "(a + b) mod m = (a + b - m) mod m" by simp
  also have "\<dots> = a + b - m" using assms False by (intro mod_pos_pos_trivial) auto
  finally show ?thesis using False by simp
qed (use assms in \<open>simp add: mod_pos_pos_trivial\<close>)

lemma sub_mod_cases:
  assumes "0 \<le> a" "a < m" "0 \<le> b" "b \<le> m"
  shows "(a - b) mod m = (if b \<le> a then a - b else a - b + (m::int))"
proof (cases "b \<le> a")
  case False
  have "(a - b) mod m = (a - b + m) mod m" by simp
  also have "\<dots> = a - b + m" using assms False by (intro mod_pos_pos_trivial) auto
  finally show ?thesis using False by simp
qed (use assms in \<open>simp add: mod_pos_pos_trivial\<close>)

lemma IS_ADD_CARRY_iff [alu]:
  "0 \<le> y \<Longrightarrow> y \<le> 256 \<Longrightarrow> IS_ADD_CARRY (uint (a::u8)) y \<longleftrightarrow> uint a + y \<ge> 256 \<and> y < 256"
  using uint_u8_bounds [of a]
  unfolding IS_ADD_CARRY_def uint_wi8 by (subst add_mod_cases) auto

lemma IS_ADD16_CARRY_iff [alu]:
  "IS_ADD16_CARRY (uint (a::u16)) (uint (b::u16)) \<longleftrightarrow> uint a + uint b \<ge> 65536"
  using uint_u16_bounds [of a] uint_u16_bounds [of b]
  unfolding IS_ADD16_CARRY_def uint_wi16 by (subst add_mod_cases) auto

lemma IS_SUB_CARRY_iff [alu]:
  "0 \<le> y \<Longrightarrow> y \<le> 256 \<Longrightarrow> IS_SUB_CARRY (uint (a::u8)) y \<longleftrightarrow> uint a < y \<and> y < 256"
  using uint_u8_bounds [of a]
  unfolding IS_SUB_CARRY_def uint_wi8 by (subst sub_mod_cases) auto

text \<open>An operand enters the tests only through its residues, so a byte loaded into an
  \<open>int8_t\<close> gives the flags and the sum of the same byte read as \<open>uint8_t\<close>.\<close>

lemma s8_cong: "(word_of_int (x + s8 b) :: u8) = word_of_int (x + uint b)"
  "(word_of_int (x - s8 b) :: u8) = word_of_int (x - uint b)"
  by (simp_all add: s8_def wi_hom_syms)

lemma s8_mod: "s8 b mod 16 = uint b mod 16"
proof -
  have "s8 b mod 2 ^ 8 mod 16 = uint b mod 2 ^ 8 mod 16"
    by (simp add: s8_def uint_sint take_bit_eq_mod)
  then show ?thesis by (simp add: mod_mod_cancel)
qed

section \<open>Addition and subtraction\<close>

lemma IS_ADD_ZERO_iff [alu]: "IS_ADD_ZERO (uint (a::u8)) y \<longleftrightarrow> a + word_of_int y = 0"
  by (simp add: IS_ADD_ZERO_def wi_hom_syms)

lemma IS_SUB_ZERO_iff [alu]: "IS_SUB_ZERO (uint (a::u8)) y \<longleftrightarrow> a = word_of_int y"
  by (simp add: IS_SUB_ZERO_def wi_hom_syms)

lemma DO_ADD_eq:
  assumes "f_ok r"
  shows "DO_ADD (uint b) 0 r = r\<lparr>r_a := r_a r + b,
    r_f := flags (r_a r + b = 0) False (uint (r_a r) mod 16 + uint b mod 16 \<ge> 16)
             (uint (r_a r) + uint b \<ge> 256)\<rparr>"
  by (rule registers_f_eqI)
    (use assms uint_u8_bounds [of b] in \<open>simp_all add: DO_ADD_def Let_def alu\<close>)

lemma DO_SUB_eq:
  assumes "f_ok r"
  shows "DO_SUB (uint b) 0 r = r\<lparr>r_a := r_a r - b,
    r_f := flags (r_a r = b) True (uint (r_a r) mod 16 < uint b mod 16)
             (uint (r_a r) < uint b)\<rparr>"
  by (rule registers_f_eqI)
    (use assms uint_u8_bounds [of b] in \<open>simp_all add: DO_SUB_def Let_def alu\<close>)

lemma DO_CP_eq:
  assumes "f_ok r"
  shows "DO_CP (uint b) r = r\<lparr>
    r_f := flags (r_a r = b) True (uint (r_a r) mod 16 < uint b mod 16)
             (uint (r_a r) < uint b)\<rparr>"
  by (rule registers_f_eqI)
    (use assms uint_u8_bounds [of b] in \<open>simp_all add: DO_CP_def Let_def alu\<close>)

lemma s8_tests:
  "IS_ADD_CARRY x (s8 b) = IS_ADD_CARRY x (uint b)"
  "IS_ADD_HALF_CARRY x (s8 b) = IS_ADD_HALF_CARRY x (uint b)"
  "IS_ADD_ZERO x (s8 b) = IS_ADD_ZERO x (uint b)"
  "IS_SUB_CARRY x (s8 b) = IS_SUB_CARRY x (uint b)"
  "IS_SUB_HALF_CARRY x (s8 b) = IS_SUB_HALF_CARRY x (uint b)"
  "IS_SUB_ZERO x (s8 b) = IS_SUB_ZERO x (uint b)"
  unfolding IS_ADD_CARRY_def IS_ADD_HALF_CARRY_iff IS_ADD_ZERO_def IS_SUB_CARRY_def
    IS_SUB_HALF_CARRY_iff IS_SUB_ZERO_def s8_cong s8_mod
  by (rule refl)+

lemma DO_ADD_s8: "DO_ADD (s8 b) 0 r = DO_ADD (uint b) 0 r"
  unfolding DO_ADD_def Let_def add_0_right s8_tests s8_cong by (rule refl)

lemma DO_SUB_s8: "DO_SUB (s8 b) 0 r = DO_SUB (uint b) 0 r"
  unfolding DO_SUB_def Let_def add_0_right s8_tests s8_cong by (rule refl)

section \<open>Addition and subtraction with carry\<close>

lemma and_ff00_int:
  assumes "0 \<le> x" "x < 65536"
  shows "(x AND 0xff00 = 0) \<longleftrightarrow> x < (256::int)"
proof -
  have m: "(0xff00 :: int) = push_bit 8 (mask 8)" by (simp add: mask_numeral)
  have "x AND push_bit 8 (mask 8) = push_bit 8 (take_bit 8 (drop_bit 8 x))"
    by (rule bit_eqI) (auto simp: bit_simps)
  then have "x AND 0xff00 = x div 256 mod 256 * 256"
    by (simp add: m push_bit_eq_mult take_bit_eq_mod drop_bit_eq_div)
  moreover have "x div 256 < 256" "0 \<le> x div 256" using assms by auto
  ultimately show ?thesis by (simp add: mod_pos_pos_trivial) (use assms in linarith)
qed

lemma and_ff00_u16: "(w AND 0xff00 = 0) \<longleftrightarrow> uint (w::u16) < 256"
proof -
  have "(w AND 0xff00 = 0) \<longleftrightarrow> uint w AND 0xff00 = 0"
    by (simp add: word_uint_eq_iff unsigned_and_eq)
  also have "\<dots> \<longleftrightarrow> uint w < 256"
    using uint_u16_bounds by (intro and_ff00_int) auto
  finally show ?thesis .
qed

text \<open>The carry out of bit 7 of \<open>a + b + c\<close>, and the borrow of \<open>a - (b + c)\<close>.\<close>

definition adc_flags :: "u8 \<Rightarrow> u8 \<Rightarrow> bool \<Rightarrow> u8" where
  "adc_flags a b c = flags (a + b + of_bool c = 0) False
     (uint a mod 16 + uint b mod 16 + of_bool c \<ge> 16) (uint a + uint b + of_bool c \<ge> 256)"

definition sbc_flags :: "u8 \<Rightarrow> u8 \<Rightarrow> bool \<Rightarrow> u8" where
  "sbc_flags a b c = flags (a - b - of_bool c = 0) True
     (uint a mod 16 < uint b mod 16 + of_bool c) (uint a < uint b + of_bool c)"

lemma adc_half [alu]:
  "((y XOR x XOR (x + y + of_bool c)) AND 0x10 \<noteq> 0) \<longleftrightarrow>
    x mod 16 + y mod 16 + of_bool c \<ge> (16::int)"
proof -
  have "bit (y XOR x XOR (x + y + of_bool c)) 4 = bit (x XOR y XOR (x + y + of_bool c)) 4"
    by (simp add: bit_xor_iff) blast
  then show ?thesis
    unfolding and_16_iff using bit_xor_add_carry [of 4 x y c] by simp
qed

lemma diff_add_mod16: "(x - (y + k)) mod 16 = (x mod 16 - (y mod 16 + k)) mod (16::int)"
proof -
  have "(x - (y + k)) mod 16 = (x mod 16 - (y + k) mod 16) mod 16"
    by (rule mod_diff_eq [symmetric])
  also have "(y + k) mod 16 = (y mod 16 + k) mod 16"
    by (rule mod_add_left_eq [symmetric])
  also have "(x mod 16 - (y mod 16 + k) mod 16) mod 16 = (x mod 16 - (y mod 16 + k)) mod 16"
    by (rule mod_diff_right_eq)
  finally show ?thesis .
qed

lemma sbc_half [alu]:
  "((y XOR x XOR (x - (y + of_bool c))) AND 0x10 \<noteq> 0) \<longleftrightarrow>
    x mod 16 < y mod 16 + (of_bool c :: int)"
proof -
  let ?d = "x - (y + of_bool c)"
  have "bit (y XOR x XOR ?d) 4 \<longleftrightarrow> bit (?d XOR y XOR (?d + y + of_bool c)) 4"
    by (simp add: bit_xor_iff) blast
  also have "\<dots> \<longleftrightarrow> ?d mod 16 + y mod 16 + of_bool c \<ge> 16"
    using bit_xor_add_carry [of 4 ?d y c] by simp
  also have "?d mod 16 = (x mod 16 - (y mod 16 + of_bool c)) mod 16"
    by (rule diff_add_mod16)
  also have "\<dots> = (if y mod 16 + of_bool c \<le> x mod 16 then x mod 16 - (y mod 16 + of_bool c)
      else x mod 16 - (y mod 16 + of_bool c) + 16)"
    using pos_mod_bound [of 16 y] by (intro sub_mod_cases) (auto simp del: pos_mod_bound)
  finally show ?thesis
    unfolding and_16_iff using pos_mod_bound [of 16 x] by auto
qed

lemma adc_carry [alu]:
  "((uint (a::u8) + uint (b::u8) + of_bool c) AND 0xff00 \<noteq> 0) \<longleftrightarrow>
    uint a + uint b + of_bool c \<ge> 256"
  using and_ff00_int [of "uint a + uint b + of_bool c"] uint_u8_bounds [of a] uint_u8_bounds [of b]
  by (cases c) auto

text \<open>The \<open>uint16_t\<close> sums of the separately written bodies hold the exact sum, and the
  difference modulo \<open>2 ^ 16\<close>.\<close>

lemma uint_sum16:
  "uint (word_of_int (uint (a::u8) + uint (b::u8) + of_bool c) :: u16) = uint a + uint b + of_bool c"
  unfolding uint_wi16 using uint_u8_bounds [of a] uint_u8_bounds [of b]
  by (intro mod_pos_pos_trivial) (cases c; simp)+

lemma borrow_mod:
  assumes "0 \<le> x" "x < 256" "0 \<le> y" "y < 256"
  shows "(x - (y + of_bool c)) mod 65536 < 256 \<longleftrightarrow> \<not> x < y + (of_bool c :: int)"
  using assms by (subst sub_mod_cases) auto

lemma sbc_borrow [alu]:
  "((word_of_int (uint (a::u8) - (uint (b::u8) + of_bool c)) :: u16) AND 0xff00 \<noteq> 0) \<longleftrightarrow>
    uint a < uint b + of_bool c"
  unfolding and_ff00_u16 uint_wi16
  using borrow_mod [OF uint_u8_bounds uint_u8_bounds, of a b c] by simp

lemma sbc_half16 [alu]:
  "((uint (b::u8) XOR uint (a::u8) XOR uint (word_of_int (uint a - (uint b + of_bool c)) :: u16))
      AND 0x10 \<noteq> 0) \<longleftrightarrow> uint a mod 16 < uint b mod 16 + of_bool c"
proof -
  have "bit (uint (word_of_int k :: u16)) 4 = bit k 4" for k :: int
    by (simp add: uint_word_of_int_eq bit_take_bit_iff)
  then show ?thesis
    using sbc_half [of "uint b" "uint a" c] by (simp only: and_16_iff bit_xor_iff)
qed

lemma adc_half16 [alu]:
  "((uint (b::u8) XOR uint (word_of_int (uint a + uint b + of_bool c) :: u16) XOR uint (a::u8))
      AND 0x10 \<noteq> 0) \<longleftrightarrow> uint a mod 16 + uint b mod 16 + of_bool c \<ge> 16"
  unfolding uint_sum16 using adc_half [of "uint b" "uint a" c]
  by (simp only: xor.commute xor.left_commute xor.assoc)

lemma sbc_half16' [alu]:
  "((uint (b::u8) XOR uint (word_of_int (uint a - (uint b + of_bool c)) :: u16) XOR uint (a::u8))
      AND 0x10 \<noteq> 0) \<longleftrightarrow> uint a mod 16 < uint b mod 16 + of_bool c"
  using sbc_half16 [of b a c] by (simp only: xor.commute xor.left_commute xor.assoc)

lemma adc_carry16 [alu]:
  "((word_of_int (uint (a::u8) + uint (b::u8) + of_bool c) :: u16) AND 0xff00 \<noteq> 0) \<longleftrightarrow>
    uint a + uint b + of_bool c \<ge> 256"
  unfolding and_ff00_u16 uint_sum16 by auto

lemma DO_ADC_eq:
  assumes "f_ok r"
  shows "DO_ADC (uint b) r = r\<lparr>r_a := r_a r + b + of_bool (cf r),
    r_f := adc_flags (r_a r) b (cf r)\<rparr>"
  unfolding adc_flags_def DO_ADC_def Let_def alu
  by (rule registers_f_eqI) (use assms in \<open>simp_all add: add.assoc\<close>)

lemma adc_word_eq:
  assumes "f_ok r"
  shows "adc_word b r = DO_ADC (uint b) r"
  unfolding DO_ADC_eq [OF assms] adc_flags_def adc_word_def Let_def flag_macro_regs alu
  by (rule registers_f_eqI) (use assms in \<open>simp_all add: add.assoc\<close>)

lemma DO_SBC_eq:
  assumes "f_ok r"
  shows "DO_SBC (uint b) r = r\<lparr>r_a := r_a r - b - of_bool (cf r),
    r_f := sbc_flags (r_a r) b (cf r)\<rparr>"
  unfolding sbc_flags_def DO_SBC_def Let_def alu
  by (rule registers_f_eqI) (use assms in \<open>simp_all add: diff_diff_eq\<close>)

lemma sbc_word_eq:
  assumes "f_ok r"
  shows "sbc_word b r = DO_SBC (uint b) r"
  unfolding DO_SBC_eq [OF assms] sbc_flags_def sbc_word_def Let_def flag_macro_regs alu
  by (rule registers_f_eqI) (use assms in \<open>simp_all add: diff_diff_eq\<close>)

section \<open>Increment, decrement and 16-bit addition\<close>

lemma mod16_plus_1: "(x mod 16 + 1 mod 16 \<ge> (16::int)) \<longleftrightarrow> x mod 16 = 15"
  using pos_mod_bound [of 16 x] by auto

lemma mod16_less_1: "(x mod 16 < 1 mod (16::int)) \<longleftrightarrow> x mod 16 = 0"
  using pos_mod_sign [of 16 x] by auto

lemma registers_f_set8_eqI:
  assumes "f_ok r" "zf r = z" "nf r = n" "hf r = h" "cf r = c" "r\<lparr>r_f := 0\<rparr> = q\<lparr>r_f := 0\<rparr>"
  shows "r = q\<lparr>r_f := flags z n h c\<rparr>"
proof -
  have "r = (r\<lparr>r_f := 0\<rparr>)\<lparr>r_f := flags z n h c\<rparr>" using r_f_flags [of r] assms(1-5) by simp
  also have "\<dots> = (q\<lparr>r_f := 0\<rparr>)\<lparr>r_f := flags z n h c\<rparr>" by (simp only: assms(6))
  finally show ?thesis by simp
qed

lemma OP_INC_REG_eq:
  assumes "f_ok r"
  shows "OP_INC_REG q r = (set8 q (get8 q r + 1) r)\<lparr>r_f :=
    flags (get8 q r + 1 = 0) False (uint (get8 q r) mod 16 = 15) (cf r)\<rparr>"
  unfolding OP_INC_REG_def Let_def alu mod16_plus_1
  by (rule registers_f_set8_eqI) (use assms in \<open>auto simp: set8_r_f_update bit_or_iff\<close>)

lemma OP_DEC_REG_eq:
  assumes "f_ok r"
  shows "OP_DEC_REG q r = (set8 q (get8 q r - 1) r)\<lparr>r_f :=
    flags (get8 q r = 1) True (uint (get8 q r) mod 16 = 0) (cf r)\<rparr>"
  unfolding OP_DEC_REG_def Let_def alu mod16_less_1
  by (rule registers_f_set8_eqI) (use assms in \<open>auto simp: set8_r_f_update bit_or_iff\<close>)

lemma get16_frame [simp]:
  "q \<noteq> REG_AF \<Longrightarrow> get16 q (SET_FLAG m r) = get16 q r"
  "q \<noteq> REG_AF \<Longrightarrow> get16 q (UNSET_FLAG m r) = get16 q r"
  "q \<noteq> REG_AF \<Longrightarrow> get16 q (UNSET_FLAGS_ALL r) = get16 q r"
  by (cases q; simp)+

lemma f_ok_set_HL [simp]: "f_ok (r\<lparr>r_h := a, r_l := b\<rparr>) = f_ok r"
  by (simp add: f_ok_def)

lemma flags_set_HL [simp]:
  "zf (r\<lparr>r_h := a, r_l := b\<rparr>) = zf r" "nf (r\<lparr>r_h := a, r_l := b\<rparr>) = nf r"
  "hf (r\<lparr>r_h := a, r_l := b\<rparr>) = hf r" "cf (r\<lparr>r_h := a, r_l := b\<rparr>) = cf r"
  by (simp_all add: flag_bits)

lemma DO_ADD16_eq:
  assumes "f_ok r" "q \<noteq> REG_AF"
  shows "DO_ADD16 q r = (set16 REG_HL (get16 REG_HL r + get16 q r) r)\<lparr>r_f :=
    flags (zf r) False
      (uint (get16 REG_HL r) mod 4096 + uint (get16 q r) mod 4096 \<ge> 4096)
      (uint (get16 REG_HL r) + uint (get16 q r) \<ge> 65536)\<rparr>"
  unfolding DO_ADD16_def Let_def alu
  by (rule registers_f_eqI) (use assms in \<open>simp_all del: get16.simps add: bit_or_iff\<close>)

section \<open>Logic, complement and carry\<close>

lemma DO_AND_eq:
  "f_ok r \<Longrightarrow> DO_AND b r = r\<lparr>r_a := r_a r AND b, r_f := flags (r_a r AND b = 0) False True False\<rparr>"
  unfolding DO_AND_def Let_def by (rule registers_f_eqI) simp_all

lemma DO_XOR_eq:
  "f_ok r \<Longrightarrow> DO_XOR b r = r\<lparr>r_a := r_a r XOR b, r_f := flags (r_a r XOR b = 0) False False False\<rparr>"
  unfolding DO_XOR_def Let_def by (rule registers_f_eqI) simp_all

lemma DO_OR_eq:
  "f_ok r \<Longrightarrow> DO_OR b r = r\<lparr>r_a := r_a r OR b,
    r_f := flags (r_a r OR b = 0) False False False\<rparr>"
  unfolding DO_OR_def Let_def by (rule registers_f_eqI) simp_all

lemma op_cpl_eq:
  "f_ok r \<Longrightarrow> op_cpl r = r\<lparr>r_a := NOT (r_a r), r_f := flags (zf r) True True (cf r)\<rparr>"
  unfolding op_cpl_def by (rule registers_f_eqI) (simp_all add: bit_or_iff)

lemma op_scf_eq: "f_ok r \<Longrightarrow> op_scf r = r\<lparr>r_f := flags (zf r) False False True\<rparr>"
  unfolding op_scf_def by (rule registers_f_eqI) (simp_all add: bit_or_iff)

lemma op_ccf_eq: "f_ok r \<Longrightarrow> op_ccf r = r\<lparr>r_f := flags (zf r) False False (\<not> cf r)\<rparr>"
  unfolding op_ccf_def Let_def UNSET_FLAG_def [symmetric] SET_FLAG_def [symmetric]
  by (rule registers_f_eqI) (simp_all add: bit_or_iff)

lemma DO_BIT_eq:
  "f_ok r \<Longrightarrow> DO_BIT m v r = r\<lparr>r_f := flags (v AND m = 0) False True (cf r)\<rparr>"
  unfolding DO_BIT_def Let_def by (rule registers_f_eqI) (simp_all add: bit_or_iff)

section \<open>Rotates and shifts\<close>

lemma and_mask_bits:
  "(v AND 0x80 \<noteq> 0) = bit v 7" "(v AND 1 \<noteq> 0) = bit v 0" for v :: u8
  using and_exp_eq_0_iff_not_bit [of v 7] and_exp_eq_0_iff_not_bit [of v 0] by simp_all

lemma bit_of_bool_u8: "bit (of_bool b :: u8) i \<longleftrightarrow> i = 0 \<and> b"
  by (simp add: bit_simps)

lemma bit_80: "bit (0x80 :: u8) i \<longleftrightarrow> i = 7"
  using bit_masks(1) [of i] by (simp add: flag_defs)

lemma bit_if: "bit (if b then x else y) i = (if b then bit x i else bit y i)"
  by simp

lemma bit_u8_ge: "8 \<le> i \<Longrightarrow> \<not> bit (v::u8) i"
  by (auto dest: bit_imp_le_length)

lemma bit_double: "bit (v * 2) i \<longleftrightarrow> 0 < i \<and> i < 8 \<and> bit (v::u8) (i - 1)"
  using bit_push_bit_iff [of 1 v i] by (auto simp: push_bit_eq_mult mult.commute)

lemmas rot_bits = u8_eq_iff bit_simps bit_word_rotl_iff bit_word_rotr_iff bit_of_bool_u8 bit_80
  bit_double bit_u8_ge numeral_3_eq_3 [symmetric]

text \<open>Each returns the new value and a file that differs in F alone.\<close>

lemma flag_pairI:
  assumes "v = v'" "f_ok s" "zf s = z" "nf s = n" "hf s = h" "cf s = c"
    "s\<lparr>r_f := 0\<rparr> = r\<lparr>r_f := 0\<rparr>"
  shows "(v, s) = (v', r\<lparr>r_f := flags z n h c\<rparr>)"
  using assms registers_f_set8_eqI [of s z n h c r] by simp

lemma DO_RLC_eq:
  "f_ok r \<Longrightarrow> DO_RLC v r =
    (word_rotl 1 v, r\<lparr>r_f := flags (word_rotl 1 v = 0) False False (bit v 7)\<rparr>)"
proof -
  assume r: "f_ok r"
  have v: "(push_bit 1 v AND NOT 1) OR of_bool (bit v 7) = word_rotl 1 v"
    by (simp add: rot_bits)
  show ?thesis unfolding DO_RLC_def Let_def and_mask_bits v
    by (rule flag_pairI) (simp_all add: r)
qed

lemma DO_RRC_eq:
  "f_ok r \<Longrightarrow> DO_RRC v r =
    (word_rotr 1 v, r\<lparr>r_f := flags (word_rotr 1 v = 0) False False (bit v 0)\<rparr>)"
proof -
  assume r: "f_ok r"
  have v: "(drop_bit 1 v AND NOT 0x80) OR (if bit v 0 then 0x80 else 0) = word_rotr 1 v"
    by (simp add: rot_bits bit_if)
  show ?thesis unfolding DO_RRC_def Let_def and_mask_bits v
    by (rule flag_pairI) (simp_all add: r)
qed

lemma DO_RL_eq:
  "f_ok r \<Longrightarrow> DO_RL v r = (let w = push_bit 1 v OR of_bool (cf r)
    in (w, r\<lparr>r_f := flags (w = 0) False False (bit v 7)\<rparr>))"
  unfolding DO_RL_def Let_def and_mask_bits by (rule flag_pairI) simp_all

lemma DO_RR_eq:
  "f_ok r \<Longrightarrow> DO_RR v r = (let w = drop_bit 1 v OR push_bit 7 (of_bool (cf r))
    in (w, r\<lparr>r_f := flags (w = 0) False False (bit v 0)\<rparr>))"
proof -
  assume r: "f_ok r"
  have v: "drop_bit 1 v AND NOT 0x80 = drop_bit 1 v" by (simp add: rot_bits)
  show ?thesis unfolding DO_RR_def Let_def and_mask_bits v
    by (rule flag_pairI) (simp_all add: r)
qed

lemma DO_SLA_eq:
  "f_ok r \<Longrightarrow> DO_SLA v r =
    (push_bit 1 v, r\<lparr>r_f := flags (push_bit 1 v = 0) False False (bit v 7)\<rparr>)"
  unfolding DO_SLA_def Let_def and_mask_bits by (rule flag_pairI) simp_all

lemma DO_SRA_eq:
  "f_ok r \<Longrightarrow> DO_SRA v r =
    (signed_drop_bit 1 v, r\<lparr>r_f := flags (signed_drop_bit 1 v = 0) False False (bit v 0)\<rparr>)"
proof -
  assume r: "f_ok r"
  have v: "(drop_bit 1 v AND NOT (v AND 0x80)) OR (v AND 0x80) = signed_drop_bit 1 v"
    by (simp add: rot_bits bit_signed_drop_bit_iff)
  show ?thesis unfolding DO_SRA_def Let_def and_mask_bits v
    by (rule flag_pairI) (simp_all add: r)
qed

lemma DO_SRL_eq:
  "f_ok r \<Longrightarrow> DO_SRL v r =
    (drop_bit 1 v, r\<lparr>r_f := flags (drop_bit 1 v = 0) False False (bit v 0)\<rparr>)"
  unfolding DO_SRL_def Let_def and_mask_bits
  by (rule flag_pairI) (simp_all add: bit_or_iff)

lemma DO_SWP_eq:
  "f_ok r \<Longrightarrow> DO_SWP v r =
    (word_rotl 4 v, r\<lparr>r_f := flags (word_rotl 4 v = 0) False False False\<rparr>)"
proof -
  assume r: "f_ok r"
  have v: "drop_bit 4 v OR push_bit 4 (v AND 0x0f) = word_rotl 4 v"
    by (simp add: rot_bits)
  show ?thesis unfolding DO_SWP_def Let_def v
    by (rule flag_pairI) (simp_all add: r)
qed

section \<open>Decimal adjust\<close>

text \<open>The accumulator of \<open>op_daa\<close> after an addition, as an unbounded number.\<close>

definition daa_acc :: "int \<Rightarrow> bool \<Rightarrow> bool \<Rightarrow> int" where
  "daa_acc a h c =
    (let x = (if h \<or> a mod 16 > 9 then a + 6 else a)
     in if c \<or> x > 0x9f then x + 0x60 else x)"

lemma wi16_less:
  "0 \<le> x \<Longrightarrow> x < 65536 \<Longrightarrow> 0 \<le> y \<Longrightarrow> y < 65536 \<Longrightarrow>
    (word_of_int x :: u16) < word_of_int y \<longleftrightarrow> x < y"
  by (simp add: word_less_alt uint_wi16 mod_pos_pos_trivial del: uint_word_of_int_eq)

lemma ucast_wi16: "(ucast (a::u8) :: u16) = word_of_int (uint a)"
  by simp

lemma and_15_u16: "(ucast (a::u8) AND 0xf :: u16) = word_of_int (uint a mod 16)"
proof -
  have "(ucast a AND 0xf :: u16) = take_bit 4 (ucast a)"
    using take_bit_eq_mask [of 4 "ucast a :: u16"] by (simp add: mask_numeral)
  also have "\<dots> = word_of_int (take_bit 4 (uint a))"
    by (rule bit_word_eqI) (simp add: bit_simps)
  finally show ?thesis by (simp add: take_bit_eq_mod)
qed

lemma daa_acc_word:
  "(let acc = (if \<not> h then if ucast a AND 0xf > (9::u16) then ucast a + 6 else ucast a
               else ucast (a::u8) + 6)
    in if \<not> c then if acc > 0x9f then acc + 0x60 else acc else acc + 0x60)
   = (word_of_int (daa_acc (uint a) h c) :: u16)"
proof -
  have 9: "(ucast a AND 0xf > (9::u16)) = (uint a mod 16 > 9)"
    using wi16_less [of 9 "uint a mod 16"] uint_u8_bounds [of a]
      pos_mod_bound [of 16 "uint a"] pos_mod_sign [of 16 "uint a"]
    unfolding and_15_u16 by simp
  define x where "x = (if h \<or> uint a mod 16 > 9 then uint a + 6 else uint a)"
  have x: "(if \<not> h then if ucast a AND 0xf > (9::u16) then ucast a + 6 else ucast a
       else ucast a + 6) = (word_of_int x :: u16)"
    unfolding 9 x_def by (auto simp: wi_hom_syms)
  have "0 \<le> x" "x < 65536" using uint_u8_bounds [of a] by (simp_all add: x_def)
  then have gt: "((word_of_int x :: u16) > 0x9f) = (x > 0x9f)"
    using wi16_less [of "0x9f" x] by simp
  have acc: "daa_acc (uint a) h c = (if c \<or> x > 0x9f then x + 0x60 else x)"
    by (simp add: daa_acc_def Let_def x_def)
  show ?thesis
    unfolding x Let_def gt acc by (simp add: wi_hom_syms)
qed

lemma daa_acc_bounds: "0 \<le> daa_acc (uint (a::u8)) h c" "daa_acc (uint a) h c < 512"
  using uint_u8_bounds [of a] by (auto simp: daa_acc_def Let_def)

lemma and_100_u16:
  assumes "0 \<le> x" "x < 512"
  shows "((word_of_int x :: u16) AND 0x100 = 0x100) = (x \<ge> 256)"
proof -
  have b: "bit (0x100 :: u16) i \<longleftrightarrow> i = 8" for i
    using bit_exp_iff [where ?'a = u16, of 8 i] by auto
  have "((word_of_int x :: u16) AND 0x100 = 0x100) = bit (word_of_int x :: u16) 8"
  proof
    assume "(word_of_int x :: u16) AND 0x100 = 0x100"
    then have "bit ((word_of_int x :: u16) AND 0x100) 8 = bit (0x100 :: u16) 8" by (rule arg_cong)
    then show "bit (word_of_int x :: u16) 8" by (simp only: bit_and_iff b) simp
  next
    assume "bit (word_of_int x :: u16) 8"
    then show "(word_of_int x :: u16) AND 0x100 = 0x100"
      by (intro bit_word_eqI) (auto simp only: bit_and_iff b)
  qed
  also have "\<dots> = bit x 8" by (simp add: bit_simps)
  also have "\<dots> = (x \<ge> 256)"
    using assms by (cases "x \<ge> 256") (simp_all add: bit_iff_odd div_pos_geq div_pos_pos_trivial)
  finally show ?thesis .
qed

lemma ucast_and_ff: "(ucast (w AND 0xff) :: u8) = ucast (w::u16)"
proof -
  have "w AND 0xff = take_bit 8 w" by (simp add: take_bit_eq_mask mask_numeral)
  then show ?thesis by (auto simp: bit_eq_iff bit_simps)
qed

lemma op_daa_add_eq:
  assumes "f_ok r" "\<not> nf r"
  shows "op_daa r =
    (let acc = daa_acc (uint (r_a r)) (hf r) (cf r)
     in r\<lparr>r_a := word_of_int acc,
          r_f := flags (word_of_int acc = (0::u8)) False False (cf r \<or> acc \<ge> 256)\<rparr>)"
proof -
  let ?acc = "daa_acc (uint (r_a r)) (hf r) (cf r)"
  have u: "(ucast (word_of_int ?acc AND 0xff :: u16) :: u8) = word_of_int ?acc"
    unfolding ucast_and_ff by (rule bit_word_eqI) (simp add: bit_simps)
  show ?thesis
    unfolding op_daa_def Let_def [of "ucast (r_a r)"] if_not_P [OF assms(2)] daa_acc_word
    unfolding Let_def u and_100_u16 [OF daa_acc_bounds]
      UNSET_FLAG_def [symmetric] SET_FLAG_def [symmetric]
    by (rule registers_f_eqI) (use assms in \<open>auto simp: SET_FLAG_def UNSET_FLAG_def f_ok_bits flag_bits bit_simps\<close>)
qed

end
