(* ===== verification/Cpu_Facts.thy ===== *)
theory Cpu_Facts
  imports Cpu_Decode Bus Alu_Facts
begin

text \<open>
  Every instruction of the table returns, takes between one and six cycles and keeps the
  invariant of the machine.  The proof goes family by family over a few rules: a read always
  returns, a write returns and keeps the invariant, and a register update keeps it when it
  leaves the low nibble of F clear.
\<close>

section \<open>Register updates keep F clean\<close>

lemma f_ok_set16 [simp]: "q \<noteq> REG_AF \<Longrightarrow> f_ok (set16 q v r) = f_ok r"
  by (cases q) (simp_all add: f_ok_def)

lemma f_ok_arith [simp]:
  assumes "f_ok r"
  shows "f_ok (DO_ADD (uint b) 0 r)" "f_ok (DO_ADD (s8 b) 0 r)" "f_ok (DO_SUB (uint b) 0 r)"
    "f_ok (DO_SUB (s8 b) 0 r)" "f_ok (DO_ADC (uint b) r)" "f_ok (DO_SBC (uint b) r)"
    "f_ok (adc_word b r)" "f_ok (sbc_word b r)" "f_ok (DO_CP (uint b) r)"
    "f_ok (DO_AND b r)" "f_ok (DO_XOR b r)" "f_ok (DO_OR b r)" "f_ok (DO_BIT m b r)"
    "f_ok (op_cpl r)" "f_ok (op_scf r)" "f_ok (op_ccf r)"
    "f_ok (OP_INC_REG q r)" "f_ok (OP_DEC_REG q r)"
  using assms
  by (simp_all add: DO_ADD_eq DO_SUB_eq DO_ADC_eq DO_SBC_eq adc_word_eq sbc_word_eq DO_CP_eq
      DO_AND_eq DO_XOR_eq DO_OR_eq DO_BIT_eq op_cpl_eq op_scf_eq op_ccf_eq OP_INC_REG_eq
      OP_DEC_REG_eq DO_ADD_s8 DO_SUB_s8 adc_flags_def sbc_flags_def)

lemma f_ok_add16 [simp]: "f_ok r \<Longrightarrow> q \<noteq> REG_AF \<Longrightarrow> f_ok (DO_ADD16 q r)"
  by (simp add: DO_ADD16_eq del: set16.simps)

lemma f_ok_sp_e8 [simp]: "f_ok r \<Longrightarrow> f_ok (ld_hl_sp_e8 n r)" "f_ok r \<Longrightarrow> f_ok (add_sp_e8 n r)"
  by (simp_all add: ld_hl_sp_e8_def add_sp_e8_def Let_def del: set16.simps)

lemma f_ok_daa [simp]: "f_ok r \<Longrightarrow> f_ok (op_daa r)"
  by (simp add: op_daa_def Let_def f_ok_bits bit_and_iff bit_or_iff bit_not_iff)

text \<open>The rotates and the bit operations: a new value and a file with a clean F.\<close>

definition keeps_f :: "(u8 \<Rightarrow> registers \<Rightarrow> u8 \<times> registers) \<Rightarrow> bool" where
  "keeps_f f = (\<forall>v r. f_ok r \<longrightarrow> f_ok (snd (f v r)))"

lemma keeps_f_rot [simp]: "keeps_f DO_RLC" "keeps_f DO_RRC" "keeps_f DO_RL" "keeps_f DO_RR"
  "keeps_f DO_SLA" "keeps_f DO_SRA" "keeps_f DO_SRL" "keeps_f DO_SWP"
  "keeps_f (\<lambda>v r. (F v, r))"
  by (simp_all add: keeps_f_def DO_RLC_eq DO_RRC_eq DO_RL_eq DO_RR_eq DO_SLA_eq DO_SRA_eq
      DO_SRL_eq DO_SWP_eq Let_def)

lemma f_ok_on_reg8 [simp]: "keeps_f f \<Longrightarrow> f_ok r \<Longrightarrow> f_ok (on_reg8 f q r)"
  by (auto simp: on_reg8_def keeps_f_def split: prod.split) (metis snd_conv)

section \<open>Rules for a good run\<close>

definition step_frame :: "gb \<Rightarrow> gb \<Rightarrow> bool" where
  "step_frame g g' \<longleftrightarrow>
    cycles (cpu g') = cycles (cpu g) \<and> div_counter (cpu g') = div_counter (cpu g) \<and>
    tac_counter (cpu g') = tac_counter (cpu g) \<and>
    joypad g' = joypad g \<and> throttle g' = throttle g \<and> clock g' = clock g \<and>
    dmg_buf g' = dmg_buf g \<and> shown g' = shown g \<and>
    frame_count (ppu g') = frame_count (ppu g) \<and> vblank_dots (ppu g') = vblank_dots (ppu g)"

lemma step_frame_refl [simp]: "step_frame g g"
  by (simp add: step_frame_def)

lemma step_frame_bus: "step_frame g h \<Longrightarrow> bus_frame h k \<Longrightarrow> step_frame g k"
  by (simp add: step_frame_def bus_frame_def)

lemma step_frame_on_regs [simp]: "step_frame g (on_regs f h) = step_frame g h"
  by (simp add: step_frame_def)

lemma step_frame_switches [simp]: "step_frame g (on_cpu cpu_halt h) = step_frame g h"
  "step_frame g (on_cpu cpu_enable_intr h) = step_frame g h"
  "step_frame g (on_cpu cpu_disable_intr h) = step_frame g h"
  by (simp_all add: step_frame_def cpu_halt_def cpu_enable_intr_def cpu_disable_intr_def)

definition good :: "gb \<Rightarrow> (int \<times> gb) option \<Rightarrow> bool" where
  "good g m = returns m (\<lambda>(n, g'). 1 \<le> n \<and> n \<le> 6 \<and> gb_ok g' \<and> step_frame g g')"

lemma good_Some [simp]: "good g (Some (n, h)) \<longleftrightarrow> 1 \<le> n \<and> n \<le> 6 \<and> gb_ok h \<and> step_frame g h"
  by (simp add: good_def)

lemma good_bind_Some [simp]: "good g (Some x \<bind> f) = good g (f x)"
  by simp

lemma good_rd [intro]: "(\<And>v. good g (f v)) \<Longrightarrow> good g (monitor_rd_mem a h \<bind> f)"
  using rd_total [of a h] by auto

lemma good_total: "\<exists>x. m = Some x \<Longrightarrow> (\<And>x. good g (f x)) \<Longrightarrow> good g (m \<bind> f)"
  by auto

lemma good_wr:
  assumes "gb_ok h" "step_frame g h" "\<And>k. gb_ok k \<Longrightarrow> step_frame g k \<Longrightarrow> good g (f k)"
  shows "good g (monitor_wr_mem a v h \<bind> f)"
  using monitor_wr_ok [OF assms(1), of a v] assms(2,3) step_frame_bus
  by (fastforce simp: wr_ok_def returns_iff)

lemma good_RD_WORD: "(\<And>v. good g (f v)) \<Longrightarrow> good g (RD_WORD a h \<bind> f)"
  using rd_total [of a h] rd_total [of "a + 1" h] by (auto simp: RD_WORD_def)

lemma gb_ok_on_regs [simp]: "gb_ok g \<Longrightarrow> f_ok (f (gregs g)) \<Longrightarrow> gb_ok (on_regs f g)"
  by (simp add: gb_ok_def cpu_ok_def gregs_def timer_ok_def)

lemma gb_ok_switches [simp]: "gb_ok (on_cpu cpu_halt g) = gb_ok g"
  "gb_ok (on_cpu cpu_enable_intr g) = gb_ok g" "gb_ok (on_cpu cpu_disable_intr g) = gb_ok g"
  by (simp_all add: gb_ok_def cpu_ok_def timer_ok_def cpu_halt_def cpu_enable_intr_def cpu_disable_intr_def)

lemma gb_ok_f [simp]: "gb_ok g \<Longrightarrow> f_ok (gregs g)"
  by (simp add: gb_ok_def cpu_ok_def gregs_def)

lemma gb_ok_PC [simp]: "gb_ok g \<Longrightarrow> gb_ok (ADVANCE_PC n g)" "step_frame g (ADVANCE_PC n h) = step_frame g h"
  "gb_ok g \<Longrightarrow> gb_ok (SP_add n g)" "step_frame g (SP_add n h) = step_frame g h"
  "gb_ok g \<Longrightarrow> gb_ok (SP_sub n g)" "step_frame g (SP_sub n h) = step_frame g h"
  by (simp_all add: ADVANCE_PC_def SP_add_def SP_sub_def)

lemma gb_ok_LD [simp]: "gb_ok g \<Longrightarrow> gb_ok (DO_LD_REG r v g)" "step_frame g (DO_LD_REG r v h) = step_frame g h"
  "gb_ok g \<Longrightarrow> q \<noteq> REG_AF \<Longrightarrow> gb_ok (DO_LD_REG16 q w g)"
  "step_frame g (DO_LD_REG16 q w h) = step_frame g h"
  by (simp_all add: DO_LD_REG_def DO_LD_REG16_def del: set16.simps set8.simps)

section \<open>Every instruction is good\<close>

text \<open>The operands that the table uses: no 16-bit load, sum or pop of AF through the generic
  macros.\<close>

definition instr_ok :: "instr \<Rightarrow> bool" where
  "instr_ok i = (case i of I_ld_n16 q \<Rightarrow> q \<noteq> REG_AF | I_inc16 q \<Rightarrow> q \<noteq> REG_AF
    | I_dec16 q \<Rightarrow> q \<noteq> REG_AF | I_add_hl q \<Rightarrow> q \<noteq> REG_AF | I_pop q \<Rightarrow> q \<noteq> REG_AF | _ \<Rightarrow> True)"

lemma table_ops_ok: "list_all instr_ok table_ops"
  by code_simp

lemmas load_defs = op_nop_def OP_LD_REG_REG_def op_ld_b_ind_hl_def OP_LD_REG16_MEM_def
  OP_LD_MEM_REG_def OP_LD_REG_MEM_def OP_LD_A_IND_REG_def op_ld_a_ind_a16_def op_ld_sp_hl_def
  op_ldi_ind_hl_a_def op_ldi_a_ind_hl_def op_ldd_ind_hl_a_def op_ldd_a_ind_hl_def
  op_ld_r_ind_hl_def op_ld_ind_a16_sp_def op_ld_ind_hl_n8_def op_ld_ind_a16_a_def
  op_ld_hl_sp_e8_def op_ldh_ind_a8_a_def op_ldh_ind_c_a_def op_ldh_a_ind_a8_def op_ldh_a_ind_c_def

lemmas arith_defs = op_inc_r_def op_inc_rr_def op_inc_ind_hl_def op_dec_r_def op_dec_rr_def
  op_dec_ind_hl_def OP_ADD_REG_def OP_ADD_REG16_def op_add_a_ind_hl_def op_add_a_n8_def
  op_add_sp_e8_def OP_ADC_REG_def op_adc_a_ind_hl_def op_adc_a_n8_def OP_SUB_REG_def
  op_sub_a_ind_hl_def op_sub_a_n8_def OP_SBC_REG_def op_sbc_a_ind_hl_def op_sbc_a_n8_def
  OP_AND_REG_def op_and_a_ind_hl_def op_and_a_n8_def OP_XOR_REG_def op_xor_a_ind_hl_def
  op_xor_a_n8_def OP_OR_REG_def op_or_a_ind_hl_def op_or_a_n8_def OP_CP_REG_def
  op_cp_a_ind_hl_def op_cp_a_n8_def

lemmas rot_defs = OP_RLC_REG_def op_rlc_ind_hl_def op_rlca_def OP_RL_REG_def op_rl_ind_hl_def
  op_rla_def OP_RRC_REG_def op_rrc_ind_hl_def op_rrca_def OP_RR_REG_def op_rr_ind_hl_def op_rra_def
  OP_SLA_REG_def op_sla_ind_hl_def OP_SRA_REG_def op_sra_ind_hl_def OP_SRL_REG_def
  op_srl_ind_hl_def OP_SWP_REG_def op_swp_ind_hl_def OP_BIT_REG_def op_bit_ind_hl_def
  OP_RST_REG_def op_rst_ind_hl_def OP_SET_REG_def op_set_ind_hl_def

lemmas control_defs = DO_JMP_def op_jmp_a16_def OP_JMP_COND_def op_jmp_hl_def DO_JR_def op_jr_e8_def
  OP_JR_COND_def DO_CALL_def op_call_a16_def OP_CALL_COND_def op_ret_def OP_RET_COND_def
  op_reti_def OP_POP_REG_def op_pop_af_def OP_PUSH_REG_def OP_RESTART_def op_stop_n8_def
  op_daa_1_def op_cpl_1_def op_scf_1_def op_ccf_1_def op_halt_def op_prefix_def op_inval_def
  op_dis_ints_def op_ena_ints_def

lemma good_WR_WORD:
  assumes "gb_ok h" "step_frame g h" "\<And>g. \<exists>a. addr g = Some a"
    and "\<And>k. gb_ok k \<Longrightarrow> step_frame g k \<Longrightarrow> good g (f k)"
  shows "good g (WR_WORD addr v h \<bind> f)"
  unfolding WR_WORD_def bind_assoc
  by (rule good_total [OF assms(3)], rule good_wr [OF assms(1,2)], rule good_total [OF assms(3)],
      rule good_wr, assumption, assumption, rule assms(4))

lemma RD_WORD_total: "\<exists>w. RD_WORD a g = Some w"
  using rd_total [of a g] rd_total [of "a + 1" g] by (auto simp: RD_WORD_def)

lemma good_WR_STACK:
  assumes "gb_ok h" "step_frame g h" "\<And>k. gb_ok k \<Longrightarrow> step_frame g k \<Longrightarrow> good g (f k)"
  shows "good g (WR_STACK q h \<bind> f)"
  unfolding WR_STACK_def by (rule good_WR_WORD) (simp_all add: assms)

lemmas good_rules = good_rd good_RD_WORD good_wr good_WR_WORD good_WR_STACK RD_WORD_total

lemma gb_ok_on_regs' [intro]: "gb_ok g \<Longrightarrow> f_ok (f (gregs g)) \<Longrightarrow> gb_ok (on_regs f g)"
  by simp

lemma good_on_ind_hl:
  assumes "keeps_f f" "gb_ok g"
  shows "good g (on_ind_hl f g)"
  unfolding on_ind_hl_def
proof (rule good_rd)
  fix v
  obtain w r where f: "f v (gregs g) = (w, r)" by fastforce
  have "f_ok (snd (f v (gregs g)))" using assms by (simp add: keeps_f_def)
  then have "f_ok r" by (simp add: f)
  then show "good g (do { (load, r) \<leftarrow> Some (f v (gregs g)); g \<leftarrow> Some (on_regs (\<lambda>_. r) g);
      g \<leftarrow> monitor_wr_mem (R16 REG_HL g) load g; Some (4, g) })"
    using assms(2) by (simp add: f) (intro good_wr, simp_all)
qed

lemma good_load:
  assumes "gb_ok g"
  shows "good g (op_nop g)" "good g (OP_LD_REG_REG d r g)" "good g (op_ld_b_ind_hl g)"
    "good g (op_ld_r_ind_hl r g)" "q \<noteq> REG_AF \<Longrightarrow> good g (OP_LD_REG16_MEM q g)"
    "good g (OP_LD_MEM_REG q r g)" "good g (OP_LD_REG_MEM r g)" "good g (OP_LD_A_IND_REG q g)"
    "good g (op_ld_a_ind_a16 g)" "good g (op_ld_sp_hl g)" "good g (op_ldi_ind_hl_a g)"
    "good g (op_ldi_a_ind_hl g)" "good g (op_ldd_ind_hl_a g)" "good g (op_ldd_a_ind_hl g)"
    "good g (op_ld_ind_a16_sp g)" "good g (op_ld_ind_hl_n8 g)" "good g (op_ld_ind_a16_a g)"
    "good g (op_ld_hl_sp_e8 g)" "good g (op_ldh_ind_a8_a g)" "good g (op_ldh_ind_c_a g)"
    "good g (op_ldh_a_ind_a8 g)" "good g (op_ldh_a_ind_c g)"
  unfolding load_defs
  by (intro good_rules | simp add: assms del: get16.simps set16.simps get8.simps set8.simps)+

lemma f_ok_flag_tests [simp]:
  "f_ok r \<Longrightarrow> f_ok (SET_FLAG (BOOL_TO_HALF_CARRY_FLAG b) (UNSET_FLAG m r))"
  by simp

lemma good_arith:
  assumes "gb_ok g"
  shows "good g (op_inc_r r g)" "q \<noteq> REG_AF \<Longrightarrow> good g (op_inc_rr q g)" "good g (op_inc_ind_hl g)"
    "good g (op_dec_r r g)" "q \<noteq> REG_AF \<Longrightarrow> good g (op_dec_rr q g)" "good g (op_dec_ind_hl g)"
    "q \<noteq> REG_AF \<Longrightarrow> good g (OP_ADD_REG16 q g)" "good g (op_add_sp_e8 g)"
  unfolding arith_defs
  by (intro good_rules | simp add: assms del: get16.simps set16.simps get8.simps set8.simps)+

lemma good_alu:
  assumes "gb_ok g"
  shows "good g (run_alu k r g)" "good g (run_alu_ind_hl k g)" "good g (run_alu_n8 k g)"
  by (cases k; (simp add: arith_defs assms del: get16.simps get8.simps set8.simps | rule good_rd)+)+

lemma good_rot:
  assumes "gb_ok g"
  shows "good g (run_rot k r g)" "good g (run_rot_ind_hl k g)" "good g (run_rot_a k g)"
    "good g (OP_BIT_REG n r g)" "good g (op_bit_ind_hl n g)" "good g (OP_RST_REG n r g)"
    "good g (op_rst_ind_hl n g)" "good g (OP_SET_REG n r g)" "good g (op_set_ind_hl n g)"
  by ((cases k)?, (simp add: rot_defs assms good_on_ind_hl op_inval_def del: get8.simps set8.simps |
      intro good_rules)+)+

lemma good_ret: "gb_ok g \<Longrightarrow> (\<And>k. gb_ok k \<Longrightarrow> step_frame g k \<Longrightarrow> good g (f k)) \<Longrightarrow> good g (DO_RET g \<bind> f)"
  unfolding DO_RET_def bind_assoc by (rule good_RD_WORD) simp

lemma f_ok_and_f0: "f_ok (r\<lparr>r_f := x AND 0xf0\<rparr>)"
  by (simp add: f_ok_def and.assoc)

lemma good_control:
  assumes "gb_ok g"
  shows "good g (op_jmp_a16 g)" "good g (OP_JMP_COND c g)" "good g (op_jmp_hl g)" "good g (op_jr_e8 g)"
    "good g (OP_JR_COND c g)" "good g (op_call_a16 g)" "good g (OP_CALL_COND c g)" "good g (op_ret g)"
    "good g (OP_RET_COND c g)" "good g (op_reti g)" "q \<noteq> REG_AF \<Longrightarrow> good g (OP_POP_REG q g)"
    "good g (OP_PUSH_REG q g)" "good g (OP_RESTART a g)" "good g (op_stop_n8 g)"
    "good g (op_daa_1 g)" "good g (op_cpl_1 g)" "good g (op_scf_1 g)" "good g (op_ccf_1 g)"
    "good g (op_halt g)" "good g (op_prefix g)" "good g (op_inval g)" "good g (op_dis_ints g)"
    "good g (op_ena_ints g)"
  unfolding control_defs
  by (intro good_rules good_ret impI conjI | simp add: assms del: get16.simps set16.simps)+

lemma good_pop_af:
  assumes "gb_ok g"
  shows "good g (op_pop_af g)"
  unfolding op_pop_af_def
proof (rule good_RD_WORD)
  fix v
  let ?h = "on_regs (\<lambda>r. r\<lparr>r_f := r_f r AND 0xf0\<rparr>) (SP_add 2 (DO_LD_REG16 REG_AF v g))"
  have "f_ok (gregs ?h)" by (simp add: f_ok_and_f0)
  then have "gb_ok ?h" using assms
    by (simp add: gb_ok_def cpu_ok_def gregs_def timer_ok_def SP_add_def DO_LD_REG16_def)
  then show "good g (do { g \<leftarrow> Some (SP_add 2 (DO_LD_REG16 REG_AF v g));
      Some (3, on_regs (\<lambda>r. r\<lparr>r_f := r_f r AND 0xf0\<rparr>) g) })"
    by simp
qed

lemma good_run: "gb_ok g \<Longrightarrow> instr_ok i \<Longrightarrow> good g (run i g)"
  by (cases i) (simp_all add: good_load good_arith good_alu good_rot good_control good_pop_af instr_ok_def)

lemma good_dispatch: "gb_ok g \<Longrightarrow> good g (ops_table_dispatch op prefix g)"
proof -
  assume ok: "gb_ok g"
  have i: "dispatch_index op prefix < length table_ops"
    using unat_u8 [of op] by (simp add: dispatch_index_eq length_table_ops)
  then have "instr_ok (table_ops ! dispatch_index op prefix)"
    using table_ops_ok by (simp add: list_all_length)
  with good_run [OF ok] i show ?thesis by (simp add: ops_table_dispatch_def)
qed

end
