(* ===== verification/Alu_Theorems.thy ===== *)
theory Alu_Theorems
  imports Cpu_Facts
begin

text \<open>The properties of arithmetic: multi-byte sums, comparison, rotation, and the agreement of
  the separately written memory forms with the register forms.\<close>

section \<open>Arithmetic over several bytes\<close>

lemma uint_add8: "uint ((a::u8) + b) = (if uint a + uint b < 256 then uint a + uint b else uint a + uint b - 256)"
  using uint_wi8 [of "uint a + uint b"] uint_u8_bounds [of a] uint_u8_bounds [of b]
  by (simp add: wi_hom_syms add_mod_cases)

lemma uint_adc8:
  fixes a b :: u8
  shows "uint (a + b + of_bool c) =
    (if uint a + uint b + of_bool c < 256 then uint a + uint b + of_bool c else uint a + uint b + of_bool c - 256)"
proof -
  have "0 \<le> (of_bool c :: int)" "(of_bool c :: int) \<le> 1" by simp_all
  then have "(uint a + (uint b + of_bool c)) mod 256 =
      (if uint a + (uint b + of_bool c) < 256 then uint a + (uint b + of_bool c)
       else uint a + (uint b + of_bool c) - 256)"
    using uint_u8_bounds [of a] uint_u8_bounds [of b] by (intro add_mod_cases) linarith+
  moreover have "uint (a + b + of_bool c) = (uint a + (uint b + of_bool c)) mod 256"
    using uint_wi8 [of "uint a + (uint b + of_bool c)"] by (cases c) (simp_all add: wi_hom_syms ac_simps)
  ultimately show ?thesis by (simp add: ac_simps)
qed

lemma uint_sbc8:
  fixes a b :: u8
  shows "uint (a - b - of_bool c) =
    (if uint b + of_bool c \<le> uint a then uint a - uint b - of_bool c else uint a - uint b - of_bool c + 256)"
proof -
  have "0 \<le> (of_bool c :: int)" "(of_bool c :: int) \<le> 1" by simp_all
  then have "(uint a - (uint b + of_bool c)) mod 256 =
      (if uint b + of_bool c \<le> uint a then uint a - (uint b + of_bool c)
       else uint a - (uint b + of_bool c) + 256)"
    using uint_u8_bounds [of a] uint_u8_bounds [of b] by (intro sub_mod_cases) linarith+
  moreover have "uint (a - b - of_bool c) = (uint a - (uint b + of_bool c)) mod 256"
    using uint_wi8 [of "uint a - (uint b + of_bool c)"] by (cases c) (simp_all add: wi_hom_syms algebra_simps)
  ultimately show ?thesis by (simp add: ac_simps)
qed

text \<open>The carry out of the low byte is the carry into the high byte.\<close>

lemma add_bytes_int:
  assumes "0 \<le> al" "al < 256" "0 \<le> ah" "ah < 256" "0 \<le> bl" "bl < 256" "0 \<le> bh" "bh < (256::int)"
    and "c = (al + bl \<ge> 256)" "s = 256 * ah + al + (256 * bh + bl)"
  shows "256 * (if ah + bh + of_bool c < 256 then ah + bh + of_bool c else ah + bh + of_bool c - 256) +
      (if al + bl < 256 then al + bl else al + bl - 256) = (if s < 65536 then s else s - 65536)"
    and "(256 \<le> ah + bh + of_bool c) = (65536 \<le> s)"
  using assms by (cases "al + bl < 256"; simp; linarith)+

lemma sub_bytes_int:
  assumes "0 \<le> al" "al < 256" "0 \<le> ah" "ah < 256" "0 \<le> bl" "bl < 256" "0 \<le> bh" "bh < (256::int)"
    and "c = (al < bl)" "x = 256 * ah + al" "y = 256 * bh + bl"
  shows "256 * (if bh + of_bool c \<le> ah then ah - bh - of_bool c else ah - bh - of_bool c + 256) +
      (if bl \<le> al then al - bl else al - bl + 256) = (if y \<le> x then x - y else x - y + 65536)"
    and "(ah < bh + of_bool c) = (x < y)"
  using assms by (cases "al < bl"; simp; linarith)+

text \<open>C31: ADD of the low bytes followed by ADC of the high bytes adds two 16-bit numbers: the bytes
  left in A are those of the sum modulo 65536, and the carry flag is the carry out of bit 15.\<close>

theorem add_adc_16:
  fixes r :: registers and al ah bl bh :: u8
  assumes "f_ok r" "r_a r = al"
  defines "r1 \<equiv> DO_ADD (uint bl) 0 r"
  defines "r2 \<equiv> DO_ADC (uint bh) (r1\<lparr>r_a := ah\<rparr>)"
  defines "s \<equiv> 256 * uint ah + uint al + (256 * uint bh + uint bl)"
  shows "256 * uint (r_a r2) + uint (r_a r1) = s mod 65536 \<and> cf r2 = (s \<ge> 65536)"
proof -
  have r1: "r_a r1 = al + bl" "cf r1 = (uint al + uint bl \<ge> 256)" "f_ok r1"
    using assms(1,2) by (simp_all add: r1_def DO_ADD_eq)
  then have r2: "r_a r2 = ah + bh + of_bool (cf r1)" "cf r2 = (uint ah + uint bh + of_bool (cf r1) \<ge> 256)"
    by (simp_all add: r2_def DO_ADC_eq adc_flags_def)
  have b: "0 \<le> uint al" "uint al < 256" "0 \<le> uint ah" "uint ah < 256"
    "0 \<le> uint bl" "uint bl < 256" "0 \<le> uint bh" "uint bh < 256"
    using uint_u8_bounds by simp_all
  have m: "s mod 65536 = (if s < 65536 then s else s - 65536)"
    unfolding s_def using b by (intro add_mod_cases) linarith+
  show ?thesis
    unfolding m r1(1) r2 uint_add8 [of al bl] uint_adc8 [of ah bh]
    using add_bytes_int [OF b r1(2) s_def [THEN meta_eq_to_obj_eq]] by blast
qed

definition add16_sample :: registers where
  "add16_sample = registers0\<lparr>r_a := 0xff\<rparr>"

theorem add_adc_16_witness:
  "256 * uint (r_a (DO_ADC 0x12 ((DO_ADD 1 0 add16_sample)\<lparr>r_a := 0xed\<rparr>))) +
    uint (r_a (DO_ADD 1 0 add16_sample)) = 0 \<and>
   cf (DO_ADC 0x12 ((DO_ADD 1 0 add16_sample)\<lparr>r_a := 0xed\<rparr>))"
proof -
  have "f_ok add16_sample" "r_a add16_sample = 0xff"
    by (simp_all add: add16_sample_def registers0_def f_ok_def)
  from add_adc_16 [OF this, where bl = 1 and bh = "0x12" and ah = "0xed"] show ?thesis by simp
qed

text \<open>C32: SUB of the low bytes followed by SBC of the high bytes subtracts two 16-bit numbers, and
  the carry flag is set exactly when the subtrahend is larger.\<close>

theorem sub_sbc_16:
  fixes r :: registers and al ah bl bh :: u8
  assumes "f_ok r" "r_a r = al"
  defines "r1 \<equiv> DO_SUB (uint bl) 0 r"
  defines "r2 \<equiv> DO_SBC (uint bh) (r1\<lparr>r_a := ah\<rparr>)"
  defines "x \<equiv> 256 * uint ah + uint al" and "y \<equiv> 256 * uint bh + uint bl"
  shows "256 * uint (r_a r2) + uint (r_a r1) = (x - y) mod 65536 \<and> cf r2 = (x < y)"
proof -
  have r1: "r_a r1 = al - bl - of_bool False" "cf r1 = (uint al < uint bl)" "f_ok r1"
    using assms(1,2) by (simp_all add: r1_def DO_SUB_eq)
  then have r2: "r_a r2 = ah - bh - of_bool (cf r1)" "cf r2 = (uint ah < uint bh + of_bool (cf r1))"
    by (simp_all add: r2_def DO_SBC_eq sbc_flags_def)
  have b: "0 \<le> uint al" "uint al < 256" "0 \<le> uint ah" "uint ah < 256"
    "0 \<le> uint bl" "uint bl < 256" "0 \<le> uint bh" "uint bh < 256"
    using uint_u8_bounds by simp_all
  have m: "(x - y) mod 65536 = (if y \<le> x then x - y else x - y + 65536)"
    unfolding x_def y_def using b by (intro sub_mod_cases) linarith+
  show ?thesis
    unfolding m r1(1) r2 uint_sbc8
    using sub_bytes_int [OF b r1(2) x_def [THEN meta_eq_to_obj_eq] y_def [THEN meta_eq_to_obj_eq]]
    by (simp only: of_bool_eq add_0_right diff_zero)
qed

theorem sub_sbc_16_witness:
  "256 * uint (r_a (DO_SBC 0 ((DO_SUB 0xff 0 registers0)\<lparr>r_a := 1\<rparr>))) +
    uint (r_a (DO_SUB 0xff 0 registers0)) = 1 \<and>
   \<not> cf (DO_SBC 0 ((DO_SUB 0xff 0 registers0)\<lparr>r_a := 1\<rparr>))"
proof -
  have "f_ok registers0" "r_a registers0 = 0" by (simp_all add: registers0_def f_ok_def)
  from sub_sbc_16 [OF this, where bl = "0xff" and bh = 0 and ah = 1] show ?thesis by simp
qed

section \<open>Comparison and the memory forms\<close>

text \<open>CP sets the flags that SUB sets and leaves A alone, for every operand and every register
  file, although the macros compute the flags with separate tests and in another order.\<close>

lemma cp_is_sub_without_result:
  "DO_CP (uint (b::u8)) r = (DO_SUB (uint b) 0 r)\<lparr>r_a := r_a r\<rparr>"
  by (simp add: DO_CP_def DO_SUB_def Let_def IS_CP_eq IS_CP_ZERO_def IS_SUB_ZERO_def
      flag_macros or.assoc or.left_commute or.commute)

text \<open>C33: The instructions that take their operand from the address in HL compute what the register
  forms compute on the byte there: the sign extension of the byte in ADD and SUB and the separate
  code of ADC and SBC make no difference.  They take two cycles, except that SUB reports one.\<close>

theorem alu_memory_forms:
  assumes f: "f_ok (gregs g)" and b: "monitor_rd_mem (R16 REG_HL g) g = Some b"
  shows "op_add_a_ind_hl g = Some (2, on_regs (DO_ADD (uint b) 0) g) \<and>
    op_adc_a_ind_hl g = Some (2, on_regs (DO_ADC (uint b)) g) \<and>
    op_sub_a_ind_hl g = Some (1, on_regs (DO_SUB (uint b) 0) g) \<and>
    op_sbc_a_ind_hl g = Some (2, on_regs (DO_SBC (uint b)) g)"
proof -
  have "on_regs (adc_word b) g = on_regs (DO_ADC (uint b)) g"
    by (rule on_regs_cong) (simp only: adc_word_eq [OF f] DO_ADC_eq [OF f])
  moreover have "on_regs (sbc_word b) g = on_regs (DO_SBC (uint b)) g"
    by (rule on_regs_cong) (simp only: sbc_word_eq [OF f] DO_SBC_eq [OF f])
  moreover have "DO_ADD (s8 b) 0 = DO_ADD (uint b) 0" "DO_SUB (s8 b) 0 = DO_SUB (uint b) 0"
    by (rule ext, rule DO_ADD_s8, rule ext, rule DO_SUB_s8)
  ultimately show ?thesis
    by (simp only: op_add_a_ind_hl_def op_adc_a_ind_hl_def op_sub_a_ind_hl_def op_sbc_a_ind_hl_def
        b Option.bind.simps simp_thms)
qed

text \<open>The sample machine reads the byte 0 at the address 0 in HL, in its boot ROM.\<close>

theorem alu_memory_forms_witness:
  "op_sub_a_ind_hl sample_gb = Some (1, on_regs (DO_SUB 0 0) sample_gb) \<and>
   op_adc_a_ind_hl sample_gb = Some (2, on_regs (DO_ADC 0) sample_gb)"
proof -
  have f: "f_ok (gregs sample_gb)" using sample_gb_ok by (rule gb_ok_f)
  have b: "monitor_rd_mem (R16 REG_HL sample_gb) sample_gb = Some 0"
    by (simp add: sample_gb_def power_on_def gregs_def cpu0_def registers0_def mk16_def
        monitor_rd_mem_def sample_cart_def mbc1_rd_mem_def arr_rd_def MBC1_ROM_SIZE_def)
  from alu_memory_forms [OF f b] show ?thesis by simp
qed

section \<open>Rotations\<close>

text \<open>RRC undoes RLC and RLC undoes RRC; RR undoes RL and RL undoes RR on the nine bits of the
  operand and the carry flag; SWAP undoes itself.\<close>

theorem rotations_inverse:
  assumes "f_ok r"
  shows "fst (case_prod DO_RRC (DO_RLC v r)) = v \<and> fst (case_prod DO_RLC (DO_RRC v r)) = v \<and>
    (case case_prod DO_RR (DO_RL v r) of (w, s) \<Rightarrow> w = v \<and> cf s = cf r) \<and>
    (case case_prod DO_RL (DO_RR v r) of (w, s) \<Rightarrow> w = v \<and> cf s = cf r) \<and>
    fst (case_prod DO_SWP (DO_SWP v r)) = v"
  using assms
  by (simp add: DO_RLC_eq DO_RRC_eq DO_RL_eq DO_RR_eq DO_SWP_eq Let_def rot_bits numeral_2_eq_2)

theorem rotations_inverse_witness:
  "(case case_prod DO_RR (DO_RL 0x81 registers0) of (w, s) \<Rightarrow> w = 0x81 \<and> cf s = cf registers0)"
proof -
  have "f_ok registers0" by (simp add: registers0_def f_ok_def)
  from rotations_inverse [OF this, of "0x81"] show ?thesis by simp
qed

section \<open>The stack pointer plus a signed byte\<close>

lemma s8_mod_256: "s8 b mod 256 = uint b"
  by (simp add: s8_def uint_sint take_bit_eq_mod)

lemma s8_bounds: "- 128 \<le> s8 b" "s8 b < 128"
  using sint_ge [of b] sint_lt [of b] by (simp_all add: s8_def)

lemma s8_pos: "0 \<le> s8 b \<Longrightarrow> s8 b = uint b"
  using s8_mod_256 [of b] s8_bounds [of b] by simp

lemma and_ff_u16: "uint (w AND 0xff :: u16) = uint w mod 256"
proof -
  have "w AND 0xff = take_bit 8 w" by (simp add: take_bit_eq_mask mask_numeral)
  then have "uint (w AND 0xff) = take_bit 8 (uint w)" by (simp only: unsigned_take_bit_eq)
  then show ?thesis by (simp add: take_bit_eq_mod)
qed

lemma flags_set_sp [simp]:
  "zf (r\<lparr>r_sp := w\<rparr>) = zf r" "nf (r\<lparr>r_sp := w\<rparr>) = nf r"
  "hf (r\<lparr>r_sp := w\<rparr>) = hf r" "cf (r\<lparr>r_sp := w\<rparr>) = cf r"
  by (simp_all add: flag_bits)

text \<open>The two tests of the code together find the carry out of the low byte.\<close>

lemma sp_carry:
  fixes w :: u16 and b :: u8
  defines "n \<equiv> (word_of_int (uint w + s8 b) :: u16)"
  shows "(uint n < s8 b \<or> uint (n AND 0xff) < uint (word_of_int (s8 b) :: u8)) =
    (uint w mod 256 + uint b \<ge> 256)"
proof -
  have b: "uint (word_of_int (s8 b) :: u8) = uint b" by (simp only: uint_wi8 s8_mod_256)
  have "uint n mod 256 = (uint w + s8 b) mod 256"
    unfolding n_def uint_wi16 by (simp add: mod_mod_cancel)
  also have "\<dots> = (uint w mod 256 + uint b) mod 256"
    using mod_add_eq [of "uint w" 256 "s8 b"] by (simp only: s8_mod_256)
  also have "\<dots> = (if uint w mod 256 + uint b < 256 then uint w mod 256 + uint b
      else uint w mod 256 + uint b - 256)"
    using uint_u8_bounds [of b] by (intro add_mod_cases) simp_all
  finally have n: "uint n mod 256 = \<dots>" .
  have lt: "uint n mod 256 < uint b" if "uint n < s8 b"
  proof -
    have n: "0 \<le> uint n" "uint n < 256" using that s8_bounds [of b] by simp_all
    with that have "s8 b = uint b" by (intro s8_pos) linarith
    with n that show ?thesis by (simp add: mod_pos_pos_trivial)
  qed
  have "uint w mod 256 < 256" "0 \<le> uint w mod 256" by simp_all
  then have "(uint n mod 256 < uint b) = (uint w mod 256 + uint b \<ge> 256)"
    unfolding n using uint_u8_bounds [of b] by auto
  with lt show ?thesis unfolding and_ff_u16 b by blast
qed

text \<open>ADD SP,e8 adds the byte as a signed number modulo 65536, and sets the half carry and the
  carry by the unsigned addition of the low byte, for negative offsets too.\<close>

theorem add_sp_signed:
  assumes "f_ok r"
  shows "add_sp_e8 (s8 b) r = r\<lparr>r_sp := word_of_int (uint (r_sp r) + sint b),
    r_f := flags False False (uint (r_sp r) mod 16 + uint b mod 16 \<ge> 16)
      (uint (r_sp r) mod 256 + uint b \<ge> 256)\<rparr>"
proof -
  let ?q = "SET_FLAG (BOOL_TO_HALF_CARRY_FLAG (uint (r_sp r) mod 16 + uint b mod 16 \<ge> 16))
    (UNSET_FLAGS_ALL r)" and ?n = "word_of_int (uint (r_sp r) + s8 b) :: u16"
  have sp_upd: "r_sp (q\<lparr>r_sp := w\<rparr>) = w" for q w by simp
  have two: "(if p then x else if q then x else y) = (if p \<or> q then x else y)"
    for p q and x y :: registers by simp
  have "add_sp_e8 (s8 b) r = (if uint (r_sp r) mod 256 + uint b \<ge> 256
      then SET_FLAG FLAG_CARRY (?q\<lparr>r_sp := ?n\<rparr>) else ?q\<lparr>r_sp := ?n\<rparr>)"
    unfolding add_sp_e8_def Let_def two alu s8_mod flag_macro_frame sp_upd sp_carry by (rule refl)
  also have "\<dots> = r\<lparr>r_sp := ?n, r_f := flags False False (uint (r_sp r) mod 16 + uint b mod 16 \<ge> 16)
      (uint (r_sp r) mod 256 + uint b \<ge> 256)\<rparr>"
    by (rule registers_f_eqI) (use assms in simp_all)
  finally show ?thesis by (simp only: s8_def)
qed

theorem add_sp_signed_witness:
  "add_sp_e8 (s8 0xff) registers0 = registers0\<lparr>r_sp := 0xffff, r_f := 0\<rparr>"
proof -
  have "f_ok registers0" by (simp add: registers0_def f_ok_def)
  from add_sp_signed [OF this, of "0xff"] show ?thesis
    by (simp add: registers0_def flags_def)
qed

end
