(* ===== verification/Decimal.thy ===== *)
theory Decimal
  imports Alu_Facts
begin

text \<open>
  Packed decimal arithmetic: the \<open>op_daa\<close> of src/emu/cpu/cpu_ops.c against a reference on
  numbers below 100.
\<close>

text \<open>The packed decimal byte of a number below 100: one decimal digit in each nibble.\<close>

definition bcd :: "int \<Rightarrow> u8" where
  "bcd n = word_of_int (16 * (n div 10) + n mod 10)"

lemma uint_bcd: "0 \<le> n \<Longrightarrow> n < 100 \<Longrightarrow> uint (bcd n) = 16 * (n div 10) + n mod 10"
  unfolding bcd_def uint_wi8 by (intro mod_pos_pos_trivial) (simp, linarith)

text \<open>The digit sums of two packed numbers and a carry, and what \<open>daa_acc\<close> makes of them:
  19 by 20 cases, decided by evaluation.\<close>

definition daa_correct :: "int \<Rightarrow> int \<Rightarrow> bool" where
  "daa_correct hi lo =
    (let s = 16 * hi + lo; d = 10 * hi + lo; acc = daa_acc (s mod 256) (lo \<ge> 16) (s \<ge> 256)
     in acc mod 256 = 16 * (d mod 100 div 10) + d mod 100 mod 10 \<and>
        (s \<ge> 256 \<or> acc \<ge> 256) = (d \<ge> 100))"

lemma daa_correct_all: "list_all (\<lambda>hi. list_all (daa_correct hi) [0..19]) [0..18]"
  by code_simp

lemma daa_correct: "0 \<le> hi \<Longrightarrow> hi \<le> 18 \<Longrightarrow> 0 \<le> lo \<Longrightarrow> lo \<le> 19 \<Longrightarrow> daa_correct hi lo"
  using daa_correct_all by (simp add: list_all_iff)

lemma decimal_digits:
  fixes n :: int
  assumes "0 \<le> n" "n < 100"
  shows "0 \<le> n div 10" "n div 10 \<le> 9" "0 \<le> n mod 10" "n mod 10 \<le> 9"
    "n = 10 * (n div 10) + n mod 10"
proof -
  have "10 * (n div 10) + n mod 10 = n" by (rule mult_div_mod_eq)
  moreover have "0 \<le> n mod 10" "n mod 10 < 10" by simp_all
  ultimately show "0 \<le> n div 10" "n div 10 \<le> 9" "0 \<le> n mod 10" "n mod 10 \<le> 9"
    "n = 10 * (n div 10) + n mod 10"
    using assms by linarith+
qed

lemma digit_mod_16: "0 \<le> t \<Longrightarrow> t \<le> 9 \<Longrightarrow> (16 * q + t) mod 16 = (t::int)"
  by (simp add: mod_pos_pos_trivial)

lemma uint_bcd_mod: "0 \<le> n \<Longrightarrow> n < 100 \<Longrightarrow> uint (bcd n) mod 16 = n mod 10"
  using digit_mod_16 [of "n mod 10" "n div 10"] decimal_digits [of n]
  by (simp only: uint_bcd)

lemma of_bool_wi: "(of_bool k :: u8) = word_of_int (of_bool k)"
  by (cases k) simp_all

lemma digit_sum: "a = 10 * p + q \<Longrightarrow> b = 10 * s + t \<Longrightarrow> a + b + k = 10 * (p + s) + (q + t + (k::int))"
  by simp

lemma adc_bcd:
  assumes a: "0 \<le> a" "a < 100" and b: "0 \<le> b" "b < 100" and f: "f_ok r"
    and A: "r_a r = bcd a"
  shows "\<exists>hi lo. daa_correct hi lo \<and> a + b + of_bool (cf r) = 10 * hi + lo \<and>
    DO_ADC (uint (bcd b)) r = r\<lparr>r_a := word_of_int (16 * hi + lo),
      r_f := flags (word_of_int (16 * hi + lo) = (0::u8)) False (lo \<ge> 16) (16 * hi + lo \<ge> 256)\<rparr>"
proof -
  let ?k = "of_bool (cf r) :: int"
  let ?hi = "a div 10 + b div 10" and ?lo = "a mod 10 + b mod 10 + ?k"
  note d = decimal_digits [OF a] decimal_digits [OF b]
  have s: "uint (bcd a) + uint (bcd b) + ?k = 16 * ?hi + ?lo"
    by (simp add: uint_bcd a b)
  have w: "bcd a + bcd b + of_bool (cf r) = word_of_int (16 * ?hi + ?lo)"
    unfolding bcd_def of_bool_wi wi_hom_add by (rule arg_cong [of _ _ word_of_int]) simp
  have "DO_ADC (uint (bcd b)) r = r\<lparr>r_a := word_of_int (16 * ?hi + ?lo),
      r_f := flags (word_of_int (16 * ?hi + ?lo) = (0::u8)) False (?lo \<ge> 16) (16 * ?hi + ?lo \<ge> 256)\<rparr>"
    unfolding DO_ADC_eq [OF f] adc_flags_def A w s uint_bcd_mod [OF a] uint_bcd_mod [OF b]
    by (rule refl)
  moreover have "daa_correct ?hi ?lo"
  proof -
    have "0 \<le> ?k" "?k \<le> 1" by simp_all
    with d show ?thesis by (intro daa_correct) linarith+
  qed
  moreover have "a + b + ?k = 10 * ?hi + ?lo"
    using d(5,10) by (rule digit_sum)
  ultimately show ?thesis by blast
qed


text \<open>19 + 28 + 1 = 48 in packed decimal.\<close>

definition daa_sample :: registers where
  "daa_sample = \<lparr>r_f = 0x10, r_a = 0x19, r_c = 0, r_b = 0, r_e = 0, r_d = 0, r_l = 0, r_h = 0,
     r_sp = 0, r_pc = 0\<rparr>"


section \<open>After a subtraction\<close>

text \<open>The subtract branch of \<open>op_daa\<close>, and its 19 by 19 cases.\<close>

lemma op_daa_sub_eq:
  assumes "f_ok r" "nf r"
  shows "r_a (op_daa r) = r_a r - (if hf r then 6 else 0) - (if cf r then 60 else 0)"
    and "cf r \<Longrightarrow> cf (op_daa r)" and "\<not> cf r \<Longrightarrow> \<not> cf (op_daa r)"
proof -
  have d: "(ucast (w - 60 :: u16) :: u8) = ucast w - 60" "(ucast (w - 6 :: u16) :: u8) = ucast w - 6"
    for w by (simp_all add: unsigned_ucast_eq wi_hom_syms uint_word_ariths word_uint_eq_iff take_bit_eq_mod
      mod_mod_cancel mod_diff_left_eq)
  have u: "(ucast (ucast (x::u8) :: u16) :: u8) = x" for x
    by (rule bit_word_eqI) (simp add: bit_simps)
  have n: "(w AND 0xff :: u16) AND 0x100 \<noteq> 0x100" "(ucast (x::u8) :: u16) AND 0x100 \<noteq> 0x100"
    for w and x :: u8
    using and_100_u16 [of "uint x"] uint_u8_bounds [of x] by (simp_all add: and.assoc)
  show "r_a (op_daa r) = r_a r - (if hf r then 6 else 0) - (if cf r then 60 else 0)"
    using assms(2) by (simp add: op_daa_def Let_def ucast_and_ff d u)
  show "cf (op_daa r)" if "cf r"
    unfolding op_daa_def Let_def SET_FLAG_def [symmetric] UNSET_FLAG_def [symmetric]
    using that by simp
  show "\<not> cf (op_daa r)" if "\<not> cf r"
    unfolding op_daa_def Let_def SET_FLAG_def [symmetric] UNSET_FLAG_def [symmetric]
    using that assms(2) n by simp
qed

definition das_correct :: "int \<Rightarrow> int \<Rightarrow> bool" where
  "das_correct hi lo =
    (let s = 16 * hi + lo; d = 10 * hi + lo
     in (s - (if lo < 0 then 6 else 0) - (if s < 0 then 60 else 0)) mod 256 =
          (16 * (d mod 100 div 10) + d mod 100 mod 10 + (if d < 0 then 36 else 0)) mod 256 \<and>
        (s < 0) = (d < 0))"

lemma das_correct_all: "list_all (\<lambda>hi. list_all (das_correct hi) [-9..9]) [-9..9]"
  by code_simp

lemma das_correct: "-9 \<le> hi \<Longrightarrow> hi \<le> 9 \<Longrightarrow> -9 \<le> lo \<Longrightarrow> lo \<le> 9 \<Longrightarrow> das_correct hi lo"
  using das_correct_all unfolding list_all_iff set_upto by (metis atLeastAtMost_iff)

text \<open>C35: After SUB of packed decimal bytes, DAA leaves the packed decimal difference when there was
  no borrow.  When there was one it leaves the difference plus 36 (0x24), a wrong digit pair for every
  such pair of operands: the source subtracts the decimal number 60 in place of 0x60.\<close>

theorem daa_after_subtraction:
  assumes "0 \<le> a" "a < 100" "0 \<le> b" "b < 100" and "f_ok r" and "r_a r = bcd a"
  defines "r' \<equiv> op_daa (DO_SUB (uint (bcd b)) 0 r)"
  shows "r_a r' = bcd ((a - b) mod 100) + (if a < b then 36 else 0) \<and> cf r' = (a < b)"
proof -
  let ?hi = "a div 10 - b div 10" and ?lo = "a mod 10 - b mod 10"
  note d = decimal_digits [OF assms(1,2)] decimal_digits [OF assms(3,4)]
  have c: "das_correct ?hi ?lo" using d by (intro das_correct) linarith+
  have n: "a - b = 10 * ?hi + ?lo" using d(5,10) by (simp add: algebra_simps)
  have s: "uint (bcd a) - uint (bcd b) = 16 * ?hi + ?lo"
    using assms(1-4) by (simp add: uint_bcd)
  have lt: "(uint (bcd a) < uint (bcd b)) = (16 * ?hi + ?lo < 0)" using s by linarith
  let ?q = "DO_SUB (uint (bcd b)) 0 r"
  have A: "r_a ?q = bcd a - bcd b" and f: "f_ok ?q" "nf ?q"
    and h: "hf ?q = (?lo < 0)" and k: "cf ?q = (16 * ?hi + ?lo < 0)"
    using assms(1-4) by (simp_all add: DO_SUB_eq [OF assms(5)] assms(6) uint_bcd_mod lt)
  have w: "bcd a - bcd b = word_of_int (16 * ?hi + ?lo)"
    unfolding s [symmetric] by (simp add: wi_hom_syms)
  have "r_a r' = word_of_int (16 * ?hi + ?lo - (if ?lo < 0 then 6 else 0)
      - (if 16 * ?hi + ?lo < 0 then 60 else 0))"
    unfolding r'_def op_daa_sub_eq(1) [OF f] A h k w by (auto simp: wi_hom_syms)
  also have "\<dots> = word_of_int (16 * ((a - b) mod 100 div 10) + (a - b) mod 100 mod 10
      + (if a - b < 0 then 36 else 0))"
    by (rule word_uint_eqI) (unfold uint_wi8,
      rule conjunct1 [OF c [unfolded das_correct_def Let_def n [symmetric]]])
  also have "\<dots> = bcd ((a - b) mod 100) + (if a < b then 36 else 0)"
    by (simp add: bcd_def wi_hom_syms)
  finally have "r_a r' = bcd ((a - b) mod 100) + (if a < b then 36 else 0)" .
  moreover have "cf r' = (a < b)"
  proof -
    have "cf ?q = (a - b < 0)"
      unfolding k by (rule conjunct2 [OF c [unfolded das_correct_def Let_def n [symmetric]]])
    then have "cf ?q = (a < b)" by simp
    then show ?thesis using op_daa_sub_eq(2,3) [OF f] by (cases "cf ?q") (simp_all add: r'_def)
  qed
  ultimately show ?thesis ..
qed

text \<open>42 - 17 = 25 comes out right; 0 - 1 gives 0xbd instead of 0x99.\<close>

theorem daa_after_subtraction_witness:
  "r_a (op_daa (DO_SUB (uint (bcd 17)) 0 (daa_sample\<lparr>r_f := 0, r_a := bcd 42\<rparr>))) = 0x25 \<and>
   r_a (op_daa (DO_SUB (uint (bcd 1)) 0 (daa_sample\<lparr>r_a := 0\<rparr>))) = 0xbd"
proof -
  have f: "f_ok (daa_sample\<lparr>r_a := 0\<rparr>)" "f_ok (daa_sample\<lparr>r_f := 0, r_a := bcd 42\<rparr>)"
    and a: "r_a (daa_sample\<lparr>r_a := 0\<rparr>) = bcd 0"
    by (simp_all add: daa_sample_def f_ok_def bcd_def)
  have "bcd 25 = 0x25" "bcd 99 + 36 = 0xbd" by (simp_all add: bcd_def)
  then show ?thesis
    using daa_after_subtraction [of 42 17, OF _ _ _ _ f(2)]
      daa_after_subtraction [of 0 1, OF _ _ _ _ f(1) a] by simp
qed

end
