(* ===== verification/Dma.thy ===== *)
theory Dma
  imports Bus
begin

text \<open>
  The sprite transfer: a write of a page number to 0xff46 (case 0xff46 of \<open>wr_reg\<close> in
  src/emu/ppu.c) copies the first 160 bytes of the page to sprite memory.
\<close>

lemma rd_after_oam:
  assumes "gb_ok g" "i < 0xa0" "ppu_wr_oam i v g = Some h" "b \<noteq> 0xfe00 + of_nat i"
  shows "monitor_rd_mem b h = monitor_rd_mem b g"
proof -
  obtain k where h: "h = on_ppu (\<lambda>p. p\<lparr>oam := (oam p)(i := v)\<rparr>) (g\<lparr>oam_hash := k\<rparr>)"
    using ppu_wr_oam_spec [OF assms(1,2), of v] assms(3) by auto
  have "nat (uint b - 0xfe00) \<noteq> i" if "0xfe00 \<le> uint b"
    using that assms(2,4) uint_oam_addr [OF assms(2)] by (auto simp: word_uint_eq_iff)
  then have "ppu_rd b (ppu h) = ppu_rd b (ppu g)"
    by (simp add: h ppu_rd_def rd_reg_def arr_rd_def word_le_def)
  then show ?thesis by (simp add: h monitor_rd_mem_def)
qed

text \<open>Addresses of a page, and that sprite memory can only be copied onto itself.\<close>

definition page_addr :: "u8 \<Rightarrow> nat \<Rightarrow> u16" where
  "page_addr p i = push_bit 8 (ucast p) + of_nat i"

lemma uint_page_addr: "i < 0xa0 \<Longrightarrow> uint (page_addr p i) = 256 * uint p + int i"
proof -
  assume i: "i < 0xa0"
  have "(push_bit 8 (ucast p) :: u16) = of_nat (256 * unat p)"
    by (simp add: push_bit_eq_mult mult.commute)
  then have "page_addr p i = of_nat (256 * unat p + i)" by (simp add: page_addr_def)
  then have "unat (page_addr p i) = (256 * unat p + i) mod 0x10000" by (simp only: unat_of_nat) simp
  with i unat_u8 [of p] have "unat (page_addr p i) = 256 * unat p + i" by simp
  then have "int (unat (page_addr p i)) = int (256 * unat p + i)" by (simp only:)
  then show ?thesis by simp
qed

lemma page_oam: "i < 0xa0 \<Longrightarrow> j < 0xa0 \<Longrightarrow> page_addr p j = 0xfe00 + of_nat i \<Longrightarrow> j = i"
proof -
  assume ij: "i < 0xa0" "j < 0xa0" and "page_addr p j = 0xfe00 + of_nat i"
  then have "256 * uint p + int j = 0xfe00 + int i"
    using uint_page_addr [OF ij(2), of p] uint_oam_addr [OF ij(1)] by simp
  moreover from this have "uint p < 255" "253 < uint p" using ij by linarith+
  ultimately show ?thesis by simp
qed

lemma dma_loop_copies:
  assumes "gb_ok g" "dma_loop i (page_addr p 0) g = Some g'" "j < 0xa0"
  shows "oam (ppu g') j = (if i \<le> j then the (monitor_rd_mem (page_addr p j) g) else oam (ppu g) j)"
  using assms(1,2)
proof (induction "0xa0 - i" arbitrary: i g)
  case 0
  then show ?case using assms(3) by (simp add: dma_loop.simps [of i])
next
  case (Suc n)
  then have i: "i < 0xa0" by simp
  have at: "page_addr p 0 + of_nat i = page_addr p i" by (simp add: page_addr_def)
  obtain v h where v: "monitor_rd_mem (page_addr p i) g = Some v"
    and h: "ppu_wr_oam i v g = Some h" "dma_loop (i + 1) (page_addr p 0) h = Some g'"
    using Suc.prems(2) i by (auto simp: dma_loop.simps [of i] wr_oam bind_eq_Some at)
  have ok: "gb_ok h" using ppu_wr_oam_ok [OF Suc.prems(1) i, of v] h(1) by (simp add: wr_ok_Some)
  have oam: "oam (ppu h) = (oam (ppu g))(i := v)"
    using ppu_wr_oam_spec [OF Suc.prems(1) i, of v] h(1) by auto
  have IH: "oam (ppu g') j =
      (if Suc i \<le> j then the (monitor_rd_mem (page_addr p j) h) else oam (ppu h) j)"
    using Suc h(2) ok by (metis Suc_eq_plus1 diff_Suc_Suc Suc_diff_Suc diff_Suc_1 i)
  have "monitor_rd_mem (page_addr p j) h = monitor_rd_mem (page_addr p j) g" if "Suc i \<le> j"
    using rd_after_oam [OF Suc.prems(1) i h(1)] page_oam [OF i assms(3)] that by fastforce
  then show ?case using IH oam v by (cases "j = i") auto
qed

text \<open>C11: a write of the page number \<open>p\<close> to 0xff46 returns, and afterwards the 160 bytes of sprite
  memory are those that a read of page \<open>p\<close> gave before the write, for every page, sprite memory
  and the I/O page included.\<close>

theorem oam_dma_copies_page:
  assumes "gb_ok g"
  shows "\<exists>g'. monitor_wr_mem 0xff46 p g = Some g' \<and>
    (\<forall>i<0xa0. monitor_rd_mem (0xfe00 + of_nat i) g' = monitor_rd_mem (page_addr p i) g)"
proof -
  obtain g' where g': "monitor_wr_mem 0xff46 p g = Some g'"
    using bus.wr_returns [OF assms] by blast
  then have "dma_loop 0 (page_addr p 0) g = Some g'"
    by (simp add: monitor_wr_mem.simps ppu_wr.simps wr_reg.simps page_addr_def)
  from dma_loop_copies [OF assms this] have
    "\<forall>i<0xa0. oam (ppu g') i = the (monitor_rd_mem (page_addr p i) g)" by simp
  moreover have "monitor_rd_mem (page_addr p i) g = Some (the (monitor_rd_mem (page_addr p i) g))" for i
    using rd_total [of "page_addr p i" g] by auto
  ultimately show ?thesis using g' by (auto simp: rd_oam)
qed

theorem oam_dma_copies_page_witness:
  "\<exists>g'. monitor_wr_mem 0xff46 0xc1 sample_gb = Some g' \<and>
    (\<forall>i<0xa0. monitor_rd_mem (0xfe00 + of_nat i) g' = monitor_rd_mem (page_addr 0xc1 i) sample_gb)"
  by (rule oam_dma_copies_page [OF sample_gb_ok])

end
