(* ===== verification/Cpu_Exec.thy ===== *)
theory Cpu_Exec
  imports Cpu_Table
begin

text \<open>
  Fetch, execution, timers and interrupts: \<open>process_intr\<close>, \<open>handle_intrs\<close> and
  \<open>cpu_exec_next\<close> of src/emu/cpu/cpu.c.
\<close>

section \<open>Interrupts\<close>

text \<open>The local enumeration of \<open>process_intr\<close>, with the value of each constant as its bit.\<close>

datatype interrupts =
  VBLANK_INTERRUPT | LCD_INTERRUPT | TIMER_INTERRUPT | SERIAL_INTERRUPT | JOYPAD_INTERRUPT

fun interrupt_value :: "interrupts \<Rightarrow> u8" where
  "interrupt_value VBLANK_INTERRUPT = 0x01"
| "interrupt_value LCD_INTERRUPT = 0x02"
| "interrupt_value TIMER_INTERRUPT = 0x04"
| "interrupt_value SERIAL_INTERRUPT = 0x08"
| "interrupt_value JOYPAD_INTERRUPT = 0x10"

text \<open>The \<open>switch\<close>: no case leaves the address uninitialised, and its later use undefined.\<close>

definition interrupt_handler_addr :: "u8 \<Rightarrow> u16 option" where
  "interrupt_handler_addr interrupt_bit =
    (if interrupt_bit = interrupt_value VBLANK_INTERRUPT then Some 0x40
     else if interrupt_bit = interrupt_value LCD_INTERRUPT then Some 0x48
     else if interrupt_bit = interrupt_value TIMER_INTERRUPT then Some 0x50
     else if interrupt_bit = interrupt_value SERIAL_INTERRUPT then Some 0x58
     else if interrupt_bit = interrupt_value JOYPAD_INTERRUPT then Some 0x60
     else None)"

definition process_intr :: "u8 \<Rightarrow> gb \<Rightarrow> gb option" where
  "process_intr interrupt_bit g =
    do { addr \<leftarrow> interrupt_handler_addr interrupt_bit;
         g \<leftarrow> WR_STACK REG_PC (SP_sub 2 g);
         Some (DO_LD_REG16 REG_PC addr g) }"

text \<open>The body of the loop of \<open>handle_intrs\<close>.\<close>

definition clear_halt :: "cpu_t \<Rightarrow> cpu_t" where
  "clear_halt c = c\<lparr>is_halted := False\<rparr>"

definition acknowledge :: "u8 \<Rightarrow> cpu_t \<Rightarrow> cpu_t" where
  "acknowledge m c = c\<lparr>ime_enabled := False, if_reg := if_reg c AND NOT m, is_halted := False\<rparr>"

definition intr_body :: "u8 \<Rightarrow> gb \<Rightarrow> gb option" where
  "intr_body m g =
    (if (if_reg (cpu g) AND ie_reg (cpu g)) AND m \<noteq> 0 then
       (let g = on_cpu clear_halt g
        in if ime_enabled (cpu g) then process_intr m (on_cpu (acknowledge m) g) else Some g)
     else Some g)"

text \<open>The loop itself: the mask starts at 1, is shifted left each time and is 0 after eight
  shifts, which ends the loop.\<close>

lemma shifted_out: "8 \<le> i \<Longrightarrow> push_bit i (1::u8) = 0"
  by (rule bit_word_eqI) (auto simp: bit_simps)

function intr_loop :: "nat \<Rightarrow> gb \<Rightarrow> gb option" where
  "intr_loop i g =
    (if push_bit i (1::u8) \<noteq> 0 then intr_body (push_bit i 1) g \<bind> intr_loop (i + 1) else Some g)"
  by pat_completeness auto
termination
  by (relation "measure (\<lambda>(i, g). 8 - i)") (auto intro: diff_less_mono2 ccontr dest: shifted_out)

declare intr_loop.simps [simp del]

definition handle_intrs :: "gb \<Rightarrow> gb option" where
  "handle_intrs g = (if ime_enabled (cpu g) \<or> is_halted (cpu g) then intr_loop 0 g else Some g)"

section \<open>The next instruction\<close>

definition OPCODE_PREFIX :: u8 where "OPCODE_PREFIX = 0xcb"

text \<open>Fetch: the opcode, whether it had the prefix, and the machine after the fetch.\<close>

definition fetch :: "gb \<Rightarrow> (u8 \<times> bool \<times> gb) option" where
  "fetch g =
    do { op \<leftarrow> monitor_rd_mem (R16 REG_PC g) g;
         g \<leftarrow> Some (ADVANCE_PC 1 g);
         if op = OPCODE_PREFIX then
           do { op \<leftarrow> monitor_rd_mem (R16 REG_PC g) g;
                Some (op, True, ADVANCE_PC 1 g) }
         else Some (op, False, g) }"

definition add_cycles :: "int \<Rightarrow> cpu_t \<Rightarrow> cpu_t" where
  "add_cycles n c = c\<lparr>cycles := cycles c + word_of_int n\<rparr>"

definition execute :: op where
  "execute g =
    (if \<not> is_halted (cpu g) then
       do { (op, prefix, g) \<leftarrow> fetch g;
            (n, g) \<leftarrow> ops_table_dispatch op prefix g;
            Some (n, on_cpu (add_cycles n) g) }
     else Some (3, g))"

definition cpu_exec_next :: op where
  "cpu_exec_next g =
    do { (n, g) \<leftarrow> execute g;
         g \<leftarrow> Some (on_cpu (div_step n) g);
         c \<leftarrow> timer_step n (cpu g);
         g \<leftarrow> handle_intrs (g\<lparr>cpu := c\<rparr>);
         Some (n, g) }"

end
