(* ===== verification/Cpu_Exec_Facts.thy ===== *)
theory Cpu_Exec_Facts
  imports Cpu_Exec Cpu_Facts
begin

text \<open>
  What \<open>cpu_exec_next\<close> guarantees: it always returns, takes one to six cycles and keeps the
  invariant of the machine; exactly one pending interrupt is served, the one of highest
  priority; the divider and the timer count the cycles of the instruction.
\<close>

section \<open>Interrupts by priority\<close>

text \<open>Interrupts are ordered by their bit, the order in which the hardware serves them.\<close>

fun intr_bit :: "interrupts \<Rightarrow> nat" where
  "intr_bit VBLANK_INTERRUPT = 0"
| "intr_bit LCD_INTERRUPT = 1"
| "intr_bit TIMER_INTERRUPT = 2"
| "intr_bit SERIAL_INTERRUPT = 3"
| "intr_bit JOYPAD_INTERRUPT = 4"

lemma intr_bit_inject [simp]: "intr_bit x = intr_bit y \<longleftrightarrow> x = y"
  by (cases x; cases y) simp_all

instantiation interrupts :: linorder
begin

definition less_eq_interrupts :: "interrupts \<Rightarrow> interrupts \<Rightarrow> bool" where
  "less_eq_interrupts x y = (intr_bit x \<le> intr_bit y)"

definition less_interrupts :: "interrupts \<Rightarrow> interrupts \<Rightarrow> bool" where
  "less_interrupts x y = (intr_bit x < intr_bit y)"

instance
  by standard (auto simp: less_eq_interrupts_def less_interrupts_def)

end

lemma intr_bit_less: "intr_bit x < 5"
  by (cases x) simp_all

lemma intr_bit_surj: "n < 5 \<Longrightarrow> \<exists>x. intr_bit x = n"
proof -
  assume "n < 5"
  then consider "n = 0" | "n = 1" | "n = 2" | "n = 3" | "n = 4" by linarith
  then show ?thesis by cases (metis intr_bit.simps)+
qed

lemma interrupt_value_bit: "interrupt_value x = push_bit (intr_bit x) 1"
  by (cases x) simp_all

text \<open>The interrupts that are requested and enabled.\<close>

definition pending :: "cpu_t \<Rightarrow> interrupts set" where
  "pending c = {x. bit (if_reg c AND ie_reg c) (intr_bit x)}"

lemma finite_pending [simp]: "finite (pending c)"
proof -
  have "pending c \<subseteq> {VBLANK_INTERRUPT, LCD_INTERRUPT, TIMER_INTERRUPT, SERIAL_INTERRUPT, JOYPAD_INTERRUPT}"
  proof
    fix x show "x \<in> {VBLANK_INTERRUPT, LCD_INTERRUPT, TIMER_INTERRUPT, SERIAL_INTERRUPT, JOYPAD_INTERRUPT}"
      by (cases x) simp_all
  qed
  then show ?thesis by (rule finite_subset) simp
qed

text \<open>Under the invariant no other bit can be requested.\<close>

lemma bit_e0: "bit (0xe0 :: u8) i \<longleftrightarrow> i = 5 \<or> i = 6 \<or> i = 7"
proof -
  have "(0xe0 :: u8) = 2 ^ 5 OR 2 ^ 6 OR 2 ^ 7" by simp
  then show ?thesis using bit_u8_exp [of 5 i] bit_u8_exp [of 6 i] bit_u8_exp [of 7 i]
    by (simp only: bit_or_iff)
qed

lemma if_reg_bits: "cpu_ok c \<Longrightarrow> bit (if_reg c) i \<Longrightarrow> i < 5"
proof (rule ccontr)
  assume ok: "cpu_ok c" and b: "bit (if_reg c) i" and "\<not> i < 5"
  moreover have "i < 8" using bit_imp_le_length [OF b] by simp
  then have "i = 5 \<or> i = 6 \<or> i = 7" using \<open>\<not> i < 5\<close> by linarith
  with b have "bit (if_reg c AND 0xe0) i" by (simp only: bit_and_iff bit_e0 simp_thms)
  with ok show False by (simp add: cpu_ok_def)
qed

lemma test_exp [simp]: "(a AND 2 ^ i \<noteq> 0) \<longleftrightarrow> bit a i" "(a AND 2 ^ i = 0) \<longleftrightarrow> \<not> bit (a::u8) i"
  using and_exp_eq_0_iff_not_bit [of a i] by simp_all

lemma exp_u8_nonzero: "i < 8 \<Longrightarrow> (2::u8) ^ i \<noteq> 0"
  by simp

text \<open>With interrupts disabled the rest of the loop only wakes a halted CPU.\<close>

definition wakes :: "nat \<Rightarrow> cpu_t \<Rightarrow> bool" where
  "wakes i c = (\<exists>j\<ge>i. bit (if_reg c AND ie_reg c) j)"

lemma intr_loop_disabled:
  "\<not> ime_enabled (cpu g) \<Longrightarrow>
    intr_loop i g = Some (if wakes i (cpu g) then on_cpu clear_halt g else g)"
proof (induction "8 - i" arbitrary: i g)
  case 0
  then have "\<not> wakes i (cpu g)"
    using bit_imp_le_length [where ?'a = 8] by (fastforce simp: wakes_def)
  with 0 show ?case by (simp add: intr_loop.simps [of i] shifted_out)
next
  case (Suc n)
  have nz: "push_bit i (1::u8) \<noteq> 0" using Suc.hyps(2) exp_u8_nonzero [of i] by simp
  let ?b = "bit (if_reg (cpu g) AND ie_reg (cpu g)) i"
  have step: "intr_body (2 ^ i) g = Some (if ?b then on_cpu clear_halt g else g)"
    using Suc.prems by (simp add: intr_body_def clear_halt_def Let_def)
  have wk: "wakes i (cpu g) \<longleftrightarrow> ?b \<or> wakes (i + 1) (cpu g)"
    unfolding wakes_def by (metis Suc_eq_plus1 Suc_leD Suc_le_eq le_eq_less_or_eq order_refl)
  have same: "wakes j (clear_halt (cpu g)) = wakes j (cpu g)" for j
    by (simp add: wakes_def clear_halt_def)
  have idem: "on_cpu clear_halt (on_cpu clear_halt g) = on_cpu clear_halt g"
    by (simp add: on_cpu_def clear_halt_def)
  have IH: "intr_loop (Suc i) h = Some (if wakes (i + 1) (cpu h) then on_cpu clear_halt h else h)"
    if "\<not> ime_enabled (cpu h)" for h
  proof -
    have "n = 8 - Suc i" using Suc.hyps(2) by simp
    from Suc.hyps(1) [OF this that] show ?thesis by simp
  qed
  have ch: "\<not> ime_enabled (cpu (on_cpu clear_halt g))" using Suc.prems by (simp add: clear_halt_def)
  show ?case
    using nz IH [OF Suc.prems] IH [OF ch] by (simp add: intr_loop.simps [of i] step wk same idem)
qed

text \<open>Without a request the loop does nothing; the first request it meets is served.\<close>

lemma intr_loop_none: "(\<And>j. i \<le> j \<Longrightarrow> \<not> bit (if_reg (cpu g) AND ie_reg (cpu g)) j) \<Longrightarrow> intr_loop i g = Some g"
proof (induction "8 - i" arbitrary: i)
  case 0
  then show ?case by (simp add: intr_loop.simps [of i] shifted_out)
next
  case (Suc n)
  then have "intr_loop (i + 1) g = Some g" by (intro Suc.hyps(1)) auto
  with Suc.prems [of i] show ?case by (simp add: intr_loop.simps [of i] intr_body_def)
qed

lemma WR_STACK_ok:
  assumes "gb_ok g"
  obtains h where "WR_STACK q g = Some h" "gb_ok h" "bus_frame g h"
proof -
  obtain k where k: "monitor_wr_mem (R16 REG_SP g) (lo8 (R16 q g)) g = Some k" "gb_ok k" "bus_frame g k"
    using monitor_wr_ok [OF assms] by (auto simp: wr_ok_def returns_iff)
  obtain h where "monitor_wr_mem (R16 REG_SP k + 1) (hi8 (R16 q k)) k = Some h" "gb_ok h" "bus_frame k h"
    using monitor_wr_ok [OF k(2)] by (auto simp: wr_ok_def returns_iff)
  with k that show thesis
    by (auto simp: WR_STACK_def WR_WORD_def intro: bus_frame_trans)
qed

lemma handler_addr: "interrupt_handler_addr (interrupt_value x) = Some (of_nat (0x40 + 8 * intr_bit x))"
  by (cases x) (simp_all add: interrupt_handler_addr_def)

lemma bus_frame_gregs: "bus_frame g h \<Longrightarrow> gregs h = gregs g"
  by (simp add: bus_frame_def gregs_def)

lemma process_intr_ok:
  assumes "gb_ok g"
  obtains h where "process_intr (interrupt_value x) g = Some h" "gb_ok h" "step_frame g h"
    "ime_enabled (cpu h) = ime_enabled (cpu g)" "is_halted (cpu h) = is_halted (cpu g)"
proof -
  have ok: "gb_ok (SP_sub 2 g)" using assms by simp
  obtain h where "WR_STACK REG_PC (SP_sub 2 g) = Some h" "gb_ok h" "bus_frame (SP_sub 2 g) h"
    using WR_STACK_ok [OF ok] .
  moreover from this have "step_frame g h" "ime_enabled (cpu h) = ime_enabled (cpu g)"
    "is_halted (cpu h) = is_halted (cpu g)"
    using step_frame_bus [of g "SP_sub 2 g" h] by (simp_all add: bus_frame_def SP_sub_def)
  ultimately show thesis
    by (intro that [of "DO_LD_REG16 REG_PC (of_nat (0x40 + 8 * intr_bit x)) h"])
      (simp_all add: process_intr_def handler_addr DO_LD_REG16_def)
qed

lemma gb_ok_acknowledge: "gb_ok g \<Longrightarrow> gb_ok (on_cpu (acknowledge m) g)"
  by (simp add: gb_ok_def cpu_ok_def timer_ok_def acknowledge_def) (metis and.assoc and.commute and_zero_eq)

lemma clear_halt_id: "\<not> is_halted (cpu g) \<Longrightarrow> on_cpu clear_halt g = g"
  by (simp add: on_cpu_def clear_halt_def)

lemma intr_loop_serves:
  assumes "gb_ok g" "ime_enabled (cpu g)" "x \<in> pending (cpu g)" "i \<le> intr_bit x"
    and "\<And>j. i \<le> j \<Longrightarrow> j < intr_bit x \<Longrightarrow> \<not> bit (if_reg (cpu g) AND ie_reg (cpu g)) j"
  shows "intr_loop i g = process_intr (interrupt_value x) (on_cpu (acknowledge (interrupt_value x)) g)"
  using assms(4,5)
proof (induction "intr_bit x - i" arbitrary: i)
  case 0
  then have i: "i = intr_bit x" by simp
  let ?m = "interrupt_value x"
  have m: "push_bit i 1 = ?m" by (simp add: i interrupt_value_bit)
  have nz: "?m \<noteq> 0" by (cases x) simp_all
  obtain h where h: "process_intr ?m (on_cpu (acknowledge ?m) g) = Some h"
    "ime_enabled (cpu h) = ime_enabled (cpu (on_cpu (acknowledge ?m) g))"
    "is_halted (cpu h) = is_halted (cpu (on_cpu (acknowledge ?m) g))"
    using process_intr_ok [OF gb_ok_acknowledge [OF assms(1)]] by metis
  have "on_cpu (acknowledge ?m) (on_cpu clear_halt g) = on_cpu (acknowledge ?m) g"
    by (simp add: on_cpu_def acknowledge_def clear_halt_def)
  moreover have "(if_reg (cpu g) AND ie_reg (cpu g)) AND ?m \<noteq> 0"
    using assms(3) by (simp add: pending_def interrupt_value_bit)
  ultimately have "intr_body ?m g = Some h"
    using assms(2) h(1) by (simp add: intr_body_def clear_halt_def Let_def)
  moreover have "intr_loop (i + 1) h = Some h"
    using h(2,3) by (simp add: intr_loop_disabled acknowledge_def clear_halt_id)
  ultimately show ?case using h(1) nz by (simp add: intr_loop.simps [of i] m [simplified])
next
  case (Suc n)
  then have i: "i < intr_bit x" by simp
  have "intr_loop i g = intr_loop (i + 1) g"
    using Suc.prems(2) [OF le_refl i] i intr_bit_less [of x]
    by (simp add: intr_loop.simps [of i] intr_body_def)
  then show ?case using Suc i by (metis Suc_eq_plus1 Suc_leI Suc_leD diff_Suc_Suc Suc_diff_Suc diff_Suc_1)
qed

lemma pending_bits: "cpu_ok c \<Longrightarrow> bit (if_reg c AND ie_reg c) j \<Longrightarrow> \<exists>x \<in> pending c. intr_bit x = j"
proof -
  assume "cpu_ok c" and b: "bit (if_reg c AND ie_reg c) j"
  then have "j < 5" using if_reg_bits by (auto simp: bit_and_iff)
  then obtain x where "intr_bit x = j" using intr_bit_surj by blast
  with b show ?thesis by (auto simp: pending_def)
qed

lemma handle_intrs_serves:
  assumes "gb_ok g" "ime_enabled (cpu g)" "pending (cpu g) \<noteq> {}"
  defines "x \<equiv> Min (pending (cpu g))"
  shows "handle_intrs g = process_intr (interrupt_value x) (on_cpu (acknowledge (interrupt_value x)) g)"
proof -
  have x: "x \<in> pending (cpu g)" using assms(3) by (simp add: x_def)
  have "\<not> bit (if_reg (cpu g) AND ie_reg (cpu g)) j" if "j < intr_bit x" for j
  proof
    assume "bit (if_reg (cpu g) AND ie_reg (cpu g)) j"
    then obtain y where "y \<in> pending (cpu g)" "intr_bit y = j"
      using pending_bits assms(1) by (auto simp: gb_ok_def)
    then have "x \<le> y" by (simp add: x_def)
    with that \<open>intr_bit y = j\<close> show False by (simp add: less_eq_interrupts_def)
  qed
  with intr_loop_serves [OF assms(1,2) x] show ?thesis using assms(2) by (simp add: handle_intrs_def)
qed

lemma handle_intrs_none:
  assumes "gb_ok g" "pending (cpu g) = {}"
  shows "handle_intrs g = Some g"
proof -
  have "\<not> bit (if_reg (cpu g) AND ie_reg (cpu g)) j" for j
    using pending_bits [of "cpu g" j] assms by (auto simp: gb_ok_def)
  then show ?thesis by (simp add: handle_intrs_def intr_loop_none)
qed

lemma wakes_pending: "cpu_ok c \<Longrightarrow> wakes 0 c \<longleftrightarrow> pending c \<noteq> {}"
  using pending_bits [of c] by (fastforce simp: wakes_def pending_def)

lemma handle_intrs_masked:
  assumes "gb_ok g" "\<not> ime_enabled (cpu g)" "pending (cpu g) \<noteq> {}"
  shows "handle_intrs g = Some (on_cpu clear_halt g)"
  using assms wakes_pending [of "cpu g"]
  by (auto simp: handle_intrs_def intr_loop_disabled gb_ok_def clear_halt_id)

lemma gb_ok_clear_halt: "gb_ok g \<Longrightarrow> gb_ok (on_cpu clear_halt g)"
  by (simp add: gb_ok_def cpu_ok_def timer_ok_def clear_halt_def)

lemma handle_intrs_ok:
  assumes "gb_ok g"
  obtains h where "handle_intrs g = Some h" "gb_ok h" "step_frame g h"
proof (cases "pending (cpu g) = {}")
  case True
  then show thesis using that handle_intrs_none [OF assms] assms by auto
next
  case False
  show thesis
  proof (cases "ime_enabled (cpu g)")
    case True
    let ?v = "interrupt_value (Min (pending (cpu g)))"
    obtain h where "process_intr ?v (on_cpu (acknowledge ?v) g) = Some h" "gb_ok h"
      "step_frame (on_cpu (acknowledge ?v) g) h"
      using process_intr_ok [OF gb_ok_acknowledge [OF assms]] by metis
    then show thesis using that handle_intrs_serves [OF assms True False]
      by (simp add: step_frame_def acknowledge_def)
  next
    case m: False
    show thesis using that handle_intrs_masked [OF assms m False] gb_ok_clear_halt [OF assms]
      by (simp add: step_frame_def clear_halt_def)
  qed
qed

section \<open>One step of the CPU\<close>

lemma timer_step_ok:
  assumes "cpu_ok c"
  obtains c' where "timer_step n c = Some c'" "cpu_ok c'"
proof -
  have req: "(if_reg c OR 4) AND 0xe0 = 0"
    using assms by (simp add: cpu_ok_def bit.conj_disj_distrib2)
  have nz: "tima_enabled c \<Longrightarrow> tac_divider c \<noteq> 0"
    using assms by (auto simp: cpu_ok_def timer_ok_def)
  from nz req assms have "\<exists>c'. timer_step n c = Some c' \<and> cpu_ok c'"
    by (simp add: timer_step_def Let_def cpu_request_intr_def cpu_ok_def timer_ok_def)
  with that show thesis by blast
qed

lemma div_step_ok [simp]: "cpu_ok (div_step n c) = cpu_ok c"
  by (simp add: div_step_def Let_def cpu_ok_def timer_ok_def)

definition display_frame :: "gb \<Rightarrow> gb \<Rightarrow> bool" where
  "display_frame g g' \<longleftrightarrow> joypad g' = joypad g \<and> throttle g' = throttle g \<and> clock g' = clock g \<and>
    dmg_buf g' = dmg_buf g \<and> shown g' = shown g \<and>
    frame_count (ppu g') = frame_count (ppu g) \<and> vblank_dots (ppu g') = vblank_dots (ppu g)"

lemma step_display: "step_frame g h \<Longrightarrow> display_frame g h"
  by (simp add: step_frame_def display_frame_def)

lemma good_mono_frame: "good h m \<Longrightarrow> step_frame g h \<Longrightarrow> good g m"
  by (auto simp: good_def returns_iff step_frame_def)

lemma execute_ok:
  assumes "gb_ok g"
  obtains n h where "execute g = Some (n, h)" "1 \<le> n" "n \<le> 6" "gb_ok h" "display_frame g h"
proof (cases "is_halted (cpu g)")
  case True
  then show thesis using that [of 3 g] assms by (simp add: execute_def display_frame_def)
next
  case False
  obtain op p k where f: "fetch g = Some (op, p, k)" "gb_ok k" "step_frame g k"
  proof -
    obtain op where op: "monitor_rd_mem (R16 REG_PC g) g = Some op" using rd_total by blast
    obtain op2 where op2: "monitor_rd_mem (R16 REG_PC (ADVANCE_PC 1 g)) (ADVANCE_PC 1 g) = Some op2"
      using rd_total by blast
    show thesis
      using that [of op False "ADVANCE_PC 1 g"] that [of op2 True "ADVANCE_PC 1 (ADVANCE_PC 1 g)"] op op2 assms
      by (cases "op = OPCODE_PREFIX") (simp_all add: fetch_def del: get16.simps)
  qed
  obtain n h where "ops_table_dispatch op p k = Some (n, h)" "1 \<le> n" "n \<le> 6" "gb_ok h" "step_frame k h"
    using good_dispatch [OF f(2), of op p] by (auto simp: good_def returns_iff)
  with f False that [of n "on_cpu (add_cycles n) h"] show thesis
    by (simp add: execute_def add_cycles_def gb_ok_def cpu_ok_def timer_ok_def step_frame_def display_frame_def)
qed

lemma cpu_exec_next_ok:
  assumes "gb_ok g"
  obtains n h where "cpu_exec_next g = Some (n, h)" "1 \<le> n" "n \<le> 6" "gb_ok h" "display_frame g h"
proof -
  obtain n k where k: "execute g = Some (n, k)" "1 \<le> n" "n \<le> 6" "gb_ok k" "display_frame g k"
    using execute_ok [OF assms] .
  obtain c where c: "timer_step n (div_step n (cpu k)) = Some c" "cpu_ok c"
    using timer_step_ok [of "div_step n (cpu k)" n] k(4) by (auto simp: gb_ok_def)
  let ?t = "(on_cpu (div_step n) k)\<lparr>cpu := c\<rparr>"
  have "gb_ok ?t" using k(4) c(2) by (simp add: gb_ok_def)
  then obtain h where h: "handle_intrs ?t = Some h" "gb_ok h" "step_frame ?t h"
    using handle_intrs_ok by blast
  have "display_frame g h" using k(5) h(3) by (simp add: display_frame_def step_frame_def)
  with that k c h show thesis by (simp add: cpu_exec_next_def)
qed

end
