(* ===== verification/Cpu_Theorems.thy ===== *)
theory Cpu_Theorems
  imports Cpu_Exec_Facts
begin

text \<open>The properties of the CPU: execution, interrupts, the stack, the tables and the timers.\<close>

section \<open>Execution\<close>

text \<open>C1: From every machine state that satisfies the invariant (a clean flag register, no
  undefined interrupt request, a valid timer divisor and a valid sprite index) the next
  instruction executes without undefined behaviour, whatever bytes it fetches; it takes
  between one and six cycles and leads to a state that satisfies the invariant again.\<close>

theorem cpu_exec_next_total:
  assumes "gb_ok g"
  shows "\<exists>n h. cpu_exec_next g = Some (n, h) \<and> 1 \<le> n \<and> n \<le> 6 \<and> gb_ok h"
  using cpu_exec_next_ok [OF assms] by metis

theorem cpu_exec_next_total_witness:
  "\<exists>n h. cpu_exec_next sample_gb = Some (n, h) \<and> 1 \<le> n \<and> n \<le> 6 \<and> gb_ok h"
  by (rule cpu_exec_next_total [OF sample_gb_ok])

section \<open>Interrupts\<close>

text \<open>C5: When interrupts are enabled and some are pending, exactly one is served: the least in
  the order VBLANK, LCD, TIMER, SERIAL, JOYPAD.  Its request is cleared, interrupts are
  disabled, a halt ends, and the others stay pending.\<close>

theorem interrupt_priority:
  assumes "gb_ok g" "ime_enabled (cpu g)" "pending (cpu g) \<noteq> {}"
  shows "handle_intrs g =
    process_intr (interrupt_value (Min (pending (cpu g))))
      (on_cpu (acknowledge (interrupt_value (Min (pending (cpu g))))) g)"
  using assms by (rule handle_intrs_serves)

definition two_requests :: gb where
  "two_requests = on_cpu (\<lambda>c. c\<lparr>ime_enabled := True, if_reg := 0x14, ie_reg := 0x1f\<rparr>) sample_gb"

lemma two_requests_ok: "gb_ok two_requests"
  using sample_gb_ok by (simp add: two_requests_def gb_ok_def cpu_ok_def timer_ok_def)

lemma two_requests_pending: "pending (cpu two_requests) = {TIMER_INTERRUPT, JOYPAD_INTERRUPT}"
proof -
  have "x \<in> pending (cpu two_requests) \<longleftrightarrow> x \<in> {TIMER_INTERRUPT, JOYPAD_INTERRUPT}" for x
    by (cases x) (simp_all add: pending_def two_requests_def bit_numeral_word_iff)
  then show ?thesis by blast
qed

theorem interrupt_priority_witness:
  "handle_intrs two_requests = process_intr 4 (on_cpu (acknowledge 4) two_requests)"
proof -
  have "ime_enabled (cpu two_requests)" by (simp add: two_requests_def)
  moreover have "Min {TIMER_INTERRUPT, JOYPAD_INTERRUPT} = TIMER_INTERRUPT"
    by (simp add: min_def less_eq_interrupts_def)
  ultimately show ?thesis
    using interrupt_priority [OF two_requests_ok] by (simp add: two_requests_pending)
qed

text \<open>C26: With interrupts disabled no interrupt is served and no request is cleared; a pending one
  only ends a halt.  Without a pending interrupt nothing changes at all.\<close>

theorem interrupts_masked:
  assumes "gb_ok g" "\<not> ime_enabled (cpu g)"
  shows "handle_intrs g = Some (if pending (cpu g) = {} then g else on_cpu clear_halt g)"
  using handle_intrs_none [OF assms(1)] handle_intrs_masked [OF assms] by simp

theorem interrupts_masked_witness:
  "handle_intrs (on_cpu cpu_disable_intr two_requests) =
    Some (on_cpu clear_halt (on_cpu cpu_disable_intr two_requests))"
proof -
  let ?g = "on_cpu cpu_disable_intr two_requests"
  have "gb_ok ?g" by (simp add: two_requests_ok)
  moreover have "\<not> ime_enabled (cpu ?g)" by (simp add: cpu_disable_intr_def)
  moreover have "pending (cpu ?g) = pending (cpu two_requests)"
    by (simp add: pending_def cpu_disable_intr_def)
  ultimately show ?thesis using interrupts_masked [of ?g] by (simp add: two_requests_pending)
qed

section \<open>The stack\<close>

lemma WR_STACK_wr2:
  assumes "gb_ok g"
  shows "WR_STACK q g = bus.wr2 (R16 REG_SP g) (R16 q g) g"
proof -
  obtain k where k: "monitor_wr_mem (R16 REG_SP g) (lo8 (R16 q g)) g = Some k" "bus_frame g k"
    using monitor_wr_ok [OF assms] by (auto simp: wr_ok_def returns_iff)
  then show ?thesis by (simp add: WR_STACK_def WR_WORD_def bus.wr2_def bus_frame_gregs)
qed

lemma RD_WORD_rd2: "RD_WORD a g = bus.rd2 a g"
  by (simp add: RD_WORD_def bus.rd2_def)

text \<open>What a push at SP leaves for a later read.\<close>

lemma stack_word:
  assumes "gb_ok g" "ram_addr (R16 REG_SP g - 2)" "ram_addr (R16 REG_SP g - 1)" "q \<noteq> REG_SP"
  obtains h where "WR_STACK q (SP_sub 2 g) = Some h" "gb_ok h" "bus_frame (SP_sub 2 g) h"
    "RD_WORD (R16 REG_SP g - 2) h = Some (R16 q g)"
proof -
  let ?s = "SP_sub 2 g"
  have ok: "gb_ok ?s" using assms(1) by simp
  obtain h where h: "WR_STACK q ?s = Some h" "gb_ok h" "bus_frame ?s h"
    using WR_STACK_ok [OF ok] .
  have sp: "R16 REG_SP ?s = R16 REG_SP g - 2" "R16 q ?s = R16 q g"
    using assms(4) by (simp_all add: SP_sub_def) (cases q; simp)
  have "R16 REG_SP g - 2 + 1 = R16 REG_SP g - 1" by simp
  then have "bus.rd2 (R16 REG_SP g - 2) h = Some (R16 q g)"
    using bus.rd2_wr2 [OF ok h(1) [unfolded WR_STACK_wr2 [OF ok] sp]] assms(2,3) by simp
  with h that show thesis by (simp add: RD_WORD_rd2)
qed

text \<open>C24: A value pushed from one register pair and popped into another arrives unchanged, and
  the pair popped into is the only register that changes: the stack pointer is back where
  it was.  The two bytes of the stack must be RAM.\<close>

theorem push_pop:
  assumes "gb_ok g" "ram_addr (R16 REG_SP g - 2)" "ram_addr (R16 REG_SP g - 1)"
    and "q \<in> {REG_AF, REG_BC, REG_DE, REG_HL}" "p \<in> {REG_BC, REG_DE, REG_HL}"
  shows "\<exists>h h'. OP_PUSH_REG q g = Some (3, h) \<and> OP_POP_REG p h = Some (3, h') \<and>
    gregs h' = set16 p (R16 q g) (gregs g)"
proof -
  have "q \<noteq> REG_SP" using assms(4) by auto
  then obtain h where h: "WR_STACK q (SP_sub 2 g) = Some h" "bus_frame (SP_sub 2 g) h"
    "RD_WORD (R16 REG_SP g - 2) h = Some (R16 q g)"
    using stack_word [OF assms(1-3)] by metis
  let ?h' = "SP_add 2 (DO_LD_REG16 p (R16 q g) h)"
  have r: "gregs h = (gregs g)\<lparr>r_sp := r_sp (gregs g) - 2\<rparr>"
    using bus_frame_gregs [OF h(2)] by (simp add: SP_sub_def)
  have "OP_POP_REG p h = Some (3, ?h')" using h(3) r by (simp add: OP_POP_REG_def)
  moreover have "gregs ?h' = set16 p (R16 q g) (gregs g)"
    using assms(5) by (auto simp: SP_add_def DO_LD_REG16_def r)
  moreover have "OP_PUSH_REG q g = Some (3, h)" using h(1) by (simp add: OP_PUSH_REG_def)
  ultimately show ?thesis by blast
qed

definition stack_sample :: gb where
  "stack_sample = on_regs (\<lambda>r. r\<lparr>r_sp := 0xd000, r_b := 0x12, r_c := 0x34\<rparr>) sample_gb"

lemma stack_sample_facts: "gb_ok stack_sample" "ram_addr (R16 REG_SP stack_sample - 2)"
  "ram_addr (R16 REG_SP stack_sample - 1)" "R16 REG_BC stack_sample = 0x1234"
proof -
  have "f_ok (gregs sample_gb)" by (simp add: sample_gb_ok)
  then show "gb_ok stack_sample" using sample_gb_ok by (simp add: stack_sample_def f_ok_def)
qed (simp_all add: stack_sample_def ram_addr_def in_range_def mk16_def)

theorem push_pop_witness:
  "\<exists>h h'. OP_PUSH_REG REG_BC stack_sample = Some (3, h) \<and> OP_POP_REG REG_DE h = Some (3, h') \<and>
    gregs h' = set16 REG_DE 0x1234 (gregs stack_sample)"
  using push_pop [OF stack_sample_facts(1-3), of REG_BC REG_DE] unfolding stack_sample_facts(4) by simp

text \<open>C23: A call followed by a return comes back to the instruction after the call, with every
  register as it was before: only PC has moved, past the two address bytes.\<close>

theorem call_ret:
  assumes "gb_ok g" "ram_addr (R16 REG_SP g - 2)" "ram_addr (R16 REG_SP g - 1)"
  shows "\<exists>h h'. op_call_a16 g = Some (6, h) \<and> op_ret h = Some (4, h') \<and>
    gregs h' = (gregs g)\<lparr>r_pc := r_pc (gregs g) + 2\<rparr>"
proof -
  let ?g = "ADVANCE_PC 2 g"
  obtain addr where addr: "RD_WORD (R16 REG_PC g) g = Some addr" using RD_WORD_total by blast
  have sp: "R16 REG_SP ?g = R16 REG_SP g" "R16 REG_PC ?g = r_pc (gregs g) + 2"
    by (simp_all add: ADVANCE_PC_def)
  have ok: "gb_ok ?g" using assms(1) by simp
  obtain h where h: "WR_STACK REG_PC (SP_sub 2 ?g) = Some h" "bus_frame (SP_sub 2 ?g) h"
    "RD_WORD (R16 REG_SP g - 2) h = Some (r_pc (gregs g) + 2)"
    using stack_word [OF ok, of REG_PC] assms(2,3) unfolding sp by (metis reg16.distinct(29))
  let ?h = "DO_LD_REG16 REG_PC addr h"
  have r: "gregs h = (gregs g)\<lparr>r_pc := r_pc (gregs g) + 2, r_sp := r_sp (gregs g) - 2\<rparr>"
    using bus_frame_gregs [OF h(2)] by (simp add: SP_sub_def ADVANCE_PC_def)
  have "op_call_a16 g = Some (6, ?h)" using h(1) addr by (simp add: op_call_a16_def DO_CALL_def)
  moreover have "RD_WORD a ?h = RD_WORD a h" for a
    by (simp add: RD_WORD_def DO_LD_REG16_def)
  then have "op_ret ?h = Some (4, SP_add 2 (DO_LD_REG16 REG_PC (r_pc (gregs g) + 2) ?h))"
    using h(3) by (simp add: op_ret_def DO_RET_def r DO_LD_REG16_def [of REG_PC addr])
  moreover have "gregs (SP_add 2 (DO_LD_REG16 REG_PC (r_pc (gregs g) + 2) ?h)) =
      (gregs g)\<lparr>r_pc := r_pc (gregs g) + 2\<rparr>"
    by (simp add: SP_add_def DO_LD_REG16_def r)
  ultimately show ?thesis by blast
qed

theorem call_ret_witness:
  "\<exists>h h'. op_call_a16 stack_sample = Some (6, h) \<and> op_ret h = Some (4, h') \<and>
    gregs h' = (gregs stack_sample)\<lparr>r_pc := r_pc (gregs stack_sample) + 2\<rparr>"
  by (rule call_ret [OF stack_sample_facts(1-3)])

text \<open>C25: Serving an interrupt and returning from it with RETI resumes the program where it was:
  in between, control is at the address of the handler; afterwards all registers are as before
  the interrupt, and interrupts are enabled again.\<close>

theorem interrupt_reti:
  assumes "gb_ok g" "ram_addr (R16 REG_SP g - 2)" "ram_addr (R16 REG_SP g - 1)"
  shows "\<exists>h h'. process_intr (interrupt_value x) g = Some h \<and>
    R16 REG_PC h = of_nat (0x40 + 8 * intr_bit x) \<and>
    op_reti h = Some (4, h') \<and> gregs h' = gregs g \<and> ime_enabled (cpu h')"
proof -
  obtain h where h: "WR_STACK REG_PC (SP_sub 2 g) = Some h" "bus_frame (SP_sub 2 g) h"
    "RD_WORD (R16 REG_SP g - 2) h = Some (R16 REG_PC g)"
    using stack_word [OF assms, of REG_PC] by (metis reg16.distinct(29))
  let ?h = "DO_LD_REG16 REG_PC (of_nat (0x40 + 8 * intr_bit x)) h"
  have r: "gregs h = (gregs g)\<lparr>r_sp := r_sp (gregs g) - 2\<rparr>"
    using bus_frame_gregs [OF h(2)] by (simp add: SP_sub_def)
  have p: "process_intr (interrupt_value x) g = Some ?h" using h(1) by (simp add: process_intr_def handler_addr)
  have "RD_WORD (R16 REG_SP ?h) ?h = Some (r_pc (gregs g))"
    using h(3) by (simp add: RD_WORD_def DO_LD_REG16_def r)
  then have "op_reti ?h = Some (4, on_cpu cpu_enable_intr (SP_add 2 (DO_LD_REG16 REG_PC (r_pc (gregs g)) ?h)))"
    by (simp add: op_reti_def DO_RET_def)
  moreover have "gregs (on_cpu cpu_enable_intr k) = gregs k" for k
    by (simp add: gregs_def cpu_enable_intr_def)
  then have "gregs (on_cpu cpu_enable_intr (SP_add 2 (DO_LD_REG16 REG_PC (r_pc (gregs g)) ?h))) = gregs g"
    by (simp add: SP_add_def DO_LD_REG16_def r)
  moreover have "R16 REG_PC ?h = of_nat (0x40 + 8 * intr_bit x)" by (simp add: DO_LD_REG16_def)
  moreover have "ime_enabled (cpu (on_cpu cpu_enable_intr k))" for k by (simp add: cpu_enable_intr_def)
  ultimately show ?thesis using p by blast
qed

theorem interrupt_reti_witness:
  "\<exists>h h'. process_intr (interrupt_value TIMER_INTERRUPT) stack_sample = Some h \<and>
    R16 REG_PC h = 0x50 \<and> op_reti h = Some (4, h') \<and> gregs h' = gregs stack_sample \<and>
    ime_enabled (cpu h')"
  using interrupt_reti [OF stack_sample_facts(1-3), where x = TIMER_INTERRUPT] by simp

section \<open>The tables\<close>

text \<open>C22: The table of 512 function pointers is the instruction set: entry \<open>n\<close> is what the bit
  fields of the opcode \<open>n\<close> (with the prefix, from 256 on) mean.\<close>

theorem table_ops_is_decode: "table_ops = map decode [0..<512]"
  by (rule table_ops_decode)

text \<open>Every dispatch stays inside the table: for each opcode byte, prefixed or not, the
  function called is the one the bit fields select.\<close>

theorem dispatch_decodes:
  "ops_table_dispatch op prefix g = run (decode (unat op + (if prefix then 256 else 0))) g"
  using unat_u8 [of op]
  by (simp add: ops_table_dispatch_def dispatch_index_eq table_ops_decode Let_def)

text \<open>The length table that the debugger uses gives every opcode with an instruction the number
  of bytes of its instruction.\<close>

theorem op_len_instr_len:
  assumes "n < 256" "table_ops ! n \<noteq> I_inval"
  shows "op_len ! n = instr_len (table_ops ! n)"
proof -
  have "list_all (\<lambda>k. decode k = I_inval) inval_len3" by code_simp
  moreover have "table_ops ! n = decode n" using assms(1) by (simp add: table_ops_decode)
  ultimately have "n \<notin> set inval_len3" using assms(2) by (auto simp: list_all_iff)
  then show ?thesis using assms(1) \<open>table_ops ! n = decode n\<close> by (simp add: op_len_decode)
qed

theorem op_len_instr_len_witness: "op_len ! 0xc3 = instr_len (table_ops ! 0xc3) \<and> op_len ! 0xc3 = 3"
proof -
  have "table_ops ! 0xc3 = I_jmp_a16" by code_simp
  then show ?thesis using op_len_instr_len [of "0xc3"] by (simp add: instr_len_def)
qed

text \<open>Nine opcodes without an instruction are listed with three bytes, although executing one
  takes the opcode byte only.\<close>

lemma op_len_invalid:
  "\<forall>n \<in> set inval_len3. op_len ! n = 3 \<and> table_ops ! n = I_inval \<and> instr_len I_inval = 1"
proof -
  have "list_all (\<lambda>n. op_len ! n = 3 \<and> table_ops ! n = I_inval) inval_len3" by code_simp
  then show ?thesis by (simp add: list_all_iff instr_len_def)
qed

end
