(* ===== verification/Cpu_Timing.thy ===== *)
theory Cpu_Timing
  imports Cpu_Exec_Facts
begin

text \<open>
  The divider and the timer of \<open>cpu_exec_next\<close> (src/emu/cpu/cpu.c): the divider register and
  its six-bit counter form one 14-bit counter of machine cycles, and the timer register
  advances when its counter passes the selected period.
\<close>

section \<open>The divider\<close>

text \<open>The abstract value: cycles modulo 16384; \<open>div_reg\<close> is its upper eight bits.\<close>

definition div_cycles :: "cpu_t \<Rightarrow> int" where
  "div_cycles c = 64 * uint (div_reg c) + uint (div_counter c)"

lemma uint_u6: "0 \<le> uint (x::u6)" "uint x < 64"
  using uint_bounded [of x] by simp_all

lemma uint_wi6: "uint (word_of_int k :: u6) = k mod 64"
  by (simp add: uint_word_of_int)

lemma counter_wraps:
  assumes "0 \<le> n" "n < 64"
  shows "(word_of_int (uint (x::u6) + n) :: u6) < x \<longleftrightarrow> uint x + n \<ge> 64"
  unfolding word_less_alt uint_wi6 using uint_u6 [of x] assms
  by (subst add_mod_cases) auto

lemma uint_plus_wi6: "0 \<le> n \<Longrightarrow> n < 64 \<Longrightarrow> uint ((x::u6) + word_of_int n) =
    (if uint x + n < 64 then uint x + n else uint x + n - 64)"
proof -
  assume n: "0 \<le> n" "n < 64"
  have "uint (x + word_of_int n) = (uint x + n) mod 64"
    using uint_wi6 [of "uint x + n"] by (simp add: wi_hom_syms)
  with n uint_u6 [of x] show ?thesis by (simp add: add_mod_cases)
qed

lemma uint_plus_1: "uint ((x::u8) + 1) = (if uint x = 255 then 0 else uint x + 1)"
  using uint_u8_bounds [of x] uint_wi8 [of "uint x + 1"]
  by (simp add: wi_hom_syms mod_pos_pos_trivial split: if_splits)

text \<open>The divider counts exactly: after an instruction of \<open>n\<close> cycles the 14-bit number made of
  the divider register and its counter has advanced by \<open>n\<close>, modulo its size.\<close>

theorem div_step_counts:
  assumes "0 \<le> n" "n < 64"
  shows "div_cycles (div_step n c) = (div_cycles c + n) mod 0x4000"
proof -
  let ?d = "uint (div_reg c)" and ?k = "uint (div_counter c)"
  have b: "0 \<le> ?d" "?d < 256" "0 \<le> ?k" "?k < 64" using uint_u8_bounds uint_u6 by simp_all
  have m: "(64 * ?d + ?k + n) mod 16384 = (if 64 * ?d + ?k + n < 16384 then 64 * ?d + ?k + n
      else 64 * ?d + ?k + n - 16384)"
    using b assms by (intro add_mod_cases) linarith+
  show ?thesis
  proof (cases "?k + n \<ge> 64")
    case True
    then have "div_cycles (div_step n c) = 64 * uint (div_reg c + 1) + (?k + n - 64)"
      using counter_wraps [OF assms, of "div_counter c"] uint_plus_wi6 [OF assms, of "div_counter c"]
      by (simp add: div_cycles_def div_step_def Let_def)
    then show ?thesis
      using True b assms unfolding div_cycles_def m uint_plus_1 by (cases "?d = 255") simp_all
  next
    case False
    then have "div_cycles (div_step n c) = 64 * ?d + (?k + n)"
      using counter_wraps [OF assms, of "div_counter c"] uint_plus_wi6 [OF assms, of "div_counter c"]
      by (simp add: div_cycles_def div_step_def Let_def)
    then show ?thesis using False b unfolding div_cycles_def m by simp
  qed
qed

definition div_sample :: cpu_t where
  "div_sample = cpu0\<lparr>div_reg := 0xff, div_counter := 61\<rparr>"

theorem div_step_counts_witness: "div_cycles (div_step 6 div_sample) = 3"
proof -
  have "div_cycles div_sample = 16381" by (simp add: div_cycles_def div_sample_def)
  then show ?thesis using div_step_counts [of 6 div_sample] by simp
qed

section \<open>The timer\<close>

text \<open>C30: An enabled timer adds the cycles of the instruction to its counter and keeps it modulo the
  period; if the sum reaches the period, TIMA advances by one, and if TIMA was 0xff it is
  reloaded from TMA and the timer interrupt is requested.\<close>

theorem timer_step_enabled:
  assumes "timer_ok c" "tima_enabled c" "0 \<le> n" "n \<le> 255"
  defines "s \<equiv> uint (tac_counter c) + n"
  defines "full \<equiv> s \<ge> uint (tac_divider c)"
  shows "timer_step n c = Some (c\<lparr>
    tima_reg := (if full then if tima_reg c = 0xff then tma_reg c else tima_reg c + 1 else tima_reg c),
    if_reg := (if full \<and> tima_reg c = 0xff then if_reg c OR 4 else if_reg c),
    tac_counter := word_of_int (s mod uint (tac_divider c))\<rparr>)"
proof -
  let ?d = "uint (tac_divider c)"
  have d: "?d = 4 \<or> ?d = 16 \<or> ?d = 64 \<or> ?d = 256" using assms(1,2) by (auto simp: timer_ok_def)
  have s: "0 \<le> s" "s < 512" using assms(3,4) uint_u8_bounds [of "tac_counter c"] by (simp_all add: s_def)
  have us: "uint (word_of_int s :: u32) = s"
    unfolding uint_word_of_int using s by (simp add: take_bit_eq_mod mod_pos_pos_trivial)
  have full: "(word_of_int s :: u32) div tac_divider c \<noteq> 0 \<longleftrightarrow> full"
  proof -
    have "uint ((word_of_int s :: u32) div tac_divider c) = s div ?d"
      by (simp add: uint_div us)
    moreover have "s div ?d \<noteq> 0 \<longleftrightarrow> s \<ge> ?d"
      using d s by (auto simp: zdiv_eq_0_iff)
    ultimately show ?thesis unfolding word_uint_eq_iff full_def by simp
  qed
  have cnt: "(ucast ((word_of_int s :: u32) mod tac_divider c) :: u8) = word_of_int (s mod ?d)"
  proof -
    have "uint ((word_of_int s :: u32) mod tac_divider c) = s mod ?d"
      by (simp add: uint_mod us)
    then have "(ucast ((word_of_int s :: u32) mod tac_divider c) :: u8) = word_of_int (s mod ?d)"
      by (metis ucast_eq)
    then show ?thesis .
  qed
  have nz: "tac_divider c \<noteq> 0" using d by auto
  have inc0: "tima_reg c + 1 = 0 \<longleftrightarrow> tima_reg c = 0xff"
  proof -
    have m: "(0xff::u8) = - 1" by simp
    show ?thesis unfolding m by (rule eq_neg_iff_add_eq_0 [symmetric])
  qed
  show ?thesis
  proof (cases full)
    case True
    then show ?thesis
      using assms(2) nz full cnt inc0
      by (simp add: timer_step_def Let_def cpu_request_intr_def flip: s_def)
  next
    case False
    then have "s mod ?d = s" using s by (simp add: full_def mod_pos_pos_trivial)
    moreover have "tac_counter c + word_of_int n = word_of_int s" by (simp add: s_def wi_hom_syms)
    ultimately show ?thesis
      using assms(2) nz full False by (simp add: timer_step_def Let_def flip: s_def)
  qed
qed

text \<open>A timer with period 4, one cycle before its tick.\<close>

definition timer_sample :: cpu_t where
  "timer_sample = cpu0\<lparr>tima_enabled := True, tac_divider := 4, tac_counter := 3, tima_reg := 0xff,
     tma_reg := 0x80\<rparr>"

lemma timer_sample_ok: "timer_ok timer_sample" "tima_enabled timer_sample"
  by (simp_all add: timer_sample_def timer_ok_def)

theorem timer_step_enabled_witness:
  "timer_step 6 timer_sample = Some (timer_sample\<lparr>tima_reg := 0x80, if_reg := 4, tac_counter := 1\<rparr>)"
  using timer_step_enabled [OF timer_sample_ok, of 6] by (simp add: timer_sample_def cpu0_def)


end
