(* ===== verification/Cpu_Pc.thy ===== *)
theory Cpu_Pc
  imports Cpu_Facts
begin

text \<open>
  The program counter: an instruction that is not a jump, call, return or restart leaves PC
  after its last operand byte.  The fetch has already moved PC past the opcode.
\<close>

lemma r_pc_set16 [simp]: "q \<noteq> REG_PC \<Longrightarrow> r_pc (set16 q v r) = r_pc r"
  by (cases q) simp_all

lemma r_pc_alu [simp]:
  "r_pc (DO_ADD n k r) = r_pc r" "r_pc (DO_SUB n k r) = r_pc r" "r_pc (DO_ADC n r) = r_pc r"
  "r_pc (DO_SBC n r) = r_pc r" "r_pc (adc_word b r) = r_pc r" "r_pc (sbc_word b r) = r_pc r"
  "r_pc (DO_CP n r) = r_pc r" "r_pc (DO_AND b r) = r_pc r" "r_pc (DO_XOR b r) = r_pc r"
  "r_pc (DO_OR b r) = r_pc r" "r_pc (DO_BIT m b r) = r_pc r" "r_pc (op_cpl r) = r_pc r"
  "r_pc (op_scf r) = r_pc r" "r_pc (op_ccf r) = r_pc r" "r_pc (op_daa r) = r_pc r"
  "r_pc (OP_INC_REG q r) = r_pc r" "r_pc (OP_DEC_REG q r) = r_pc r"
  by (simp_all add: DO_ADD_def DO_SUB_def DO_ADC_def DO_SBC_def adc_word_def sbc_word_def DO_CP_def
      DO_AND_def DO_XOR_def DO_OR_def DO_BIT_def op_cpl_def op_scf_def op_ccf_def op_daa_def
      OP_INC_REG_def OP_DEC_REG_def Let_def)

lemma r_pc_wide [simp]: "r_pc (DO_ADD16 q r) = r_pc r" "r_pc (ld_hl_sp_e8 n r) = r_pc r"
  "r_pc (add_sp_e8 n r) = r_pc r"
  by (simp_all add: DO_ADD16_def ld_hl_sp_e8_def add_sp_e8_def Let_def del: set16.simps)

definition keeps_pc :: "(u8 \<Rightarrow> registers \<Rightarrow> u8 \<times> registers) \<Rightarrow> bool" where
  "keeps_pc f = (\<forall>v r. r_pc (snd (f v r)) = r_pc r)"

lemma keeps_pc_rot [simp]: "keeps_pc DO_RLC" "keeps_pc DO_RRC" "keeps_pc DO_RL" "keeps_pc DO_RR"
  "keeps_pc DO_SLA" "keeps_pc DO_SRA" "keeps_pc DO_SRL" "keeps_pc DO_SWP"
  "keeps_pc (\<lambda>v r. (F v, r))"
  by (simp_all add: keeps_pc_def DO_RLC_def DO_RRC_def DO_RL_def DO_RR_def DO_SLA_def DO_SRA_def
      DO_SRL_def DO_SWP_def Let_def)

lemma r_pc_on_reg8 [simp]: "keeps_pc f \<Longrightarrow> r_pc (on_reg8 f q r) = r_pc r"
  by (auto simp: on_reg8_def keeps_pc_def split: prod.split) (metis snd_conv)

section \<open>Rules\<close>

definition pc_at :: "u16 \<Rightarrow> (int \<times> gb) option \<Rightarrow> bool" where
  "pc_at d m = (case m of None \<Rightarrow> False | Some (n, h) \<Rightarrow> r_pc (gregs h) = d)"

lemma pc_at_Some [simp]: "pc_at d (Some (n, h)) \<longleftrightarrow> r_pc (gregs h) = d"
  by (simp add: pc_at_def)

lemma pc_at_total: "\<exists>x. m = Some x \<Longrightarrow> (\<And>x. pc_at d (f x)) \<Longrightarrow> pc_at d (m \<bind> f)"
  by auto

lemmas pc_at_rd = pc_at_total [OF rd_total] pc_at_total [OF RD_WORD_total]

lemma pc_at_wr:
  assumes "gb_ok h" "\<And>k. gb_ok k \<Longrightarrow> gregs k = gregs h \<Longrightarrow> pc_at d (f k)"
  shows "pc_at d (monitor_wr_mem a v h \<bind> f)"
proof -
  obtain k where "monitor_wr_mem a v h = Some k" "gb_ok k" "bus_frame h k"
    using monitor_wr_ok [OF assms(1), of a v] by (auto simp: wr_ok_def returns_iff)
  with assms(2) [of k] show ?thesis by (simp add: bus_frame_def gregs_def)
qed

lemma pc_at_WR_WORD:
  assumes "gb_ok h" "\<And>g. \<exists>a. addr g = Some a" "\<And>k. gb_ok k \<Longrightarrow> gregs k = gregs h \<Longrightarrow> pc_at d (f k)"
  shows "pc_at d (WR_WORD addr v h \<bind> f)"
  unfolding WR_WORD_def bind_assoc
  by (rule pc_at_total [OF assms(2)], rule pc_at_wr [OF assms(1)], rule pc_at_total [OF assms(2)],
      rule pc_at_wr, assumption, rule assms(3), assumption, simp)

lemma pc_at_on_ind_hl:
  assumes "keeps_f f" "keeps_pc f" "gb_ok g"
  shows "pc_at (r_pc (gregs g)) (on_ind_hl f g)"
  unfolding on_ind_hl_def
proof (rule pc_at_rd(1))
  fix v
  obtain w r where f: "f v (gregs g) = (w, r)" by fastforce
  have "f_ok (snd (f v (gregs g)))" "r_pc (snd (f v (gregs g))) = r_pc (gregs g)"
    using assms by (simp_all add: keeps_f_def keeps_pc_def)
  then have "f_ok r" "r_pc r = r_pc (gregs g)" by (simp_all add: f)
  then show "pc_at (r_pc (gregs g)) (do { (load, r) \<leftarrow> Some (f v (gregs g));
      g \<leftarrow> Some (on_regs (\<lambda>_. r) g); g \<leftarrow> monitor_wr_mem (R16 REG_HL g) load g; Some (4, g) })"
    using assms(3) by (simp add: f) (intro pc_at_wr, simp_all)
qed

lemma pc_macros [simp]:
  "gregs (ADVANCE_PC n g) = (gregs g)\<lparr>r_pc := r_pc (gregs g) + n\<rparr>"
  "gregs (DO_LD_REG r v g) = set8 r v (gregs g)" "gregs (DO_LD_REG16 q w g) = set16 q w (gregs g)"
  "gregs (SP_add n g) = (gregs g)\<lparr>r_sp := r_sp (gregs g) + n\<rparr>"
  "gregs (SP_sub n g) = (gregs g)\<lparr>r_sp := r_sp (gregs g) - n\<rparr>"
  "gregs (on_cpu cpu_halt g) = gregs g" "gregs (on_cpu cpu_enable_intr g) = gregs g"
  "gregs (on_cpu cpu_disable_intr g) = gregs g"
  by (simp_all add: ADVANCE_PC_def DO_LD_REG_def DO_LD_REG16_def SP_add_def SP_sub_def gregs_def
      cpu_halt_def cpu_enable_intr_def cpu_disable_intr_def)

section \<open>Straight-line instructions\<close>

definition straight :: "instr \<Rightarrow> bool" where
  "straight i = (instr_ok i \<and> (case i of I_jmp_a16 \<Rightarrow> False | I_jmp_cond _ \<Rightarrow> False | I_jmp_hl \<Rightarrow> False
    | I_jr_e8 \<Rightarrow> False | I_jr_cond _ \<Rightarrow> False | I_call_a16 \<Rightarrow> False | I_call_cond _ \<Rightarrow> False
    | I_ret \<Rightarrow> False | I_ret_cond _ \<Rightarrow> False | I_reti \<Rightarrow> False | I_restart _ \<Rightarrow> False
    | I_prefix \<Rightarrow> False | I_ld_n16 q \<Rightarrow> q \<noteq> REG_PC | I_inc16 q \<Rightarrow> q \<noteq> REG_PC
    | I_dec16 q \<Rightarrow> q \<noteq> REG_PC | I_pop q \<Rightarrow> q \<noteq> REG_PC | _ \<Rightarrow> True))"

lemma pc_load:
  assumes "gb_ok g"
  defines "p \<equiv> r_pc (gregs g)"
  shows "pc_at p (op_nop g)" "pc_at p (OP_LD_REG_REG d r g)" "pc_at p (op_ld_b_ind_hl g)"
    "pc_at p (op_ld_r_ind_hl r g)" "q \<noteq> REG_AF \<Longrightarrow> q \<noteq> REG_PC \<Longrightarrow> pc_at (p + 2) (OP_LD_REG16_MEM q g)"
    "pc_at p (OP_LD_MEM_REG q r g)" "pc_at (p + 1) (OP_LD_REG_MEM r g)" "pc_at p (OP_LD_A_IND_REG q g)"
    "pc_at (p + 2) (op_ld_a_ind_a16 g)" "pc_at p (op_ld_sp_hl g)" "pc_at p (op_ldi_ind_hl_a g)"
    "pc_at p (op_ldi_a_ind_hl g)" "pc_at p (op_ldd_ind_hl_a g)" "pc_at p (op_ldd_a_ind_hl g)"
    "pc_at (p + 2) (op_ld_ind_a16_sp g)" "pc_at (p + 1) (op_ld_ind_hl_n8 g)" "pc_at (p + 2) (op_ld_ind_a16_a g)"
    "pc_at (p + 1) (op_ld_hl_sp_e8 g)" "pc_at (p + 1) (op_ldh_ind_a8_a g)" "pc_at p (op_ldh_ind_c_a g)"
    "pc_at (p + 1) (op_ldh_a_ind_a8 g)" "pc_at p (op_ldh_a_ind_c g)"
  unfolding load_defs p_def
  by (intro pc_at_rd pc_at_wr pc_at_WR_WORD RD_WORD_total |
      simp add: assms(1) del: get16.simps set16.simps get8.simps set8.simps)+

lemma pc_arith:
  assumes "gb_ok g"
  defines "p \<equiv> r_pc (gregs g)"
  shows "pc_at p (op_inc_r r g)" "q \<noteq> REG_AF \<Longrightarrow> q \<noteq> REG_PC \<Longrightarrow> pc_at p (op_inc_rr q g)"
    "pc_at p (op_inc_ind_hl g)" "pc_at p (op_dec_r r g)"
    "q \<noteq> REG_AF \<Longrightarrow> q \<noteq> REG_PC \<Longrightarrow> pc_at p (op_dec_rr q g)" "pc_at p (op_dec_ind_hl g)"
    "pc_at p (OP_ADD_REG16 q g)" "pc_at (p + 1) (op_add_sp_e8 g)"
  unfolding arith_defs p_def
  by (intro pc_at_rd pc_at_wr | simp add: assms(1) del: get16.simps set16.simps get8.simps set8.simps)+

lemma pc_alu:
  assumes "gb_ok g"
  shows "pc_at (r_pc (gregs g)) (run_alu k r g)" "pc_at (r_pc (gregs g)) (run_alu_ind_hl k g)"
    "pc_at (r_pc (gregs g) + 1) (run_alu_n8 k g)"
  by (cases k; (simp add: arith_defs assms del: get16.simps get8.simps set8.simps | rule pc_at_rd(1))+)+

lemma pc_rot:
  assumes "gb_ok g"
  shows "pc_at (r_pc (gregs g)) (run_rot k r g)" "pc_at (r_pc (gregs g)) (run_rot_ind_hl k g)"
    "pc_at (r_pc (gregs g)) (run_rot_a k g)" "pc_at (r_pc (gregs g)) (OP_BIT_REG n r g)"
    "pc_at (r_pc (gregs g)) (op_bit_ind_hl n g)" "pc_at (r_pc (gregs g)) (OP_RST_REG n r g)"
    "pc_at (r_pc (gregs g)) (op_rst_ind_hl n g)" "pc_at (r_pc (gregs g)) (OP_SET_REG n r g)"
    "pc_at (r_pc (gregs g)) (op_set_ind_hl n g)"
  by ((cases k)?, (simp add: rot_defs assms pc_at_on_ind_hl op_inval_def del: get8.simps set8.simps |
      intro pc_at_rd)+)+

lemma pc_WR_STACK:
  assumes "gb_ok h" "\<And>k. gb_ok k \<Longrightarrow> gregs k = gregs h \<Longrightarrow> pc_at d (f k)"
  shows "pc_at d (WR_STACK q h \<bind> f)"
  unfolding WR_STACK_def by (rule pc_at_WR_WORD) (simp_all add: assms)

lemma pc_control:
  assumes "gb_ok g"
  defines "p \<equiv> r_pc (gregs g)"
  shows "q \<noteq> REG_PC \<Longrightarrow> pc_at p (OP_POP_REG q g)" "pc_at p (OP_PUSH_REG q g)" "pc_at p (op_pop_af g)"
    "pc_at (p + 1) (op_stop_n8 g)" "pc_at p (op_daa_1 g)" "pc_at p (op_cpl_1 g)" "pc_at p (op_scf_1 g)"
    "pc_at p (op_ccf_1 g)" "pc_at p (op_halt g)" "pc_at p (op_inval g)" "pc_at p (op_dis_ints g)"
    "pc_at p (op_ena_ints g)"
  unfolding control_defs p_def
  by (intro pc_at_rd pc_WR_STACK | simp add: assms(1) del: get16.simps set16.simps)+



end
