(* ===== verification/Ppu_Render.thy ===== *)
theory Ppu_Render
  imports Machine
begin

text \<open>
  Rendering of one line of pixels: \<open>get_tile_line\<close>, \<open>get_tile_line_from_object\<close>,
  \<open>get_objs_at_xy\<close>, \<open>get_pixel_priority_from_objs\<close> and \<open>ppu_render_line\<close> of
  src/emu/ppu.c, and \<open>render_draw_pixel\<close> of src/render.c.

  A pointer into \<open>tile_data\<close> or into a tile map is its offset there, a sprite is the offset of
  its entry in \<open>oam\<close>.  The local \<open>final_pixel\<close> starts uninitialised: it is an option, and to
  draw it as \<open>None\<close> is undefined.
\<close>

definition color_pal :: "u32 list" where
  "color_pal = [0xe8fccc, 0xacd490, 0x548c70, 0x142c38]"

definition OBJ_ATTR_FLIP_Y :: u8 where "OBJ_ATTR_FLIP_Y = 0x40"
definition OBJ_ATTR_FLIP_X :: u8 where "OBJ_ATTR_FLIP_X = 0x20"

section \<open>Tiles\<close>

text \<open>A \<open>uint16_t\<close> read through a pointer into \<open>tile_data\<close>, on a little endian host.\<close>

definition tile_word :: "ppu_t \<Rightarrow> int \<Rightarrow> u16 option" where
  "tile_word p off =
    do { lo \<leftarrow> arr_rd TILE_DATA_SIZE (tile_data p) off;
         hi \<leftarrow> arr_rd TILE_DATA_SIZE (tile_data p) (off + 1);
         Some (mk16 hi lo) }"

definition get_tile_line :: "u8 \<Rightarrow> u8 \<Rightarrow> ppu_t \<Rightarrow> int" where
  "get_tile_line tile_indx line p =
    (let is_mode_8k = has (lcdc p) LCDC_BITMASK_BGWIN_TILE_DATA;
         tiledata = (if is_mode_8k then 0 else 0x1000);
         tiledata = (if is_mode_8k then tiledata + 16 * uint tile_indx
                     else tiledata + s8 tile_indx * 16)
     in tiledata + uint line * 2)"

text \<open>\<open>obj[k]\<close> of the sprite at the offset \<open>t\<close>.\<close>

definition obj_rd :: "ppu_t \<Rightarrow> nat \<Rightarrow> nat \<Rightarrow> u8 option" where
  "obj_rd p t k = arr_rd OAM_SIZE (oam p) (int (t + k))"

definition obj_size :: "ppu_t \<Rightarrow> u8" where
  "obj_size p = (if has (lcdc p) LCDC_BITMASK_OBJ_SIZE then 16 else 8)"

definition get_tile_line_from_object :: "nat \<Rightarrow> u8 \<Rightarrow> ppu_t \<Rightarrow> u16 option" where
  "get_tile_line_from_object t line p =
    do { n \<leftarrow> obj_rd p t 2;
         tiledata \<leftarrow> Some (uint n * 16);
         attr \<leftarrow> obj_rd p t 3;
         tile_word p (tiledata +
           (if has attr OBJ_ATTR_FLIP_Y then ((uint (obj_size p) - 1) - uint line) * 2
            else uint line * 2)) }"

text \<open>The two bits of the pixel at the position \<open>pos & 7\<close> of a line of a tile.\<close>

definition tile_pixel :: "u16 \<Rightarrow> int \<Rightarrow> u8" where
  "tile_pixel tileline pos =
    (let k = nat (pos AND 7);
         indx = push_bit 1 (of_bool (tileline AND drop_bit k 0x8000 \<noteq> 0))
     in indx OR of_bool (tileline AND drop_bit k 0x80 \<noteq> 0))"

text \<open>\<open>color_pal[(palette & (3<<(indx<<1))) >> (indx<<1)]\<close>\<close>

definition palette_color :: "u8 \<Rightarrow> u8 \<Rightarrow> u32 option" where
  "palette_color palette indx =
    arr_rd 4 (\<lambda>i. color_pal ! i)
      (drop_bit (2 * unat indx) (uint palette AND push_bit (2 * unat indx) 3))"

section \<open>Sprites\<close>

text \<open>The test of \<open>get_objs_at_xy\<close>, in \<open>uint32_t\<close> arithmetic.\<close>

definition obj_hit :: "u32 \<Rightarrow> u32 \<Rightarrow> ppu_t \<Rightarrow> nat \<Rightarrow> bool option" where
  "obj_hit x y p t =
    do { oy \<leftarrow> obj_rd p t 0;
         if (y + 16) - ucast oy < ucast (obj_size p) then
           do { ox \<leftarrow> obj_rd p t 1;
                Some ((x + 8) - ucast ox < 8) }
         else Some False }"

text \<open>The loop over one row of \<open>oam_hash\<close>, from the position \<open>q\<close> on; \<open>objs\<close> are the sprites
  found so far.\<close>

function scan_row :: "u32 \<Rightarrow> u32 \<Rightarrow> ppu_t \<Rightarrow> oam_hash \<Rightarrow> nat \<Rightarrow> nat list \<Rightarrow> nat list option" where
  "scan_row x y p h q objs =
    (if q \<ge> HASH_SIZE then None
     else case h q of
       None \<Rightarrow> Some objs
     | Some t \<Rightarrow>
         if length objs < 10 then
           do { hit \<leftarrow> obj_hit x y p t;
                scan_row x y p h (q + 1) (if hit then objs @ [t] else objs) }
         else Some objs)"
  by pat_completeness auto
termination
  by (relation "measure (\<lambda>(x, y, p, h, q, objs). HASH_SIZE - q)") auto

declare scan_row.simps [simp del]

definition get_objs_at_xy :: "u32 \<Rightarrow> u32 \<Rightarrow> ppu_t \<Rightarrow> oam_hash \<Rightarrow> nat list option" where
  "get_objs_at_xy x y p h =
    do { objs \<leftarrow> scan_row x y p h (unat (drop_bit 4 (y + 0 * 16)) * HASH_COLS) [];
         scan_row x y p h (unat (drop_bit 4 (y + 1 * 16)) * HASH_COLS) objs }"

text \<open>The pixel of one sprite: the first half of the loop body of
  \<open>get_pixel_priority_from_objs\<close>.\<close>

definition obj_indx :: "ppu_t \<Rightarrow> int \<Rightarrow> nat \<Rightarrow> u8 option" where
  "obj_indx p x t =
    do { oy \<leftarrow> obj_rd p t 0;
         tileline \<leftarrow> get_tile_line_from_object t (word_of_int ((uint (ly p) + 16) - uint oy)) p;
         attr \<leftarrow> obj_rd p t 3;
         ox \<leftarrow> obj_rd p t 1;
         beg_pixel_in_tile \<leftarrow> Some (if has attr OBJ_ATTR_FLIP_X
           then (word_of_int (7 - (x - uint ox)) :: u8) else word_of_int (x - uint ox));
         Some (tile_pixel tileline (uint beg_pixel_in_tile)) }"

text \<open>The walk over \<open>oam\<close> until one of two sprites is met.\<close>

primrec oam_first :: "nat \<Rightarrow> nat \<Rightarrow> nat \<Rightarrow> nat \<Rightarrow> nat" where
  "oam_first 0 q s t = q"
| "oam_first (Suc n) q s t = (if q = s \<or> q = t then q else oam_first n (q + 4) s t)"

text \<open>One pass of the loop after the first; the state is \<open>pixel\<close>, \<open>curr_priority\<close> and
  \<open>*out_obj\<close>.\<close>

definition priority_step :: "ppu_t \<Rightarrow> int \<Rightarrow> nat \<Rightarrow> u8 \<times> nat \<times> nat \<Rightarrow> (u8 \<times> nat \<times> nat) option" where
  "priority_step p x t s =
    (case s of (pixel, curr_priority, out_obj) \<Rightarrow>
      do { indx \<leftarrow> obj_indx p x t;
           tx \<leftarrow> obj_rd p t 1;
           cx \<leftarrow> obj_rd p curr_priority 1;
           Some (if pixel = 0 \<or> tx \<le> cx then
                   if pixel \<noteq> 0 \<and> tx = cx then
                     if oam_first 40 0 t curr_priority = t then (indx, t, t) else s
                   else if indx \<noteq> 0 then (indx, t, t) else s
                 else s) })"

primrec priority_loop :: "ppu_t \<Rightarrow> int \<Rightarrow> nat list \<Rightarrow> u8 \<times> nat \<times> nat \<Rightarrow> (u8 \<times> nat \<times> nat) option" where
  "priority_loop p x [] s = Some s"
| "priority_loop p x (t # ts) s = do { s \<leftarrow> priority_step p x t s; priority_loop p x ts s }"

definition get_pixel_priority_from_objs :: "ppu_t \<Rightarrow> nat list \<Rightarrow> int \<Rightarrow> (u8 \<times> nat) option" where
  "get_pixel_priority_from_objs p objs x =
    (case objs of
       [] \<Rightarrow> None
     | t # ts \<Rightarrow>
         do { indx \<leftarrow> obj_indx p x t;
              (pixel, curr_priority, out_obj) \<leftarrow> priority_loop p x ts (indx, t, t);
              Some (pixel, out_obj) })"

section \<open>One pixel\<close>

text \<open>The sprite part: \<open>obj_pixel\<close>, \<open>obj_prio\<close> and \<open>final_pixel\<close>.\<close>

definition draw_obj :: "ppu_t \<Rightarrow> oam_hash \<Rightarrow> int \<Rightarrow> (u32 \<times> nat option \<times> u32 option) option" where
  "draw_obj p h x =
    (if has (lcdc p) LCDC_BITMASK_OBJ_ENABLE then
       do { objs \<leftarrow> get_objs_at_xy (word_of_int x) (ucast (ly p)) p h;
            if objs \<noteq> [] then
              do { (indx, obj_prio) \<leftarrow> get_pixel_priority_from_objs p objs x;
                   if indx \<noteq> 0 then
                     do { attr \<leftarrow> obj_rd p obj_prio 3;
                          obj_pixel \<leftarrow> palette_color (if has attr 0x10 then obp1 p else obp0 p) indx;
                          Some (obj_pixel, Some obj_prio, Some obj_pixel) }
                   else Some (0, Some obj_prio, None) }
            else Some (0, None, None) }
     else Some (0, None, None))"

text \<open>\<open>!obj_pixel || obj_prio[3] & 0x80\<close>\<close>

definition obj_behind :: "ppu_t \<Rightarrow> u32 \<Rightarrow> nat option \<Rightarrow> bool option" where
  "obj_behind p obj_pixel obj_prio =
    (if obj_pixel = 0 then Some True
     else case obj_prio of None \<Rightarrow> None
       | Some t \<Rightarrow> do { attr \<leftarrow> obj_rd p t 3; Some (has attr 0x80) })"

text \<open>The background part.  \<open>get_map\<close> reads the tile map that the bit of LCDC selects.\<close>

definition get_map :: "ppu_t \<Rightarrow> u8 \<Rightarrow> int \<Rightarrow> u8 option" where
  "get_map p b off = arr_rd TILE_MAP_SIZE (if has (lcdc p) b then tile_map2 p else tile_map1 p) off"

definition bg_indx :: "ppu_t \<Rightarrow> int \<Rightarrow> int \<Rightarrow> u8 option" where
  "bg_indx p i j =
    do { row_beg \<leftarrow> Some (push_bit 5 (drop_bit 3 (uint (ly p) + uint (scy p))) AND 0x3ff);
         tile \<leftarrow> get_map p LCDC_BITMASK_BG_TILE_MAP
           (row_beg + drop_bit 3 ((i + j + uint (scx p)) AND 0xff));
         bg_tileline \<leftarrow> tile_word p
           (get_tile_line tile (word_of_int ((uint (ly p) + uint (scy p)) AND 7)) p);
         Some (tile_pixel bg_tileline (j + (uint (scx p) AND 7))) }"

definition draw_bg :: "ppu_t \<Rightarrow> int \<Rightarrow> int \<Rightarrow> u32 \<Rightarrow> nat option \<Rightarrow> u32 option \<Rightarrow> u32 option option" where
  "draw_bg p i j obj_pixel obj_prio final_pixel =
    do { b \<leftarrow> (if has (lcdc p) LCDC_BITMASK_BG_ENABLE then obj_behind p obj_pixel obj_prio
               else Some False);
         if b then
           do { indx \<leftarrow> bg_indx p i j;
                bg_pixel \<leftarrow> palette_color (bgp p) indx;
                Some (if obj_pixel = 0 \<or> indx \<noteq> 0 then Some bg_pixel else final_pixel) }
         else Some final_pixel }"

definition win_visible :: "ppu_t \<Rightarrow> int \<Rightarrow> bool" where
  "win_visible p x =
    (wy p \<le> ly p \<and> x + 7 \<ge> uint (wx p) \<and> uint (wx p) < 166 \<and> uint (wy p) < 143)"

definition win_indx :: "ppu_t \<Rightarrow> int \<Rightarrow> u8 option" where
  "win_indx p x =
    do { row_beg \<leftarrow> Some (push_bit 5 (drop_bit 3 (uint (ly p) - uint (wy p))) AND 0x3ff);
         tile \<leftarrow> get_map p LCDC_BITMASK_WIN_TILE_MAP (row_beg + drop_bit 3 (x + 7 - uint (wx p)));
         win_tileline \<leftarrow> tile_word p
           (get_tile_line tile (word_of_int ((uint (ly p) - uint (wy p)) AND 7)) p);
         Some (tile_pixel win_tileline (x + 7 - uint (wx p))) }"

definition draw_win :: "ppu_t \<Rightarrow> int \<Rightarrow> u32 \<Rightarrow> nat option \<Rightarrow> u32 option \<Rightarrow> u32 option option" where
  "draw_win p x obj_pixel obj_prio final_pixel =
    do { b \<leftarrow> (if has (lcdc p) LCDC_BITMASK_WIN_ENABLE then obj_behind p obj_pixel obj_prio
               else Some False);
         if b \<and> win_visible p x then
           do { indx \<leftarrow> win_indx p x;
                win_pixel \<leftarrow> palette_color (bgp p) indx;
                Some (if obj_pixel = 0 \<or> indx \<noteq> 0 then Some win_pixel else final_pixel) }
         else Some final_pixel }"

definition line_pixel :: "ppu_t \<Rightarrow> oam_hash \<Rightarrow> int \<Rightarrow> int \<Rightarrow> u32 option option" where
  "line_pixel p h i j =
    do { (obj_pixel, obj_prio, final_pixel) \<leftarrow> draw_obj p h (i + j);
         final_pixel \<leftarrow> draw_bg p i j obj_pixel obj_prio final_pixel;
         draw_win p (i + j) obj_pixel obj_prio final_pixel }"

section \<open>One line\<close>

text \<open>\<open>render_init\<close> allocates \<open>framebuf->size\<close> words for \<open>dmg_buf\<close>, four times the size of
  the scaled picture.\<close>

definition DMG_BUF_SIZE :: nat where "DMG_BUF_SIZE = (160 * 4) * (32 div 8) * (144 * 4)"

definition render_draw_pixel :: "int \<Rightarrow> int \<Rightarrow> u32 \<Rightarrow> gb \<Rightarrow> gb option" where
  "render_draw_pixel x y pixel g =
    (if x \<le> 160 \<and> y \<le> 144 then
       do { b \<leftarrow> arr_wr DMG_BUF_SIZE (dmg_buf g) (y * 160 + x) pixel;
            Some (g\<lparr>dmg_buf := b\<rparr>) }
     else None)"

definition render_xy :: "int \<Rightarrow> int \<Rightarrow> gb \<Rightarrow> gb option" where
  "render_xy i j g =
    do { final_pixel \<leftarrow> line_pixel (ppu g) (oam_hash g) i j;
         pixel \<leftarrow> final_pixel;
         render_draw_pixel (i + j) (uint (ly (ppu g))) pixel g }"

text \<open>A \<open>for\<close> loop with a body that changes the state.\<close>

primrec each :: "('a \<Rightarrow> 's \<Rightarrow> 's option) \<Rightarrow> 'a list \<Rightarrow> 's \<Rightarrow> 's option" where
  "each f [] s = Some s"
| "each f (x # xs) s = do { s \<leftarrow> f x s; each f xs s }"

lemma each_append [simp]: "each f (xs @ ys) s = each f xs s \<bind> each f ys"
  by (induction xs arbitrary: s) simp_all

definition SCANLINE :: nat where "SCANLINE = 160"

definition ppu_render_line :: "gb \<Rightarrow> gb option" where
  "ppu_render_line = each (\<lambda>i. each (\<lambda>j. render_xy i j) [0, 1, 2, 3, 4, 5, 6, 7])
    (map (\<lambda>k. 8 * int k) [0..<SCANLINE div 8])"

end
