(* ===== verification/Ppu_Render_Facts.thy ===== *)
theory Ppu_Render_Facts
  imports Ppu_Render
begin

text \<open>
  What rendering computes: the pixels of a tile as bits, the sprites at a position as a filter
  of the index, and the absence of undefined behaviour on a visible line.
\<close>

section \<open>Tiles\<close>

lemma nat_and_7: "nat (pos AND 7) = nat (pos mod 8)"
proof -
  have "pos AND 7 = take_bit 3 pos" by (simp add: take_bit_eq_mask mask_numeral)
  then show ?thesis by (simp add: take_bit_eq_mod)
qed

lemma tile_bits:
  assumes "k < 8"
  shows "(w AND drop_bit k 0x8000 \<noteq> (0::u16)) = bit w (15 - k)"
    and "(w AND drop_bit k 0x80 \<noteq> (0::u16)) = bit w (7 - k)"
proof -
  have e: "drop_bit k 0x8000 = (2 ^ (15 - k) :: u16)" "drop_bit k 0x80 = (2 ^ (7 - k) :: u16)"
  proof -
    consider "k = 0" | "k = 1" | "k = 2" | "k = 3" | "k = 4" | "k = 5" | "k = 6" | "k = 7"
      using assms by linarith
    then show "drop_bit k 0x8000 = (2 ^ (15 - k) :: u16)" "drop_bit k 0x80 = (2 ^ (7 - k) :: u16)"
      by (cases; simp)+
  qed
  show "(w AND drop_bit k 0x8000 \<noteq> 0) = bit w (15 - k)" "(w AND drop_bit k 0x80 \<noteq> 0) = bit w (7 - k)"
    unfolding e by (simp_all add: and_exp_eq_0_iff_not_bit)
qed

text \<open>The reference: the two bit planes of a line of a tile, from the left.\<close>

definition plane_pixel :: "u8 \<Rightarrow> u8 \<Rightarrow> nat \<Rightarrow> nat" where
  "plane_pixel lo hi k = of_bool (bit lo (7 - k)) + 2 * of_bool (bit hi (7 - k))"

lemma plane_pixel_less: "plane_pixel lo hi k < 4"
  by (simp add: plane_pixel_def)

lemma bit_mk16:
  assumes "k < 8"
  shows "bit (mk16 hi lo) k = bit lo k" "bit (mk16 hi lo) (8 + k) = bit hi k"
proof -
  have "bit (lo8 (mk16 hi lo)) k = bit (mk16 hi lo) k"
    using assms by (simp only: lo8_def) (simp add: bit_simps)
  then show "bit (mk16 hi lo) k = bit lo k" by simp
  have "bit (hi8 (mk16 hi lo)) k = bit (mk16 hi lo) (8 + k)"
    using assms by (simp only: hi8_def) (simp add: bit_simps)
  then show "bit (mk16 hi lo) (8 + k) = bit hi k" by simp
qed

lemma tile_pixel_plane:
  "tile_pixel (mk16 hi lo) pos = of_nat (plane_pixel lo hi (nat (pos mod 8)))"
proof -
  define k where "k = nat (pos mod 8)"
  have k: "k < 8" by (simp add: k_def nat_less_iff)
  then have e: "15 - k = 8 + (7 - k)" and l: "7 - k < 8" by linarith+
  have "bit (mk16 hi lo) (15 - k) = bit hi (7 - k)" "bit (mk16 hi lo) (7 - k) = bit lo (7 - k)"
    unfolding e using bit_mk16 [OF l] by (simp_all only:)
  then show ?thesis
    unfolding tile_pixel_def Let_def nat_and_7 k_def [symmetric] tile_bits [OF k] plane_pixel_def
    by (cases "bit hi (7 - k)"; cases "bit lo (7 - k)") simp_all
qed

text \<open>The colour of an index under a palette register.\<close>

definition shade :: "u8 \<Rightarrow> nat \<Rightarrow> u32" where
  "shade palette n = color_pal ! nat (drop_bit (2 * n) (uint palette) mod 4)"

lemma palette_index:
  "drop_bit (2 * n) (uint palette AND push_bit (2 * n) 3) = drop_bit (2 * n) (uint (palette :: u8)) mod 4"
proof -
  have "drop_bit (2 * n) (uint palette AND push_bit (2 * n) 3) = drop_bit (2 * n) (uint palette) AND 3"
    by (rule bit_eqI) (auto simp: bit_simps)
  also have "\<dots> = take_bit 2 (drop_bit (2 * n) (uint palette))"
    by (simp add: take_bit_eq_mask mask_numeral)
  finally show ?thesis by (simp add: take_bit_eq_mod)
qed

lemma palette_color_shade: "n < 4 \<Longrightarrow> palette_color palette (of_nat n) = Some (shade palette n)"
proof -
  assume "n < 4"
  then have "unat (of_nat n :: u8) = n" by (simp add: unat_of_nat)
  then show ?thesis
    unfolding palette_color_def shade_def by (simp only: palette_index arr_rd_def) simp
qed

lemma shade_nonzero: "shade palette n \<noteq> 0"
proof -
  let ?k = "nat (drop_bit (2 * n) (uint palette) mod 4)"
  have "?k < 4" by (simp add: nat_less_iff)
  then consider "?k = 0" | "?k = 1" | "?k = 2" | "?k = 3" by linarith
  then show ?thesis unfolding shade_def by cases (simp_all add: color_pal_def)
qed

text \<open>A word of tile data, inside the array.\<close>

lemma tile_word_in:
  "0 \<le> off \<Longrightarrow> off + 1 < int TILE_DATA_SIZE \<Longrightarrow>
    tile_word p off = Some (mk16 (tile_data p (nat off + 1)) (tile_data p (nat off)))"
  by (simp add: tile_word_def arr_rd_def nat_add_distrib)

lemma tile_word_nat:
  "off + 1 < TILE_DATA_SIZE \<Longrightarrow> tile_word p (int off) = Some (mk16 (tile_data p (off + 1)) (tile_data p off))"
  using tile_word_in [of "int off" p] by simp

text \<open>Where the data of a tile starts: the first mode counts from 0x8000, the second from 0x9000
  with a signed number.\<close>

definition tile_start :: "ppu_t \<Rightarrow> u8 \<Rightarrow> nat" where
  "tile_start p n = (if has (lcdc p) LCDC_BITMASK_BGWIN_TILE_DATA then 16 * unat n
     else nat (0x1000 + 16 * sint n))"

lemma tile_start_bound: "tile_start p n + 16 \<le> TILE_DATA_SIZE"
  using unat_u8 [of n] sint_ge [of n] sint_lt [of n]
  by (auto simp: tile_start_def TILE_DATA_SIZE_def)

lemma get_tile_line_eq: "get_tile_line n l p = int (tile_start p n + 2 * unat l)"
  using sint_ge [of n] by (auto simp: get_tile_line_def tile_start_def Let_def s8_def)

section \<open>The background and the window\<close>

text \<open>The reference: a plane of 32 by 32 tiles, and the colour index at the point (X, Y) of it.\<close>

definition tile_plane :: "ppu_t \<Rightarrow> u8 \<Rightarrow> nat \<Rightarrow> nat \<Rightarrow> nat" where
  "tile_plane p b X Y =
    (let tile = (if has (lcdc p) b then tile_map2 p else tile_map1 p) (32 * (Y div 8) + X div 8);
         a = tile_start p tile + 2 * (Y mod 8)
     in plane_pixel (tile_data p a) (tile_data p (a + 1)) (X mod 8))"

lemma tile_plane_less: "tile_plane p b X Y < 4"
  by (simp add: tile_plane_def Let_def plane_pixel_less)

lemma and_masks_int: "(x::int) AND 7 = x mod 8" "x AND 0xff = x mod 256" "x AND 0x3ff = x mod 1024"
proof -
  have "x AND 7 = take_bit 3 x" "x AND 0xff = take_bit 8 x" "x AND 0x3ff = take_bit 10 x"
    by (simp_all add: take_bit_eq_mask mask_numeral)
  then show "x AND 7 = x mod 8" "x AND 0xff = x mod 256" "x AND 0x3ff = x mod 1024"
    by (simp_all add: take_bit_eq_mod)
qed

lemma row_offset: "push_bit 5 (drop_bit 3 s) AND 0x3ff = 32 * ((s mod 256) div 8)" for s :: int
proof -
  have "s mod 256 = 8 * (s div 8 mod 32) + s mod 8" using zmod_zmult2_eq [of 32 s 8] by simp
  then have d: "s mod 256 div 8 = s div 8 mod 32" by simp
  have e: "push_bit 5 (drop_bit 3 s) = 32 * (s div 8)"
    by (simp only: push_bit_eq_mult drop_bit_eq_div) simp
  have "(32 * (s div 8)) mod (32 * 32) = 32 * (s div 8 mod 32)" by (rule mod_mult_mult1)
  then show ?thesis unfolding and_masks_int e d by simp
qed

lemma nat_mod_8: "0 \<le> x \<Longrightarrow> nat x mod 8 = nat (x mod 8)" for x :: int
  by (simp add: nat_mod_distrib)

lemma mod_256_8: "s mod 256 mod 8 = s mod (8::int)"
  by (simp add: mod_mod_cancel)

lemma line_in_tile: "unat (word_of_int (s AND 7) :: u8) = nat (s mod 256) mod 8"
proof -
  have "uint (word_of_int (s mod 8) :: u8) = s mod 8"
    unfolding uint_wi8 using pos_mod_bound [of 8 s] by (intro mod_pos_pos_trivial) auto
  then have "unat (word_of_int (s mod 8) :: u8) = nat (s mod 8)" by (metis unat_eq_nat_uint)
  then show ?thesis unfolding and_masks_int by (simp add: nat_mod_8 mod_256_8)
qed

text \<open>Reading the plane at a point: the common core of the two parts.\<close>

lemma plane_read:
  assumes "X < 256" "Y < 256" and l: "unat l = Y mod 8" and pos: "pos mod 8 = int (X mod 8)"
  shows "do { tile \<leftarrow> get_map p b (32 * (int Y div 8) + int X div 8);
              w \<leftarrow> tile_word p (get_tile_line tile l p);
              Some (tile_pixel w pos) } = Some (of_nat (tile_plane p b X Y))"
proof -
  let ?m = "if has (lcdc p) b then tile_map2 p else tile_map1 p"
  let ?tile = "?m (32 * (Y div 8) + X div 8)"
  have "Y div 8 < 32" "X div 8 < 32" using assms(1,2) by (simp_all add: div_less_iff_less_mult)
  then have "32 * (Y div 8) + X div 8 < TILE_MAP_SIZE"
    unfolding TILE_MAP_SIZE_def by linarith
  then have m: "get_map p b (32 * (int Y div 8) + int X div 8) = Some ?tile"
    using arr_rd_nat [of TILE_MAP_SIZE ?m "32 * (Y div 8) + X div 8"]
    by (simp add: get_map_def zdiv_int)
  have b: "tile_start p ?tile + 2 * unat l + 1 < TILE_DATA_SIZE"
    using tile_start_bound [of p ?tile] by (simp add: l)
  have w: "tile_word p (get_tile_line ?tile l p) =
      Some (mk16 (tile_data p (tile_start p ?tile + 2 * unat l + 1)) (tile_data p (tile_start p ?tile + 2 * unat l)))"
    unfolding get_tile_line_eq using b by (intro tile_word_nat) simp
  show ?thesis
    unfolding m Option.bind.simps w tile_pixel_plane pos nat_int
    by (simp only: tile_plane_def Let_def l)
qed

lemma bg_indx_eq:
  assumes "i = 8 * k" "0 \<le> k" "0 \<le> j"
  shows "bg_indx p i j = Some (of_nat (tile_plane p LCDC_BITMASK_BG_TILE_MAP
    (nat ((i + j + uint (scx p)) mod 256)) (nat ((uint (ly p) + uint (scy p)) mod 256))))"
proof -
  let ?X = "(i + j + uint (scx p)) mod 256" and ?Y = "(uint (ly p) + uint (scy p)) mod 256"
  have b: "0 \<le> ?X" "?X < 256" "0 \<le> ?Y" "?Y < 256" by simp_all
  have "(j + (uint (scx p) AND 7)) mod 8 = ?X mod 8"
    unfolding and_masks_int mod_256_8 assms(1) by (simp add: mod_add_right_eq add.assoc)
  then have "(j + (uint (scx p) AND 7)) mod 8 = int (nat ?X mod 8)"
    using b by (simp add: nat_mod_8)
  from plane_read [OF _ _ line_in_tile this, where p = p and b = LCDC_BITMASK_BG_TILE_MAP] b
  show ?thesis
    unfolding bg_indx_def Option.bind.simps row_offset and_masks_int(2)
    by (simp add: drop_bit_eq_div)
qed

lemma win_indx_eq:
  assumes v: "win_visible p x" and x: "x < 160"
  shows "win_indx p x = Some (of_nat (tile_plane p LCDC_BITMASK_WIN_TILE_MAP
    (nat (x + 7 - uint (wx p))) (nat (uint (ly p) - uint (wy p)))))"
proof -
  let ?X = "x + 7 - uint (wx p)" and ?Y = "uint (ly p) - uint (wy p)"
  have "uint (wy p) \<le> uint (ly p)" using v by (simp add: win_visible_def word_le_def)
  then have b: "0 \<le> ?X" "?X < 256" "0 \<le> ?Y" "?Y < 256"
    using v x uint_u8_bounds [of "wx p"] uint_u8_bounds [of "wy p"] uint_u8_bounds [of "ly p"]
    unfolding win_visible_def by linarith+
  then have m: "?Y mod 256 = ?Y" by (intro mod_pos_pos_trivial)
  have "?X mod 8 = int (nat ?X mod 8)" using b by (simp add: nat_mod_8)
  from plane_read [OF _ _ line_in_tile [of ?Y, unfolded m] this, where p = p and b = LCDC_BITMASK_WIN_TILE_MAP] b
  show ?thesis
    unfolding win_indx_def Option.bind.simps row_offset m by (simp add: drop_bit_eq_div)
qed

section \<open>Sprites at a position\<close>

text \<open>The rectangle of a sprite, on unbounded integers: 8 pixels wide, 8 or 16 high, with its
  corner at (X - 8, Y - 16).\<close>

definition covers :: "ppu_t \<Rightarrow> int \<Rightarrow> int \<Rightarrow> nat \<Rightarrow> bool" where
  "covers p x y t =
    (uint (oam p t) \<le> y + 16 \<and> y + 16 < uint (oam p t) + uint (obj_size p) \<and>
     uint (oam p (t + 1)) \<le> x + 8 \<and> x + 8 < uint (oam p (t + 1)) + 8)"

lemma obj_size_cases: "uint (obj_size p) = 8 \<or> uint (obj_size p) = 16"
  by (simp add: obj_size_def)

lemma obj_rd_in [simp]: "t + k < OAM_SIZE \<Longrightarrow> obj_rd p t k = Some (oam p (t + k))"
  by (simp add: obj_rd_def del: of_nat_add)

lemma sub_less_u32:
  assumes "0 \<le> a" "a < 1000" "0 \<le> b" "b < 1000" "0 \<le> n" "n < 1000"
  shows "((word_of_int a - word_of_int b :: u32) < word_of_int n) = (b \<le> a \<and> a < b + n)"
proof -
  have "(a - b) mod 4294967296 = (if b \<le> a then a - b else a - b + 4294967296)"
  proof (cases "b \<le> a")
    case True
    with assms show ?thesis by (simp add: mod_pos_pos_trivial)
  next
    case False
    have "(a - b) mod 4294967296 = (a - b + 4294967296) mod 4294967296" by simp
    also have "\<dots> = a - b + 4294967296" using False assms by (intro mod_pos_pos_trivial) linarith+
    finally show ?thesis using False by simp
  qed
  moreover have "n mod 4294967296 = n" using assms by (simp add: mod_pos_pos_trivial)
  ultimately show ?thesis
    unfolding word_less_alt wi_hom_sub uint_wi32 using assms by (cases "b \<le> a") auto
qed

lemma ucast_u32: "(ucast (b::u8) :: u32) = word_of_int (uint b)"
  by simp

lemma obj_hit_eq:
  assumes "t + 1 < OAM_SIZE" "0 \<le> x" "x < 160" "y = uint l"
  shows "obj_hit (word_of_int x) (ucast (l::u8)) p t = Some (covers p x y t)"
proof -
  have s: "0 \<le> uint (obj_size p)" "uint (obj_size p) < 1000" using obj_size_cases [of p] by auto
  have y: "((ucast l + 16) - ucast (oam p t) < (ucast (obj_size p) :: u32)) =
      (uint (oam p t) \<le> y + 16 \<and> y + 16 < uint (oam p t) + uint (obj_size p))"
    using sub_less_u32 [of "y + 16" "uint (oam p t)" "uint (obj_size p)"] s assms(4)
      uint_u8_bounds [of l] uint_u8_bounds [of "oam p t"]
    by (simp only: ucast_u32 wi_hom_add [symmetric]) (simp add: wi_hom_syms)
  have x: "((word_of_int x + 8) - ucast (oam p (t + 1)) < (8 :: u32)) =
      (uint (oam p (t + 1)) \<le> x + 8 \<and> x + 8 < uint (oam p (t + 1)) + 8)"
    using sub_less_u32 [of "x + 8" "uint (oam p (t + 1))" 8] assms(2,3)
      uint_u8_bounds [of "oam p (t + 1)"]
    by (simp only: ucast_u32 wi_hom_add [symmetric]) (simp add: wi_hom_syms)
  have "t + 0 < OAM_SIZE" using assms(1) by simp
  then show ?thesis
    unfolding obj_hit_def obj_rd_in [OF assms(1)] obj_rd_in [OF \<open>t + 0 < OAM_SIZE\<close>]
      Option.bind.simps add_0_right y x covers_def
    by auto
qed

lemma scan_segment:
  assumes "segment h q xs" "q + length xs < HASH_SIZE" "length objs \<le> 10"
    and "\<And>t. t \<in> set xs \<Longrightarrow> obj_hit x y p t = Some (f t)"
  shows "scan_row x y p h q objs = Some (objs @ take (10 - length objs) (filter f xs))"
  using assms
proof (induction xs arbitrary: q objs)
  case Nil
  then show ?case by (simp add: scan_row.simps)
next
  case (Cons t xs)
  let ?o = "if f t then objs @ [t] else objs"
  have hd: "h q = Some t" "segment h (Suc q) xs" "q < HASH_SIZE" "obj_hit x y p t = Some (f t)"
    using Cons.prems by simp_all
  show ?case
  proof (cases "length objs < 10")
    case True
    then have "scan_row x y p h (Suc q) ?o = Some (?o @ take (10 - length ?o) (filter f xs))"
      using Cons.prems hd by (intro Cons.IH) auto
    with True hd show ?thesis by (auto simp: scan_row.simps [of x y p h q] Suc_diff_Suc take_Cons')
  next
    case False
    with Cons.prems(3) hd show ?thesis by (simp add: scan_row.simps [of x y p h q])
  qed
qed

text \<open>The rows of the index as lists, the last one always empty.\<close>

lemma last_bucket: "hash_ok m h \<Longrightarrow> bucket h 16 = []"
proof -
  assume "hash_ok m h"
  then have "\<forall>t \<in> set (bucket h 16). nibble m t = 16"
    by (simp add: hash_ok_def row_ok_def HASH_ROWS_def)
  then have "t \<notin> set (bucket h 16)" for t using nibble_bound [of m t] by (metis less_irrefl)
  then show ?thesis by (metis list.set_intros(1) neq_Nil_conv)
qed

lemma bucket_segment:
  assumes "hash_ok m h" "b \<le> 16"
  shows "segment h (b * HASH_COLS) (bucket h b)" "b * HASH_COLS + length (bucket h b) < HASH_SIZE"
proof -
  have "segment h (b * HASH_COLS) (bucket h b) \<and> b * HASH_COLS + length (bucket h b) < HASH_SIZE"
  proof (cases "b = 16")
    case True
    have e: "bucket h b = []" unfolding True by (rule last_bucket [OF assms(1)])
    have "row_ok m h b" using assms by (simp add: hash_ok_def HASH_ROWS_def)
    then have "h (b * HASH_COLS + 0) = None"
      by (intro row_entries(2)) (simp_all add: e HASH_COLS_def)
    then show ?thesis unfolding e by (simp add: True hash_sizes)
  next
    case False
    then show ?thesis using row_segment [OF assms(1), of b] segment_in_bounds [of b h] assms(2) by simp
  qed
  then show "segment h (b * HASH_COLS) (bucket h b)" "b * HASH_COLS + length (bucket h b) < HASH_SIZE"
    by simp_all
qed

lemma bucket_sprite: "hash_ok m h \<Longrightarrow> b < HASH_ROWS \<Longrightarrow> t \<in> set (bucket h b) \<Longrightarrow> sprite t \<and> nibble m t = b"
  by (auto simp: hash_ok_def row_ok_def)

lemma sprite_in_oam: "sprite t \<Longrightarrow> k < 4 \<Longrightarrow> t + k < OAM_SIZE"
  by (simp add: sprite_def OAM_SIZE_def)

lemma row_of_y:
  fixes l :: u8
  shows "unat (drop_bit 4 (ucast l + 0 * 16 :: u32)) = unat l div 16"
    and "unat (drop_bit 4 (ucast l + 1 * 16 :: u32)) = unat l div 16 + 1"
proof -
  have e: "ucast l + 1 * 16 = (word_of_int (uint l + 16) :: u32)" by simp
  have "unat (word_of_int (uint l + 16) :: u32) = nat (uint (word_of_int (uint l + 16) :: u32))"
    by (rule unat_eq_nat_uint)
  also have "\<dots> = nat (uint l + 16)"
    unfolding uint_wi32 using uint_u8_bounds [of l] by (simp only: mod_pos_pos_trivial)
  finally have "unat (ucast l + 1 * 16 :: u32) = unat l + 16"
    unfolding e by (simp add: nat_add_distrib)
  then show "unat (drop_bit 4 (ucast l + 1 * 16 :: u32)) = unat l div 16 + 1"
    by (simp add: drop_bit_eq_div unat_div)
  have "unat (ucast l :: u32) = unat l" 
    using unat_u8 [of l] by (simp add: unsigned_ucast_eq take_bit_nat_eq_self)
  then show "unat (drop_bit 4 (ucast l + 0 * 16 :: u32)) = unat l div 16"
    by (simp add: drop_bit_eq_div unat_div)
qed

lemma get_objs_eq:
  assumes ok: "hash_ok (oam p) h" and x: "0 \<le> x" "x < 160"
  defines "b \<equiv> unat (ly p) div 16"
  shows "get_objs_at_xy (word_of_int x) (ucast (ly p)) p h =
    Some (take 10 (filter (covers p x (uint (ly p))) (bucket h b @ bucket h (b + 1))))"
proof -
  let ?f = "covers p x (uint (ly p))" and ?s = "scan_row (word_of_int x) (ucast (ly p)) p h"
  have b: "b \<le> 15" using unat_u8 [of "ly p"] by (simp add: b_def)
  have scan: "?s (c * HASH_COLS) objs = Some (objs @ take (10 - length objs) (filter ?f (bucket h c)))"
    if "c \<le> 16" "length objs \<le> 10" for c objs
  proof (rule scan_segment [OF bucket_segment [OF ok that(1)] that(2)])
    fix t assume "t \<in> set (bucket h c)"
    then have "sprite t" using bucket_sprite [OF ok, of c t] that(1) by (simp add: HASH_ROWS_def)
    then show "obj_hit (word_of_int x) (ucast (ly p)) p t = Some (?f t)"
      using x sprite_in_oam [of t 1] by (intro obj_hit_eq) simp_all
  qed
  have r: "unat (drop_bit 4 (ucast (ly p) + 0 * 16 :: u32)) = b"
    "unat (drop_bit 4 (ucast (ly p) + 1 * 16 :: u32)) = b + 1"
    unfolding b_def by (rule row_of_y)+
  have m: "take (10 - min n 10) xs = take (10 - n) xs" for n and xs :: "nat list"
    by (cases "n \<le> 10") simp_all
  show ?thesis
    unfolding get_objs_at_xy_def r using b scan [of b "[]"] scan [of "b + 1"] by (simp add: m)
qed

end
