(* ===== verification/Sprites.thy ===== *)
theory Sprites
  imports Ppu_Render_Facts
begin

text \<open>
  The pixel of a sprite and the choice among overlapping sprites, against a reference: the
  visible sprite with the smallest X coordinate wins, and among equals the first in \<open>oam\<close>.
\<close>

section \<open>The pixel of one sprite\<close>

abbreviation obj_x :: "ppu_t \<Rightarrow> nat \<Rightarrow> int" where "obj_x p t \<equiv> uint (oam p (t + 1))"

definition sprite_pixel :: "ppu_t \<Rightarrow> int \<Rightarrow> int \<Rightarrow> nat \<Rightarrow> nat" where
  "sprite_pixel p x y t =
    (let row = y + 16 - uint (oam p t);
         row = (if has (oam p (t + 3)) OBJ_ATTR_FLIP_Y then uint (obj_size p) - 1 - row else row);
         col = x + 8 - obj_x p t;
         col = (if has (oam p (t + 3)) OBJ_ATTR_FLIP_X then 7 - col else col);
         a = nat (16 * uint (oam p (t + 2)) + 2 * row)
     in plane_pixel (tile_data p a) (tile_data p (a + 1)) (nat col))"

lemma sprite_pixel_less: "sprite_pixel p x y t < 4"
  by (simp add: sprite_pixel_def Let_def plane_pixel_less)

lemma u8_mod_8: "uint (word_of_int k :: u8) mod 8 = k mod 8"
  unfolding uint_wi8 by (rule mod_256_8)

lemma obj_line_word:
  assumes "sprite t" "0 \<le> d" "d < uint (obj_size p)"
  defines "r \<equiv> (if has (oam p (t + 3)) OBJ_ATTR_FLIP_Y then uint (obj_size p) - 1 - d else d)"
  defines "a \<equiv> nat (16 * uint (oam p (t + 2)) + 2 * r)"
  shows "get_tile_line_from_object t (word_of_int d) p = Some (mk16 (tile_data p (a + 1)) (tile_data p a))"
proof -
  have r: "0 \<le> r" "r < 16" using assms(2,3) obj_size_cases [of p] by (auto simp: r_def)
  have d: "uint (word_of_int d :: u8) = d"
    unfolding uint_wi8 using assms(2,3) obj_size_cases [of p] by (intro mod_pos_pos_trivial) auto
  have "int a = 16 * uint (oam p (t + 2)) + 2 * r"
    using r uint_u8_bounds [of "oam p (t + 2)"] by (simp add: a_def)
  moreover have "a + 1 < TILE_DATA_SIZE"
    using r uint_u8_bounds [of "oam p (t + 2)"] by (simp add: a_def TILE_DATA_SIZE_def nat_less_iff)
  ultimately have "tile_word p (16 * uint (oam p (t + 2)) + 2 * r) =
      Some (mk16 (tile_data p (a + 1)) (tile_data p a))"
    using tile_word_nat [of a p] by simp
  moreover have "t + 2 < OAM_SIZE" "t + 3 < OAM_SIZE"
    using assms(1) unfolding sprite_def OAM_SIZE_def by linarith+
  moreover have "16 * uint (oam p (t + 2)) + 2 * r = uint (oam p (t + 2)) * 16 +
      (if has (oam p (t + 3)) OBJ_ATTR_FLIP_Y then ((uint (obj_size p) - 1) - d) * 2 else d * 2)"
    by (simp add: r_def)
  ultimately show ?thesis
    unfolding get_tile_line_from_object_def by (simp only: obj_rd_in Option.bind.simps d)
qed

lemma obj_indx_eq:
  assumes t: "sprite t" and c: "covers p x (uint (ly p)) t"
  shows "obj_indx p x t = Some (of_nat (sprite_pixel p x (uint (ly p)) t))"
proof -
  let ?row = "uint (ly p) + 16 - uint (oam p t)" and ?col = "x + 8 - obj_x p t"
  have b: "0 \<le> ?row" "?row < uint (obj_size p)" "0 \<le> ?col" "?col < 8"
    using c by (simp_all add: covers_def)
  have k: "nat (uint (if f then word_of_int (7 - (x - obj_x p t)) else word_of_int (x - obj_x p t) :: u8) mod 8)
      = nat (if f then 7 - ?col else ?col)" for f
  proof -
    have "(x - obj_x p t) mod 8 = ?col mod 8" by (metis add_diff_eq diff_add_eq mod_add_self2)
    moreover have "(7 - (x - obj_x p t)) mod 8 = (7 - ?col) mod 8"
      by (metis (no_types, opaque_lifting) calculation mod_diff_right_eq)
    moreover have "?col mod 8 = ?col" "(7 - ?col) mod 8 = 7 - ?col"
      using b by (simp_all add: mod_pos_pos_trivial)
    ultimately show ?thesis unfolding if_distrib [of uint] u8_mod_8 by (simp only: u8_mod_8 split: if_split) simp
  qed
  have i: "t + 0 < OAM_SIZE" "t + 1 < OAM_SIZE" "t + 3 < OAM_SIZE"
    using t unfolding sprite_def OAM_SIZE_def by linarith+
  note l = obj_line_word [OF t b(1,2)]
  show ?thesis
    unfolding obj_indx_def obj_rd_in [OF i(1)] obj_rd_in [OF i(2)] obj_rd_in [OF i(3)]
      Option.bind.simps add_0_right l tile_pixel_plane k
    by (simp only: sprite_pixel_def Let_def)
qed

section \<open>The first of two sprites in \<open>oam\<close>\<close>

lemma oam_first_min:
  assumes "q mod 4 = 0" "s mod 4 = 0" "t mod 4 = 0" "q \<le> s" "q \<le> t" "min s t < q + 4 * n"
  shows "oam_first n q s t = min s t"
  using assms
proof (induction n arbitrary: q)
  case 0
  then show ?case by simp
next
  case (Suc n)
  show ?case
  proof (cases "q = s \<or> q = t")
    case True
    then show ?thesis using Suc.prems by auto
  next
    case False
    then have "q < s" "q < t" using Suc.prems by auto
    then have "q + 4 \<le> s" "q + 4 \<le> t" using Suc.prems(1-3) by presburger+
    then have "oam_first n (q + 4) s t = min s t" using Suc.prems by (intro Suc.IH) auto
    with False show ?thesis by simp
  qed
qed

lemma oam_first_sprites: "sprite s \<Longrightarrow> sprite t \<Longrightarrow> oam_first 40 0 s t = min s t"
  by (intro oam_first_min) (auto simp: sprite_def)

section \<open>The choice\<close>

text \<open>What the loop of \<open>get_pixel_priority_from_objs\<close> has found in the sprites it has seen: either
  all are transparent here, or the current one is the visible one that comes first.\<close>

definition before :: "ppu_t \<Rightarrow> nat \<Rightarrow> nat \<Rightarrow> bool" where
  "before p s t = (obj_x p s < obj_x p t \<or> (obj_x p s = obj_x p t \<and> s < t))"

definition best :: "ppu_t \<Rightarrow> int \<Rightarrow> nat set \<Rightarrow> nat \<Rightarrow> nat \<Rightarrow> bool" where
  "best p x S n t =
    (t \<in> S \<and> n = sprite_pixel p x (uint (ly p)) t \<and>
     (if n = 0 then \<forall>s\<in>S. sprite_pixel p x (uint (ly p)) s = 0
      else \<forall>s\<in>S. sprite_pixel p x (uint (ly p)) s \<noteq> 0 \<longrightarrow> s = t \<or> before p t s))"

text \<open>Two sprites with the same X, the later one first in \<open>oam\<close> and transparent here, are the
  one constellation in which the code departs from that rule.\<close>

definition hides :: "ppu_t \<Rightarrow> int \<Rightarrow> nat \<Rightarrow> nat \<Rightarrow> bool" where
  "hides p x s t = (obj_x p s = obj_x p t \<and> t < s \<and> sprite_pixel p x (uint (ly p)) t = 0)"

lemma of_nat_u8_0: "n < 4 \<Longrightarrow> (of_nat n :: u8) = 0 \<longleftrightarrow> n = 0"
  by (simp add: word_unat_eq_iff unat_of_nat)

lemma priority_step_best:
  assumes t: "sprite t" "covers p x (uint (ly p)) t" and c: "sprite c" and new: "t \<notin> S"
    and b: "best p x S n c" and h: "\<not> hides p x c t"
  obtains n' c' where "priority_step p x t (of_nat n, c, c) = Some (of_nat n', c', c')"
    "best p x (insert t S) n' c'"
proof -
  let ?s = "sprite_pixel p x (uint (ly p))"
  have i: "obj_rd p t 1 = Some (oam p (t + 1))" "obj_rd p c 1 = Some (oam p (c + 1))"
    using t(1) c by (intro obj_rd_in, simp only: sprite_in_oam)+
  have n: "n < 4" using b by (simp add: best_def sprite_pixel_less)
  have ct: "c \<noteq> t" using b new by (auto simp: best_def)
  let ?take = "(n = 0 \<or> obj_x p t \<le> obj_x p c) \<and>
    (if n \<noteq> 0 \<and> obj_x p t = obj_x p c then t < c else ?s t \<noteq> 0)"
  have z: "((of_nat n :: u8) = 0) = (n = 0)" "((of_nat (?s t) :: u8) = 0) = (?s t = 0)"
    using n by (simp_all add: of_nat_u8_0 sprite_pixel_less)
  have o: "(oam_first 40 0 t c = t) = (t < c)"
    using ct by (simp add: oam_first_sprites [OF t(1) c] min_def)
  have le: "(oam p (t + 1) \<le> oam p (c + 1)) = (obj_x p t \<le> obj_x p c)"
    "(oam p (t + 1) = oam p (c + 1)) = (obj_x p t = obj_x p c)"
    by (simp_all add: word_le_def word_uint_eq_iff)
  have step: "priority_step p x t (of_nat n, c, c) =
      Some (if ?take then (of_nat (?s t), t, t) else (of_nat n, c, c))"
    unfolding priority_step_def prod.case obj_indx_eq [OF t] i Option.bind.simps z o le
    by (cases "n = 0"; cases "obj_x p t = obj_x p c") simp_all
  show thesis
  proof (cases ?take)
    case True
    have "best p x (insert t S) (?s t) t"
      using True b h by (auto simp: best_def before_def hides_def split: if_splits)
    with step True show thesis by (intro that [of "?s t" t]) simp_all
  next
    case False
    have "best p x (insert t S) n c"
      using False b ct by (auto simp: best_def before_def split: if_splits)
    with step False show thesis by (intro that [of n c]) (simp_all only: if_False)
  qed
qed

lemma priority_loop_best:
  assumes "\<And>t. t \<in> set ts \<Longrightarrow> sprite t \<and> covers p x (uint (ly p)) t" "distinct ts" "set ts \<inter> S = {}"
    and "\<And>s. s \<in> S \<Longrightarrow> sprite s" "best p x S n c"
    and "sorted_wrt (\<lambda>s t. \<not> hides p x s t) ts" "\<forall>s\<in>S. \<forall>t\<in>set ts. \<not> hides p x s t"
  shows "\<exists>n' c'. priority_loop p x ts (of_nat n, c, c) = Some (of_nat n', c', c') \<and>
    best p x (set ts \<union> S) n' c'"
  using assms
proof (induction ts arbitrary: S n c)
  case Nil
  then show ?case by auto
next
  case (Cons t ts)
  have c: "c \<in> S" using Cons.prems(5) by (simp add: best_def)
  then obtain n' c' where s: "priority_step p x t (of_nat n, c, c) = Some (of_nat n', c', c')"
    "best p x (insert t S) n' c'"
    using priority_step_best [of t p x c S n] Cons.prems by auto
  have "\<exists>n'' c''. priority_loop p x ts (of_nat n', c', c') = Some (of_nat n'', c'', c'') \<and>
      best p x (set ts \<union> insert t S) n'' c''"
    using Cons.prems s(2) by (intro Cons.IH) auto
  with s(1) show ?case by simp
qed

lemma priority_best:
  assumes "objs \<noteq> []" "\<And>t. t \<in> set objs \<Longrightarrow> sprite t \<and> covers p x (uint (ly p)) t" "distinct objs"
    and "sorted_wrt (\<lambda>s t. \<not> hides p x s t) objs"
  shows "\<exists>n t. get_pixel_priority_from_objs p objs x = Some (of_nat n, t) \<and> best p x (set objs) n t"
proof -
  obtain t ts where o: "objs = t # ts" using assms(1) by (cases objs) simp
  let ?n = "sprite_pixel p x (uint (ly p)) t"
  have "best p x {t} ?n t" by (simp add: best_def)
  then obtain n c where "priority_loop p x ts (of_nat ?n, t, t) = Some (of_nat n, c, c)"
    "best p x (set ts \<union> {t}) n c"
    using priority_loop_best [of ts p x "{t}" ?n t] assms o by auto
  moreover have "obj_indx p x t = Some (of_nat ?n)" using assms(2) o by (intro obj_indx_eq) simp_all
  ultimately show ?thesis
    unfolding o get_pixel_priority_from_objs_def by (intro exI [of _ n] exI [of _ c]) simp
qed

end
