(* ===== verification/Sprite_Theorems.thy ===== *)
theory Sprite_Theorems
  imports Sprites
begin

text \<open>The properties of sprite lookup and of the choice among overlapping sprites.\<close>

definition indexed :: "oam_hash \<Rightarrow> nat \<Rightarrow> bool" where
  "indexed h t = (\<exists>b<HASH_ROWS. t \<in> set (bucket h b))"

lemma indexed_sprite: "hash_ok m h \<Longrightarrow> indexed h t \<Longrightarrow> sprite t"
  using bucket_sprite by (auto simp: indexed_def)

text \<open>A sprite that covers a line is in one of the two rows that \<open>get_objs_at_xy\<close> scans.\<close>

lemma covers_row:
  assumes "hash_ok (oam p) h" "indexed h t" "covers p x (uint (ly p)) t"
  shows "t \<in> set (bucket h (unat (ly p) div 16)) \<or> t \<in> set (bucket h (unat (ly p) div 16 + 1))"
proof -
  obtain b where b: "b < HASH_ROWS" "t \<in> set (bucket h b)" using assms(2) by (auto simp: indexed_def)
  have "nibble (oam p) t = b" using bucket_sprite [OF assms(1) b] by simp
  then have n: "b = unat (oam p t) div 16"
    by (simp add: nibble_def drop_bit_eq_div unat_div)
  have "int (unat (oam p t)) \<le> int (unat (ly p)) + 16" "int (unat (ly p)) + 16 < int (unat (oam p t)) + 16"
    using assms(3) obj_size_cases [of p] by (auto simp: covers_def)
  then have "unat (oam p t) \<le> unat (ly p) + 16" "unat (ly p) < unat (oam p t)" by linarith+
  then have "unat (ly p) div 16 \<le> b" "b \<le> (unat (ly p) + 16) div 16"
    unfolding n by (intro div_le_mono; simp)+
  then have "b = unat (ly p) div 16 \<or> b = unat (ly p) div 16 + 1" by auto
  with b(2) show ?thesis by auto
qed




text \<open>Two sprites at the top left corner; the first has the blank tile 0 and the second, listed
  first, the solid tile 1.\<close>

definition two_sprites :: ppu_t where
  "two_sprites = ppu0\<lparr>
     oam := (\<lambda>_. 0)(0 := 16, 1 := 8, 4 := 16, 5 := 8, 6 := 1),
     tile_data := (\<lambda>i. if 16 \<le> i \<and> i < 32 then 0xff else 0)\<rparr>"

lemma two_sprites_facts:
  "sprite 0" "sprite 4" "covers two_sprites 0 (uint (ly two_sprites)) 0"
  "covers two_sprites 0 (uint (ly two_sprites)) 4"
  "sprite_pixel two_sprites 0 (uint (ly two_sprites)) 0 = 0"
  "sprite_pixel two_sprites 0 (uint (ly two_sprites)) 4 = 3"
  by (simp_all add: two_sprites_def ppu0_def sprite_def covers_def obj_size_def has_def lcdc_defs
      sprite_pixel_def plane_pixel_def OBJ_ATTR_FLIP_Y_def OBJ_ATTR_FLIP_X_def bit_iff_odd)


text \<open>C36: A transparent pixel can win: when two sprites with the same X cover a pixel and the one
  that is looked up second comes first in sprite memory, its pixel is taken even if it is transparent, and
  the visible pixel of the other sprite is lost.\<close>

theorem transparent_sprite_hides:
  assumes s: "sprite s" "covers p x (uint (ly p)) s" and t: "sprite t" "covers p x (uint (ly p)) t"
    and visible: "sprite_pixel p x (uint (ly p)) s \<noteq> 0" and h: "hides p x s t"
  shows "get_pixel_priority_from_objs p [s, t] x = Some (0, t)"
proof -
  have i: "obj_rd p t 1 = Some (oam p (t + 1))" "obj_rd p s 1 = Some (oam p (s + 1))"
    using t(1) s(1) by (intro obj_rd_in, simp only: sprite_in_oam)+
  have z: "((of_nat (sprite_pixel p x (uint (ly p)) s) :: u8) = 0) = False"
    using visible by (simp add: of_nat_u8_0 sprite_pixel_less)
  have e: "oam p (t + 1) = oam p (s + 1)" "t < s" and "sprite_pixel p x (uint (ly p)) t = 0"
    using h by (simp_all add: hides_def word_uint_eq_iff)
  moreover have "oam_first 40 0 t s = t" using e(2) by (simp add: oam_first_sprites [OF t(1) s(1)])
  ultimately show ?thesis
    by (simp only: get_pixel_priority_from_objs_def list.case obj_indx_eq [OF s] obj_indx_eq [OF t]
        Option.bind.simps priority_loop.simps priority_step_def prod.case i z) simp
qed

theorem transparent_sprite_hides_witness:
  "get_pixel_priority_from_objs two_sprites [4, 0] 0 = Some (0, 0)"
  using transparent_sprite_hides [of 4 two_sprites 0 0] two_sprites_facts
  by (simp add: hides_def two_sprites_def)

end
