(* ===== verification/Line.thy ===== *)
theory Line
  imports Sprites
begin

text \<open>
  A whole line of pixels: the three layers in the order in which they cover each other, and
  \<open>ppu_render_line\<close> as one update of the row of the picture.
\<close>

section \<open>The sprite layer\<close>

text \<open>The choice among sprites always returns, whatever their order.\<close>

lemma priority_step_total:
  assumes t: "sprite t" "covers p x (uint (ly p)) t" and c: "sprite c" and n: "n < 4"
  obtains n' c' where "priority_step p x t (of_nat n, c, c) = Some (of_nat n', c', c')" "n' < 4" "c' \<in> {t, c}"
proof -
  have i: "obj_rd p t 1 = Some (oam p (t + 1))" "obj_rd p c 1 = Some (oam p (c + 1))"
    using t(1) c by (intro obj_rd_in, simp only: sprite_in_oam)+
  have "priority_step p x t (of_nat n, c, c) \<in>
      {Some (of_nat (sprite_pixel p x (uint (ly p)) t), t, t), Some (of_nat n, c, c)}"
    unfolding priority_step_def prod.case obj_indx_eq [OF t] i Option.bind.simps by simp
  then show thesis using n sprite_pixel_less [of p x "uint (ly p)" t] by (auto intro: that)
qed

lemma priority_loop_total:
  assumes "\<And>t. t \<in> set ts \<Longrightarrow> sprite t \<and> covers p x (uint (ly p)) t" "sprite c" "n < 4"
  shows "\<exists>n' c'. priority_loop p x ts (of_nat n, c, c) = Some (of_nat n', c', c') \<and> n' < 4 \<and>
    c' \<in> insert c (set ts)"
  using assms
proof (induction ts arbitrary: n c)
  case Nil
  then show ?case by auto
next
  case (Cons t ts)
  obtain n' c' where s: "priority_step p x t (of_nat n, c, c) = Some (of_nat n', c', c')" "n' < 4" "c' \<in> {t, c}"
    using priority_step_total [of t p x c n] Cons.prems by auto
  have "sprite c'" using s(3) Cons.prems by auto
  then have "\<exists>n'' c''. priority_loop p x ts (of_nat n', c', c') = Some (of_nat n'', c'', c'') \<and>
      n'' < 4 \<and> c'' \<in> insert c' (set ts)"
    using Cons.prems s(2) by (intro Cons.IH) auto
  with s(1,3) show ?case by auto
qed

lemma priority_total:
  assumes "objs \<noteq> []" "\<And>t. t \<in> set objs \<Longrightarrow> sprite t \<and> covers p x (uint (ly p)) t"
  obtains n t where "get_pixel_priority_from_objs p objs x = Some (of_nat n, t)" "n < 4" "t \<in> set objs"
proof -
  obtain t ts where o: "objs = t # ts" using assms(1) by (cases objs) simp
  let ?n = "sprite_pixel p x (uint (ly p)) t"
  have t: "sprite t" "covers p x (uint (ly p)) t" using assms(2) o by simp_all
  obtain n c where "priority_loop p x ts (of_nat ?n, t, t) = Some (of_nat n, c, c)" "n < 4"
    "c \<in> insert t (set ts)"
    using priority_loop_total [of ts p x t ?n] assms o t sprite_pixel_less by auto
  then show thesis
    by (intro that [of n c]) (simp_all add: o get_pixel_priority_from_objs_def obj_indx_eq t)
qed

text \<open>The colour of the sprite at \<open>x\<close> and whether it lies behind the background.\<close>

definition sprite_layer :: "ppu_t \<Rightarrow> oam_hash \<Rightarrow> int \<Rightarrow> (u32 \<times> bool) option" where
  "sprite_layer p h x =
    (case draw_obj p h x of
       Some (obj_pixel, Some t, _) \<Rightarrow>
         if obj_pixel = 0 then None else Some (obj_pixel, has (oam p (t + 3)) 0x80)
     | _ \<Rightarrow> None)"

text \<open>The results of \<open>draw_obj\<close> that the other layers meet.\<close>

definition obj_result :: "ppu_t \<Rightarrow> u32 \<times> nat option \<times> u32 option \<Rightarrow> bool" where
  "obj_result p r =
    (case r of (c, prio, final) \<Rightarrow>
      (if c = 0 then final = None else final = Some c \<and> (\<exists>t. prio = Some t \<and> sprite t)))"

lemma draw_obj_total:
  assumes ok: "hash_ok (oam p) h" and x: "0 \<le> x" "x < 160"
  obtains r where "draw_obj p h x = Some r" "obj_result p r"
proof (cases "has (lcdc p) LCDC_BITMASK_OBJ_ENABLE")
  case False
  then show thesis by (intro that [of "(0, None, None)"]) (simp_all add: draw_obj_def obj_result_def)
next
  case True
  define b where "b = unat (ly p) div 16"
  define objs where "objs = take 10 (filter (covers p x (uint (ly p))) (bucket h b @ bucket h (b + 1)))"
  have b: "b < HASH_ROWS" "b + 1 < HASH_ROWS"
    using unat_u8 [of "ly p"] by (simp_all add: b_def HASH_ROWS_def)
  have objs: "get_objs_at_xy (word_of_int x) (ucast (ly p)) p h = Some objs"
    unfolding objs_def b_def by (rule get_objs_eq [OF ok x])
  have in_objs: "sprite t \<and> covers p x (uint (ly p)) t" if "t \<in> set objs" for t
    using set_take_subset [of 10 "filter (covers p x (uint (ly p))) (bucket h b @ bucket h (b + 1))"] that
      bucket_sprite [OF ok b(1), of t] bucket_sprite [OF ok b(2), of t]
    by (auto simp: objs_def)
  show thesis
  proof (cases "objs = []")
    case none: True
    show thesis by (rule that [of "(0, None, None)"])
      (simp_all add: draw_obj_def objs none True obj_result_def)
  next
    case False
    obtain n t where p: "get_pixel_priority_from_objs p objs x = Some (of_nat n, t)" "n < 4" "t \<in> set objs"
      using priority_total [OF False in_objs] by blast
    show thesis
    proof (cases "n = 0")
      case True
      with p(1) False \<open>has (lcdc p) LCDC_BITMASK_OBJ_ENABLE\<close> show thesis
        by (intro that [of "(0, Some t, None)"]) (simp_all add: draw_obj_def objs obj_result_def)
    next
      case n: False
      have t: "obj_rd p t 3 = Some (oam p (t + 3))" "sprite t"
        using in_objs [OF p(3)] by (simp_all only: obj_rd_in sprite_in_oam)
      let ?c = "shade (if has (oam p (t + 3)) 0x10 then obp1 p else obp0 p) n"
      show thesis
        using n p(1,2) False True t(2)
        by (intro that [of "(?c, Some t, Some ?c)"])
          (simp_all add: draw_obj_def objs of_nat_u8_0 t(1) palette_color_shade obj_result_def
            shade_nonzero)
    qed
  qed
qed

section \<open>The layers\<close>

text \<open>The reference for one pixel.  A sprite in front covers everything; the window covers the
  background; colour index 0 of window and background lets a sprite behind shine through; without
  any layer there is no pixel.\<close>

definition bg_point :: "ppu_t \<Rightarrow> int \<Rightarrow> nat" where
  "bg_point p x = tile_plane p LCDC_BITMASK_BG_TILE_MAP
    (nat ((x + uint (scx p)) mod 256)) (nat ((uint (ly p) + uint (scy p)) mod 256))"

definition win_point :: "ppu_t \<Rightarrow> int \<Rightarrow> nat" where
  "win_point p x = tile_plane p LCDC_BITMASK_WIN_TILE_MAP
    (nat (x + 7 - uint (wx p))) (nat (uint (ly p) - uint (wy p)))"

definition layers :: "ppu_t \<Rightarrow> (u32 \<times> bool) option \<Rightarrow> int \<Rightarrow> u32 option" where
  "layers p sp x =
    (let win = (has (lcdc p) LCDC_BITMASK_WIN_ENABLE \<and> win_visible p x);
         bg = has (lcdc p) LCDC_BITMASK_BG_ENABLE
     in case sp of
          None \<Rightarrow> if win then Some (shade (bgp p) (win_point p x))
                  else if bg then Some (shade (bgp p) (bg_point p x)) else None
        | Some (c, behind) \<Rightarrow>
            if \<not> behind then Some c
            else if win \<and> win_point p x \<noteq> 0 then Some (shade (bgp p) (win_point p x))
            else if bg \<and> bg_point p x \<noteq> 0 then Some (shade (bgp p) (bg_point p x))
            else Some c)"

lemma draw_bg_eq:
  assumes "i = 8 * k" "0 \<le> k" "0 \<le> j"
  shows "draw_bg p i j c prio f =
    (if has (lcdc p) LCDC_BITMASK_BG_ENABLE then
       do { b \<leftarrow> obj_behind p c prio;
            Some (if b \<and> (c = 0 \<or> bg_point p (i + j) \<noteq> 0)
                  then Some (shade (bgp p) (bg_point p (i + j))) else f) }
     else Some f)"
  unfolding draw_bg_def bg_indx_eq [OF assms] bg_point_def [symmetric] Option.bind.simps
  by (cases "obj_behind p c prio")
    (simp_all add: of_nat_u8_0 palette_color_shade tile_plane_less bg_point_def)

lemma draw_win_eq:
  assumes "x < 160"
  shows "draw_win p x c prio f =
    (if has (lcdc p) LCDC_BITMASK_WIN_ENABLE then
       do { b \<leftarrow> obj_behind p c prio;
            Some (if b \<and> win_visible p x \<and> (c = 0 \<or> win_point p x \<noteq> 0)
                  then Some (shade (bgp p) (win_point p x)) else f) }
     else Some f)"
proof (cases "win_visible p x")
  case True
  show ?thesis
    unfolding draw_win_def win_indx_eq [OF True assms] Option.bind.simps
    by (cases "obj_behind p c prio")
      (simp_all add: True of_nat_u8_0 palette_color_shade tile_plane_less win_point_def)
next
  case False
  then show ?thesis by (cases "obj_behind p c prio") (simp_all add: draw_win_def)
qed

lemma line_pixel_layers:
  assumes ok: "hash_ok (oam p) h" and i: "i = 8 * k" "0 \<le> k" "0 \<le> j" and x: "i + j < 160"
  shows "line_pixel p h i j = Some (layers p (sprite_layer p h (i + j)) (i + j))"
proof -
  obtain c prio f where d: "draw_obj p h (i + j) = Some (c, prio, f)" and r: "obj_result p (c, prio, f)"
    using draw_obj_total [OF ok, of "i + j"] i x by (auto simp: split_paired_all)
  show ?thesis
  proof (cases "c = 0")
    case True
    then have f: "f = None" using r by (simp add: obj_result_def)
    have "sprite_layer p h (i + j) = None"
      by (cases prio) (simp_all add: sprite_layer_def d True)
    then show ?thesis
      unfolding line_pixel_def d Option.bind.simps prod.case draw_bg_eq [OF i] draw_win_eq [OF x]
      by (simp add: layers_def Let_def obj_behind_def True f)
  next
    case False
    then obtain t where t: "f = Some c" "prio = Some t" "sprite t" using r by (auto simp: obj_result_def)
    then have b: "obj_behind p c prio = Some (has (oam p (t + 3)) 0x80)"
      using False by (simp add: obj_behind_def sprite_in_oam del: One_nat_def)
    have "sprite_layer p h (i + j) = Some (c, has (oam p (t + 3)) 0x80)"
      using False by (simp add: sprite_layer_def d t(2))
    then show ?thesis
      unfolding line_pixel_def d Option.bind.simps prod.case draw_bg_eq [OF i] draw_win_eq [OF x] b
      using False by (simp add: layers_def Let_def t(1))
  qed
qed

lemma layers_drawn:
  "has (lcdc p) LCDC_BITMASK_BG_ENABLE \<Longrightarrow> \<exists>v. layers p sp x = Some v"
  by (cases sp) (auto simp: layers_def Let_def)

section \<open>The line in the picture\<close>

lemma each_map: "each f (map g xs) s = each (\<lambda>x. f (g x)) xs s"
  by (induction xs arbitrary: s) simp_all

lemma each_nested: "each (\<lambda>i. each (f i) js) is s = each (\<lambda>(i, j). f i j) (List.product is js) s"
  by (induction "is" arbitrary: s) (simp_all add: each_map cong: bind_option_cong)

text \<open>The points of a line, in the order in which the two loops visit them.\<close>

definition line_points :: "(int \<times> int) list" where
  "line_points = List.product (map (\<lambda>k. 8 * int k) [0..<SCANLINE div 8]) [0, 1, 2, 3, 4, 5, 6, 7]"

lemma render_line_points: "ppu_render_line g = each (\<lambda>(i, j). render_xy i j) line_points g"
  unfolding ppu_render_line_def line_points_def by (rule each_nested)

lemma line_points_iff:
  "(i, j) \<in> set line_points \<longleftrightarrow> (\<exists>k. i = 8 * k \<and> 0 \<le> k \<and> k < 20) \<and> 0 \<le> j \<and> j < 8"
proof -
  have j: "j \<in> set [0, 1, 2, 3, 4, 5, 6, 7] \<longleftrightarrow> 0 \<le> j \<and> j < 8" by auto
  have "i \<in> set (map (\<lambda>k. 8 * int k) [0..<20]) \<longleftrightarrow> (\<exists>k. i = 8 * k \<and> 0 \<le> k \<and> k < 20)"
  proof
    assume "i \<in> set (map (\<lambda>k. 8 * int k) [0..<20])"
    then show "\<exists>k. i = 8 * k \<and> 0 \<le> k \<and> k < 20" by auto
  next
    assume "\<exists>k. i = 8 * k \<and> 0 \<le> k \<and> k < 20"
    then obtain k where "i = 8 * k" "0 \<le> k" "k < 20" by blast
    then have "i = 8 * int (nat k)" "nat k < 20" by simp_all
    then show "i \<in> set (map (\<lambda>k. 8 * int k) [0..<20])"
      unfolding set_map set_upt by (intro image_eqI [of _ _ "nat k"]) simp_all
  qed
  moreover have "SCANLINE div 8 = 20" by (simp add: SCANLINE_def)
  ultimately show ?thesis unfolding line_points_def using j by (simp only: set_product mem_Sigma_iff)
qed

lemma line_points_cover: "(\<exists>i j. (i, j) \<in> set line_points \<and> i + j = x) \<longleftrightarrow> 0 \<le> x \<and> x < 160"
proof
  assume "0 \<le> x \<and> x < 160"
  then have "(8 * (x div 8), x mod 8) \<in> set line_points" unfolding line_points_iff by auto
  moreover have "8 * (x div 8) + x mod 8 = x" by simp
  ultimately show "\<exists>i j. (i, j) \<in> set line_points \<and> i + j = x" by blast
qed (auto simp: line_points_iff)

text \<open>Drawing a list of points of which each has a pixel.\<close>

definition put_line :: "(int \<Rightarrow> u32) \<Rightarrow> int \<Rightarrow> int set \<Rightarrow> u32 arr \<Rightarrow> u32 arr" where
  "put_line v y X b = (\<lambda>k. if int k - 160 * y \<in> X then v (int k - 160 * y) else b k)"

lemma render_xy_put:
  assumes y: "0 \<le> y" "y \<le> 144" "y = uint (ly (ppu g))" and x: "0 \<le> i + j" "i + j < 160"
    and v: "line_pixel (ppu g) (oam_hash g) i j = Some (Some (v (i + j)))"
  shows "render_xy i j g = Some (g\<lparr>dmg_buf := put_line v y {i + j} (dmg_buf g)\<rparr>)"
proof -
  have in_buf: "0 \<le> y * 160 + (i + j)" "y * 160 + (i + j) < int DMG_BUF_SIZE"
    using y x by (simp_all add: DMG_BUF_SIZE_def)
  have "(dmg_buf g)(nat (y * 160 + (i + j)) := v (i + j)) = put_line v y {i + j} (dmg_buf g)"
    using in_buf by (auto simp: put_line_def fun_eq_iff)
  then show ?thesis
    using x y in_buf by (simp add: render_xy_def v render_draw_pixel_def)
qed

lemma put_line_put_line: "put_line v y X (put_line v y Y b) = put_line v y (X \<union> Y) b"
  by (auto simp: put_line_def fun_eq_iff)

lemma each_put:
  assumes "0 \<le> y" "y \<le> 144" "y = uint (ly (ppu g))"
    and "\<And>i j. (i, j) \<in> set ps \<Longrightarrow> 0 \<le> i + j \<and> i + j < 160 \<and>
      line_pixel (ppu g) (oam_hash g) i j = Some (Some (v (i + j)))"
  shows "each (\<lambda>(i, j). render_xy i j) ps g =
    Some (g\<lparr>dmg_buf := put_line v y {i + j | i j. (i, j) \<in> set ps} (dmg_buf g)\<rparr>)"
  using assms
proof (induction ps arbitrary: g)
  case Nil
  then show ?case by (simp add: put_line_def)
next
  case (Cons ij ps)
  obtain i j where ij: "ij = (i, j)" by force
  let ?g = "g\<lparr>dmg_buf := put_line v y {i + j} (dmg_buf g)\<rparr>"
  have "render_xy i j g = Some ?g" using Cons.prems ij by (intro render_xy_put) auto
  moreover have "each (\<lambda>(i, j). render_xy i j) ps ?g =
      Some (?g\<lparr>dmg_buf := put_line v y {i + j | i j. (i, j) \<in> set ps} (dmg_buf ?g)\<rparr>)"
    using Cons.prems by (intro Cons.IH) auto
  moreover have "{i + j | i j. (i, j) \<in> set ps} \<union> {i + j} = {i + j | i j. (i, j) \<in> set (ij # ps)}"
    by (auto simp: ij)
  ultimately show ?case by (simp add: ij put_line_put_line)
qed

lemma render_line_eq:
  assumes g: "gb_ok g" and y: "uint (ly (ppu g)) \<le> 144"
    and v: "\<And>x. 0 \<le> x \<Longrightarrow> x < 160 \<Longrightarrow>
      layers (ppu g) (sprite_layer (ppu g) (oam_hash g) x) x = Some (v x)"
  shows "ppu_render_line g =
    Some (g\<lparr>dmg_buf := put_line v (uint (ly (ppu g))) {0..<160} (dmg_buf g)\<rparr>)"
proof -
  have ok: "hash_ok (oam (ppu g)) (oam_hash g)" using g by (simp add: gb_ok_def)
  have "0 \<le> i + j \<and> i + j < 160 \<and> line_pixel (ppu g) (oam_hash g) i j = Some (Some (v (i + j)))"
    if "(i, j) \<in> set line_points" for i j
  proof -
    obtain k where k: "i = 8 * k" "0 \<le> k" "0 \<le> j" "i + j < 160" "0 \<le> i + j"
      using \<open>(i, j) \<in> set line_points\<close> unfolding line_points_iff by auto
    then show ?thesis using line_pixel_layers [OF ok k(1-4)] v by simp
  qed
  then have "ppu_render_line g = Some (g\<lparr>dmg_buf :=
      put_line v (uint (ly (ppu g))) {i + j | i j. (i, j) \<in> set line_points} (dmg_buf g)\<rparr>)"
    unfolding render_line_points using y by (intro each_put) (simp_all add: uint_u8_bounds)
  moreover have "{i + j | i j. (i, j) \<in> set line_points} = {0..<160}"
    using line_points_cover unfolding set_eq_iff mem_Collect_eq atLeastLessThan_iff by metis
  ultimately show ?thesis by simp
qed

end
