(* ===== verification/Line_Theorems.thy ===== *)
theory Line_Theorems
  imports Line
begin

text \<open>The properties of a rendered line.\<close>


text \<open>A machine on line 3, scrolled by (10, 20), whose background is made of one solid tile.\<close>

definition line_sample :: gb where
  "line_sample = on_ppu (\<lambda>p. p\<lparr>lcdc := 0x91, ly := 3, scx := 10, scy := 20, bgp := 0xe4,
     tile_data := (\<lambda>_. 0xff)\<rparr>) sample_gb"

lemma line_sample_ok: "gb_ok line_sample"
  using sample_gb_ok by (simp add: line_sample_def gb_ok_def)


text \<open>C37: A line with background, window and sprites all disabled in LCDC is undefined: the code
  draws a local variable that nothing has set.  (The hardware shows a blank line.)\<close>

theorem blank_line_undefined:
  assumes "\<not> has (lcdc (ppu g)) LCDC_BITMASK_BG_ENABLE" "\<not> has (lcdc (ppu g)) LCDC_BITMASK_WIN_ENABLE"
    "\<not> has (lcdc (ppu g)) LCDC_BITMASK_OBJ_ENABLE"
  shows "ppu_render_line g = None"
proof -
  have "line_points = (0, 0) # tl line_points" by (simp add: line_points_def SCANLINE_def upt_rec)
  moreover have "render_xy 0 0 g = None"
    by (simp add: render_xy_def line_pixel_def draw_obj_def draw_bg_def draw_win_def assms)
  ultimately show ?thesis unfolding render_line_points by (metis bind.bind_lzero case_prod_conv each.simps(2))
qed

theorem blank_line_undefined_witness: "ppu_render_line sample_gb = None"
  by (rule blank_line_undefined)
    (simp_all add: sample_gb_def power_on_def ppu0_def has_def)

end
