(* ===== verification/Ppu_Step.thy ===== *)
theory Ppu_Step
  imports Ppu_Render Cpu_Exec
begin

text \<open>
  The clock of the PPU: its four modes and the line counter (\<open>check_ly_lyc\<close>, \<open>set_ly\<close>,
  \<open>hblank_end_cycle\<close>, \<open>vblank_end_cycle\<close>, \<open>change_phase\<close> and \<open>ppu_refresh\<close> of
  src/emu/ppu.c), \<open>render_draw_framebuffer\<close> of src/render.c, and \<open>exec_next\<close> of
  src/monitor.c, which runs one instruction and then the PPU.
\<close>

section \<open>The line counter\<close>

definition check_ly_lyc :: "gb \<Rightarrow> gb" where
  "check_ly_lyc g =
    (if ly (ppu g) = lyc (ppu g) then
       (let g = on_ppu (\<lambda>p. p\<lparr>stat := stat p OR LY_LYC_FLAG\<rparr>) g
        in if has (stat (ppu g)) STAT_INTR_LYLC then on_cpu (cpu_request_intr REQUEST_INTR_LCD) g
           else g)
     else on_ppu (\<lambda>p. p\<lparr>stat := stat p AND NOT LY_LYC_FLAG\<rparr>) g)"

definition set_ly :: "u8 \<Rightarrow> gb \<Rightarrow> gb" where
  "set_ly value g = check_ly_lyc (on_ppu (\<lambda>p. p\<lparr>ly := value\<rparr>) g)"

section \<open>The ends of the phases\<close>

text \<open>\<open>ppu.dots_remaining += n\<close> on an \<open>int16_t\<close>.\<close>

definition add_dots :: "int \<Rightarrow> ppu_t \<Rightarrow> ppu_t" where
  "add_dots n p = p\<lparr>dots_remaining := word_of_int (sint (dots_remaining p) + n)\<rparr>"

definition hblank_end_cycle :: "gb \<Rightarrow> gb" where
  "hblank_end_cycle g =
    (let g = set_ly (ly (ppu g) + 1) g
     in if ly (ppu g) \<ge> 144 then
          (let g = on_ppu (\<lambda>p. p\<lparr>vblank_dots := 0\<rparr>) g;
               g = on_ppu (add_dots DOTS_VBLANK) g;
               g = on_ppu (\<lambda>p. p\<lparr>mode := PPU_VBLANK\<rparr>) g;
               g = on_ppu (\<lambda>p. p\<lparr>stat := stat p OR 1\<rparr>) g;
               g = (if has (stat (ppu g)) STAT_INTR_VBLANK
                    then on_cpu (cpu_request_intr REQUEST_INTR_LCD) g else g)
           in on_cpu (cpu_request_intr REQUEST_INTR_VBLANK) g)
        else
          (let g = on_ppu (add_dots DOTS_OAM) g;
               g = on_ppu (\<lambda>p. p\<lparr>mode := PPU_OAM\<rparr>) g;
               g = on_ppu (\<lambda>p. p\<lparr>stat := stat p OR 2\<rparr>) g
           in if has (stat (ppu g)) STAT_INTR_OAM
              then on_cpu (cpu_request_intr REQUEST_INTR_LCD) g else g))"

text \<open>The limiter reads the next value of the clock.\<close>

definition throttle_frame :: "gb \<Rightarrow> gb option" where
  "throttle_frame g =
    do { (sleep, t) \<leftarrow> monitor_throttle_fps (clock g 0) (ppu_get_frame_count (ppu g)) (throttle g);
         Some (g\<lparr>throttle := t, clock := (\<lambda>n. clock g (n + 1))\<rparr>) }"

definition vblank_end_cycle :: "gb \<Rightarrow> gb option" where
  "vblank_end_cycle g =
    (let g = on_ppu (add_dots DOTS_OAM) g;
         g = set_ly 0 g;
         g = on_ppu (\<lambda>p. p\<lparr>mode := PPU_OAM\<rparr>) g;
         g = on_ppu (\<lambda>p. p\<lparr>stat := stat p AND NOT 3\<rparr>) g;
         g = on_ppu (\<lambda>p. p\<lparr>stat := stat p OR 2\<rparr>) g;
         g = on_ppu (\<lambda>p. p\<lparr>frame_count := frame_count p + 1\<rparr>) g
     in throttle_frame g)"

definition render_draw_framebuffer :: "gb \<Rightarrow> gb" where
  "render_draw_framebuffer g = g\<lparr>shown := dmg_buf g\<rparr>"

definition oam_end_cycle :: "ppu_t \<Rightarrow> ppu_t" where
  "oam_end_cycle p =
    (let p = add_dots DOTS_DRAW p;
         p = p\<lparr>stat := stat p OR 3\<rparr>
     in p\<lparr>mode := PPU_DRAW\<rparr>)"

definition draw_end_cycle :: "gb \<Rightarrow> gb option" where
  "draw_end_cycle g =
    (let g = on_ppu (add_dots DOTS_HBLANK) g;
         g = on_ppu (\<lambda>p. p\<lparr>stat := stat p AND NOT 3\<rparr>) g;
         g = on_ppu (\<lambda>p. p\<lparr>mode := PPU_HBLANK\<rparr>) g
     in ppu_render_line g)"

definition change_phase :: "gb \<Rightarrow> gb option" where
  "change_phase g =
    (case mode (ppu g) of
       PPU_HBLANK \<Rightarrow> Some (hblank_end_cycle g)
     | PPU_VBLANK \<Rightarrow> vblank_end_cycle (render_draw_framebuffer g)
     | PPU_OAM \<Rightarrow> Some (on_ppu oam_end_cycle g)
     | PPU_DRAW \<Rightarrow> draw_end_cycle g)"

section \<open>The clock\<close>

definition CYCLES_TO_DOTS :: "u8 \<Rightarrow> int" where
  "CYCLES_TO_DOTS ticks = push_bit 2 (uint ticks)"

text \<open>The lines inside the vertical blank.\<close>

definition vblank_line :: "u8 \<Rightarrow> gb \<Rightarrow> gb" where
  "vblank_line ticks g =
    (let g = on_ppu (\<lambda>p. p\<lparr>vblank_dots := vblank_dots p + word_of_int (CYCLES_TO_DOTS ticks)\<rparr>) g
     in if vblank_dots (ppu g) div word_of_int DOTS_VBLANK_LINE \<noteq> 0 then
          (let g = set_ly (ly (ppu g) + 1) g
           in on_ppu (\<lambda>p. p\<lparr>vblank_dots := vblank_dots p mod word_of_int DOTS_VBLANK_LINE\<rparr>) g)
        else g)"

text \<open>Zero ticks stand for three, with a short phase unless the mode is the vertical blank.\<close>

definition fix_ticks :: "u8 \<Rightarrow> gb \<Rightarrow> u8 \<times> gb" where
  "fix_ticks ticks g =
    (if ticks = 0 then
       (3, if mode (ppu g) \<noteq> PPU_VBLANK then on_ppu (\<lambda>p. p\<lparr>dots_remaining := 12\<rparr>) g else g)
     else (ticks, g))"

definition ppu_refresh :: "u8 \<Rightarrow> gb \<Rightarrow> gb option" where
  "ppu_refresh ticks g =
    (if \<not> has (lcdc (ppu g)) LCDC_BITMASK_PPU_ENABLE then Some g
     else
       (let (ticks, g) = fix_ticks ticks g;
            g = on_ppu (add_dots (- CYCLES_TO_DOTS ticks)) g
        in if sint (dots_remaining (ppu g)) \<le> 0 \<or> ly (ppu g) = 0x99 then change_phase g
           else if mode (ppu g) = PPU_VBLANK then Some (vblank_line ticks g)
           else Some g))"

section \<open>One step of the emulator\<close>

definition exec_next :: "gb \<Rightarrow> gb option" where
  "exec_next g =
    do { (n, g) \<leftarrow> cpu_exec_next g;
         ppu_refresh (word_of_int n) g }"

end
