(* ===== verification/Ppu_Clock.thy ===== *)
theory Ppu_Clock
  imports Ppu_Step Line
begin

text \<open>
  The clock of the PPU as an abstract machine on integers, its invariant, and the refinement:
  \<open>ppu_refresh\<close> of src/emu/ppu.c takes the same steps, its 8, 16 and 32 bit counters never
  wrap around, and it meets no undefined behaviour.
\<close>

section \<open>The abstract clock\<close>

record pclock =
  pmode :: ppu_mode
  pline :: int
  pdots :: int
  pvdots :: int

definition abs_clock :: "ppu_t \<Rightarrow> pclock" where
  "abs_clock p = \<lparr>pmode = mode p, pline = uint (ly p), pdots = sint (dots_remaining p),
     pvdots = uint (vblank_dots p)\<rparr>"

text \<open>One refresh of \<open>t\<close> cycles.  The second component tells whether a frame has ended.\<close>

definition clock_step :: "int \<Rightarrow> pclock \<Rightarrow> pclock \<times> bool" where
  "clock_step t s =
    (let d = pdots s - 4 * t in
     if d \<le> 0 \<or> pline s = 153 then
       (case pmode s of
          PPU_HBLANK \<Rightarrow>
            (if pline s + 1 \<ge> 144
             then (s\<lparr>pmode := PPU_VBLANK, pline := pline s + 1, pdots := d + 4560, pvdots := 0\<rparr>, False)
             else (s\<lparr>pmode := PPU_OAM, pline := pline s + 1, pdots := d + 80\<rparr>, False))
        | PPU_VBLANK \<Rightarrow> (s\<lparr>pmode := PPU_OAM, pline := 0, pdots := d + 80\<rparr>, True)
        | PPU_OAM \<Rightarrow> (s\<lparr>pmode := PPU_DRAW, pdots := d + 230\<rparr>, False)
        | PPU_DRAW \<Rightarrow> (s\<lparr>pmode := PPU_HBLANK, pdots := d + 145\<rparr>, False))
     else if pmode s = PPU_VBLANK then
       (if pvdots s + 4 * t \<ge> 456
        then (s\<lparr>pline := pline s + 1, pdots := d, pvdots := pvdots s + 4 * t - 456\<rparr>, False)
        else (s\<lparr>pdots := d, pvdots := pvdots s + 4 * t\<rparr>, False))
     else (s\<lparr>pdots := d\<rparr>, False))"

text \<open>The invariant: outside the vertical blank the line is visible; inside it the line number and
  the two dot counters are tied to each other.\<close>

definition clock_inv :: "pclock \<Rightarrow> bool" where
  "clock_inv s =
    (0 < pdots s \<and>
     (case pmode s of
        PPU_VBLANK \<Rightarrow> 144 \<le> pline s \<and> pline s \<le> 153 \<and> 0 \<le> pvdots s \<and> pvdots s < 456 \<and>
          4536 < pdots s + 456 * (pline s - 144) + pvdots s \<and>
          pdots s + 456 * (pline s - 144) + pvdots s \<le> 4560
      | PPU_OAM \<Rightarrow> 0 \<le> pline s \<and> pline s \<le> 143 \<and> pdots s \<le> 536
      | PPU_DRAW \<Rightarrow> 0 \<le> pline s \<and> pline s \<le> 143 \<and> pdots s \<le> 230
      | PPU_HBLANK \<Rightarrow> 0 \<le> pline s \<and> pline s \<le> 143 \<and> pdots s \<le> 145))"

lemma clock_inv_step:
  assumes "clock_inv s" "1 \<le> t" "t \<le> 6"
  shows "clock_inv (fst (clock_step t s))"
  using assms by (cases "pmode s") (auto simp: clock_inv_def clock_step_def Let_def)

text \<open>The dots that remain until the end of the frame, as the constants of the code count them.\<close>

definition remaining :: "pclock \<Rightarrow> int" where
  "remaining s = pdots s +
    (case pmode s of
       PPU_OAM \<Rightarrow> 230 + 145 + (143 - pline s) * 455 + 4560
     | PPU_DRAW \<Rightarrow> 145 + (143 - pline s) * 455 + 4560
     | PPU_HBLANK \<Rightarrow> (143 - pline s) * 455 + 4560
     | PPU_VBLANK \<Rightarrow> 0)"

text \<open>The dots of a frame: 144 lines of 455 and the vertical blank.\<close>

definition FRAME_DOTS :: int where "FRAME_DOTS = 144 * (80 + 230 + 145) + 4560"

lemma remaining_step:
  assumes "clock_inv s"
  shows "remaining (fst (clock_step t s)) =
    remaining s - 4 * t + (if snd (clock_step t s) then FRAME_DOTS else 0)"
  using assms
  by (cases "pmode s") (auto simp: clock_inv_def clock_step_def remaining_def FRAME_DOTS_def Let_def)

lemma remaining_bounds: "clock_inv s \<Longrightarrow> 0 < remaining s \<and> remaining s \<le> FRAME_DOTS + 456"
  by (cases "pmode s") (auto simp: clock_inv_def remaining_def FRAME_DOTS_def)

section \<open>The parts of a refresh\<close>

lemma sint_wi16: "- 32768 \<le> k \<Longrightarrow> k < 32768 \<Longrightarrow> sint (word_of_int k :: u16) = k"
  by (simp add: sint_sbintrunc' signed_take_bit_int_eq_self_iff)

lemma sint_u16_bounds: "- 32768 \<le> sint (w::u16)" "sint (w::u16) < 32768"
  using sint_ge [of w] sint_lt [of w] by simp_all

text \<open>\<open>set_ly\<close> changes LY and STAT, and may request an interrupt.\<close>

definition same_but_stat :: "gb \<Rightarrow> gb \<Rightarrow> bool" where
  "same_but_stat g h \<longleftrightarrow> (\<exists>st c. h = g\<lparr>ppu := (ppu g)\<lparr>stat := st\<rparr>, cpu := c\<rparr> \<and> (cpu_ok (cpu g) \<longrightarrow> cpu_ok c))"

lemma same_but_stat_refl [simp]: "same_but_stat g g"
  unfolding same_but_stat_def by (intro exI [of _ "stat (ppu g)"] exI [of _ "cpu g"]) simp

lemma same_but_stat_trans: "same_but_stat g h \<Longrightarrow> same_but_stat h k \<Longrightarrow> same_but_stat g k"
proof -
  assume "same_but_stat g h" "same_but_stat h k"
  then obtain st c st' c' where "h = g\<lparr>ppu := (ppu g)\<lparr>stat := st\<rparr>, cpu := c\<rparr>" "cpu_ok (cpu g) \<longrightarrow> cpu_ok c"
    "k = h\<lparr>ppu := (ppu h)\<lparr>stat := st'\<rparr>, cpu := c'\<rparr>" "cpu_ok (cpu h) \<longrightarrow> cpu_ok c'"
    unfolding same_but_stat_def by blast
  then show ?thesis unfolding same_but_stat_def by (intro exI [of _ st'] exI [of _ c']) simp
qed

lemma cpu_ok_request: "cpu_ok c \<Longrightarrow> cpu_ok (cpu_request_intr im c)"
  by (cases im) (auto simp: cpu_ok_def cpu_request_intr_def timer_ok_def u8_eq_iff bit_simps)

lemma same_but_stat_request: "same_but_stat g (on_cpu (cpu_request_intr im) g)"
  unfolding same_but_stat_def on_cpu_def
  by (intro exI [of _ "stat (ppu g)"] exI [of _ "cpu_request_intr im (cpu g)"]) (simp add: cpu_ok_request)

lemma same_but_stat_stat: "same_but_stat g (on_ppu (\<lambda>p. p\<lparr>stat := f p\<rparr>) g)"
  unfolding same_but_stat_def on_ppu_def
  by (intro exI [of _ "f (ppu g)"] exI [of _ "cpu g"]) simp

lemma check_ly_lyc_frame: "same_but_stat g (check_ly_lyc g)"
  unfolding check_ly_lyc_def Let_def
  using same_but_stat_trans [OF same_but_stat_stat same_but_stat_request] same_but_stat_stat by simp

lemma same_but_stat_sel:
  assumes "same_but_stat g h"
  shows "mode (ppu h) = mode (ppu g)" "ly (ppu h) = ly (ppu g)" "dots_remaining (ppu h) = dots_remaining (ppu g)"
    "vblank_dots (ppu h) = vblank_dots (ppu g)" "frame_count (ppu h) = frame_count (ppu g)"
    "lcdc (ppu h) = lcdc (ppu g)" "oam (ppu h) = oam (ppu g)" "oam_hash h = oam_hash g"
    "throttle h = throttle g" "clock h = clock g" "dmg_buf h = dmg_buf g" "shown h = shown g"
    "gb_ok g \<Longrightarrow> gb_ok h"
  using assms by (auto simp: same_but_stat_def gb_ok_def)

lemma gb_ok_on_ppu: "gb_ok (on_ppu f g) \<longleftrightarrow> cpu_ok (cpu g) \<and> hash_ok (oam (f (ppu g))) (oam_hash g)"
  by (simp add: gb_ok_def)

text \<open>What a refresh may change: everything but the enable bits, the sprites and their index.  The
  third argument counts the frames that have ended.\<close>

definition refresh_frame :: "gb \<Rightarrow> bool \<Rightarrow> gb \<Rightarrow> bool" where
  "refresh_frame g e h \<longleftrightarrow> lcdc (ppu h) = lcdc (ppu g) \<and>
    frame_count (ppu h) = frame_count (ppu g) + of_bool e \<and> gb_ok h \<and>
    (if e then sleep_factor (throttle g) - 1 \<le> sleep_factor (throttle h) else throttle h = throttle g)"

lemma set_ly_frame: "same_but_stat (on_ppu (\<lambda>p. p\<lparr>ly := v\<rparr>) g) (set_ly v g)"
  unfolding set_ly_def by (rule check_ly_lyc_frame)

lemma maybe_request: "same_but_stat g (if b then on_cpu (cpu_request_intr im) g else g)"
  using same_but_stat_request by simp

lemma sint_add_dots:
  "- 32768 \<le> sint (dots_remaining p) + n \<Longrightarrow> sint (dots_remaining p) + n < 32768 \<Longrightarrow>
    sint (dots_remaining (add_dots n p)) = sint (dots_remaining p) + n"
  unfolding add_dots_def using sint_wi16 [of "sint (dots_remaining p) + n"] by simp

lemma add_dots_frame [simp]:
  "mode (add_dots n p) = mode p" "ly (add_dots n p) = ly p" "vblank_dots (add_dots n p) = vblank_dots p"
  "frame_count (add_dots n p) = frame_count p" "lcdc (add_dots n p) = lcdc p" "oam (add_dots n p) = oam p"
  "stat (add_dots n p) = stat p"
  by (simp_all add: add_dots_def)

lemma uint_plus1: "uint (l::u8) < 255 \<Longrightarrow> uint (l + 1) = uint l + 1"
  using uint_u8_bounds [of l] uint_wi8 [of "uint l + 1"] by (simp add: wi_hom_syms mod_pos_pos_trivial)

lemma hblank_end_abs:
  assumes g: "gb_ok g" and l: "uint (ly (ppu g)) \<le> 143"
    and d: "- 100 \<le> sint (dots_remaining (ppu g))" "sint (dots_remaining (ppu g)) \<le> 20000"
  defines "s \<equiv> abs_clock (ppu g)"
  shows "abs_clock (ppu (hblank_end_cycle g)) =
    (if pline s + 1 \<ge> 144
     then s\<lparr>pmode := PPU_VBLANK, pline := pline s + 1, pdots := pdots s + 4560, pvdots := 0\<rparr>
     else s\<lparr>pmode := PPU_OAM, pline := pline s + 1, pdots := pdots s + 80\<rparr>)"
    and "refresh_frame g False (hblank_end_cycle g)"
proof -
  let ?g1 = "set_ly (ly (ppu g) + 1) g"
  note s1 = same_but_stat_sel [OF set_ly_frame [of "ly (ppu g) + 1" g]]
  have l1: "uint (ly (ppu ?g1)) = uint (ly (ppu g)) + 1"
    using l by (simp add: s1 uint_plus1)
  have g1: "gb_ok ?g1" by (rule s1(13)) (use g in \<open>simp add: gb_ok_def\<close>)
  have ge: "(144 \<le> ly (ppu ?g1)) = (pline s + 1 \<ge> 144)"
    by (simp add: word_le_def l1 s_def abs_clock_def)
  have "abs_clock (ppu (hblank_end_cycle g)) =
    (if pline s + 1 \<ge> 144
     then s\<lparr>pmode := PPU_VBLANK, pline := pline s + 1, pdots := pdots s + 4560, pvdots := 0\<rparr>
     else s\<lparr>pmode := PPU_OAM, pline := pline s + 1, pdots := pdots s + 80\<rparr>) \<and>
    refresh_frame g False (hblank_end_cycle g)"
  proof (cases "144 \<le> ly (ppu ?g1)")
    case True
    let ?g2 = "on_ppu (\<lambda>p. p\<lparr>stat := stat p OR 1\<rparr>) (on_ppu (\<lambda>p. p\<lparr>mode := PPU_VBLANK\<rparr>)
      (on_ppu (add_dots DOTS_VBLANK) (on_ppu (\<lambda>p. p\<lparr>vblank_dots := 0\<rparr>) ?g1)))"
    have "same_but_stat ?g2 (hblank_end_cycle g)"
      using True same_but_stat_trans [OF maybe_request same_but_stat_request]
      by (simp add: hblank_end_cycle_def Let_def)
    note s2 = same_but_stat_sel [OF this]
    have "sint (dots_remaining (ppu ?g2)) = sint (dots_remaining (ppu g)) + 4560"
      using d by (simp add: sint_add_dots s1 DOTS_VBLANK_def)
    then have "abs_clock (ppu (hblank_end_cycle g)) =
        s\<lparr>pmode := PPU_VBLANK, pline := pline s + 1, pdots := pdots s + 4560, pvdots := 0\<rparr>"
      using l1 by (simp add: abs_clock_def s2 s_def)
    moreover have "gb_ok (hblank_end_cycle g)" using g1 by (intro s2(13)) (simp add: gb_ok_def)
    ultimately show ?thesis using True ge by (simp add: refresh_frame_def s2 s1)
  next
    case False
    let ?g2 = "on_ppu (\<lambda>p. p\<lparr>stat := stat p OR 2\<rparr>) (on_ppu (\<lambda>p. p\<lparr>mode := PPU_OAM\<rparr>)
      (on_ppu (add_dots DOTS_OAM) ?g1))"
    have "same_but_stat ?g2 (hblank_end_cycle g)"
      using False maybe_request by (simp add: hblank_end_cycle_def Let_def)
    note s2 = same_but_stat_sel [OF this]
    have "sint (dots_remaining (ppu ?g2)) = sint (dots_remaining (ppu g)) + 80"
      using d by (simp add: sint_add_dots s1 DOTS_OAM_def)
    then have "abs_clock (ppu (hblank_end_cycle g)) =
        s\<lparr>pmode := PPU_OAM, pline := pline s + 1, pdots := pdots s + 80\<rparr>"
      using l1 by (simp add: abs_clock_def s2 s_def s1)
    moreover have "gb_ok (hblank_end_cycle g)" using g1 by (intro s2(13)) (simp add: gb_ok_def)
    ultimately show ?thesis using False ge by (simp add: refresh_frame_def s2 s1)
  qed
  then show "abs_clock (ppu (hblank_end_cycle g)) =
    (if pline s + 1 \<ge> 144
     then s\<lparr>pmode := PPU_VBLANK, pline := pline s + 1, pdots := pdots s + 4560, pvdots := 0\<rparr>
     else s\<lparr>pmode := PPU_OAM, pline := pline s + 1, pdots := pdots s + 80\<rparr>)"
    "refresh_frame g False (hblank_end_cycle g)" by blast+
qed

lemma throttle_frame_ok:
  assumes "sleep_factor (throttle g) > 1"
  obtains t c where "throttle_frame g = Some (g\<lparr>throttle := t, clock := c\<rparr>)"
    "sleep_factor (throttle g) - 1 \<le> sleep_factor t"
proof -
  obtain z t where r: "monitor_throttle_fps (clock g 0) (ppu_get_frame_count (ppu g)) (throttle g) = Some (z, t)"
    using throttle_total [OF assms] by (metis surj_pair)
  moreover have "sleep_factor (throttle g) - 1 \<le> sleep_factor t"
    using r by (auto simp: monitor_throttle_fps_def adjust_sleep_def Let_def split: if_splits)
  ultimately show thesis by (intro that) (simp_all add: throttle_frame_def)
qed

lemma vblank_end_abs:
  assumes g: "gb_ok g" and d: "- 100 \<le> sint (dots_remaining (ppu g))" "sint (dots_remaining (ppu g)) \<le> 20000"
    and t: "sleep_factor (throttle g) > 1"
  defines "s \<equiv> abs_clock (ppu g)"
  obtains h where "vblank_end_cycle g = Some h"
    "abs_clock (ppu h) = s\<lparr>pmode := PPU_OAM, pline := 0, pdots := pdots s + 80\<rparr>"
    "refresh_frame g True h"
proof -
  let ?g1 = "on_ppu (add_dots DOTS_OAM) g"
  let ?g2 = "set_ly 0 ?g1"
  note s2 = same_but_stat_sel [OF set_ly_frame [of 0 ?g1]]
  let ?g3 = "on_ppu (\<lambda>p. p\<lparr>frame_count := frame_count p + 1\<rparr>)
    (on_ppu (\<lambda>p. p\<lparr>stat := stat p OR 2\<rparr>) (on_ppu (\<lambda>p. p\<lparr>stat := stat p AND NOT 3\<rparr>)
      (on_ppu (\<lambda>p. p\<lparr>mode := PPU_OAM\<rparr>) ?g2)))"
  have e: "vblank_end_cycle g = throttle_frame ?g3" by (simp add: vblank_end_cycle_def Let_def)
  have "sleep_factor (throttle ?g3) > 1" using t by (simp add: s2)
  then obtain th c where h: "throttle_frame ?g3 = Some (?g3\<lparr>throttle := th, clock := c\<rparr>)"
    "sleep_factor (throttle ?g3) - 1 \<le> sleep_factor th"
    by (rule throttle_frame_ok)
  have "sint (dots_remaining (ppu ?g1)) = sint (dots_remaining (ppu g)) + 80"
    using d by (simp add: sint_add_dots DOTS_OAM_def)
  then have "abs_clock (ppu (?g3\<lparr>throttle := th, clock := c\<rparr>)) =
      s\<lparr>pmode := PPU_OAM, pline := 0, pdots := pdots s + 80\<rparr>"
    by (simp add: abs_clock_def s_def s2)
  moreover have "gb_ok ?g2" by (rule s2(13)) (use g in \<open>simp add: gb_ok_def\<close>)
  then have "refresh_frame g True (?g3\<lparr>throttle := th, clock := c\<rparr>)"
    using h(2) by (simp add: refresh_frame_def s2 gb_ok_def)
  ultimately show thesis using e h(1) by (intro that) simp_all
qed

lemma draw_end_abs:
  assumes g: "gb_ok g" and l: "uint (ly (ppu g)) \<le> 143" and bg: "has (lcdc (ppu g)) LCDC_BITMASK_BG_ENABLE"
    and d: "- 100 \<le> sint (dots_remaining (ppu g))" "sint (dots_remaining (ppu g)) \<le> 20000"
  defines "s \<equiv> abs_clock (ppu g)"
  obtains h where "draw_end_cycle g = Some h"
    "abs_clock (ppu h) = s\<lparr>pmode := PPU_HBLANK, pdots := pdots s + 145\<rparr>" "refresh_frame g False h"
proof -
  let ?g1 = "on_ppu (\<lambda>p. p\<lparr>mode := PPU_HBLANK\<rparr>) (on_ppu (\<lambda>p. p\<lparr>stat := stat p AND NOT 3\<rparr>)
    (on_ppu (add_dots DOTS_HBLANK) g))"
  have g1: "gb_ok ?g1" using g by (simp add: gb_ok_def)
  have "\<exists>v. layers (ppu ?g1) (sprite_layer (ppu ?g1) (oam_hash ?g1) x) x = Some v" for x
    by (rule layers_drawn) (simp add: bg)
  then obtain v where "layers (ppu ?g1) (sprite_layer (ppu ?g1) (oam_hash ?g1) x) x = Some (v x)" for x
    by metis
  then obtain b where h: "ppu_render_line ?g1 = Some (?g1\<lparr>dmg_buf := b\<rparr>)"
    using render_line_eq [OF g1, of v] l by auto
  have "sint (dots_remaining (ppu ?g1)) = sint (dots_remaining (ppu g)) + 145"
    using d by (simp add: sint_add_dots DOTS_HBLANK_def)
  then have "abs_clock (ppu (?g1\<lparr>dmg_buf := b\<rparr>)) = s\<lparr>pmode := PPU_HBLANK, pdots := pdots s + 145\<rparr>"
    by (simp add: abs_clock_def s_def)
  moreover have "refresh_frame g False (?g1\<lparr>dmg_buf := b\<rparr>)"
    using g1 by (simp add: refresh_frame_def gb_ok_def)
  moreover have "draw_end_cycle g = Some (?g1\<lparr>dmg_buf := b\<rparr>)"
    using h by (simp add: draw_end_cycle_def Let_def)
  ultimately show thesis by (intro that)
qed

lemma oam_end_abs:
  assumes g: "gb_ok g" and d: "- 100 \<le> sint (dots_remaining (ppu g))" "sint (dots_remaining (ppu g)) \<le> 20000"
  defines "s \<equiv> abs_clock (ppu g)"
  shows "abs_clock (ppu (on_ppu oam_end_cycle g)) = s\<lparr>pmode := PPU_DRAW, pdots := pdots s + 230\<rparr>"
    and "refresh_frame g False (on_ppu oam_end_cycle g)"
  using g d by (simp_all add: abs_clock_def s_def oam_end_cycle_def Let_def sint_add_dots DOTS_DRAW_def
      refresh_frame_def gb_ok_def)

lemma CYCLES_TO_DOTS_eq: "CYCLES_TO_DOTS ticks = 4 * uint ticks"
  by (simp add: CYCLES_TO_DOTS_def push_bit_eq_mult)

lemma vblank_line_abs:
  assumes g: "gb_ok g" and l: "uint (ly (ppu g)) \<le> 152" and v: "uint (vblank_dots (ppu g)) < 456"
    and t: "uint ticks \<le> 6"
  defines "s \<equiv> abs_clock (ppu g)"
  shows "abs_clock (ppu (vblank_line ticks g)) =
    (if pvdots s + 4 * uint ticks \<ge> 456
     then s\<lparr>pline := pline s + 1, pvdots := pvdots s + 4 * uint ticks - 456\<rparr>
     else s\<lparr>pvdots := pvdots s + 4 * uint ticks\<rparr>) \<and>
    refresh_frame g False (vblank_line ticks g)"
proof -
  let ?g1 = "on_ppu (\<lambda>p. p\<lparr>vblank_dots := vblank_dots p + word_of_int (CYCLES_TO_DOTS ticks)\<rparr>) g"
  let ?n = "uint (vblank_dots (ppu g)) + 4 * uint ticks"
  have n: "0 \<le> ?n" "?n < 1000" using v t by simp_all
  have "vblank_dots (ppu ?g1) = word_of_int ?n" by (simp add: CYCLES_TO_DOTS_eq wi_hom_syms)
  then have v1: "uint (vblank_dots (ppu ?g1)) = ?n"
    using n by (simp only: uint_wi32 mod_pos_pos_trivial)
  have k: "uint (word_of_int DOTS_VBLANK_LINE :: u32) = 456" by (simp add: DOTS_VBLANK_LINE_def)
  have q: "(vblank_dots (ppu ?g1) div word_of_int DOTS_VBLANK_LINE \<noteq> 0) = (?n \<ge> 456)"
  proof -
    have "(?n div 456 \<noteq> 0) = (?n \<ge> 456)" using n by (auto simp: div_pos_pos_trivial zdiv_eq_0_iff)
    then show ?thesis by (simp only: word_uint_eq_iff uint_div v1 k unsigned_0)
  qed
  show ?thesis
  proof (cases "?n \<ge> 456")
    case True
    let ?g2 = "set_ly (ly (ppu g) + 1) ?g1"
    note s2 = same_but_stat_sel [OF set_ly_frame [of "ly (ppu g) + 1" ?g1]]
    have e: "vblank_line ticks g =
        on_ppu (\<lambda>p. p\<lparr>vblank_dots := vblank_dots p mod word_of_int DOTS_VBLANK_LINE\<rparr>) ?g2"
      using q True by (simp add: vblank_line_def Let_def)
    have "(?n - 456) mod 456 = ?n - 456" using True v t by (intro mod_pos_pos_trivial) linarith+
    then have "?n mod 456 = ?n - 456" by simp
    then have m: "uint (vblank_dots (ppu ?g1) mod word_of_int DOTS_VBLANK_LINE) = ?n - 456"
      by (simp only: uint_mod v1 k)
    have "gb_ok ?g2" by (rule s2(13)) (use g in \<open>simp add: gb_ok_def\<close>)
    then show ?thesis
      using True m l unfolding e
      by (simp add: abs_clock_def s_def s2 uint_plus1 refresh_frame_def gb_ok_def)
  next
    case False
    then have e: "vblank_line ticks g = ?g1" using q by (simp add: vblank_line_def Let_def)
    show ?thesis using False v1 g unfolding e by (simp add: abs_clock_def s_def refresh_frame_def gb_ok_def)
  qed
qed

section \<open>The refinement\<close>

text \<open>The state in which a refresh is known to meet no undefined behaviour.\<close>

definition ppu_running :: "gb \<Rightarrow> bool" where
  "ppu_running g \<longleftrightarrow> gb_ok g \<and> has (lcdc (ppu g)) LCDC_BITMASK_PPU_ENABLE \<and>
    has (lcdc (ppu g)) LCDC_BITMASK_BG_ENABLE \<and> clock_inv (abs_clock (ppu g)) \<and>
    sleep_factor (throttle g) > 1"

lemma change_phase_abs:
  assumes g: "gb_ok g" and bg: "has (lcdc (ppu g)) LCDC_BITMASK_BG_ENABLE" and t: "sleep_factor (throttle g) > 1"
    and d: "- 100 \<le> sint (dots_remaining (ppu g))" "sint (dots_remaining (ppu g)) \<le> 20000"
    and l: "mode (ppu g) \<noteq> PPU_VBLANK \<Longrightarrow> uint (ly (ppu g)) \<le> 143"
  defines "s \<equiv> abs_clock (ppu g)"
  obtains h where "change_phase g = Some h" "refresh_frame g (mode (ppu g) = PPU_VBLANK) h"
    "abs_clock (ppu h) =
      (case pmode s of
         PPU_HBLANK \<Rightarrow> (if pline s + 1 \<ge> 144
            then s\<lparr>pmode := PPU_VBLANK, pline := pline s + 1, pdots := pdots s + 4560, pvdots := 0\<rparr>
            else s\<lparr>pmode := PPU_OAM, pline := pline s + 1, pdots := pdots s + 80\<rparr>)
       | PPU_VBLANK \<Rightarrow> s\<lparr>pmode := PPU_OAM, pline := 0, pdots := pdots s + 80\<rparr>
       | PPU_OAM \<Rightarrow> s\<lparr>pmode := PPU_DRAW, pdots := pdots s + 230\<rparr>
       | PPU_DRAW \<Rightarrow> s\<lparr>pmode := PPU_HBLANK, pdots := pdots s + 145\<rparr>)"
proof -
  have m: "pmode (abs_clock (ppu g)) = mode (ppu g)" by (simp add: abs_clock_def)
  show thesis
  proof (cases "mode (ppu g)")
    case PPU_HBLANK
    then show thesis
      using hblank_end_abs [OF g l d]
      by (intro that [of "hblank_end_cycle g"]) (simp_all add: change_phase_def m s_def)
  next
    case PPU_VBLANK
    let ?g = "render_draw_framebuffer g"
    have f: "ppu ?g = ppu g" "throttle ?g = throttle g" "gb_ok ?g"
      using g by (simp_all add: render_draw_framebuffer_def gb_ok_def)
    obtain h where "vblank_end_cycle ?g = Some h"
      "abs_clock (ppu h) = (abs_clock (ppu ?g))\<lparr>pmode := PPU_OAM, pline := 0, pdots := pdots (abs_clock (ppu ?g)) + 80\<rparr>"
      "refresh_frame ?g True h"
      using vblank_end_abs [of ?g] f d t by metis
    then show thesis
      using PPU_VBLANK by (intro that) (simp_all add: change_phase_def m s_def f refresh_frame_def)
  next
    case PPU_OAM
    then show thesis
      using oam_end_abs [OF g d]
      by (intro that [of "on_ppu oam_end_cycle g"]) (simp_all add: change_phase_def m s_def)
  next
    case PPU_DRAW
    then have "uint (ly (ppu g)) \<le> 143" using l by simp
    then obtain h where "draw_end_cycle g = Some h"
      "abs_clock (ppu h) = s\<lparr>pmode := PPU_HBLANK, pdots := pdots s + 145\<rparr>" "refresh_frame g False h"
      using draw_end_abs [OF g _ bg d] unfolding s_def by blast
    then show thesis using PPU_DRAW by (intro that) (simp_all add: change_phase_def m s_def)
  qed
qed

lemma ppu_refresh_abs:
  assumes g: "ppu_running g" and t: "1 \<le> uint ticks" "uint ticks \<le> 6"
  defines "r \<equiv> clock_step (uint ticks) (abs_clock (ppu g))"
  obtains h where "ppu_refresh ticks g = Some h" "abs_clock (ppu h) = fst r" "refresh_frame g (snd r) h"
proof -
  let ?s = "abs_clock (ppu g)" and ?g1 = "on_ppu (add_dots (- CYCLES_TO_DOTS ticks)) g"
  have inv: "clock_inv ?s" and ok: "gb_ok g" and on: "has (lcdc (ppu g)) LCDC_BITMASK_PPU_ENABLE"
    and bg: "has (lcdc (ppu g)) LCDC_BITMASK_BG_ENABLE" and sl: "sleep_factor (throttle g) > 1"
    using g by (simp_all add: ppu_running_def)
  have ticks: "ticks \<noteq> 0" using t by auto
  have b: "0 < pdots ?s" "pdots ?s \<le> 4560"
    using inv by (cases "pmode ?s"; simp add: clock_inv_def)+
  have d: "sint (dots_remaining (ppu ?g1)) = pdots ?s - 4 * uint ticks"
    using b t by (simp add: sint_add_dots CYCLES_TO_DOTS_eq abs_clock_def)
  have s1: "abs_clock (ppu ?g1) = ?s\<lparr>pdots := pdots ?s - 4 * uint ticks\<rparr>"
    using d by (simp add: abs_clock_def)
  have f1: "gb_ok ?g1" "throttle ?g1 = throttle g" "lcdc (ppu ?g1) = lcdc (ppu g)"
    "frame_count (ppu ?g1) = frame_count (ppu g)" "mode (ppu ?g1) = pmode ?s" "uint (ly (ppu ?g1)) = pline ?s"
    "uint (vblank_dots (ppu ?g1)) = pvdots ?s"
    using ok by (simp_all add: gb_ok_def abs_clock_def)
  have line: "(ly (ppu ?g1) = 0x99) = (pline ?s = 153)"
    by (simp add: abs_clock_def word_uint_eq_iff)
  have r: "ppu_refresh ticks g =
    (if pdots ?s - 4 * uint ticks \<le> 0 \<or> pline ?s = 153 then change_phase ?g1
     else if pmode ?s = PPU_VBLANK then Some (vblank_line ticks ?g1) else Some ?g1)"
    using on ticks unfolding ppu_refresh_def fix_ticks_def
    by (simp only: if_False if_True simp_thms Let_def prod.case d line f1(5))
  have fr: "refresh_frame g e h" if "refresh_frame ?g1 e h" for e h
    using that unfolding refresh_frame_def f1 .
  show thesis
  proof (cases "pdots ?s - 4 * uint ticks \<le> 0 \<or> pline ?s = 153")
    case True
    have l: "mode (ppu ?g1) \<noteq> PPU_VBLANK \<Longrightarrow> uint (ly (ppu ?g1)) \<le> 143"
      using inv unfolding f1 by (cases "pmode ?s") (simp_all add: clock_inv_def)
    obtain h where h: "change_phase ?g1 = Some h" "refresh_frame ?g1 (mode (ppu ?g1) = PPU_VBLANK) h"
      and a: "abs_clock (ppu h) =
      (case pmode (abs_clock (ppu ?g1)) of
         PPU_HBLANK \<Rightarrow> (if pline (abs_clock (ppu ?g1)) + 1 \<ge> 144
            then (abs_clock (ppu ?g1))\<lparr>pmode := PPU_VBLANK, pline := pline (abs_clock (ppu ?g1)) + 1,
              pdots := pdots (abs_clock (ppu ?g1)) + 4560, pvdots := 0\<rparr>
            else (abs_clock (ppu ?g1))\<lparr>pmode := PPU_OAM, pline := pline (abs_clock (ppu ?g1)) + 1,
              pdots := pdots (abs_clock (ppu ?g1)) + 80\<rparr>)
       | PPU_VBLANK \<Rightarrow> (abs_clock (ppu ?g1))\<lparr>pmode := PPU_OAM, pline := 0, pdots := pdots (abs_clock (ppu ?g1)) + 80\<rparr>
       | PPU_OAM \<Rightarrow> (abs_clock (ppu ?g1))\<lparr>pmode := PPU_DRAW, pdots := pdots (abs_clock (ppu ?g1)) + 230\<rparr>
       | PPU_DRAW \<Rightarrow> (abs_clock (ppu ?g1))\<lparr>pmode := PPU_HBLANK, pdots := pdots (abs_clock (ppu ?g1)) + 145\<rparr>)"
      using change_phase_abs [OF f1(1) _ _ _ _ l] bg sl d b t unfolding f1(2,3) by auto
    have "abs_clock (ppu h) = fst r" "(mode (ppu ?g1) = PPU_VBLANK) = snd r"
      unfolding a s1 r_def clock_step_def Let_def f1(5) using True by (cases "pmode ?s"; simp)+
    with h r True fr show thesis by (intro that) simp_all
  next
    case False
    show thesis
    proof (cases "pmode ?s = PPU_VBLANK")
      case True
      have "uint (ly (ppu ?g1)) \<le> 152" "uint (vblank_dots (ppu ?g1)) < 456"
        using inv False unfolding f1 by (simp_all add: clock_inv_def True)
      note v = vblank_line_abs [OF f1(1) this t(2), unfolded s1]
      have "abs_clock (ppu (vblank_line ticks ?g1)) = fst r" "snd r = False"
        unfolding conjunct1 [OF v] r_def clock_step_def Let_def using False True by simp_all
      with r False True fr [OF conjunct2 [OF v]] show thesis by (intro that) simp_all
    next
      case m: False
      have "refresh_frame g False ?g1" using f1 ok by (simp add: refresh_frame_def)
      moreover have "abs_clock (ppu ?g1) = fst r" "snd r = False"
        unfolding s1 r_def clock_step_def Let_def using False m by simp_all
      ultimately show thesis using r False m by (intro that) simp_all
    qed
  qed
qed

end
