(* ===== verification/Emulator.thy ===== *)
theory Emulator
  imports Ppu_Clock Cpu_Exec_Facts
begin

text \<open>
  The emulator as a transition system: one step is \<open>exec_next\<close> of src/monitor.c.  The
  properties of the PPU clock over whole runs, and the invariant of the reachable states.
\<close>

section \<open>Runs of the PPU clock\<close>

lemma ppu_running_refresh:
  assumes g: "ppu_running g" and t: "1 \<le> uint ticks" "uint ticks \<le> 6" and s: "sleep_factor (throttle g) > 2"
  obtains h where "ppu_refresh ticks g = Some h" "ppu_running h"
    "abs_clock (ppu h) = fst (clock_step (uint ticks) (abs_clock (ppu g)))"
    "frame_count (ppu h) = frame_count (ppu g) + of_bool (snd (clock_step (uint ticks) (abs_clock (ppu g))))"
    "sleep_factor (throttle g) - 1 \<le> sleep_factor (throttle h)"
proof -
  obtain h where h: "ppu_refresh ticks g = Some h"
    "abs_clock (ppu h) = fst (clock_step (uint ticks) (abs_clock (ppu g)))"
    "refresh_frame g (snd (clock_step (uint ticks) (abs_clock (ppu g)))) h"
    by (rule ppu_refresh_abs [OF g t])
  moreover have "clock_inv (fst (clock_step (uint ticks) (abs_clock (ppu g))))"
    using g t by (intro clock_inv_step) (simp_all add: ppu_running_def)
  ultimately show thesis
    using g s by (intro that [of h]) (simp_all add: ppu_running_def refresh_frame_def split: if_splits)
qed

lemma ppu_refresh_refines_aux:
  assumes "ppu_running g" "1 \<le> uint ticks" "uint ticks \<le> 6"
  shows "\<exists>h. ppu_refresh ticks g = Some h \<and> gb_ok h \<and> clock_inv (abs_clock (ppu h)) \<and>
    abs_clock (ppu h) = fst (clock_step (uint ticks) (abs_clock (ppu g))) \<and>
    frame_count (ppu h) = frame_count (ppu g) + of_bool (snd (clock_step (uint ticks) (abs_clock (ppu g))))"
proof -
  have "clock_inv (fst (clock_step (uint ticks) (abs_clock (ppu g))))"
    using assms by (intro clock_inv_step) (simp_all add: ppu_running_def)
  then show ?thesis
    using ppu_refresh_abs [OF assms] unfolding refresh_frame_def by metis
qed

text \<open>C3: \<open>ppu_refresh\<close> refines the abstract clock: from a running state with the background
  enabled, a refresh of one to six cycles returns, the mode, the line and both dot counters of the result
  are those of the abstract machine on integers (none of the 8, 16 and 32 bit counters wraps around),
  the frame counter advances exactly when the abstract machine ends a frame, and the invariants hold.\<close>

theorem ppu_refresh_refines:
  assumes "ppu_running g" "1 \<le> uint ticks" "uint ticks \<le> 6"
  shows "\<exists>h. ppu_refresh ticks g = Some h \<and> gb_ok h \<and> clock_inv (abs_clock (ppu h)) \<and>
    abs_clock (ppu h) = fst (clock_step (uint ticks) (abs_clock (ppu g))) \<and>
    frame_count (ppu h) = frame_count (ppu g) + of_bool (snd (clock_step (uint ticks) (abs_clock (ppu g))))"
proof -
  have "clock_inv (fst (clock_step (uint ticks) (abs_clock (ppu g))))"
    using assms by (intro clock_inv_step) (simp_all add: ppu_running_def)
  then show ?thesis
    using ppu_refresh_abs [OF assms] unfolding refresh_frame_def by metis
qed

text \<open>A machine that has just enabled the LCD and the background.\<close>

definition lcd_sample :: gb where
  "lcd_sample = on_ppu (wr_lcdc 0x91) sample_gb"

lemma lcd_sample_clock:
  "abs_clock (ppu lcd_sample) = \<lparr>pmode = PPU_OAM, pline = 0, pdots = 80, pvdots = 0\<rparr>"
  by (simp add: abs_clock_def lcd_sample_def sample_gb_def power_on_def ppu0_def wr_lcdc_def
      ppu_reset_def DOTS_OAM_def)

lemma lcd_sample_lcdc: "lcdc (ppu lcd_sample) = 0x91"
  by (simp add: lcd_sample_def wr_lcdc_def)

lemma lcd_sample_running: "ppu_running lcd_sample"
proof -
  have "gb_ok lcd_sample"
    using sample_gb_ok by (simp add: lcd_sample_def gb_ok_def wr_lcdc_def ppu_reset_def Let_def)
  moreover have "sleep_factor (throttle lcd_sample) = 60"
    by (simp add: lcd_sample_def sample_gb_def power_on_def throttle0_def)
  ultimately show ?thesis
    by (simp add: ppu_running_def lcd_sample_clock lcd_sample_lcdc clock_inv_def has_def lcdc_defs)
qed

theorem ppu_refresh_refines_witness:
  "\<exists>h. ppu_refresh 4 lcd_sample = Some h \<and> mode (ppu h) = PPU_OAM \<and> sint (dots_remaining (ppu h)) = 64"
proof -
  obtain h where h: "ppu_refresh 4 lcd_sample = Some h"
    and c: "abs_clock (ppu h) = fst (clock_step (uint (4::u8)) (abs_clock (ppu lcd_sample)))"
    using ppu_refresh_refines [OF lcd_sample_running, of 4] by auto
  have "abs_clock (ppu h) = \<lparr>pmode = PPU_OAM, pline = 0, pdots = 64, pvdots = 0\<rparr>"
    unfolding c lcd_sample_clock by (simp add: clock_step_def)
  with h show ?thesis by (simp add: abs_clock_def)
qed



section \<open>Runs of the emulator\<close>

text \<open>What an instruction may do to the clock of an enabled PPU: leave it alone, or reset it
  through LCDC.  A write to LY (0xff44) is what it excludes.\<close>

definition clock_kept :: "ppu_t \<Rightarrow> ppu_t \<Rightarrow> bool" where
  "clock_kept p q \<longleftrightarrow>
    (has (lcdc q) LCDC_BITMASK_PPU_ENABLE \<longrightarrow>
      (has (lcdc p) LCDC_BITMASK_PPU_ENABLE \<and> abs_clock q = abs_clock p) \<or>
      (mode q = PPU_OAM \<and> uint (ly q) = 0 \<and> sint (dots_remaining q) = DOTS_OAM))"

lemma clock_kept_refl [simp]: "clock_kept p p"
  by (simp add: clock_kept_def)

lemma clock_kept_trans: "clock_kept p q \<Longrightarrow> clock_kept q r \<Longrightarrow> clock_kept p r"
  by (auto simp: clock_kept_def abs_clock_def)

lemma clock_kept_same:
  "lcdc q = lcdc p \<Longrightarrow> mode q = mode p \<Longrightarrow> ly q = ly p \<Longrightarrow> dots_remaining q = dots_remaining p \<Longrightarrow>
    vblank_dots q = vblank_dots p \<Longrightarrow> clock_kept p q"
  by (simp add: clock_kept_def abs_clock_def)

text \<open>A write keeps the clock if it returns only states that do.\<close>

definition keeps_clock :: "gb \<Rightarrow> gb option \<Rightarrow> bool" where
  "keeps_clock g m \<longleftrightarrow> (\<forall>h. m = Some h \<longrightarrow> clock_kept (ppu g) (ppu h))"

lemma keeps_clock_simps [simp]:
  "keeps_clock g None" "keeps_clock g (Some h) \<longleftrightarrow> clock_kept (ppu g) (ppu h)"
  by (simp_all add: keeps_clock_def)

lemma keeps_clock_parts [simp]:
  "keeps_clock g (gb_cpu_wr a v g)" "keeps_clock g (gb_mbc_wr a v g)" "keeps_clock g (gb_io_wr a v g)"
  by (auto simp: keeps_clock_def gb_cpu_wr_def gb_mbc_wr_def gb_io_wr_def bind_eq_Some)

lemma keeps_clock_oam: "gb_ok g \<Longrightarrow> i < 0xa0 \<Longrightarrow> keeps_clock g (ppu_wr_oam i v g)"
  using ppu_wr_oam_spec [of g i v] by (auto intro!: clock_kept_same)

lemma keeps_clock_dma: "gb_ok g \<Longrightarrow> keeps_clock g (dma_loop i src g)"
proof (induction "0xa0 - i" arbitrary: i g)
  case 0
  then show ?case by (simp add: dma_loop.simps [of i])
next
  case (Suc n)
  then have i: "i < 0xa0" by simp
  obtain v where v: "monitor_rd_mem (src + of_nat i) g = Some v" using rd_total by blast
  obtain h where h: "ppu_wr_oam i v g = Some h" "gb_ok h"
    using ppu_wr_oam_ok [OF Suc.prems i, of v] by (auto simp: wr_ok_def returns_iff)
  have "keeps_clock h (dma_loop (i + 1) src h)" using Suc h(2) by simp
  moreover have "clock_kept (ppu g) (ppu h)"
    using keeps_clock_oam [OF Suc.prems i, of v] h(1) by simp
  ultimately have "keeps_clock g (dma_loop (i + 1) src h)"
    unfolding keeps_clock_def using clock_kept_trans by blast
  then show ?case using i v h(1) by (simp add: dma_loop.simps [of i] wr_oam [OF i])
qed

lemma clock_kept_lcdc: "clock_kept p (wr_lcdc v p)"
proof (cases "lcdc p AND 0x80 = v AND 0x80")
  case True
  then show ?thesis
    by (simp add: clock_kept_def wr_lcdc_def abs_clock_def has_def LCDC_BITMASK_PPU_ENABLE_def)
next
  case False
  then show ?thesis
    by (simp add: clock_kept_def wr_lcdc_def ppu_reset_def DOTS_OAM_def Let_def)
qed

lemma keeps_clock_reg: "gb_ok g \<Longrightarrow> a \<noteq> 0xff44 \<Longrightarrow> keeps_clock g (wr_reg a v g)"
  unfolding wr_reg.simps [of a]
  using keeps_clock_dma [of g 0 "push_bit 8 (ucast v)"]
  by (simp add: clock_kept_lcdc clock_kept_same)



text \<open>The invariant of the whole machine.\<close>

definition emu_inv :: "gb \<Rightarrow> bool" where
  "emu_inv g \<longleftrightarrow> gb_ok g \<and>
    (has (lcdc (ppu g)) LCDC_BITMASK_PPU_ENABLE \<longrightarrow> clock_inv (abs_clock (ppu g)))"

lemma emu_inv_power_on: "emu_inv (power_on m clk buf)"
proof -
  have "lcdc (ppu (power_on m clk buf)) = 0" by (simp add: power_on_def ppu0_def)
  then show ?thesis by (simp add: emu_inv_def gb_ok_power_on has_def)
qed

lemma clock_inv_reset:
  "mode p = PPU_OAM \<Longrightarrow> uint (ly p) = 0 \<Longrightarrow> sint (dots_remaining p) = DOTS_OAM \<Longrightarrow> clock_inv (abs_clock p)"
  by (simp add: clock_inv_def abs_clock_def DOTS_OAM_def)

lemma emu_inv_kept: "emu_inv g \<Longrightarrow> gb_ok k \<Longrightarrow> clock_kept (ppu g) (ppu k) \<Longrightarrow> emu_inv k"
  by (auto simp: emu_inv_def clock_kept_def clock_inv_reset)

lemma clock_inv_bounds:
  "clock_inv s \<Longrightarrow> 0 < pdots s \<and> pdots s \<le> DOTS_VBLANK \<and>
    (if pmode s = PPU_VBLANK then 144 \<le> pline s \<and> pline s \<le> 153 else pline s \<le> 143)"
  by (cases "pmode s") (auto simp: clock_inv_def DOTS_VBLANK_def)

text \<open>One step: an instruction that does not tamper with the clock, and then the PPU.  A background
  that is enabled whenever the LCD is, and a limiter that cannot divide by zero, are what the PPU
  needs.\<close>

definition displayable :: "gb \<Rightarrow> bool" where
  "displayable g \<longleftrightarrow> sleep_factor (throttle g) > 1 \<and>
    (has (lcdc (ppu g)) LCDC_BITMASK_PPU_ENABLE \<longrightarrow> has (lcdc (ppu g)) LCDC_BITMASK_BG_ENABLE)"

inductive emu_step :: "gb \<Rightarrow> gb \<Rightarrow> bool" where
  exec: "cpu_exec_next g = Some (n, k) \<Longrightarrow> clock_kept (ppu g) (ppu k) \<Longrightarrow> displayable k \<Longrightarrow>
    ppu_refresh (word_of_int n) k = Some h \<Longrightarrow> emu_step g h"

inductive_cases emu_stepE: "emu_step g h"

inductive emu_reach :: "gb \<Rightarrow> bool" where
  start: "emu_reach (power_on m clk buf)"
| step: "emu_reach g \<Longrightarrow> emu_step g h \<Longrightarrow> emu_reach h"

lemma emu_step_exec_next: "emu_step g h \<Longrightarrow> exec_next g = Some h"
  by (erule emu_stepE) (simp add: exec_next_def)

lemma emu_inv_refresh:
  assumes i: "emu_inv k" and d: "displayable k" and n: "1 \<le> n" "n \<le> 6"
  obtains h where "ppu_refresh (word_of_int n) k = Some h" "emu_inv h"
proof (cases "has (lcdc (ppu k)) LCDC_BITMASK_PPU_ENABLE")
  case False
  then show thesis using i by (intro that [of k]) (simp_all add: ppu_refresh_def)
next
  case True
  then have r: "ppu_running k" using i d by (simp add: ppu_running_def emu_inv_def displayable_def)
  have u: "uint (word_of_int n :: u8) = n"
    unfolding uint_wi8 using n by (intro mod_pos_pos_trivial) simp_all
  obtain h where "ppu_refresh (word_of_int n) k = Some h" "gb_ok h" "clock_inv (abs_clock (ppu h))"
    using ppu_refresh_refines_aux [OF r, of "word_of_int n"] n unfolding u by blast
  then show thesis by (intro that [of h]) (simp_all add: emu_inv_def)
qed

lemma emu_inv_step:
  assumes "emu_inv g" "emu_step g h"
  shows "emu_inv h"
proof -
  obtain n k where e: "cpu_exec_next g = Some (n, k)" "clock_kept (ppu g) (ppu k)" "displayable k"
    "ppu_refresh (word_of_int n) k = Some h"
    using assms(2) by (rule emu_stepE)
  have "gb_ok g" using assms(1) by (simp add: emu_inv_def)
  then have k: "1 \<le> n" "n \<le> 6" "gb_ok k" using cpu_exec_next_ok [of g] e(1) by auto
  have "emu_inv k" by (rule emu_inv_kept [OF assms(1) k(3) e(2)])
  then obtain h' where "ppu_refresh (word_of_int n) k = Some h'" "emu_inv h'"
    using emu_inv_refresh [OF _ e(3) k(1,2)] by blast
  then show ?thesis using e(4) by simp
qed


text \<open>One step from power on: the cartridge executes a NOP.\<close>

lemma dispatch_nop: "ops_table_dispatch 0 False g = Some (1, g)"
proof -
  have "dispatch_index 0 False = 0" by (simp add: dispatch_index_def)
  moreover have "table_ops \<noteq> []" "table_ops ! 0 = I_nop"
    by (simp_all add: table_ops_def table_ops_0_def)
  ultimately show ?thesis by (simp add: ops_table_dispatch_def op_nop_def)
qed

definition nop_done :: gb where
  "nop_done = on_cpu (\<lambda>c. c\<lparr>cycles := 1, div_counter := 1\<rparr>) (ADVANCE_PC 1 sample_gb)"

lemma sample_nop: "cpu_exec_next sample_gb = Some (1, nop_done)"
proof -
  have r: "monitor_rd_mem (R16 REG_PC sample_gb) sample_gb = Some 0"
    by (simp add: sample_gb_def power_on_def gregs_def cpu0_def registers0_def monitor_rd_mem_def
        sample_cart_def mbc1_rd_mem_def arr_rd_def MBC1_ROM_SIZE_def)
  have f: "fetch sample_gb = Some (0, False, ADVANCE_PC 1 sample_gb)"
    unfolding fetch_def r by (simp add: OPCODE_PREFIX_def)
  have h: "\<not> is_halted (cpu sample_gb)" by (simp add: sample_gb_def power_on_def cpu0_def)
  have e: "execute sample_gb = Some (1, on_cpu (add_cycles 1) (ADVANCE_PC 1 sample_gb))"
    unfolding execute_def f using h by (simp add: dispatch_nop)
  have d: "on_cpu (div_step 1) (on_cpu (add_cycles 1) (ADVANCE_PC 1 sample_gb)) = nop_done"
    by (simp add: nop_done_def on_cpu_def ADVANCE_PC_def on_regs_def div_step_def add_cycles_def
        sample_gb_def power_on_def cpu0_def)
  have t: "timer_step 1 (cpu nop_done) = Some (cpu nop_done)"
    by (simp add: timer_step_def nop_done_def ADVANCE_PC_def sample_gb_def power_on_def cpu0_def)
  have "handle_intrs (nop_done\<lparr>cpu := cpu nop_done\<rparr>) = Some nop_done"
    by (simp add: handle_intrs_def nop_done_def ADVANCE_PC_def sample_gb_def power_on_def cpu0_def)
  then show ?thesis 
    by (simp only: cpu_exec_next_def e d t Option.bind.simps prod.case)
qed

lemma nop_done_ppu: "ppu nop_done = ppu sample_gb" "throttle nop_done = throttle sample_gb"
  by (simp_all add: nop_done_def ADVANCE_PC_def)

lemma sample_ppu_off: "lcdc (ppu sample_gb) = 0" "sleep_factor (throttle sample_gb) = 60"
  by (simp_all add: sample_gb_def power_on_def ppu0_def throttle0_def)

lemma sample_step: "emu_step sample_gb nop_done"
proof (rule emu_step.exec [OF sample_nop])
  show "displayable nop_done" by (simp add: displayable_def nop_done_ppu sample_ppu_off has_def)
  show "ppu_refresh (word_of_int 1) nop_done = Some nop_done"
    by (simp add: ppu_refresh_def nop_done_ppu sample_ppu_off has_def)
qed (simp add: nop_done_ppu)

lemma exec_next_nop: "exec_next sample_gb = Some nop_done"
  by (simp add: exec_next_def sample_nop ppu_refresh_def nop_done_ppu sample_ppu_off has_def)




end
