(* ===== verification/Peek.thy ===== *)
theory Peek
  imports Cpu_Exec_Facts
begin

text \<open>
  The peek interface of src/include/monitor.h, through which the debug server reads the
  state of the modules: \<open>cpu_peek\<close> and \<open>peek_get_cpu_reg\<close> of src/emu/cpu/cpu.c, \<open>ppu_peek\<close>
  and \<open>peek_get_ppu_reg\<close> of src/emu/ppu.c.  A reply is the list of the 32-bit words of its
  payload; its size in bytes is four times the length.
\<close>

datatype cpu_peek_type = CPU_PEEK_REG | CPU_PEEK_ADDR | CPU_PEEK_INSTR_AT_ADDR | CPU_PEEK_OP_LEN

datatype ppu_peek_type = PPU_PEEK_REG

datatype peek_subtype = PEEK_CPU cpu_peek_type | PEEK_PPU ppu_peek_type

text \<open>The registers of \<open>enum cpu_reg\<close> are numbered from 0; any other number gives \<open>(uint16_t)-1\<close>.\<close>

definition peek_get_cpu_reg :: "u32 \<Rightarrow> gb \<Rightarrow> u16" where
  "peek_get_cpu_reg r g =
    (if r = 0 then get16 REG_AF (gregs g)
     else if r = 1 then get16 REG_BC (gregs g)
     else if r = 2 then get16 REG_DE (gregs g)
     else if r = 3 then get16 REG_HL (gregs g)
     else if r = 4 then get16 REG_SP (gregs g)
     else if r = 5 then get16 REG_PC (gregs g)
     else 0xffff)"

definition CPU_REG_PC :: u32 where "CPU_REG_PC = 5"

text \<open>The bytes of an instruction, the loop of the case \<open>CPU_PEEK_INSTR_AT_ADDR\<close> from \<open>i\<close> on.\<close>

fun peek_bytes :: "u32 \<Rightarrow> nat list \<Rightarrow> gb \<Rightarrow> u32 list option" where
  "peek_bytes req [] g = Some []"
| "peek_bytes req (i # is) g =
    do { b \<leftarrow> monitor_rd_mem (ucast (req + of_nat i)) g;
         bs \<leftarrow> peek_bytes req is g;
         Some (ucast b # bs) }"

definition cpu_peek :: "cpu_peek_type \<Rightarrow> u32 \<Rightarrow> gb \<Rightarrow> u32 list option" where
  "cpu_peek t req g =
    (case t of
       CPU_PEEK_REG \<Rightarrow> Some [ucast (peek_get_cpu_reg req g)]
     | CPU_PEEK_ADDR \<Rightarrow> do { b \<leftarrow> monitor_rd_mem (ucast req) g; Some [ucast b] }
     | CPU_PEEK_INSTR_AT_ADDR \<Rightarrow>
         do { opcode \<leftarrow> monitor_rd_mem (ucast req) g;
              n \<leftarrow> (if opcode = OPCODE_PREFIX then Some 2 else arr_rd 256 (nth op_len) (uint opcode));
              bs \<leftarrow> peek_bytes req [1..<n] g;
              Some (ucast opcode # bs) }
     | CPU_PEEK_OP_LEN \<Rightarrow> do { n \<leftarrow> arr_rd 256 (nth op_len) (uint req); Some [of_nat n] })"

definition peek_get_ppu_reg :: "u32 \<Rightarrow> gb \<Rightarrow> u16 option" where
  "peek_get_ppu_reg r g =
    (if r = 0xff44 then do { b \<leftarrow> ppu_rd 0xff44 (ppu g); Some (ucast b) } else Some 0xffff)"

definition ppu_peek :: "ppu_peek_type \<Rightarrow> u32 \<Rightarrow> gb \<Rightarrow> u32 list option" where
  "ppu_peek t req g =
    (case t of PPU_PEEK_REG \<Rightarrow> do { v \<leftarrow> peek_get_ppu_reg req g; Some [ucast v] })"

section \<open>Peeking never fails on a consistent machine\<close>

lemma peek_pc: "cpu_peek CPU_PEEK_REG CPU_REG_PC g = Some [ucast (get16 REG_PC (gregs g))]"
  by (simp add: cpu_peek_def peek_get_cpu_reg_def CPU_REG_PC_def)

lemma peek_bytes_total: "\<exists>bs. peek_bytes req is g = Some bs \<and> length bs = length is"
proof (induction "is")
  case (Cons i "is")
  then obtain bs where "peek_bytes req is g = Some bs" "length bs = length is" by blast
  moreover obtain b where "monitor_rd_mem (ucast (req + of_nat i)) g = Some b" using rd_total by blast
  ultimately show ?case by simp
qed simp

lemma op_len_256: "arr_rd 256 (nth op_len) (uint (op :: u8)) = Some (op_len ! unat op)"
  using uint_u8_bounds [of op] by (simp add: arr_rd_def)

text \<open>Everything but an opcode number above 255 can be asked for.\<close>

lemma cpu_peek_total:
  "t \<noteq> CPU_PEEK_OP_LEN \<Longrightarrow> \<exists>ws. cpu_peek t req g = Some ws"
proof (cases t)
  case CPU_PEEK_ADDR
  then show ?thesis using rd_total [of "ucast req" g] by (auto simp: cpu_peek_def)
next
  case CPU_PEEK_INSTR_AT_ADDR
  obtain op where op: "monitor_rd_mem (ucast req) g = Some op" using rd_total by blast
  let ?n = "if op = OPCODE_PREFIX then 2 else op_len ! unat op"
  obtain bs where "peek_bytes req [1..<?n] g = Some bs" using peek_bytes_total by blast
  with op CPU_PEEK_INSTR_AT_ADDR show ?thesis by (auto simp: cpu_peek_def op_len_256)
qed (auto simp: cpu_peek_def)

lemma op_len_peek: "cpu_peek CPU_PEEK_OP_LEN req g =
    (if req < 256 then Some [of_nat (op_len ! unat req)] else None)"
  by (auto simp: cpu_peek_def arr_rd_def word_less_alt)

lemma ppu_peek_total: "\<exists>ws. ppu_peek t req g = Some ws"
  by (cases t) (auto simp: ppu_peek_def peek_get_ppu_reg_def ppu_rd_def)

end
