(* ===== verification/List_Container.thy ===== *)
theory List_Container
  imports Prelude
begin

text \<open>
  The growing array of src/list.c, which keeps the breakpoints of the debug server.
  \<open>list_t\<close> holds a pointer to \<open>capacity\<close> cells of which the first \<open>length\<close> are in use;
  here \<open>items\<close> is the content of the cells, checked against \<open>capacity\<close>, and \<open>elems\<close> is the
  list it stands for.  What \<open>malloc\<close> and \<open>realloc\<close> return is an argument: \<open>None\<close> when
  they fail, otherwise the content of the fresh cells.
\<close>

section \<open>The operations\<close>

record list_t =
  capacity :: int
  len :: int
  items :: "u64 arr"

definition INT_MAX :: int where "INT_MAX = 2 ^ 31 - 1"

text \<open>\<open>None\<close> is the null pointer: one of the two allocations failed.\<close>

definition create_list :: "bool \<Rightarrow> u64 arr option \<Rightarrow> list_t option" where
  "create_list alloc mem =
    (if alloc then
       case mem of None \<Rightarrow> None | Some a \<Rightarrow> Some \<lparr>capacity = 10, len = 0, items = a\<rparr>
     else None)"

text \<open>\<open>realloc\<close> keeps the old cells.  When it fails \<open>items\<close> is null, and its only caller
  writes to \<open>items\<close> next.\<close>

definition list_resize :: "u64 arr option \<Rightarrow> list_t \<Rightarrow> list_t option" where
  "list_resize mem l =
    (if len l = capacity l then
       if capacity l * 2 \<le> INT_MAX then
         do { fresh \<leftarrow> mem;
              Some (l\<lparr>capacity := capacity l * 2,
                items := (\<lambda>i. if int i < capacity l then items l i else fresh i)\<rparr>) }
       else None
     else Some l)"

definition list_add :: "u64 arr option \<Rightarrow> u64 \<Rightarrow> list_t \<Rightarrow> list_t option" where
  "list_add mem item l =
    do { l \<leftarrow> list_resize mem l;
         a \<leftarrow> arr_wr (nat (capacity l)) (items l) (len l) item;
         Some (l\<lparr>items := a, len := len l + 1\<rparr>) }"

text \<open>\<open>sizeof(void*) * (list->length - index)\<close> is a \<open>size_t\<close>: a negative difference becomes a
  huge number of bytes, and \<open>memmove\<close> leaves the array.\<close>

definition move_bytes :: "int \<Rightarrow> int" where
  "move_bytes n = (8 * n) mod 2 ^ 64"

definition list_del :: "int \<Rightarrow> list_t \<Rightarrow> list_t option" where
  "list_del index l =
    (let n = len l - 1; b = move_bytes (n - index)
     in if 0 \<le> index \<and> 8 * (index + 1) + b \<le> 8 * capacity l then
          Some (l\<lparr>len := n,
            items := (\<lambda>i. if index \<le> int i \<and> int i < index + b div 8 then items l (i + 1) else items l i)\<rparr>)
        else None)"

text \<open>
  \<open>list_for_each\<close> with a body that breaks when \<open>P\<close> holds, from index \<open>i\<close> on.  It returns the
  index, the variable of the loop, and whether the body broke.  The variable is read before
  the bound is tested, so the loop ends with a read of the cell behind the last element.
\<close>

function list_scan :: "(u64 \<Rightarrow> bool) \<Rightarrow> list_t \<Rightarrow> nat \<Rightarrow> (nat \<times> u64 \<times> bool) option" where
  "list_scan P l i =
    do { var \<leftarrow> arr_rd (nat (capacity l)) (items l) (int i);
         if int i < len l then if P var then Some (i, var, True) else list_scan P l (i + 1)
         else Some (i, var, False) }"
  by pat_completeness auto

termination
  by (relation "measure (\<lambda>(P, l, i). nat (len l - int i))") auto

declare list_scan.simps [simp del]

text \<open>\<open>j\<close> counts the iterations; a break after the count leaves it one above the index.\<close>

definition list_remove :: "u64 \<Rightarrow> list_t \<Rightarrow> list_t option" where
  "list_remove item l =
    do { (i, match, broke) \<leftarrow> list_scan (\<lambda>m. m = item) l 0;
         let j = (if broke then i + 1 else i)
         in if match = 0 then Some l else list_del (int j) l }"

section \<open>What the container stands for\<close>

definition elems :: "list_t \<Rightarrow> u64 list" where
  "elems l = map (items l) [0..<nat (len l)]"

definition list_ok :: "list_t \<Rightarrow> bool" where
  "list_ok l = (0 \<le> len l \<and> len l \<le> capacity l \<and> 10 \<le> capacity l \<and> capacity l \<le> INT_MAX)"

definition may_grow :: "list_t \<Rightarrow> bool" where
  "may_grow l = (len l < capacity l \<or> capacity l * 2 \<le> INT_MAX)"

lemma list_okD: "list_ok l \<Longrightarrow> 0 \<le> len l" "list_ok l \<Longrightarrow> len l \<le> capacity l"
  "list_ok l \<Longrightarrow> 10 \<le> capacity l" "list_ok l \<Longrightarrow> capacity l \<le> INT_MAX"
  by (simp_all add: list_ok_def)

lemma length_elems [simp]: "length (elems l) = nat (len l)"
  by (simp add: elems_def)

lemma nth_elems [simp]: "int k < len l \<Longrightarrow> elems l ! k = items l k"
  by (simp add: elems_def)

lemma set_elems: "x \<in> set (elems l) \<longleftrightarrow> (\<exists>k. int k < len l \<and> items l k = x)"
  by (auto simp: elems_def image_iff Bex_def zless_nat_eq_int_zless)

lemma create_list_ok: "create_list True (Some a) = Some l \<Longrightarrow> list_ok l \<and> elems l = []"
  by (auto simp: create_list_def list_ok_def elems_def INT_MAX_def)

lemma list_add_appends:
  assumes "list_ok l" "may_grow l"
  shows "\<exists>l'. list_add (Some fresh) item l = Some l' \<and> list_ok l' \<and> elems l' = elems l @ [item]"
proof (cases "len l = capacity l")
  case True
  with assms show ?thesis
    by (auto simp: list_add_def list_resize_def may_grow_def arr_wr_def list_ok_def elems_def
        nat_add_distrib intro!: nth_equalityI)
next
  case False
  with assms show ?thesis
    by (auto simp: list_add_def list_resize_def may_grow_def arr_wr_def list_ok_def elems_def
        nat_add_distrib intro!: nth_equalityI)
qed

section \<open>Searching\<close>

lemma cell_in: "list_ok l \<Longrightarrow> int i < len l \<Longrightarrow> arr_rd (nat (capacity l)) (items l) (int i) = Some (items l i)"
  by (simp add: list_ok_def zless_nat_eq_int_zless)

lemma list_scan_hit:
  "list_ok l \<Longrightarrow> int i < len l \<Longrightarrow> P (items l i) \<Longrightarrow> list_scan P l i = Some (i, items l i, True)"
  by (subst list_scan.simps) (simp only: cell_in Option.bind.simps if_True)

lemma list_scan_next:
  "list_ok l \<Longrightarrow> int i < len l \<Longrightarrow> \<not> P (items l i) \<Longrightarrow> list_scan P l i = list_scan P l (i + 1)"
  by (subst list_scan.simps) (simp only: cell_in Option.bind.simps if_True if_False)

lemma list_scan_end:
  "len l = int i \<Longrightarrow>
   list_scan P l i = (if len l < capacity l then Some (i, items l i, False) else None)"
  by (subst list_scan.simps) (simp add: arr_rd_def)

text \<open>The search stops at the first element that satisfies \<open>P\<close>.\<close>

lemma list_scan_first:
  assumes "list_ok l" "i \<le> k" "int k < len l" "P (items l k)"
    "\<And>m. i \<le> m \<Longrightarrow> m < k \<Longrightarrow> \<not> P (items l m)"
  shows "list_scan P l i = Some (k, items l k, True)"
  using assms
proof (induction "k - i" arbitrary: i)
  case 0
  then have "i = k" by simp
  with 0 show ?case by (simp add: list_scan_hit)
next
  case (Suc d)
  then have "list_scan P l (i + 1) = Some (k, items l k, True)" by simp
  moreover have "\<not> P (items l i)" "int i < len l" using Suc.hyps(2) Suc.prems by auto
  ultimately show ?case using Suc.prems(1) by (simp add: list_scan_next)
qed

text \<open>A search that finds nothing reads the cell behind the elements: it must be there.\<close>

lemma list_scan_none:
  assumes "list_ok l" "int i \<le> len l" "\<And>m. i \<le> m \<Longrightarrow> int m < len l \<Longrightarrow> \<not> P (items l m)"
  shows "list_scan P l i =
    (if len l < capacity l then Some (nat (len l), items l (nat (len l)), False) else None)"
  using assms
proof (induction "nat (len l - int i)" arbitrary: i)
  case 0
  then have "len l = int i" by simp
  then show ?case by (simp add: list_scan_end)
next
  case (Suc d)
  then have i: "int i < len l" by simp
  have "d = nat (len l - int (i + 1))" using Suc.hyps(2) by simp
  from Suc.hyps(1) [OF this Suc.prems(1)] i Suc.prems(3) have "list_scan P l (i + 1) =
      (if len l < capacity l then Some (nat (len l), items l (nat (len l)), False) else None)"
    by simp
  with i Suc.prems show ?case by (simp add: list_scan_next)
qed

lemma list_scan_member:
  assumes "list_ok l" "x \<in> set (elems l)" "P x"
  shows "\<exists>k y. list_scan P l 0 = Some (k, y, True) \<and> P y"
proof -
  define hit where "hit k \<longleftrightarrow> int k < len l \<and> P (items l k)" for k
  define k where "k = (LEAST k. hit k)"
  from assms(2,3) obtain j where "hit j" by (auto simp: set_elems hit_def)
  then have k: "hit k" unfolding k_def by (rule LeastI)
  have "\<not> P (items l m)" if "m < k" for m
  proof -
    have "\<not> hit m" using that unfolding k_def by (rule not_less_Least)
    moreover have "int m < len l" using that k by (simp add: hit_def)
    ultimately show ?thesis by (simp add: hit_def)
  qed
  then have "list_scan P l 0 = Some (k, items l k, True)"
    using k assms(1) by (intro list_scan_first) (auto simp: hit_def)
  with k show ?thesis by (auto simp: hit_def)
qed

definition list_has :: "(u64 \<Rightarrow> bool) \<Rightarrow> list_t \<Rightarrow> bool option" where
  "list_has P l = do { (i, var, broke) \<leftarrow> list_scan P l 0; Some broke }"

text \<open>Whether some element satisfies \<open>P\<close> is found out unless the array is full and none does.\<close>

lemma list_has_eq:
  assumes "list_ok l"
  shows "list_has P l =
    (if \<exists>x\<in>set (elems l). P x then Some True else if len l < capacity l then Some False else None)"
proof (cases "\<exists>x\<in>set (elems l). P x")
  case True
  with list_scan_member [OF assms] show ?thesis by (fastforce simp: list_has_def)
next
  case False
  have "\<not> P (items l m)" if "int m < len l" for m using that False set_elems [of "items l m" l] by auto
  with assms False show ?thesis by (auto simp: list_has_def list_scan_none list_okD)
qed

section \<open>Removing\<close>

lemma list_del_elems:
  assumes "list_ok l" "0 \<le> index" "index < len l"
  shows "\<exists>l'. list_del index l = Some l' \<and> list_ok l' \<and> len l' = len l - 1 \<and> capacity l' = capacity l \<and>
    elems l' = take (nat index) (elems l) @ drop (nat index + 1) (elems l)"
proof -
  have b: "move_bytes (len l - 1 - index) = 8 * (len l - 1 - index)"
    using assms unfolding move_bytes_def by (intro mod_pos_pos_trivial) (auto simp: list_ok_def INT_MAX_def)
  have "elems l' = take (nat index) (elems l) @ drop (nat index + 1) (elems l)"
    if "l' = l\<lparr>len := len l - 1, items := (\<lambda>i. if index \<le> int i \<and> int i < len l - 1 then items l (i + 1) else items l i)\<rparr>"
    for l'
    using assms by (intro nth_equalityI) (auto simp: that elems_def nth_append min_def list_ok_def)
  with assms b show ?thesis by (auto simp: list_del_def list_ok_def Let_def)
qed

text \<open>Deleting at the length itself moves a negative number of cells.\<close>

lemma list_del_at_end:
  assumes "list_ok l"
  shows "list_del (len l) l = None"
proof -
  have "move_bytes (len l - 1 - len l) = 2 ^ 64 - 8" by (simp add: move_bytes_def)
  with assms show ?thesis by (simp add: list_del_def list_ok_def INT_MAX_def Let_def)
qed

lemma list_scan_key:
  assumes "list_ok l" "k < length (elems l)" "elems l ! k = item" "item \<notin> set (take k (elems l))"
  shows "list_scan (\<lambda>m. m = item) l 0 = Some (k, item, True)"
proof -
  have k: "int k < len l" "items l k = item" using assms(2,3) by simp_all
  have "items l m \<noteq> item" if "m < k" for m
  proof
    assume "items l m = item"
    with that k have "take k (elems l) ! m = item" "m < length (take k (elems l))" by simp_all
    then have "item \<in> set (take k (elems l))" using nth_mem by metis
    with assms(4) show False by simp
  qed
  with k assms(1) list_scan_first [of l 0 k "\<lambda>m. m = item"] show ?thesis by simp
qed

text \<open>C40: Removing an element by its value does not remove it: the neighbour behind its first occurrence
  goes instead, and when the element is the last one the removal leaves the array (a \<open>memmove\<close> of
  nearly \<open>2 ^ 64\<close> bytes).\<close>

theorem list_remove_takes_neighbour:
  assumes "list_ok l" "k < length (elems l)" "elems l ! k = item" "item \<notin> set (take k (elems l))" "item \<noteq> 0"
  shows "if k + 1 < length (elems l)
    then \<exists>l'. list_remove item l = Some l' \<and> list_ok l' \<and> item \<in> set (elems l') \<and>
      elems l' = take (k + 1) (elems l) @ drop (k + 2) (elems l)
    else list_remove item l = None"
proof -
  have r: "list_remove item l = list_del (int (k + 1)) l"
    using list_scan_key [OF assms(1-4)] assms(5) by (simp add: list_remove_def)
  show ?thesis
  proof (cases "k + 1 < length (elems l)")
    case True
    then have "int (k + 1) < len l" by simp
    from list_del_elems [OF assms(1) of_nat_0_le_iff this, unfolded nat_int]
    obtain l' where l': "list_del (int (k + 1)) l = Some l'" "list_ok l'"
        "elems l' = take (k + 1) (elems l) @ drop (k + 2) (elems l)"
      by auto
    have "elems l ! k \<in> set (take (k + 1) (elems l))"
      using True by (simp add: take_Suc_conv_app_nth)
    with l' r assms(3) True show ?thesis by auto
  next
    case False
    with assms(2) have "int (k + 1) = len l" by simp
    with r list_del_at_end [OF assms(1)] False show ?thesis by simp
  qed
qed

definition sample_list :: list_t where
  "sample_list = \<lparr>capacity = 10, len = 2, items = (\<lambda>i. if i = 0 then 0x100 else 0x150)\<rparr>"

lemma sample_list_facts: "list_ok sample_list" "elems sample_list = [0x100, 0x150]"
  by (simp_all add: sample_list_def list_ok_def INT_MAX_def elems_def numeral_2_eq_2)

theorem list_remove_takes_neighbour_witness:
  "\<exists>l'. list_remove 0x100 sample_list = Some l' \<and> elems l' = [0x100]"
  using list_remove_takes_neighbour [of sample_list 0 "0x100"] by (auto simp: sample_list_facts)

section \<open>The container as an interface\<close>

text \<open>The server adds breakpoints and asks whether one of them fits.  This is what it relies on.\<close>

locale word_list =
  fixes add :: "u64 \<Rightarrow> 's \<Rightarrow> 's option"
    and has :: "(u64 \<Rightarrow> bool) \<Rightarrow> 's \<Rightarrow> bool option"
    and contents :: "'s \<Rightarrow> u64 list"
    and good :: "'s \<Rightarrow> bool"
    and room :: "'s \<Rightarrow> bool"
  assumes add_contents: "good s \<Longrightarrow> room s \<Longrightarrow>
      \<exists>s'. add x s = Some s' \<and> good s' \<and> contents s' = contents s @ [x]"
    and has_contents: "good s \<Longrightarrow> x \<in> set (contents s) \<Longrightarrow> P x \<Longrightarrow> has P s = Some True"
    and has_sound: "good s \<Longrightarrow> has P s = Some True \<Longrightarrow> \<exists>x\<in>set (contents s). P x"
begin

lemma has_iff: "good s \<Longrightarrow> has P s = Some True \<longleftrightarrow> (\<exists>x\<in>set (contents s). P x)"
  using has_contents [of s _ P] has_sound [of s P] by blast

lemma has_after_add:
  "good s \<Longrightarrow> room s \<Longrightarrow>
   returns (add x s) (\<lambda>s'. good s' \<and> (has P s' = Some True \<longleftrightarrow> P x \<or> has P s = Some True))"
proof -
  assume s: "good s" "room s"
  then obtain s' where s': "add x s = Some s'" "good s'" "contents s' = contents s @ [x]"
    using add_contents by blast
  have "has P s' = Some True \<longleftrightarrow> P x \<or> has P s = Some True"
    unfolding has_iff [OF s'(2)] has_iff [OF s(1)] s'(3) by auto
  with s' show ?thesis by simp
qed

end

interpretation breakpoints: word_list "list_add (Some fresh)" list_has elems list_ok may_grow for fresh
proof unfold_locales
  show "\<exists>l'. list_add (Some fresh) x l = Some l' \<and> list_ok l' \<and> elems l' = elems l @ [x]"
    if "list_ok l" "may_grow l" for l x
    using that by (rule list_add_appends)
  show "list_has P l = Some True" if "list_ok l" "x \<in> set (elems l)" "P x" for l x P
    using that by (auto simp: list_has_eq)
  show "\<exists>x\<in>set (elems l). P x" if "list_ok l" "list_has P l = Some True" for l P
    using that by (simp add: list_has_eq split: if_splits)
qed

end
