(* ===== verification/Server.thy ===== *)
theory Server
  imports Peek List_Container
begin

text \<open>
  The debug server of src/server.c: its flags, the handlers of the three kinds of requests,
  and the test for a breakpoint that the emulation runs after every instruction.

  The messages come from and go to the library libemu, which is not part of the repository.
  \<open>header\<close> names the kinds and subkinds of messages that the server distinguishes, with one
  constructor for all other values; \<open>payload\<close> is the first 32-bit word behind \<open>req->payload\<close>,
  \<open>None\<close> when there is none to read.
\<close>

section \<open>Messages\<close>

datatype control_flow = CONTROL_FLOW_UNTIL | CONTROL_FLOW_DELETE | CONTROL_FLOW_CONTINUE
  | CONTROL_FLOW_NEXT | CONTROL_FLOW_BREAK | CONTROL_FLOW_OTHER

datatype inspect = INSPECT_GET_CPU_REG | INSPECT_GET_PPU_REG | INSPECT_PRINT_ADDR
  | INSPECT_GET_INSTR_AT_ADDR | INSPECT_GET_OP_LEN | INSPECT_OTHER

datatype monitor_request = MONITOR_STOP | MONITOR_RESUME | MONITOR_OTHER

datatype header = TYPE_CONTROL_FLOW control_flow | TYPE_INSPECT inspect
  | TYPE_MONITOR monitor_request | TYPE_OTHER

record msg =
  hdr :: header
  hdr_size :: nat
  payload :: "u32 option"

record answer =
  answer_hdr :: header
  answer_words :: "u32 list"

section \<open>The state\<close>

record server_t =
  breakpoint_list :: list_t
  until_addr :: u16
  control_flow_continue :: bool
  control_flow_until :: bool
  control_flow_next :: bool
  client_connected :: bool
  server_running :: bool
  server_stop_request :: bool

text \<open>\<open>server_init\<close> after the calls of libemu have succeeded and with memory for the list.\<close>

definition server_init :: "bool \<Rightarrow> u64 arr \<Rightarrow> server_t option" where
  "server_init wait_for_client mem =
    do { l \<leftarrow> create_list True (Some mem);
         Some \<lparr>breakpoint_list = l, until_addr = 0, control_flow_continue = False,
           control_flow_until = False, control_flow_next = False,
           client_connected = wait_for_client, server_running = \<not> wait_for_client,
           server_stop_request = False\<rparr> }"

definition server_is_client_connected :: "server_t \<Rightarrow> bool" where
  "server_is_client_connected s = client_connected s"

definition server_is_stopped :: "server_t \<Rightarrow> bool" where
  "server_is_stopped s = (\<not> server_running s)"

section \<open>The handlers\<close>

definition resume_execution :: "server_t \<Rightarrow> server_t" where
  "resume_execution s = s\<lparr>server_running := True\<rparr>"

definition stop_execution :: "server_t \<Rightarrow> server_t" where
  "stop_execution s = s\<lparr>server_running := False\<rparr>"

definition handle_control_flow_until :: "u32 \<Rightarrow> server_t \<Rightarrow> server_t" where
  "handle_control_flow_until addr s =
    resume_execution (s\<lparr>control_flow_until := True, until_addr := ucast addr\<rparr>)"

definition handle_control_flow_next :: "server_t \<Rightarrow> server_t" where
  "handle_control_flow_next s = resume_execution (s\<lparr>control_flow_next := True\<rparr>)"

definition handle_control_flow_continue :: "server_t \<Rightarrow> server_t" where
  "handle_control_flow_continue s = resume_execution (s\<lparr>control_flow_continue := True\<rparr>)"

definition handle_control_flow_break :: "u64 arr option \<Rightarrow> u32 \<Rightarrow> server_t \<Rightarrow> server_t option" where
  "handle_control_flow_break mem addr s =
    do { l \<leftarrow> list_add mem (ucast addr) (breakpoint_list s); Some (s\<lparr>breakpoint_list := l\<rparr>) }"

text \<open>The variable \<open>breakpoint\<close> of the loops is an \<open>uint32_t\<close>: the cells are cut to 32 bits.\<close>

definition handle_control_flow_delete :: "u32 \<Rightarrow> server_t \<Rightarrow> server_t option" where
  "handle_control_flow_delete addr s =
    do { (i, breakpoint, broke) \<leftarrow>
           list_scan (\<lambda>b. (ucast b :: u32) = addr \<or> addr = 0) (breakpoint_list s) 0;
         if broke then
           do { l \<leftarrow> list_remove (ucast (ucast breakpoint :: u32)) (breakpoint_list s);
                Some (s\<lparr>breakpoint_list := l\<rparr>) }
         else Some s }"

definition dispatch_monitor :: "monitor_request \<Rightarrow> server_t \<Rightarrow> server_t" where
  "dispatch_monitor r s =
    (case r of MONITOR_STOP \<Rightarrow> stop_execution s
     | MONITOR_RESUME \<Rightarrow> resume_execution s
     | MONITOR_OTHER \<Rightarrow> s)"

definition dispatch_control_flow :: "u64 arr option \<Rightarrow> control_flow \<Rightarrow> msg \<Rightarrow> server_t \<Rightarrow> server_t option" where
  "dispatch_control_flow mem c req s =
    (case c of
       CONTROL_FLOW_UNTIL \<Rightarrow> do { a \<leftarrow> payload req; Some (handle_control_flow_until a s) }
     | CONTROL_FLOW_DELETE \<Rightarrow>
         if hdr_size req = 0 then handle_control_flow_delete 0 s
         else do { a \<leftarrow> payload req; handle_control_flow_delete a s }
     | CONTROL_FLOW_CONTINUE \<Rightarrow> Some (handle_control_flow_continue s)
     | CONTROL_FLOW_NEXT \<Rightarrow> Some (handle_control_flow_next s)
     | CONTROL_FLOW_BREAK \<Rightarrow> do { a \<leftarrow> payload req; handle_control_flow_break mem a s }
     | CONTROL_FLOW_OTHER \<Rightarrow> Some s)"

text \<open>Which peek an inspection asks for.  For an unknown subkind \<open>peek\<close> stays uninitialised, and
  the switch on its type reads it.\<close>

definition inspect_peek :: "inspect \<Rightarrow> peek_subtype option" where
  "inspect_peek i =
    (case i of
       INSPECT_GET_CPU_REG \<Rightarrow> Some (PEEK_CPU CPU_PEEK_REG)
     | INSPECT_GET_PPU_REG \<Rightarrow> Some (PEEK_PPU PPU_PEEK_REG)
     | INSPECT_PRINT_ADDR \<Rightarrow> Some (PEEK_CPU CPU_PEEK_ADDR)
     | INSPECT_GET_INSTR_AT_ADDR \<Rightarrow> Some (PEEK_CPU CPU_PEEK_INSTR_AT_ADDR)
     | INSPECT_GET_OP_LEN \<Rightarrow> Some (PEEK_CPU CPU_PEEK_OP_LEN)
     | INSPECT_OTHER \<Rightarrow> None)"

definition dispatch_inspect :: "inspect \<Rightarrow> msg \<Rightarrow> gb \<Rightarrow> answer option" where
  "dispatch_inspect i req g =
    do { p \<leftarrow> inspect_peek i;
         a \<leftarrow> payload req;
         ws \<leftarrow> (case p of PEEK_CPU t \<Rightarrow> cpu_peek t a g | PEEK_PPU t \<Rightarrow> ppu_peek t a g);
         Some \<lparr>answer_hdr = TYPE_INSPECT i, answer_words = ws\<rparr> }"

section \<open>After every instruction\<close>

text \<open>The argument tells whether \<open>pthread_rwlock_tryrdlock\<close> obtained the lock.\<close>

definition got_stop_request :: "bool \<Rightarrow> server_t \<Rightarrow> bool \<times> server_t" where
  "got_stop_request locked s =
    (if locked \<and> server_stop_request s then (True, s\<lparr>server_stop_request := False\<rparr>) else (False, s))"

text \<open>The loop over the breakpoints.\<close>

definition at_breakpoint :: "u32 \<Rightarrow> server_t \<Rightarrow> bool option" where
  "at_breakpoint addr s = list_has (\<lambda>b. (ucast b :: u32) = addr) (breakpoint_list s)"

text \<open>The test for breakpoints and for the end of an \<open>until\<close>, with the message it sends.\<close>

definition hit_address :: "u32 \<Rightarrow> server_t \<Rightarrow> (bool \<times> answer list \<times> server_t) option" where
  "hit_address addr s =
    (if control_flow_continue s \<or> control_flow_until s then
       do { b \<leftarrow> at_breakpoint addr s;
            let s = (if b then s\<lparr>control_flow_continue := False\<rparr> else s);
                u = (control_flow_until s \<and> ucast (until_addr s) = addr);
                s = (if u then s\<lparr>control_flow_until := False, control_flow_continue := False,
                       until_addr := 0\<rparr> else s)
            in Some (b \<or> u,
                 if b \<or> u then [\<lparr>answer_hdr = TYPE_CONTROL_FLOW (if u then CONTROL_FLOW_UNTIL else CONTROL_FLOW_BREAK),
                   answer_words = [addr]\<rparr>] else [], s) }
     else Some (False, [], s))"

definition hit_breakpoint :: "gb \<Rightarrow> server_t \<Rightarrow> (bool \<times> answer list \<times> server_t) option" where
  "hit_breakpoint g s =
    do { ws \<leftarrow> cpu_peek CPU_PEEK_REG CPU_REG_PC g;
         addr \<leftarrow> arr_rd (length ws) (nth ws) 0;
         (ret, out, s) \<leftarrow> hit_address addr s;
         let (ret, out, s) =
           (if control_flow_next s then
              (True, out @ [\<lparr>answer_hdr = TYPE_CONTROL_FLOW CONTROL_FLOW_NEXT, answer_words = []\<rparr>],
               s\<lparr>control_flow_next := False\<rparr>)
            else (ret, out, s))
         in Some (ret, out, if ret then stop_execution s else s) }"

text \<open>The result of \<open>pthread_rwlock_wrlock\<close> is an argument.\<close>

definition set_stop_request :: "int \<Rightarrow> server_t \<Rightarrow> int \<times> server_t" where
  "set_stop_request lock s =
    (if lock \<noteq> 0 then (- 1, s) else (0, s\<lparr>server_stop_request := True\<rparr>))"

end
