(* ===== verification/Threads.thy ===== *)
theory Threads
  imports Server Ppu_Step
begin

text \<open>
  The two threads of the emulator.  The emulation thread runs \<open>monitor_run\<close> of
  src/monitor.c; the request thread runs \<open>server_recv_request_and_dispatch\<close> of src/server.c
  whenever \<open>iopoll_thread\<close> of src/iopoll.c finds a request.  They share the server's flags, the mutex
  \<open>mtx_server\<close> and the condition \<open>cnd_server_stop\<close>, on which both of them wait.

  A program point names the next statement of a thread that touches shared state, and
  \<open>emu_next\<close> and \<open>req_next\<close> execute that statement.  They give \<open>None\<close> when the thread is
  blocked (or its statement is undefined).  A wait releases the mutex and ends only with a
  signal; the spurious wake-ups that POSIX permits are left out.  Each statement is atomic:
  the flags that the code shares without a lock are taken to be read and written whole.
\<close>

section \<open>Program points\<close>

datatype thread = Emulation | Requests

datatype emu_pc = E_Top | E_Lock | E_Check | E_Wait | E_Relock | E_Unlock_Wait | E_Unlock_Run
  | E_Exec | E_Stop | E_Break | E_Lock_Done | E_Unlock_Done | E_Signal

datatype req_pc = R_Idle | R_Lock | R_Recv | R_Check msg | R_Dispatch msg | R_Signal
  | R_Flag | R_Flag_Set | R_Block | R_Wait | R_Relock | R_Unlock

record sys =
  machine :: gb
  server :: server_t
  mutex :: "thread option"
  epc :: emu_pc
  rpc :: req_pc
  sent :: "answer list"

definition lock :: "thread \<Rightarrow> sys \<Rightarrow> sys option" where
  "lock t s = (if mutex s = None then Some (s\<lparr>mutex := Some t\<rparr>) else None)"

section \<open>The emulation thread\<close>

text \<open>\<open>pthread_cond_signal\<close> wakes the other thread if it waits; it then asks for the mutex again.\<close>

definition wake_requests :: "sys \<Rightarrow> sys" where
  "wake_requests s = (if rpc s = R_Wait then s\<lparr>rpc := R_Relock\<rparr> else s)"

definition emu_next :: "sys \<Rightarrow> sys option" where
  "emu_next s =
    (case epc s of
       E_Top \<Rightarrow>
         if server_is_client_connected (server s) then Some (s\<lparr>epc := E_Lock\<rparr>)
         else do { g \<leftarrow> exec_next (machine s); Some (s\<lparr>machine := g\<rparr>) }
     | E_Lock \<Rightarrow> do { s \<leftarrow> lock Emulation s; Some (s\<lparr>epc := E_Check\<rparr>) }
     | E_Check \<Rightarrow>
         if server_is_stopped (server s) then Some (s\<lparr>mutex := None, epc := E_Wait\<rparr>)
         else Some (s\<lparr>epc := E_Unlock_Run\<rparr>)
     | E_Wait \<Rightarrow> None
     | E_Relock \<Rightarrow> do { s \<leftarrow> lock Emulation s; Some (s\<lparr>epc := E_Unlock_Wait\<rparr>) }
     | E_Unlock_Wait \<Rightarrow> Some (s\<lparr>mutex := None, epc := E_Top\<rparr>)
     | E_Unlock_Run \<Rightarrow> Some (s\<lparr>mutex := None, epc := E_Exec\<rparr>)
     | E_Exec \<Rightarrow> do { g \<leftarrow> exec_next (machine s); Some (s\<lparr>machine := g, epc := E_Stop\<rparr>) }
     | E_Stop \<Rightarrow>
         let (b, v) = got_stop_request (rpc s \<noteq> R_Flag_Set) (server s)
         in Some (s\<lparr>server := v, epc := if b then E_Lock_Done else E_Break\<rparr>)
     | E_Break \<Rightarrow>
         do { (b, out, v) \<leftarrow> hit_breakpoint (machine s) (server s);
              Some (s\<lparr>server := v, sent := sent s @ out, epc := if b then E_Lock_Done else E_Exec\<rparr>) }
     | E_Lock_Done \<Rightarrow> do { s \<leftarrow> lock Emulation s; Some (s\<lparr>epc := E_Unlock_Done\<rparr>) }
     | E_Unlock_Done \<Rightarrow> Some (s\<lparr>mutex := None, epc := E_Signal\<rparr>)
     | E_Signal \<Rightarrow> Some ((wake_requests s)\<lparr>epc := E_Top\<rparr>))"

section \<open>The request thread\<close>

definition wake_emulation :: "sys \<Rightarrow> sys" where
  "wake_emulation s = (if epc s = E_Wait then s\<lparr>epc := E_Relock\<rparr> else s)"

text \<open>The requests that are refused for the state of the execution.\<close>

definition refused :: "header \<Rightarrow> bool \<Rightarrow> bool" where
  "refused h running =
    (case h of
       TYPE_CONTROL_FLOW c \<Rightarrow> running
     | TYPE_INSPECT i \<Rightarrow> running
     | TYPE_MONITOR r \<Rightarrow> running \<and> r = MONITOR_RESUME \<or> \<not> running \<and> r = MONITOR_STOP
     | TYPE_OTHER \<Rightarrow> True)"

definition dispatch :: "u64 arr option \<Rightarrow> msg \<Rightarrow> sys \<Rightarrow> sys option" where
  "dispatch mem m s =
    (case hdr m of
       TYPE_CONTROL_FLOW c \<Rightarrow>
         do { v \<leftarrow> dispatch_control_flow mem c m (server s); Some (s\<lparr>server := v, rpc := R_Signal\<rparr>) }
     | TYPE_INSPECT i \<Rightarrow>
         do { a \<leftarrow> dispatch_inspect i m (machine s); Some (s\<lparr>sent := sent s @ [a], rpc := R_Unlock\<rparr>) }
     | TYPE_MONITOR r \<Rightarrow>
         Some (s\<lparr>server := dispatch_monitor r (server s),
           rpc := if r = MONITOR_STOP then R_Flag else R_Unlock\<rparr>)
     | TYPE_OTHER \<Rightarrow> Some (s\<lparr>rpc := R_Unlock\<rparr>))"

text \<open>\<open>m\<close> is the message that \<open>emu_recv_msg\<close> returns, \<open>None\<close> for its result -1; \<open>mem\<close> is
  what an allocation for the list of breakpoints returns.  \<open>R_Flag\<close> to \<open>R_Block\<close> are
  \<open>set_stop_request\<close>, whose lock succeeds, and the start of the wait.\<close>

definition req_next :: "msg option \<Rightarrow> u64 arr option \<Rightarrow> sys \<Rightarrow> sys option" where
  "req_next m mem s =
    (case rpc s of
       R_Idle \<Rightarrow> Some (s\<lparr>rpc := R_Lock\<rparr>)
     | R_Lock \<Rightarrow> do { s \<leftarrow> lock Requests s; Some (s\<lparr>rpc := R_Recv\<rparr>) }
     | R_Recv \<Rightarrow> Some (s\<lparr>rpc := (case m of None \<Rightarrow> R_Unlock | Some req \<Rightarrow> R_Check req)\<rparr>)
     | R_Check req \<Rightarrow>
         Some (s\<lparr>rpc := if refused (hdr req) (server_running (server s)) then R_Unlock
                  else R_Dispatch req\<rparr>)
     | R_Dispatch req \<Rightarrow> dispatch mem req s
     | R_Signal \<Rightarrow> Some ((wake_emulation s)\<lparr>rpc := R_Unlock\<rparr>)
     | R_Flag \<Rightarrow> Some (s\<lparr>rpc := R_Flag_Set\<rparr>)
     | R_Flag_Set \<Rightarrow> Some (s\<lparr>server := snd (set_stop_request 0 (server s)), rpc := R_Block\<rparr>)
     | R_Block \<Rightarrow> Some (s\<lparr>mutex := None, rpc := R_Wait\<rparr>)
     | R_Wait \<Rightarrow> None
     | R_Relock \<Rightarrow> do { s \<leftarrow> lock Requests s; Some (s\<lparr>rpc := R_Unlock\<rparr>) }
     | R_Unlock \<Rightarrow> Some (s\<lparr>mutex := None, rpc := R_Idle\<rparr>))"

section \<open>The program\<close>

definition sys_init :: "gb \<Rightarrow> server_t \<Rightarrow> sys" where
  "sys_init g v = \<lparr>machine = g, server = v, mutex = None, epc = E_Top, rpc = R_Idle, sent = []\<rparr>"

inductive step :: "sys \<Rightarrow> sys \<Rightarrow> bool" where
  emulation: "emu_next s = Some s' \<Longrightarrow> step s s'"
| requests: "req_next m mem s = Some s' \<Longrightarrow> step s s'"

inductive_cases stepE: "step s s'"

inductive reach :: "bool \<Rightarrow> gb \<Rightarrow> sys \<Rightarrow> bool" for wait_for_client :: bool and g :: gb where
  start: "server_init wait_for_client mem = Some v \<Longrightarrow> reach wait_for_client g (sys_init g v)"
| more: "reach wait_for_client g s \<Longrightarrow> step s s' \<Longrightarrow> reach wait_for_client g s'"

fun emu_run :: "nat \<Rightarrow> sys \<Rightarrow> sys option" where
  "emu_run 0 s = Some s"
| "emu_run (Suc n) s = emu_next s \<bind> emu_run n"

fun req_run :: "msg option \<Rightarrow> nat \<Rightarrow> sys \<Rightarrow> sys option" where
  "req_run m 0 s = Some s"
| "req_run m (Suc n) s = req_next m None s \<bind> req_run m n"

lemma reach_emu: "reach w g s \<Longrightarrow> emu_next s = Some s' \<Longrightarrow> reach w g s'"
  by (blast intro: reach.more emulation)

lemma reach_req: "reach w g s \<Longrightarrow> req_next m mem s = Some s' \<Longrightarrow> reach w g s'"
  by (blast intro: reach.more requests)

lemma reach_emu_run: "reach w g s \<Longrightarrow> emu_run n s = Some s' \<Longrightarrow> reach w g s'"
  by (induction n arbitrary: s) (auto simp: bind_eq_Some dest: reach_emu)

lemma reach_req_run: "reach w g s \<Longrightarrow> req_run m n s = Some s' \<Longrightarrow> reach w g s'"
  by (induction n arbitrary: s) (auto simp: bind_eq_Some dest: reach_req)

section \<open>Reaching a common wait\<close>


end
