(* ===== verification/Thread_Theorems.thy ===== *)
theory Thread_Theorems
  imports Threads Emulator
begin

text \<open>
  What the two threads guarantee in every interleaving: the mutex is held by one thread, an
  inspection reads a machine that does not run, and a request to stop is answered after the
  instruction in progress.
\<close>

section \<open>The invariant\<close>

text \<open>The points at which a thread holds the mutex.\<close>

definition emu_holds :: "emu_pc \<Rightarrow> bool" where
  "emu_holds p \<longleftrightarrow> p = E_Check \<or> p = E_Unlock_Wait \<or> p = E_Unlock_Run \<or> p = E_Unlock_Done"

definition req_holds :: "req_pc \<Rightarrow> bool" where
  "req_holds p \<longleftrightarrow> p \<noteq> R_Idle \<and> p \<noteq> R_Lock \<and> p \<noteq> R_Wait \<and> p \<noteq> R_Relock"

text \<open>The points from which the emulation thread may execute an instruction without looking at
  the state of the server first.\<close>

definition executing :: "emu_pc \<Rightarrow> bool" where
  "executing p \<longleftrightarrow> p = E_Unlock_Run \<or> p = E_Exec \<or> p = E_Stop \<or> p = E_Break"

definition stopping :: "req_pc \<Rightarrow> bool" where
  "stopping p \<longleftrightarrow> p = R_Flag \<or> p = R_Flag_Set \<or> p = R_Block \<or> p = R_Wait"

definition stop_flagged :: "req_pc \<Rightarrow> bool" where
  "stop_flagged p \<longleftrightarrow> p = R_Block \<or> p = R_Wait"

text \<open>The requests that are handled only while the execution is stopped.\<close>

definition needs_stopped :: "req_pc \<Rightarrow> bool" where
  "needs_stopped p =
    (case p of R_Dispatch m \<Rightarrow> (case hdr m of TYPE_CONTROL_FLOW c \<Rightarrow> True | TYPE_INSPECT i \<Rightarrow> True | _ \<Rightarrow> False)
     | _ \<Rightarrow> False)"

definition may_run :: "sys \<Rightarrow> bool" where
  "may_run s \<longleftrightarrow> executing (epc s) \<or> epc s = E_Top \<and> \<not> client_connected (server s)"

definition sys_inv :: "sys \<Rightarrow> bool" where
  "sys_inv s \<longleftrightarrow>
    (mutex s = Some Emulation \<longleftrightarrow> emu_holds (epc s)) \<and>
    (mutex s = Some Requests \<longleftrightarrow> req_holds (rpc s)) \<and>
    (\<not> client_connected (server s) \<longrightarrow> epc s = E_Top) \<and>
    (needs_stopped (rpc s) \<or> stopping (rpc s) \<longrightarrow> \<not> server_running (server s)) \<and>
    (may_run s \<and> \<not> server_running (server s) \<longrightarrow> stopping (rpc s)) \<and>
    (stop_flagged (rpc s) \<and> executing (epc s) \<longrightarrow> server_stop_request (server s))"

text \<open>The predicates on a known program point, and those that a step of the other thread
  leaves alone.\<close>

lemmas emu_points = emu_holds_def executing_def may_run_def
lemmas req_points = req_holds_def stopping_def stop_flagged_def needs_stopped_def

lemma stop_flagged_stopping: "stop_flagged p \<Longrightarrow> stopping p"
  by (auto simp: req_points)

lemma may_run_frame [simp]:
  "may_run (s\<lparr>rpc := r\<rparr>) = may_run s" "may_run (s\<lparr>mutex := t\<rparr>) = may_run s"
  "may_run (s\<lparr>sent := out\<rparr>) = may_run s" "may_run (s\<lparr>machine := g\<rparr>) = may_run s"
  by (simp_all add: may_run_def)

lemma mutex_cases: "mutex s = None \<or> mutex s = Some Emulation \<or> mutex s = Some Requests"
  by (cases "mutex s") (auto, metis thread.exhaust)

section \<open>What the operations of the server change\<close>

lemma hit_address_flags:
  "hit_address a v = Some (b, out, v') \<Longrightarrow>
   client_connected v' = client_connected v \<and> server_running v' = server_running v \<and>
   server_stop_request v' = server_stop_request v"
  by (auto simp: hit_address_def bind_eq_Some Let_def split: if_splits)

lemma hit_breakpoint_flags:
  "hit_breakpoint g v = Some (b, out, v') \<Longrightarrow>
   client_connected v' = client_connected v \<and> server_running v' = (server_running v \<and> \<not> b) \<and>
   server_stop_request v' = server_stop_request v"
  by (auto simp: hit_breakpoint_def bind_eq_Some stop_execution_def dest!: hit_address_flags
      split: if_splits)

lemma got_stop_request_flags:
  "got_stop_request l v = (b, v') \<Longrightarrow>
   client_connected v' = client_connected v \<and> server_running v' = server_running v \<and>
   b = (l \<and> server_stop_request v) \<and> server_stop_request v' = (server_stop_request v \<and> \<not> b)"
  by (auto simp: got_stop_request_def split: if_splits)

lemma dispatch_control_flow_flags:
  "dispatch_control_flow mem c m v = Some v' \<Longrightarrow>
   client_connected v' = client_connected v \<and> server_stop_request v' = server_stop_request v \<and>
   (server_running v \<longrightarrow> server_running v')"
  by (auto simp: dispatch_control_flow_def handle_control_flow_until_def handle_control_flow_next_def
      handle_control_flow_continue_def handle_control_flow_delete_def handle_control_flow_break_def
      resume_execution_def bind_eq_Some split: control_flow.splits if_splits)

lemma dispatch_monitor_flags:
  "client_connected (dispatch_monitor r v) = client_connected v"
  "server_stop_request (dispatch_monitor r v) = server_stop_request v"
  "server_running (dispatch_monitor r v) =
    (r = MONITOR_RESUME \<or> r = MONITOR_OTHER \<and> server_running v)"
  by (cases r; simp add: dispatch_monitor_def stop_execution_def resume_execution_def)+

section \<open>Every step keeps the invariant\<close>

lemma sys_inv_emu:
  assumes "sys_inv s" "emu_next s = Some s'"
  shows "sys_inv s'"
proof (cases "epc s")
  case E_Stop
  obtain b v where bv: "got_stop_request (rpc s \<noteq> R_Flag_Set) (server s) = (b, v)" by fastforce
  from assms(2) E_Stop bv have s': "s' = s\<lparr>server := v, epc := if b then E_Lock_Done else E_Break\<rparr>"
    by (simp add: emu_next_def)
  have "\<not> stop_flagged R_Flag_Set" by (simp add: req_points)
  then show ?thesis using assms(1) got_stop_request_flags [OF bv] E_Stop
    unfolding s' sys_inv_def by (cases b) (auto simp: emu_points)
next
  case E_Break
  with assms(2) obtain b out v where bv: "hit_breakpoint (machine s) (server s) = Some (b, out, v)"
    "s' = s\<lparr>server := v, sent := sent s @ out, epc := if b then E_Lock_Done else E_Exec\<rparr>"
    by (auto simp: emu_next_def bind_eq_Some)
  show ?thesis using assms(1) hit_breakpoint_flags [OF bv(1)] E_Break
    unfolding bv(2) sys_inv_def by (cases b) (auto simp: emu_points)
next
  case E_Signal
  with assms(2) have s': "s' = (wake_requests s)\<lparr>epc := E_Top\<rparr>" by (simp add: emu_next_def)
  show ?thesis
  proof (cases "rpc s = R_Wait")
    case True
    with assms(1) E_Signal show ?thesis
      unfolding s' wake_requests_def sys_inv_def by (auto simp: emu_points req_points)
  next
    case False
    with assms(1) E_Signal show ?thesis
      unfolding s' wake_requests_def sys_inv_def by (auto simp: emu_points)
  qed
next
  case E_Top
  with assms show ?thesis
    by (auto simp: sys_inv_def emu_next_def bind_eq_Some emu_points server_is_client_connected_def
        split: if_splits)
next
  case E_Check
  with assms show ?thesis
    using stop_flagged_stopping [of "rpc s"]
    by (auto simp: sys_inv_def emu_next_def emu_points server_is_stopped_def split: if_splits)
next
  case E_Exec
  with assms show ?thesis by (auto simp: sys_inv_def emu_next_def bind_eq_Some emu_points)
next
  case E_Wait
  with assms show ?thesis by (simp add: emu_next_def)
next
  case E_Lock
  with assms show ?thesis
    by (auto simp: sys_inv_def emu_next_def bind_eq_Some lock_def emu_points split: if_splits)
next
  case E_Relock
  with assms show ?thesis
    by (auto simp: sys_inv_def emu_next_def bind_eq_Some lock_def emu_points split: if_splits)
next
  case E_Lock_Done
  with assms show ?thesis
    by (auto simp: sys_inv_def emu_next_def bind_eq_Some lock_def emu_points split: if_splits)
next
  case E_Unlock_Wait
  with assms show ?thesis by (auto simp: sys_inv_def emu_next_def emu_points)
next
  case E_Unlock_Run
  with assms show ?thesis by (auto simp: sys_inv_def emu_next_def emu_points)
next
  case E_Unlock_Done
  with assms show ?thesis by (auto simp: sys_inv_def emu_next_def emu_points)
qed

lemma sys_inv_dispatch:
  assumes "sys_inv s" "rpc s = R_Dispatch req" "dispatch mem req s = Some s'"
  shows "sys_inv s'"
proof (cases "hdr req")
  case (TYPE_CONTROL_FLOW c)
  with assms(3) obtain v where v: "dispatch_control_flow mem c req (server s) = Some v"
    "s' = s\<lparr>server := v, rpc := R_Signal\<rparr>"
    by (auto simp: dispatch_def bind_eq_Some)
  have "may_run s' \<longleftrightarrow> may_run s" using dispatch_control_flow_flags [OF v(1)] by (simp add: v(2) may_run_def)
  then show ?thesis using assms(1,2) dispatch_control_flow_flags [OF v(1)] TYPE_CONTROL_FLOW
    unfolding v(2) sys_inv_def by (auto simp: req_points)
next
  case (TYPE_INSPECT i)
  with assms(3) obtain a where "s' = s\<lparr>sent := sent s @ [a], rpc := R_Unlock\<rparr>"
    by (auto simp: dispatch_def bind_eq_Some)
  with assms(1,2) TYPE_INSPECT show ?thesis by (auto simp: sys_inv_def req_points may_run_def)
next
  case (TYPE_MONITOR r)
  let ?v = "dispatch_monitor r (server s)"
  from TYPE_MONITOR assms(3) have s': "s' = s\<lparr>server := ?v, rpc := if r = MONITOR_STOP then R_Flag else R_Unlock\<rparr>"
    by (simp add: dispatch_def)
  show ?thesis using assms(1,2)
    unfolding s' sys_inv_def
    by (cases r) (auto simp: req_points may_run_def dispatch_monitor_flags TYPE_MONITOR)
next
  case TYPE_OTHER
  with assms show ?thesis by (auto simp: dispatch_def sys_inv_def req_points may_run_def)
qed

lemma sys_inv_req:
  assumes "sys_inv s" "req_next m mem s = Some s'"
  shows "sys_inv s'"
proof (cases "rpc s")
  case (R_Dispatch req)
  with assms show ?thesis by (simp add: req_next_def sys_inv_dispatch)
next
  case R_Signal
  with assms(2) have s': "s' = (wake_emulation s)\<lparr>rpc := R_Unlock\<rparr>" by (simp add: req_next_def)
  show ?thesis
  proof (cases "epc s = E_Wait")
    case True
    with assms(1) R_Signal show ?thesis
      unfolding s' wake_emulation_def sys_inv_def by (simp add: emu_points req_points)
  next
    case False
    with assms(1) R_Signal show ?thesis
      unfolding s' wake_emulation_def sys_inv_def by (auto simp: req_points may_run_def)
  qed
next
  case (R_Check req)
  then have s': "s' = s\<lparr>rpc := if refused (hdr req) (server_running (server s)) then R_Unlock
      else R_Dispatch req\<rparr>"
    using assms(2) by (simp add: req_next_def)
  show ?thesis using assms(1) R_Check
    unfolding sys_inv_def s'
    by (cases "refused (hdr req) (server_running (server s))"; cases "hdr req")
      (auto simp: req_points refused_def)
next
  case R_Recv
  with assms show ?thesis
    by (cases m) (auto simp: sys_inv_def req_next_def req_points)
next
  case R_Flag_Set
  with assms show ?thesis
    by (auto simp: sys_inv_def req_next_def req_points set_stop_request_def)
next
  case R_Wait
  with assms show ?thesis by (simp add: req_next_def)
next
  case R_Idle
  with assms show ?thesis by (auto simp: sys_inv_def req_next_def req_points)
next
  case R_Lock
  with assms show ?thesis
    by (auto simp: sys_inv_def req_next_def bind_eq_Some lock_def req_points split: if_splits)
next
  case R_Flag
  with assms show ?thesis by (auto simp: sys_inv_def req_next_def req_points)
next
  case R_Block
  with assms show ?thesis by (auto simp: sys_inv_def req_next_def req_points)
next
  case R_Relock
  with assms show ?thesis
    by (auto simp: sys_inv_def req_next_def bind_eq_Some lock_def req_points split: if_splits)
next
  case R_Unlock
  with assms show ?thesis by (auto simp: sys_inv_def req_next_def req_points)
qed

lemma sys_inv_init: "server_init w mem = Some v \<Longrightarrow> sys_inv (sys_init g v)"
  by (auto simp: server_init_def create_list_def sys_inv_def sys_init_def emu_points req_points)

lemma sys_inv_reach: "reach w g s \<Longrightarrow> sys_inv s"
  by (induction rule: reach.induct) (auto elim!: stepE intro: sys_inv_init sys_inv_emu sys_inv_req)

section \<open>What the threads guarantee\<close>


text \<open>C14: A request to stop is answered promptly: when the request thread waits for the emulation to
  stop and the emulation is about to execute an instruction, then after this one instruction and
  four more statements the emulation thread has left its loop, the flag is consumed and the
  request thread is woken.\<close>

theorem stop_request_answered:
  assumes "reach w g s" "rpc s = R_Wait" "epc s = E_Exec" "exec_next (machine s) = Some h"
  shows "\<exists>s'. emu_run 5 s = Some s' \<and> rpc s' = R_Relock \<and> epc s' = E_Top \<and> machine s' = h \<and>
    mutex s' = None \<and> \<not> server_running (server s') \<and> \<not> server_stop_request (server s')"
proof -
  from sys_inv_reach [OF assms(1)] assms(2,3)
  have "mutex s \<noteq> Some Emulation" "mutex s \<noteq> Some Requests" and
    f: "server_stop_request (server s)" "\<not> server_running (server s)"
    by (auto simp: sys_inv_def emu_points req_points)
  then have m: "mutex s = None" using mutex_cases [of s] by blast
  show ?thesis
    using assms(2-4) f m
    by (simp add: eval_nat_numeral emu_next_def got_stop_request_def lock_def wake_requests_def)
qed

section \<open>Concrete executions\<close>

text \<open>A session with a client: the emulation waits, the client asks for a register, lets the
  execution continue and asks it to stop.\<close>

definition request :: "header \<Rightarrow> msg" where
  "request h = \<lparr>hdr = h, hdr_size = 4, payload = Some 0\<rparr>"

definition sample_server :: server_t where
  "sample_server = the (server_init True (\<lambda>_. 0))"

lemma sample_server:
  "server_init True (\<lambda>_. 0) = Some sample_server" "client_connected sample_server"
  "\<not> server_running sample_server" "\<not> server_stop_request sample_server"
  by (simp_all add: sample_server_def server_init_def create_list_def)

definition s_inspect :: sys where
  "s_inspect = (sys_init sample_gb sample_server)
     \<lparr>mutex := Some Requests, rpc := R_Dispatch (request (TYPE_INSPECT INSPECT_GET_CPU_REG))\<rparr>"

definition s_exec :: sys where
  "s_exec = (sys_init sample_gb sample_server)\<lparr>epc := E_Exec,
     server := sample_server\<lparr>control_flow_continue := True, server_running := True\<rparr>\<rparr>"

definition s_stop :: sys where
  "s_stop = s_exec\<lparr>rpc := R_Wait,
     server := sample_server\<lparr>control_flow_continue := True, server_running := False,
       server_stop_request := True\<rparr>\<rparr>"

lemmas run_defs = eval_nat_numeral sys_init_def lock_def server_is_client_connected_def
  server_is_stopped_def refused_def dispatch_def request_def

lemma reach_s_inspect: "reach True sample_gb s_inspect"
proof -
  have "req_run (Some (request (TYPE_INSPECT INSPECT_GET_CPU_REG))) 4 (sys_init sample_gb sample_server)
      = Some s_inspect"
    by (simp add: run_defs s_inspect_def req_next_def sample_server)
  with reach.start [OF sample_server(1)] show ?thesis by (rule reach_req_run)
qed

lemma reach_s_exec: "reach True sample_gb s_exec"
proof -
  let ?s0 = "sys_init sample_gb sample_server"
  let ?s1 = "?s0\<lparr>epc := E_Wait\<rparr>"
  let ?s2 = "s_exec\<lparr>epc := E_Relock\<rparr>"
  have 1: "emu_run 3 ?s0 = Some ?s1" by (simp add: run_defs emu_next_def sample_server)
  have 2: "req_run (Some (request (TYPE_CONTROL_FLOW CONTROL_FLOW_CONTINUE))) 7 ?s1 = Some ?s2"
    by (simp add: run_defs req_next_def sample_server s_exec_def dispatch_control_flow_def
        handle_control_flow_continue_def resume_execution_def wake_emulation_def)
  have 3: "emu_run 6 ?s2 = Some s_exec"
    by (simp add: run_defs emu_next_def sample_server s_exec_def)
  show ?thesis
    by (rule reach_emu_run [OF reach_req_run [OF reach_emu_run [OF reach.start [OF sample_server(1)] 1] 2] 3])
qed

lemma reach_s_stop: "reach True sample_gb s_stop"
proof -
  have "req_run (Some (request (TYPE_MONITOR MONITOR_STOP))) 8 s_exec = Some s_stop"
    by (simp add: run_defs req_next_def s_exec_def s_stop_def dispatch_monitor_def
        stop_execution_def set_stop_request_def)
  with reach_s_exec show ?thesis by (rule reach_req_run)
qed


theorem stop_request_answered_witness:
  "\<exists>s'. emu_run 5 s_stop = Some s' \<and> rpc s' = R_Relock \<and> machine s' = nop_done"
proof -
  have "rpc s_stop = R_Wait" "epc s_stop = E_Exec" "machine s_stop = sample_gb"
    by (simp_all add: s_stop_def s_exec_def sys_init_def)
  with stop_request_answered [OF reach_s_stop, of nop_done] exec_next_nop show ?thesis by auto
qed

end
