(* ===== verification/Server_Theorems.thy ===== *)
theory Server_Theorems
  imports Server
begin

text \<open>
  What the debug server does for one request and after one instruction: the complete
  behaviour of \<open>hit_breakpoint\<close>, that a breakpoint that was set stops the execution, what
  deleting does, and which inspections are defined.
\<close>

section \<open>When the execution stops\<close>

definition addr_of :: "gb \<Rightarrow> u32" where
  "addr_of g = ucast (get16 REG_PC (gregs g))"

definition on_break :: "gb \<Rightarrow> server_t \<Rightarrow> bool" where
  "on_break g v = (\<exists>b\<in>set (elems (breakpoint_list v)). (ucast b :: u32) = addr_of g)"

definition listening :: "server_t \<Rightarrow> bool" where
  "listening v = (control_flow_continue v \<or> control_flow_until v)"

definition on_until :: "gb \<Rightarrow> server_t \<Rightarrow> bool" where
  "on_until g v = (control_flow_until v \<and> ucast (until_addr v) = addr_of g)"

lemma at_breakpoint_eq:
  "list_ok (breakpoint_list v) \<Longrightarrow> at_breakpoint (addr_of g) v =
    (if on_break g v then Some True
     else if len (breakpoint_list v) < capacity (breakpoint_list v) then Some False else None)"
  by (simp add: at_breakpoint_def list_has_eq on_break_def)

lemma hit_breakpoint_unfold:
  "hit_breakpoint g v =
    do { (ret, out, w) \<leftarrow> hit_address (addr_of g) v;
         let (ret, out, w) =
           (if control_flow_next w then
              (True, out @ [\<lparr>answer_hdr = TYPE_CONTROL_FLOW CONTROL_FLOW_NEXT, answer_words = []\<rparr>],
               w\<lparr>control_flow_next := False\<rparr>)
            else (ret, out, w))
         in Some (ret, out, if ret then stop_execution w else w) }"
  by (simp add: hit_breakpoint_def peek_pc addr_of_def)

lemma hit_address_eq:
  assumes "list_ok (breakpoint_list v)" "listening v"
    and "on_break g v \<or> len (breakpoint_list v) < capacity (breakpoint_list v)"
  shows "hit_address (addr_of g) v = Some (on_break g v \<or> on_until g v,
    (if on_until g v then [\<lparr>answer_hdr = TYPE_CONTROL_FLOW CONTROL_FLOW_UNTIL, answer_words = [addr_of g]\<rparr>]
     else if on_break g v
     then [\<lparr>answer_hdr = TYPE_CONTROL_FLOW CONTROL_FLOW_BREAK, answer_words = [addr_of g]\<rparr>] else []),
    v\<lparr>control_flow_continue := control_flow_continue v \<and> \<not> on_break g v \<and> \<not> on_until g v,
      control_flow_until := control_flow_until v \<and> \<not> on_until g v,
      until_addr := if on_until g v then 0 else until_addr v\<rparr>)"
proof -
  have "at_breakpoint (addr_of g) v = Some (on_break g v)"
    using at_breakpoint_eq [OF assms(1), of g] assms(3) by auto
  then show ?thesis using assms(2)
    by (cases v) (auto simp: hit_address_def listening_def on_until_def)
qed

text \<open>C15: The test after every instruction.  The execution stops when it was to execute one
  instruction, when it continues and stands at a breakpoint, or when it has come to the address of an
  \<open>until\<close>; every reason is reported, the flags of the reason are cleared and nothing else changes.  With a
  full array of breakpoints of which none fits, the test reads behind the array.\<close>

theorem hit_breakpoint_eq:
  assumes "list_ok (breakpoint_list v)"
  shows "hit_breakpoint g v =
    (if listening v \<and> \<not> on_break g v \<and> len (breakpoint_list v) = capacity (breakpoint_list v) then None
     else Some (control_flow_next v \<or> listening v \<and> on_break g v \<or> on_until g v,
       (if on_until g v then [\<lparr>answer_hdr = TYPE_CONTROL_FLOW CONTROL_FLOW_UNTIL, answer_words = [addr_of g]\<rparr>]
        else if listening v \<and> on_break g v
        then [\<lparr>answer_hdr = TYPE_CONTROL_FLOW CONTROL_FLOW_BREAK, answer_words = [addr_of g]\<rparr>] else []) @
       (if control_flow_next v then [\<lparr>answer_hdr = TYPE_CONTROL_FLOW CONTROL_FLOW_NEXT, answer_words = []\<rparr>]
        else []),
       v\<lparr>control_flow_continue := control_flow_continue v \<and> \<not> on_break g v \<and> \<not> on_until g v,
         control_flow_until := control_flow_until v \<and> \<not> on_until g v,
         until_addr := if on_until g v then 0 else until_addr v,
         control_flow_next := False,
         server_running := server_running v \<and>
           \<not> (control_flow_next v \<or> listening v \<and> on_break g v \<or> on_until g v)\<rparr>))"
proof (cases "listening v")
  case False
  then have f: "\<not> control_flow_continue v" "\<not> control_flow_until v" by (simp_all add: listening_def)
  then have "hit_address (addr_of g) v = Some (False, [], v)" by (simp add: hit_address_def)
  with f False show ?thesis
    by (simp add: hit_breakpoint_unfold on_until_def stop_execution_def)
next
  case True
  then have l: "control_flow_continue v \<or> control_flow_until v" by (simp add: listening_def)
  show ?thesis
  proof (cases "\<not> on_break g v \<and> len (breakpoint_list v) = capacity (breakpoint_list v)")
    case full: True
    with l True at_breakpoint_eq [OF assms, of g] show ?thesis
      by (simp add: hit_breakpoint_unfold hit_address_def)
  next
    case False
    with list_okD(2) [OF assms] have "on_break g v \<or> len (breakpoint_list v) < capacity (breakpoint_list v)"
      by auto
    from hit_address_eq [OF assms True this] True False show ?thesis
      by (cases "control_flow_next v"; cases "on_break g v \<or> on_until g v")
        (auto simp: hit_breakpoint_unfold stop_execution_def intro!: server_t.equality)
  qed
qed

section \<open>Setting and deleting breakpoints\<close>

lemma cast_back [simp]: "ucast (ucast (a :: u32) :: u64) = a"
  by (rule bit_word_eqI) (simp add: bit_simps)

text \<open>C38: A breakpoint that a client sets works: when there is room for it, the request appends it to the
  others, and the next time the execution continues and stands at its address, it stops there and
  reports it.\<close>

theorem break_then_hit:
  assumes "list_ok (breakpoint_list v)" "may_grow (breakpoint_list v)" "payload m = Some (addr_of g)"
  shows "returns (dispatch_control_flow (Some fresh) CONTROL_FLOW_BREAK m v) (\<lambda>w.
      elems (breakpoint_list w) = elems (breakpoint_list v) @ [ucast (addr_of g)] \<and>
      returns (hit_breakpoint g (handle_control_flow_continue w))
        (\<lambda>(stop, out, u). stop \<and> out \<noteq> [] \<and> \<not> server_running u \<and> \<not> control_flow_continue u))"
proof -
  from breakpoints.add_contents [OF assms(1,2)]
  obtain l where l: "list_add (Some fresh) (ucast (addr_of g)) (breakpoint_list v) = Some l" "list_ok l"
    "elems l = elems (breakpoint_list v) @ [ucast (addr_of g)]" by blast
  let ?w = "v\<lparr>breakpoint_list := l\<rparr>"
  let ?u = "handle_control_flow_continue ?w"
  have w: "dispatch_control_flow (Some fresh) CONTROL_FLOW_BREAK m v = Some ?w"
    using l(1) assms(3) by (simp add: dispatch_control_flow_def handle_control_flow_break_def)
  have bl: "breakpoint_list ?u = l"
    by (simp add: handle_control_flow_continue_def resume_execution_def)
  have on: "on_break g ?u" unfolding on_break_def bl l(3) by simp
  have ls: "listening ?u" by (simp add: listening_def handle_control_flow_continue_def resume_execution_def)
  have "list_ok (breakpoint_list ?u)" using l(2) bl by simp
  from hit_breakpoint_eq [OF this, of g] on ls
  have "returns (hit_breakpoint g ?u)
      (\<lambda>(stop, out, u). stop \<and> out \<noteq> [] \<and> \<not> server_running u \<and> \<not> control_flow_continue u)"
    by simp
  then show ?thesis unfolding w using l(3) by simp
qed

text \<open>C39: Which inspections are defined: with a payload, everything but an unknown subkind, for which the
  kind of the peek is uninitialised, and the length of an opcode above 255, which reads behind the
  table.\<close>

theorem inspection_defined:
  assumes "payload m = Some a"
  shows "dispatch_inspect i m g = None \<longleftrightarrow> i = INSPECT_OTHER \<or> i = INSPECT_GET_OP_LEN \<and> 256 \<le> a"
proof (cases i)
  case INSPECT_GET_OP_LEN
  with assms show ?thesis by (auto simp: dispatch_inspect_def inspect_peek_def op_len_peek)
next
  case INSPECT_GET_PPU_REG
  with assms ppu_peek_total [of PPU_PEEK_REG a g] show ?thesis
    by (auto simp: dispatch_inspect_def inspect_peek_def)
next
  case INSPECT_GET_CPU_REG
  with assms cpu_peek_total [of CPU_PEEK_REG a g] show ?thesis
    by (auto simp: dispatch_inspect_def inspect_peek_def)
next
  case INSPECT_PRINT_ADDR
  with assms cpu_peek_total [of CPU_PEEK_ADDR a g] show ?thesis
    by (auto simp: dispatch_inspect_def inspect_peek_def)
next
  case INSPECT_GET_INSTR_AT_ADDR
  with assms cpu_peek_total [of CPU_PEEK_INSTR_AT_ADDR a g] show ?thesis
    by (auto simp: dispatch_inspect_def inspect_peek_def)
qed (simp add: dispatch_inspect_def inspect_peek_def)

text \<open>Deleting the only breakpoint, by its address or by the address 0, is undefined.\<close>

lemma delete_only_breakpoint:
  assumes "list_ok (breakpoint_list v)" "elems (breakpoint_list v) = [ucast (a :: u32)]" "a \<noteq> 0"
    "d = a \<or> d = 0"
  shows "handle_control_flow_delete d v = None"
proof -
  let ?l = "breakpoint_list v"
  from assms(2) have len: "len ?l = 1" using length_elems [of ?l] by simp
  have cell: "items ?l 0 = ucast a" using nth_elems [of 0 ?l] len assms(2) by simp
  have "list_scan (\<lambda>b. (ucast b :: u32) = d \<or> d = 0) ?l 0 = Some (0, ucast a, True)"
    using list_scan_hit [OF assms(1), of 0] len cell assms(4) by auto
  moreover have "list_scan (\<lambda>b. b = ucast a) ?l 0 = Some (0, ucast a, True)"
    using list_scan_hit [OF assms(1), of 0 "\<lambda>b. b = ucast a"] len cell by simp
  moreover have "(ucast a :: u64) \<noteq> 0"
  proof
    assume "(ucast a :: u64) = 0"
    then have "ucast (ucast a :: u64) = (0 :: u32)" by simp
    with assms(3) show False by simp
  qed
  moreover have "list_del 1 ?l = None" using list_del_at_end [OF assms(1)] len by simp
  ultimately show ?thesis by (simp add: handle_control_flow_delete_def list_remove_def)
qed

section \<open>Witnesses\<close>

definition sample_client :: server_t where
  "sample_client = \<lparr>breakpoint_list = sample_list, until_addr = 0, control_flow_continue = True,
     control_flow_until = False, control_flow_next = False, client_connected = True,
     server_running = True, server_stop_request = False\<rparr>"

lemma sample_pc: "addr_of sample_gb = 0"
  by (simp add: addr_of_def sample_gb_def power_on_def gregs_def cpu0_def registers0_def)

theorem hit_breakpoint_eq_witness:
  "\<exists>v. hit_breakpoint sample_gb sample_client = Some (False, [], v)"
  using hit_breakpoint_eq [of sample_client sample_gb]
  by (simp add: sample_client_def sample_list_facts on_break_def on_until_def sample_pc)
    (simp add: sample_list_def)

theorem break_then_hit_witness:
  "returns (dispatch_control_flow (Some (\<lambda>_. 0)) CONTROL_FLOW_BREAK
      \<lparr>hdr = TYPE_CONTROL_FLOW CONTROL_FLOW_BREAK, hdr_size = 4, payload = Some 0\<rparr> sample_client) (\<lambda>w.
      elems (breakpoint_list w) = [0x100, 0x150, 0] \<and>
      returns (hit_breakpoint sample_gb (handle_control_flow_continue w))
        (\<lambda>(stop, out, u). stop \<and> out \<noteq> [] \<and> \<not> server_running u \<and> \<not> control_flow_continue u))"
proof -
  have "may_grow sample_list" by (simp add: may_grow_def sample_list_def)
  with break_then_hit [of sample_client _ sample_gb] show ?thesis
    by (simp add: sample_client_def sample_list_facts sample_pc)
qed

theorem inspection_defined_witness:
  "dispatch_inspect INSPECT_GET_OP_LEN
     \<lparr>hdr = TYPE_INSPECT INSPECT_GET_OP_LEN, hdr_size = 4, payload = Some 256\<rparr> sample_gb = None"
  by (subst inspection_defined [of _ 256]) simp_all

end
