(* ===== verification/Cart_Theorems.thy ===== *)
theory Cart_Theorems
  imports Monitor
begin

text \<open>
  Bank switching of the MBC1 cartridge as a program sees it, through the memory map.
\<close>

lemma in_map:
  assumes "(addr :: u16) \<le> 0x7fff"
  shows "addr \<noteq> 0xffff" "addr \<noteq> 0xff0f" "addr \<noteq> 0xff04" "addr \<noteq> 0xff05" "addr \<noteq> 0xff06" "addr \<noteq> 0xff07"
    "addr \<noteq> 0xff50" "\<not> addr \<ge> 0x8000" "\<not> addr \<ge> 0xfe00" "\<not> addr \<ge> 0xff40" "\<not> addr \<ge> 0xc000"
    "\<not> addr \<ge> 0xff80" "addr \<le> 0xbfff"
  using assms by (auto simp: word_le_def)

lemma rom_write: "rom_addr addr \<Longrightarrow> monitor_wr_mem addr v g = gb_mbc_wr addr v g"
  by (simp add: monitor_wr_mem.simps in_map rom_addr_def)

lemma rom_read: "rom_addr addr \<Longrightarrow> monitor_rd_mem addr g = Some (mbc1_rom (mbc g) (unat addr))"
  by (simp add: monitor_rd_mem_def in_map rom_addr_def mbc1_rd_rom [unfolded rom_addr_def])

lemma rom_bank_eq: "unat (rom_bank v) = (if v = 0 then 1 else unat v mod 32)"
proof (cases "v = 0")
  case False
  have "v AND 0x1f = take_bit 5 v" by (simp add: take_bit_eq_mask mask_eq_exp_minus_1)
  also have "\<dots> = v mod 32" by (simp add: take_bit_eq_mod)
  finally have "unat (v AND 0x1f) = unat v mod 32" by (simp only: unat_mod_distrib) simp
  with False show ?thesis by (simp add: rom_bank_def)
qed (simp add: rom_bank_def)

lemma window:
  "(n :: nat) < 0x8000 \<Longrightarrow>
    0x4000 \<le> n \<and> n < 0x4000 + min 0x4000 (s - k) \<longleftrightarrow> 0x4000 \<le> n \<and> k + (n - 0x4000) < s"
  by (auto simp: min_def)

lemma load_rom_eq:
  "base + n \<le> MBC1_ROM_SIZE \<Longrightarrow> load_rom off base n m =
    Some (m\<lparr>mbc1_rom := (\<lambda>i. if base \<le> i \<and> i < base + min n (f_size (rom m) - off)
        then f_byte (rom m) (off + (i - base)) else mbc1_rom m i),
      rom := (rom m)\<lparr>f_pos := off + min n (f_size (rom m) - off)\<rparr>\<rparr>)"
  by (simp add: load_rom_def fread_into_def fseek_set_def Let_def cong: if_cong)

text \<open>C19: Selecting a bank.  A write of \<open>v\<close> to 0x2000-0x3fff maps bank \<open>v mod 32\<close> of the ROM file (bank 1 for
  \<open>v = 0\<close>) to 0x4000-0x7fff: a read there gives the byte of the file, or the byte that was there before
  when the file is too short; the fixed bank below 0x4000, the file and all other parts of the machine stay.
  As the test for zero comes before the mask, 0x20, 0x40 and 0x60 map bank 0.\<close>

theorem bank_switch:
  fixes v :: u8
  assumes "0x2000 \<le> reg" "reg \<le> 0x3fff" "rom_addr a"
    and "bank = (if v = 0 then 1 else unat v mod 32)"
  shows "\<exists>m. monitor_wr_mem reg v g = Some (g\<lparr>mbc := m\<rparr>) \<and>
    f_byte (rom m) = f_byte (rom (mbc g)) \<and> f_size (rom m) = f_size (rom (mbc g)) \<and> mbc1_ram m = mbc1_ram (mbc g) \<and>
    monitor_rd_mem a (g\<lparr>mbc := m\<rparr>) =
      (let i = 0x4000 * bank + (unat a - 0x4000)
       in if 0x4000 \<le> a \<and> i < f_size (rom (mbc g)) then Some (f_byte (rom (mbc g)) i) else monitor_rd_mem a g)"
proof -
  have r: "rom_addr reg" using assms(2) by (auto simp: rom_addr_def word_le_def)
  let ?f = "rom (mbc g)"
  obtain m where m: "load_rom (0x4000 * bank) 0x4000 0x4000 (mbc g) = Some m"
    and f: "f_byte (rom m) = f_byte ?f" "f_size (rom m) = f_size ?f" "mbc1_ram m = mbc1_ram (mbc g)"
    and b: "mbc1_rom m = (\<lambda>i. if 0x4000 \<le> i \<and> i < 0x4000 + min 0x4000 (f_size ?f - 0x4000 * bank)
      then f_byte ?f (0x4000 * bank + (i - 0x4000)) else mbc1_rom (mbc g) i)"
    by (rule that [OF load_rom_eq]) (simp_all add: mbc_sizes)
  have w: "monitor_wr_mem reg v g = Some (g\<lparr>mbc := m\<rparr>)"
    using assms(1,2) m by (simp add: rom_write [OF r] gb_mbc_wr_def mbc1_wr_rom [OF r] rom_bank_eq assms(4))
  have "unat a < 0x8000" using assms(3) by (simp add: rom_addr_def word_le_nat_alt)
  then have "mbc1_rom m (unat a) =
      (let i = 0x4000 * bank + (unat a - 0x4000)
       in if 0x4000 \<le> a \<and> i < f_size ?f then f_byte ?f i else mbc1_rom (mbc g) (unat a))"
    unfolding Let_def word_le_nat_alt b by (simp only: window) simp
  with w f show ?thesis
    by (intro exI [of _ m]) (simp add: rom_read [OF assms(3)] Let_def)
qed

text \<open>The sample cartridge has 8 banks whose bytes are the number of the bank.\<close>

theorem bank_switch_witness:
  "\<exists>m. monitor_wr_mem 0x2000 5 sample_gb = Some (sample_gb\<lparr>mbc := m\<rparr>) \<and>
    monitor_rd_mem 0x4000 (sample_gb\<lparr>mbc := m\<rparr>) = Some 5"
proof -
  have s: "f_size (rom (mbc sample_gb)) = 0x20000" "f_byte (rom (mbc sample_gb)) 0x14000 = 5"
    by (simp_all add: sample_gb_def power_on_def sample_cart_def)
  have h: "(0x2000 :: u16) \<le> 0x2000" "(0x2000 :: u16) \<le> 0x3fff" "rom_addr 0x4000"
    "(5 :: nat) = (if (5 :: u8) = 0 then 1 else unat (5 :: u8) mod 32)"
    by (simp_all add: rom_addr_def)
  from bank_switch [OF h, of sample_gb] obtain m
    where m: "monitor_wr_mem 0x2000 5 sample_gb = Some (sample_gb\<lparr>mbc := m\<rparr>)"
      "monitor_rd_mem 0x4000 (sample_gb\<lparr>mbc := m\<rparr>) =
        (let i = 0x4000 * 5 + (unat (0x4000 :: u16) - 0x4000)
         in if (0x4000 :: u16) \<le> 0x4000 \<and> i < f_size (rom (mbc sample_gb))
            then Some (f_byte (rom (mbc sample_gb)) i) else monitor_rd_mem 0x4000 sample_gb)"
    by blast
  from m(2) have "monitor_rd_mem 0x4000 (sample_gb\<lparr>mbc := m\<rparr>) = Some 5" by (simp add: s Let_def)
  with m(1) show ?thesis by blast
qed

end
