(* ===== verification/Keys.thy ===== *)
theory Keys
  imports Bus
begin

text \<open>
  The way of a key from the input device to the joypad register: the table of backends
  (src/backends/backends.c), \<open>evdev_dispatch\<close> of src/backends/evdev/evdev.c, and
  \<open>monitor_set_key\<close> of src/monitor.c.  The keyboard focus is the flag of
  src/backends/wayland/wayland.c that the enter and leave events of the compositor set
  (theory \<open>Wayland\<close>).
  libevdev is not part of the repository: the events it delivers are an argument.
\<close>

section \<open>Backends\<close>

datatype backend_type = BACKEND_DISPLAY | BACKEND_AUDIO | BACKEND_INPUT

text \<open>\<open>b_init\<close> is what the function \<open>init\<close> of the backend is going to return, \<open>b_focus\<close> the
  answer of \<open>is_focus\<close>, \<open>None\<close> for a backend whose structure does not have this member.\<close>

record backend =
  b_type :: backend_type
  b_init :: int
  b_focus :: "bool option"

fun backends_get_backend_by_type :: "backend_type \<Rightarrow> backend list \<Rightarrow> backend option" where
  "backends_get_backend_by_type t [] = None"
| "backends_get_backend_by_type t (b # bs) =
    (if b_type b = t then Some b else backends_get_backend_by_type t bs)"

section \<open>Keys\<close>

text \<open>The key codes of linux/input.h that the code names, and one constructor for the others.\<close>

datatype key = KEY_ENTER | KEY_DOWN | KEY_J | KEY_SPACE | KEY_UP | KEY_K | KEY_S | KEY_LEFT | KEY_H
  | KEY_D | KEY_RIGHT | KEY_L | KEY_OTHER

record input_event =
  is_EV_KEY :: bool
  code :: key
  ev_value :: int

definition set_key :: "key \<Rightarrow> bool \<Rightarrow> joypad \<Rightarrow> joypad" where
  "set_key k released j =
    (case k of
       KEY_ENTER \<Rightarrow> j\<lparr>start_released := released\<rparr>
     | KEY_DOWN \<Rightarrow> j\<lparr>down_released := released\<rparr>
     | KEY_J \<Rightarrow> j\<lparr>down_released := released\<rparr>
     | KEY_SPACE \<Rightarrow> j\<lparr>select_released := released\<rparr>
     | KEY_UP \<Rightarrow> j\<lparr>up_released := released\<rparr>
     | KEY_K \<Rightarrow> j\<lparr>up_released := released\<rparr>
     | KEY_S \<Rightarrow> j\<lparr>b_released := released\<rparr>
     | KEY_LEFT \<Rightarrow> j\<lparr>left_released := released\<rparr>
     | KEY_H \<Rightarrow> j\<lparr>left_released := released\<rparr>
     | KEY_D \<Rightarrow> j\<lparr>a_released := released\<rparr>
     | KEY_RIGHT \<Rightarrow> j\<lparr>right_released := released\<rparr>
     | KEY_L \<Rightarrow> j\<lparr>right_released := released\<rparr>
     | KEY_OTHER \<Rightarrow> j)"

text \<open>Without a display backend the code follows a null pointer, and it takes the first backend of
  that type to be one with the member \<open>is_focus\<close>.\<close>

definition monitor_set_key :: "backend list \<Rightarrow> input_event \<Rightarrow> gb \<Rightarrow> gb option" where
  "monitor_set_key bs ev g =
    do { b \<leftarrow> backends_get_backend_by_type BACKEND_DISPLAY bs;
         focus \<leftarrow> b_focus b;
         Some (if focus then g\<lparr>joypad := set_key (code ev) (ev_value ev = 0) (joypad g)\<rparr> else g) }"

text \<open>The events of a device until its queue is empty: the first key that is used ends the whole
  dispatch.  The result tells whether that happened.\<close>

fun evdev_events :: "backend list \<Rightarrow> input_event list \<Rightarrow> gb \<Rightarrow> (bool \<times> gb) option" where
  "evdev_events bs [] g = Some (False, g)"
| "evdev_events bs (ev # evs) g =
    (if is_EV_KEY ev \<and> code ev \<noteq> KEY_OTHER then
       do { g \<leftarrow> monitor_set_key bs ev g; Some (True, g) }
     else evdev_events bs evs g)"

fun evdev_devices :: "backend list \<Rightarrow> input_event list list \<Rightarrow> gb \<Rightarrow> gb option" where
  "evdev_devices bs [] g = Some g"
| "evdev_devices bs (evs # devs) g =
    do { (used, g) \<leftarrow> evdev_events bs evs g;
         if used then Some g else evdev_devices bs devs g }"

definition evdev_dispatch :: "int \<Rightarrow> int \<Rightarrow> backend list \<Rightarrow> input_event list list \<Rightarrow> gb \<Rightarrow> gb option" where
  "evdev_dispatch fd evdev_poll_fd bs devs g =
    (if fd \<noteq> evdev_poll_fd then Some g else evdev_devices bs devs g)"

section \<open>What the program reads\<close>

text \<open>The line of the joypad on which a key lies: whether it is a button, and its bit.\<close>

definition key_line :: "key \<Rightarrow> (bool \<times> nat) option" where
  "key_line k =
    (case k of
       KEY_ENTER \<Rightarrow> Some (True, 3) | KEY_SPACE \<Rightarrow> Some (True, 2) | KEY_S \<Rightarrow> Some (True, 1) | KEY_D \<Rightarrow> Some (True, 0)
     | KEY_DOWN \<Rightarrow> Some (False, 3) | KEY_J \<Rightarrow> Some (False, 3) | KEY_UP \<Rightarrow> Some (False, 2) | KEY_K \<Rightarrow> Some (False, 2)
     | KEY_LEFT \<Rightarrow> Some (False, 1) | KEY_H \<Rightarrow> Some (False, 1) | KEY_RIGHT \<Rightarrow> Some (False, 0) | KEY_L \<Rightarrow> Some (False, 0)
     | KEY_OTHER \<Rightarrow> None)"

definition joypad_lines :: "bool \<Rightarrow> joypad \<Rightarrow> u8" where
  "joypad_lines buttons j = (if buttons then joypad_buttons j else joypad_directions j)"

definition select_lines :: "bool \<Rightarrow> u8" where
  "select_lines buttons = (if buttons then 0x10 else 0x20)"

lemma joypad_line_bits:
  "bit (joypad_buttons j) i = (i = 3 \<and> start_released j \<or> i = 2 \<and> select_released j \<or>
    i = 1 \<and> b_released j \<or> i = 0 \<and> a_released j)"
  "bit (joypad_directions j) i = (i = 3 \<and> down_released j \<or> i = 2 \<and> up_released j \<or>
    i = 1 \<and> left_released j \<or> i = 0 \<and> right_released j)"
  by (auto simp: joypad_buttons_def joypad_directions_def bit_simps)

lemma set_key_line:
  "key_line k = Some (buttons, n) \<Longrightarrow>
   bit (joypad_lines buttons (set_key k r j)) i = (if i = n then r else bit (joypad_lines buttons j) i)"
  by (cases k) (auto simp: key_line_def joypad_lines_def set_key_def joypad_line_bits)

lemma set_key_other_group:
  "key_line k = Some (buttons, n) \<Longrightarrow>
   joypad_lines (\<not> buttons) (set_key k r j) = joypad_lines (\<not> buttons) j"
  by (cases k) (auto simp: key_line_def joypad_lines_def set_key_def joypad_buttons_def joypad_directions_def)

lemma monitor_wr_joypad:
  "monitor_wr_mem 0xff00 v g = Some (g\<lparr>tmp_ioregs := (tmp_ioregs g)(0xff00 := v AND 0x30)\<rparr>)"
  by (simp add: monitor_wr_mem.simps gb_io_wr_def IOREGS_SIZE_def)

lemma monitor_rd_joypad: "monitor_rd_mem 0xff00 g = Some (rd_joypad (tmp_ioregs g 0xff00) (joypad g))"
  by (simp add: monitor_rd_mem_def IOREGS_SIZE_def)

lemma rd_joypad_select: "rd_joypad (select_lines buttons AND 0x30) j = select_lines buttons OR joypad_lines buttons j"
  by (simp add: rd_joypad_def select_lines_def joypad_lines_def)

text \<open>C20: A key that is pressed or released while the window has the focus shows in the joypad register:
  after the program has selected the group of the key, its bit reads 0 if it was pressed and 1 if it was
  released, the three other bits of the group are as before, and the other group does not change.\<close>

theorem key_reaches_program:
  assumes "backends_get_backend_by_type BACKEND_DISPLAY bs = Some b" "b_focus b = Some True"
    "key_line (code ev) = Some (buttons, n)" "is_EV_KEY ev"
  shows "\<exists>g1 g2. evdev_dispatch fd fd bs [[ev]] g = Some g1 \<and>
    monitor_wr_mem 0xff00 (select_lines buttons) g1 = Some g2 \<and>
    returns (monitor_rd_mem 0xff00 g2) (\<lambda>v. \<forall>i < 4. bit v i =
      (if i = n then ev_value ev = 0 else bit (joypad_lines buttons (joypad g)) i)) \<and>
    joypad_lines (\<not> buttons) (joypad g2) = joypad_lines (\<not> buttons) (joypad g)"
proof -
  let ?g1 = "g\<lparr>joypad := set_key (code ev) (ev_value ev = 0) (joypad g)\<rparr>"
  let ?g2 = "?g1\<lparr>tmp_ioregs := (tmp_ioregs ?g1)(0xff00 := select_lines buttons AND 0x30)\<rparr>"
  have "code ev \<noteq> KEY_OTHER" using assms(3) by (auto simp: key_line_def)
  then have d: "evdev_dispatch fd fd bs [[ev]] g = Some ?g1"
    using assms by (simp add: evdev_dispatch_def monitor_set_key_def)
  have w: "monitor_wr_mem 0xff00 (select_lines buttons) ?g1 = Some ?g2" by (rule monitor_wr_joypad)
  have r: "monitor_rd_mem 0xff00 ?g2 =
      Some (select_lines buttons OR joypad_lines buttons (set_key (code ev) (ev_value ev = 0) (joypad g)))"
    by (simp add: monitor_rd_joypad rd_joypad_select)
  have low: "\<not> bit (select_lines buttons) i" if "i < 4" for i
  proof -
    from that have "i = 0 \<or> i = 1 \<or> i = 2 \<or> i = 3" by auto
    then show ?thesis by (auto simp: select_lines_def bit_simps bit_numeral_rec eval_nat_numeral)
  qed
  have "returns (monitor_rd_mem 0xff00 ?g2) (\<lambda>v. \<forall>i < 4. bit v i =
      (if i = n then ev_value ev = 0 else bit (joypad_lines buttons (joypad g)) i))"
    unfolding r using low by (simp add: bit_or_iff set_key_line [OF assms(3)])
  with d w show ?thesis using set_key_other_group [OF assms(3)] by auto
qed

definition pressed_S :: input_event where
  "pressed_S = \<lparr>is_EV_KEY = True, code = KEY_S, ev_value = 1\<rparr>"

theorem key_reaches_program_witness:
  "\<exists>g1 g2. evdev_dispatch 7 7 [\<lparr>b_type = BACKEND_DISPLAY, b_init = 0, b_focus = Some True\<rparr>] [[pressed_S]] sample_gb = Some g1 \<and>
    monitor_wr_mem 0xff00 0x10 g1 = Some g2 \<and> returns (monitor_rd_mem 0xff00 g2) (\<lambda>v. \<not> bit v 1)"
  using key_reaches_program [of "[\<lparr>b_type = BACKEND_DISPLAY, b_init = 0, b_focus = Some True\<rparr>]" _ pressed_S True 1 7 sample_gb]
  by (force simp: pressed_S_def key_line_def select_lines_def elim: returns_mono)

end
