(* ===== verification/Startup.thy ===== *)
theory Startup
  imports Keys
begin

text \<open>
  Start and end of the program: \<open>main\<close> of src/main.c with its chain of \<open>goto\<close> cleanups, and
  \<open>backends_init\<close> and \<open>backends_fini\<close> of src/backends/backends.c.  The calls into the
  modules are recorded as a list of actions in the order they are made; their results are
  arguments, and \<open>Render_Init\<close> and \<open>Server_Init\<close> carry theirs.
\<close>

datatype action = Render_Init int | Init_Backend nat | Get_Fd nat | Server_Init bool int | Monitor_Init
  | Iopoll_Init | Monitor_Run | Monitor_Fini | Server_Fini | Fini_Backend nat | Render_Fini | Close_Rom

section \<open>The backends\<close>

definition backends_fini :: "backend list \<Rightarrow> action list" where
  "backends_fini bs = map Fini_Backend [0..<length bs]"

text \<open>The first loop of \<open>backends_init\<close> from backend \<open>i\<close> on.\<close>

fun init_loop :: "nat \<Rightarrow> backend list \<Rightarrow> int \<times> action list" where
  "init_loop i [] = (0, [])"
| "init_loop i (b # bs) =
    (if b_init b = - 1 then (- 1, [Init_Backend i])
     else let (r, as) = init_loop (i + 1) bs in (r, Init_Backend i # as))"

definition backends_init :: "backend list \<Rightarrow> int \<times> action list" where
  "backends_init bs =
    (let (r, as) = init_loop 0 bs
     in if r = - 1 then (- 1, as @ backends_fini bs)
        else (0, as @ map Get_Fd [0..<length bs]))"

section \<open>main\<close>

text \<open>What the command line and the environment decide: whether there are arguments, the option
  \<open>-s\<close>, the file argument and whether it opens, and the results of the modules.\<close>

datatype rom_arg = No_File | Open_Fails | Opened

record env =
  has_args :: bool
  opt_s :: bool
  rom_file :: rom_arg
  render_ret :: int
  backends :: "backend list"
  server_ret :: int
  iopoll_ret :: int

text \<open>The labels of the cleanup, each falling through to the next.  \<open>fclose\<close> of the stream that
  was never opened is undefined.\<close>

definition err_render :: "env \<Rightarrow> action list \<Rightarrow> action list option" where
  "err_render e as = (if rom_file e = Opened then Some (as @ [Close_Rom]) else None)"

definition err_backends :: "env \<Rightarrow> action list \<Rightarrow> action list option" where
  "err_backends e as = err_render e (as @ [Render_Fini])"

definition err_server :: "env \<Rightarrow> action list \<Rightarrow> action list option" where
  "err_server e as = err_backends e (as @ backends_fini (backends e))"

definition err_monitor :: "env \<Rightarrow> action list \<Rightarrow> action list option" where
  "err_monitor e as = err_server e (as @ [Server_Fini])"

definition err_io :: "env \<Rightarrow> action list \<Rightarrow> action list option" where
  "err_io e as = err_monitor e (as @ [Monitor_Fini])"

text \<open>The result and the actions.  \<open>monitor_init\<close> returns 0 and reads the ROM stream; \<open>monitor_run\<close>
  ends with the signal handler's jump, which makes \<open>setjmp\<close> return 1.  On a failure
  \<open>render_init\<close> has released its own resources.\<close>

definition main_run :: "env \<Rightarrow> (int \<times> action list) option" where
  "main_run e =
    (if \<not> has_args e then Some (0, [])
     else if rom_file e = Open_Fails then Some (- 1, [])
     else if render_ret e = - 1 then map_option (Pair (- 1)) (err_render e [Render_Init (render_ret e)])
     else
       let (r, bas) = backends_init (backends e); as = Render_Init (render_ret e) # bas
       in if r = - 1 then map_option (Pair (- 1)) (err_backends e as)
          else if server_ret e = - 1 then map_option (Pair (- 1)) (err_server e (as @ [Server_Init (opt_s e) (server_ret e)]))
          else if rom_file e \<noteq> Opened then None
          else if iopoll_ret e = - 1
          then map_option (Pair (- 1)) (err_io e (as @ [Server_Init (opt_s e) (server_ret e), Monitor_Init, Iopoll_Init]))
          else map_option (Pair 1)
            (err_io e (as @ [Server_Init (opt_s e) (server_ret e), Monitor_Init, Iopoll_Init, Monitor_Run])))"

section \<open>Cleanup\<close>

text \<open>Whether a run shuts down exactly the modules that it started, in reverse order: a module whose
  initialisation succeeds is put on a stack, and shutting one down must find it on the top.\<close>

datatype module = M_Render | M_Server | M_Monitor

definition pop :: "module \<Rightarrow> module list \<Rightarrow> module list option" where
  "pop m st = (case st of [] \<Rightarrow> None | x # xs \<Rightarrow> if x = m then Some xs else None)"

fun track :: "action \<Rightarrow> module list \<Rightarrow> module list option" where
  "track (Render_Init r) st = Some (if r = - 1 then st else M_Render # st)"
| "track (Server_Init c r) st = Some (if r = - 1 then st else M_Server # st)"
| "track Monitor_Init st = Some (M_Monitor # st)"
| "track Monitor_Fini st = pop M_Monitor st"
| "track Server_Fini st = pop M_Server st"
| "track Render_Fini st = pop M_Render st"
| "track _ st = Some st"

fun track_all :: "action list \<Rightarrow> module list \<Rightarrow> module list option" where
  "track_all [] st = Some st"
| "track_all (a # as) st = track a st \<bind> track_all as"

lemma track_all_append: "track_all (as @ bs) st = track_all as st \<bind> track_all bs"
proof (induction as arbitrary: st)
  case (Cons a as)
  then show ?case by (cases "track a st") simp_all
qed simp

lemma track_backends:
  "track_all (snd (init_loop i bs)) st = Some st"
  "track_all (map Fini_Backend ns) st = Some st" "track_all (map Get_Fd ns) st = Some st"
proof -
  show "track_all (snd (init_loop i bs)) st = Some st"
    by (induction bs arbitrary: i) (simp_all split: prod.splits, metis snd_conv)
qed (induction ns; simp)+

lemma track_backends_init: "track_all (snd (backends_init bs)) st = Some st"
proof -
  obtain r as where "init_loop 0 bs = (r, as)" by fastforce
  with track_backends(1) [of 0 bs st] show ?thesis
    by (simp add: backends_init_def backends_fini_def track_all_append track_backends)
qed

text \<open>Every run with a ROM file that opens is defined and shuts down what it started, wherever the
  initialisation fails; a run without one that gets past the options is undefined.\<close>

lemma main_shuts_down:
  assumes "has_args e"
  shows "case rom_file e of
      Opened \<Rightarrow> returns (main_run e) (\<lambda>(r, as). track_all as [] = Some [] \<and> last as = Close_Rom)
    | Open_Fails \<Rightarrow> main_run e = Some (- 1, [])
    | No_File \<Rightarrow> main_run e = None"
proof -
  obtain r bas where b: "backends_init (backends e) = (r, bas)" by fastforce
  then have t: "track_all bas st = Some st" for st using track_backends_init [of "backends e" st] by simp
  show ?thesis
    by (cases "rom_file e")
      (use assms in \<open>simp_all add: main_run_def b err_render_def err_backends_def err_server_def err_monitor_def
         err_io_def track_all_append t backends_fini_def track_backends pop_def Let_def\<close>)
qed

end
