(* ===== verification/Evdev.thy ===== *)
theory Evdev
  imports Prelude
begin

text \<open>
  The input devices: \<open>evdev_init\<close> and \<open>evdev_fini\<close> of src/backends/evdev/evdev.c, which
  open the event devices of /dev/input that are keyboards.  An entry of the directory is
  described by what the calls on it return; a device is named by the position of its entry, and
  \<open>freed\<close> lists the devices given to \<open>libevdev_free\<close>.
\<close>

record entry =
  e_event :: bool
  e_malloc :: bool
  e_open :: bool
  e_new :: bool
  e_keyboard :: bool
  e_ctl :: bool

record evdev_t =
  num_evdevs :: nat
  evdevs :: "nat arr"
  freed :: "nat list"

definition MAX_EVDEVS :: nat where "MAX_EVDEVS = 10"

text \<open>The loop over the directory from entry \<open>n\<close> on; \<open>False\<close> is the jump to the label \<open>err\<close>.\<close>

fun evdev_scan :: "nat \<Rightarrow> entry list \<Rightarrow> evdev_t \<Rightarrow> (bool \<times> evdev_t) option" where
  "evdev_scan n [] s = Some (True, s)"
| "evdev_scan n (e # es) s =
    (if \<not> num_evdevs s < MAX_EVDEVS then Some (True, s)
     else if \<not> e_event e then evdev_scan (n + 1) es s
     else if \<not> e_malloc e then Some (False, s)
     else if \<not> e_open e then Some (False, s)
     else if \<not> e_new e then Some (False, s)
     else if e_keyboard e then
       if \<not> e_ctl e then Some (False, s)
       else do { a \<leftarrow> arr_wr MAX_EVDEVS (evdevs s) (int (num_evdevs s)) n;
                 evdev_scan (n + 1) es (s\<lparr>evdevs := a, num_evdevs := num_evdevs s + 1\<rparr>) }
     else evdev_scan (n + 1) es (s\<lparr>freed := freed s @ [n]\<rparr>))"

definition devices :: "evdev_t \<Rightarrow> nat list" where
  "devices s = map (evdevs s) [0..<num_evdevs s]"

definition evdev_fini :: "evdev_t \<Rightarrow> evdev_t" where
  "evdev_fini s = s\<lparr>freed := freed s @ devices s\<rparr>"

definition evdev_init :: "int \<Rightarrow> bool \<Rightarrow> entry list \<Rightarrow> evdev_t \<Rightarrow> (int \<times> evdev_t) option" where
  "evdev_init poll_fd opendir_ok es s =
    (if poll_fd = 0 then Some (- 1, s)
     else if \<not> opendir_ok then Some (- 1, s)
     else do { (ok, s) \<leftarrow> evdev_scan 0 es s;
               if ok then Some (poll_fd, s) else Some (- 1, s\<lparr>freed := freed s @ devices s\<rparr>) })"

text \<open>The table never overflows, however many devices there are.\<close>

lemma evdev_scan_bound:
  "num_evdevs s \<le> MAX_EVDEVS \<Longrightarrow> returns (evdev_scan n es s) (\<lambda>(ok, s'). num_evdevs s' \<le> MAX_EVDEVS)"
  by (induction n es s rule: evdev_scan.induct) simp_all

lemma evdev_init_defined:
  "num_evdevs s \<le> MAX_EVDEVS \<Longrightarrow> returns (evdev_init fd ok es s) (\<lambda>(r, s'). num_evdevs s' \<le> MAX_EVDEVS)"
  using evdev_scan_bound [of s 0 es] by (auto simp: evdev_init_def elim!: returns_mono)

text \<open>When a device fails after another was registered, the cleanup frees the registered device and
  leaves it in the table; \<open>backends_init\<close> then calls \<open>evdev_fini\<close>, which frees it again.\<close>

lemma evdev_freed_twice:
  assumes "evdev_scan 0 es s = Some (False, t)" "fd \<noteq> 0"
  shows "returns (evdev_init fd True es s) (\<lambda>(r, s'). r = - 1 \<and>
    freed (evdev_fini s') = freed t @ devices t @ devices t)"
  using assms by (simp add: evdev_init_def evdev_fini_def devices_def)

lemma evdev_freed_twice_example:
  "returns (evdev_init 5 True
      [\<lparr>e_event = True, e_malloc = True, e_open = True, e_new = True, e_keyboard = True, e_ctl = True\<rparr>,
       \<lparr>e_event = True, e_malloc = True, e_open = False, e_new = True, e_keyboard = True, e_ctl = True\<rparr>]
      \<lparr>num_evdevs = 0, evdevs = (\<lambda>_. 0), freed = []\<rparr>) (\<lambda>(r, s'). freed (evdev_fini s') = [0, 0])"
  by (simp add: evdev_init_def evdev_fini_def devices_def MAX_EVDEVS_def arr_wr_def)

end
