(* ===== verification/Throttle_Theorems.thy ===== *)
theory Throttle_Theorems
  imports Throttle
begin

text \<open>
  The frame limiter over a whole session.  Its divisor counts down as long as more than 60 frames
  come in a second, and nothing in the code keeps it away from zero.  What does is the limiter's
  own pause: with a divisor below 60 the pauses alone leave no time for 61 frames.
\<close>

section \<open>A session\<close>

definition SECOND :: int where "SECOND = 1000000000"

text \<open>The state after \<open>n\<close> calls, with the pause of the last one.  Call \<open>i\<close> reads the time \<open>\<tau> i\<close>,
  in nanoseconds, when the frame counter is \<open>i + 1\<close>.\<close>

primrec session :: "(nat \<Rightarrow> int) \<Rightarrow> nat \<Rightarrow> (int option \<times> throttle) option" where
  "session \<tau> 0 = Some (None, throttle0)"
| "session \<tau> (Suc n) =
    do { (z, t) \<leftarrow> session \<tau> n; monitor_throttle_fps (\<tau> n div SECOND) (of_nat (n + 1)) t }"

text \<open>Time does not run backwards, and \<open>nanosleep\<close> takes at least as long as it is asked to.\<close>

definition clock_ok :: "(nat \<Rightarrow> int) \<Rightarrow> nat \<Rightarrow> bool" where
  "clock_ok \<tau> N \<longleftrightarrow> (\<forall>n < N. \<tau> n \<le> \<tau> (n + 1) \<and>
    (\<forall>z t. session \<tau> (n + 1) = Some (Some z, t) \<longrightarrow> \<tau> n + z \<le> \<tau> (n + 1)))"

section \<open>The invariant\<close>

text \<open>After \<open>n\<close> calls, of which call \<open>m\<close> was the last to look at the rate: since then every call but
  the very first has paused for the same time, and the second has not changed.\<close>

definition since :: "(nat \<Rightarrow> int) \<Rightarrow> nat \<Rightarrow> nat \<Rightarrow> throttle \<Rightarrow> bool" where
  "since \<tau> n m t \<longleftrightarrow> m < n \<and> frame_count_last t = of_nat (m + 1) \<and> last_sec t = \<tau> m div SECOND \<and>
    59 \<le> sleep_factor t \<and> (m = 0 \<longrightarrow> sleep_factor t = 60) \<and> \<tau> (n - 1) div SECOND = \<tau> m div SECOND \<and>
    \<tau> m + (int (n - 1 - m) - (if m = 0 \<and> 1 < n then 1 else 0)) * (SECOND div sleep_factor t) \<le> \<tau> (n - 1)"

definition pause_of :: "nat \<Rightarrow> throttle \<Rightarrow> int option" where
  "pause_of n t = (if n = 1 then None else Some (SECOND div sleep_factor t))"

lemma same_second: "a div SECOND = b div SECOND \<Longrightarrow> a - b < SECOND"
  unfolding SECOND_def by presburger

text \<open>The arithmetic of the bound: \<open>k\<close> pauses within a second.\<close>

lemma pauses_bound:
  assumes "k * (SECOND div s) < SECOND" "d \<le> k" "0 < s" "0 < d"
  shows "SECOND < (SECOND div d + 1) * s"
proof -
  let ?S = "SECOND div s"
  have "0 \<le> ?S" using assms(3) by (simp add: SECOND_def pos_imp_zdiv_nonneg_iff)
  then have "d * ?S \<le> k * ?S" using assms(2) by (rule mult_right_mono [rotated])
  then have "d * ?S < SECOND" using assms(1) by linarith
  then have "(d * ?S) div d \<le> SECOND div d" using assms(4) by (intro zdiv_mono1) simp_all
  then have "?S \<le> SECOND div d" using assms(4) by simp
  then have "(?S + 1) * s \<le> (SECOND div d + 1) * s" using assms(3) by (intro mult_right_mono) simp_all
  moreover have "SECOND = ?S * s + SECOND mod s" by simp
  moreover have "SECOND mod s < s" using assms(3) by simp
  moreover have "(?S + 1) * s = ?S * s + s" by (simp add: distrib_right)
  ultimately show ?thesis by linarith
qed

text \<open>Counting frames with 64 bits.\<close>

lemma frames_apart:
  assumes "m < n" "n < 2 ^ 64 - 1"
  shows "uint ((of_nat (n + 1) :: u64) - of_nat (m + 1)) = int (n - m)"
proof -
  have "n + 1 = (n - m) + (m + 1)" using assms(1) by simp
  then have "(of_nat (n + 1) :: u64) = of_nat (n - m) + of_nat (m + 1)" by (metis of_nat_add)
  then have "(of_nat (n + 1) :: u64) - of_nat (m + 1) = of_nat (n - m)" by simp
  moreover have "uint (of_nat (n - m) :: u64) = int (n - m)"
    using assms(2) by (simp only: unsigned_of_nat) (simp add: take_bit_nat_eq_self)
  ultimately show ?thesis by (simp only:)
qed

lemma frame_number: "n < 2 ^ 64 - 1 \<Longrightarrow> (of_nat (n + 1) :: u64) \<noteq> 0"
proof
  assume n: "n < 2 ^ 64 - 1" and "(of_nat (n + 1) :: u64) = 0"
  then have "unat (of_nat (n + 1) :: u64) = 0" by (simp only: unat_0)
  with n show False by (simp add: unsigned_of_nat take_bit_nat_eq_self del: of_nat_Suc)
qed

text \<open>A look at the rate: when the frames since the last one are more than 60, the divisor is at
  least 60 and may go down.\<close>

lemma rate_bound:
  assumes "since \<tau> n m t" "60 < n - m"
  shows "60 \<le> sleep_factor t"
proof (cases "m = 0")
  case True
  with assms show ?thesis by (simp add: since_def)
next
  case False
  let ?k = "int (n - 1 - m)"
  have "\<tau> m + (?k - (if m = 0 \<and> 1 < n then 1 else 0)) * (SECOND div sleep_factor t) \<le> \<tau> (n - 1)"
    using assms(1) unfolding since_def by blast
  then have "?k * (SECOND div sleep_factor t) \<le> \<tau> (n - 1) - \<tau> m"
    unfolding False simp_thms if_False diff_0_right using False by simp
  also have "\<dots> < SECOND" using assms(1) by (intro same_second) (simp add: since_def)
  finally have "SECOND < (SECOND div 60 + 1) * sleep_factor t"
    using assms by (intro pauses_bound [of ?k]) (auto simp: since_def)
  then show ?thesis by (simp add: SECOND_def)
qed

section \<open>One call\<close>

lemma call_without_look:
  assumes "since \<tau> n m t" "1 \<le> n" "n < 2 ^ 64 - 1" "\<not> \<tau> n div SECOND > last_sec t"
  shows "monitor_throttle_fps (\<tau> n div SECOND) (of_nat (n + 1)) t = Some (pause_of (n + 1) t, t)"
proof -
  have "frame_count_last t \<noteq> 0" using assms(1,3) frame_number [of m] by (simp add: since_def)
  moreover have "sleep_factor t \<noteq> 0" using assms(1) by (auto simp: since_def)
  ultimately show ?thesis
    using assms(2,4) by (simp add: monitor_throttle_fps_def pause_of_def SECOND_def)
qed

lemma since_without_look:
  assumes "since \<tau> n m t" "1 \<le> n" "\<not> \<tau> n div SECOND > last_sec t" "\<tau> (n - 1) \<le> \<tau> n"
    "\<And>z. pause_of n t = Some z \<Longrightarrow> \<tau> (n - 1) + z \<le> \<tau> n"
  shows "since \<tau> (n + 1) m t"
proof -
  let ?X = "SECOND div sleep_factor t"
  have s: "\<tau> (n - 1) div SECOND = \<tau> m div SECOND" "last_sec t = \<tau> m div SECOND" "m < n"
    and acc: "\<tau> m + (int (n - 1 - m) - (if m = 0 \<and> 1 < n then 1 else 0)) * ?X \<le> \<tau> (n - 1)"
    using assms(1) unfolding since_def by blast+
  have "\<tau> (n - 1) div SECOND \<le> \<tau> n div SECOND"
    using assms(4) by (intro zdiv_mono1) (simp_all add: SECOND_def)
  with s assms(3) have d: "\<tau> n div SECOND = \<tau> m div SECOND" by simp
  have "\<tau> m + (int (n - m) - (if m = 0 then 1 else 0)) * ?X \<le> \<tau> n"
  proof (cases "n = 1")
    case True
    with s(3) assms(4) show ?thesis by simp
  next
    case False
    with assms(5) have "\<tau> (n - 1) + ?X \<le> \<tau> n" by (simp add: pause_of_def)
    moreover have "int (n - m) = int (n - 1 - m) + 1" using s(3) by simp
    ultimately show ?thesis using acc False assms(2) by (simp add: algebra_simps split: if_splits)
  qed
  with d assms(1,2) show ?thesis by (simp add: since_def)
qed

lemma call_with_look:
  assumes "since \<tau> n m t" "1 \<le> n" "n < 2 ^ 64 - 1" "\<tau> n div SECOND > last_sec t"
  shows "\<exists>t'. monitor_throttle_fps (\<tau> n div SECOND) (of_nat (n + 1)) t = Some (pause_of (n + 1) t', t') \<and>
    since \<tau> (n + 1) n t'"
proof -
  let ?fps = "(of_nat (n + 1) :: u64) - of_nat (m + 1)"
  let ?s = "adjust_sleep ?fps (sleep_factor t)"
  let ?t = "t\<lparr>sleep_factor := ?s, frame_count_last := of_nat (n + 1), last_sec := \<tau> n div SECOND\<rparr>"
  have m: "m < n" "frame_count_last t = of_nat (m + 1)" "59 \<le> sleep_factor t"
    using assms(1) unfolding since_def by blast+
  have nz: "frame_count_last t \<noteq> 0" using m assms(3) frame_number [of m] by simp
  have "?fps > 60 \<Longrightarrow> 60 \<le> sleep_factor t"
    using rate_bound [OF assms(1)] frames_apart [OF m(1) assms(3)] by (simp add: word_less_alt)
  then have s: "59 \<le> ?s" using m(3) by (auto simp: adjust_sleep_def)
  have "monitor_throttle_fps (\<tau> n div SECOND) (of_nat (n + 1)) t = Some (pause_of (n + 1) ?t, ?t)"
    using nz assms(2,4) s unfolding monitor_throttle_fps_def m(2)
    by (simp add: pause_of_def SECOND_def Let_def)
  moreover have "since \<tau> (n + 1) n ?t" using s assms(2) by (simp add: since_def)
  ultimately show ?thesis by blast
qed

lemma session_since:
  assumes "clock_ok \<tau> N" "1 \<le> n" "n \<le> N" "N < 2 ^ 64 - 1"
  shows "\<exists>m t. session \<tau> n = Some (pause_of n t, t) \<and> since \<tau> n m t"
  using assms(2,3)
proof (induction n rule: dec_induct)
  case base
  show ?case
    by (intro exI [of _ 0]) (simp add: monitor_throttle_fps_def throttle0_def pause_of_def since_def)
next
  case (step n)
  then obtain m t where t: "session \<tau> n = Some (pause_of n t, t)" "since \<tau> n m t" by auto
  have n: "n < 2 ^ 64 - 1" "n - 1 + 1 = n" "n - 1 < N" using step assms(4) by simp_all
  then have mono: "\<tau> (n - 1) \<le> \<tau> n"
    and slept: "\<And>z. pause_of n t = Some z \<Longrightarrow> \<tau> (n - 1) + z \<le> \<tau> n"
    using assms(1) t(1) unfolding clock_ok_def by metis+
  show ?case
  proof (cases "\<tau> n div SECOND > last_sec t")
    case True
    from call_with_look [OF t(2) step.hyps(1) n(1) True] t(1) show ?thesis by auto
  next
    case False
    from call_without_look [OF t(2) step.hyps(1) n(1) False]
      since_without_look [OF t(2) step.hyps(1) False mono slept] t(1)
    show ?thesis by auto
  qed
qed

text \<open>C18: The limiter never divides by zero.  If the clock does not run backwards and \<open>nanosleep\<close> sleeps at
  least as long as asked, then for any number of frames and any speed of the machine every call returns, the
  divisor never falls below 59, and no pause is longer than a 59th of a second.\<close>

theorem limiter_bounds:
  assumes "clock_ok \<tau> N" "n \<le> N" "N < 2 ^ 64 - 1"
  shows "\<exists>z t. session \<tau> n = Some (z, t) \<and> 59 \<le> sleep_factor t \<and>
    (case z of None \<Rightarrow> n \<le> 1 | Some d \<Rightarrow> 0 \<le> d \<and> d \<le> SECOND div 59)"
proof (cases "n = 0")
  case True
  then show ?thesis by (simp add: throttle0_def)
next
  case False
  then obtain m t where t: "session \<tau> n = Some (pause_of n t, t)" "since \<tau> n m t"
    using session_since [OF assms(1) _ assms(2,3)] by auto
  from t(2) have s: "59 \<le> sleep_factor t" by (simp add: since_def)
  then have "SECOND div sleep_factor t \<le> SECOND div 59"
    by (intro zdiv_mono2) (simp_all add: SECOND_def)
  moreover have "0 \<le> SECOND div sleep_factor t" using s by (simp add: SECOND_def pos_imp_zdiv_nonneg_iff)
  ultimately show ?thesis using t(1) s by (auto simp: pause_of_def)
qed

text \<open>Fifty frames in a second.\<close>

theorem limiter_bounds_witness:
  "\<exists>z t. session (\<lambda>n. 20000000 * int n) 2 = Some (z, t) \<and> 59 \<le> sleep_factor t"
proof -
  let ?\<tau> = "\<lambda>n. 20000000 * int n"
  have 1: "session ?\<tau> 1 = Some (None, \<lparr>frame_count_last = 1, last_sec = 0, sleep_factor = 60\<rparr>)"
    by (simp add: monitor_throttle_fps_def throttle0_def)
  have 2: "session ?\<tau> 2 = Some (Some 16666666, \<lparr>frame_count_last = 1, last_sec = 0, sleep_factor = 60\<rparr>)"
    using 1 by (simp add: numeral_2_eq_2 monitor_throttle_fps_def SECOND_def)
  have "z \<le> 20000000" if "n < 2" "session ?\<tau> (n + 1) = Some (Some z, t)" for n z t
  proof -
    from that(1) consider "n + 1 = 1" | "n + 1 = 2" by linarith
    then show ?thesis
      by cases (use that(2) 1 2 in \<open>simp_all add: numeral_2_eq_2 del: session.simps\<close>)
  qed
  then have "clock_ok ?\<tau> 2" by (auto simp: clock_ok_def simp del: session.simps)
  then show ?thesis using limiter_bounds [of ?\<tau> 2 2] by auto
qed

end
