(* ===== verification/Halt_Wait.thy ===== *)
theory Halt_Wait
  imports Emulator
begin

text \<open>
  A program that halts until the vertical blank: the CPU of src/emu/cpu/cpu.c and the PPU of
  src/emu/ppu.c together, over the whole wait.
\<close>

section \<open>What happens to a waiting CPU\<close>

text \<open>\<open>v\<close> tells whether the vertical blank was requested in between.\<close>

definition waits :: "bool \<Rightarrow> cpu_t \<Rightarrow> cpu_t \<Rightarrow> bool" where
  "waits v c d \<longleftrightarrow> is_halted d = is_halted c \<and> ime_enabled d = ime_enabled c \<and> ie_reg d = ie_reg c \<and>
    (bit (if_reg d) 0 \<longleftrightarrow> bit (if_reg c) 0 \<or> v)"

lemma waits_refl [simp]: "waits False c c"
  by (simp add: waits_def)

lemma waits_trans: "waits u c d \<Longrightarrow> waits v d e \<Longrightarrow> waits (u \<or> v) c e"
  by (auto simp: waits_def)

lemma waits_request: "waits (im = REQUEST_INTR_VBLANK) c (cpu_request_intr im c)"
  by (cases im) (simp_all add: waits_def cpu_request_intr_def bit_or_iff bit_numeral_word_iff)

lemma waits_request_lcd [simp]: "waits False c (cpu_request_intr REQUEST_INTR_LCD c)"
  using waits_request [of REQUEST_INTR_LCD c] by simp

lemma waits_set_ly: "waits False (cpu g) (cpu (set_ly v g))"
  by (simp add: set_ly_def check_ly_lyc_def Let_def)

lemma waits_step: "waits False (cpu (set_ly v g)) d \<Longrightarrow> waits False (cpu g) d"
  "waits True (cpu (set_ly v g)) d \<Longrightarrow> waits True (cpu g) d"
  using waits_trans [OF waits_set_ly [of g v]] by fastforce+

lemma waits_hblank: "waits (144 \<le> ly (ppu g) + 1) (cpu g) (cpu (hblank_end_cycle g))"
proof -
  let ?g = "set_ly (ly (ppu g) + 1) g"
  have ly: "ly (ppu ?g) = ly (ppu g) + 1"
    using same_but_stat_sel(2) [OF set_ly_frame [of "ly (ppu g) + 1" g]] by simp
  have vb: "waits True c (cpu_request_intr REQUEST_INTR_VBLANK c)"
    "waits True c (cpu_request_intr REQUEST_INTR_VBLANK (cpu_request_intr REQUEST_INTR_LCD c))" for c
    using waits_request [of REQUEST_INTR_VBLANK] waits_trans [OF waits_request_lcd [of c]] by fastforce+
  show ?thesis
    unfolding hblank_end_cycle_def Let_def ly
    by (auto intro!: waits_step [of "ly (ppu g) + 1" g] simp: vb waits_set_ly ly)
qed

lemma waits_vblank_end: "vblank_end_cycle g = Some h \<Longrightarrow> waits False (cpu g) (cpu h)"
  using waits_set_ly [of "on_ppu (add_dots DOTS_OAM) g" 0]
  by (auto simp: vblank_end_cycle_def throttle_frame_def Let_def bind_eq_Some)

text \<open>Rendering changes only the buffer of the screen.\<close>

lemma each_keeps:
  "(\<And>x s s'. f x s = Some s' \<Longrightarrow> P s s') \<Longrightarrow> (\<And>s. P s s) \<Longrightarrow> (\<And>a b c. P a b \<Longrightarrow> P b c \<Longrightarrow> P a c) \<Longrightarrow>
    each f xs s = Some s' \<Longrightarrow> P s s'"
  by (induction xs arbitrary: s) (auto simp: bind_eq_Some, blast)

lemma render_keeps:
  assumes "ppu_render_line g = Some h"
  shows "ppu h = ppu g \<and> cpu h = cpu g"
proof (rule each_keeps [where P = "\<lambda>s s'. ppu s' = ppu s \<and> cpu s' = cpu s"])
  show "each (\<lambda>(i, j). render_xy i j) line_points g = Some h" using assms by (simp add: render_line_points)
qed (auto simp: render_xy_def render_draw_pixel_def bind_eq_Some split: if_splits)

lemma draw_end_keeps: "draw_end_cycle g = Some h \<Longrightarrow> cpu h = cpu g \<and> mode (ppu h) = PPU_HBLANK"
  using render_keeps by (fastforce simp: draw_end_cycle_def Let_def)

lemma waits_vblank_line: "waits False (cpu g) (cpu (vblank_line t g))"
  unfolding vblank_line_def Let_def
  using waits_set_ly [of "on_ppu (\<lambda>p. p\<lparr>vblank_dots := vblank_dots p + word_of_int (CYCLES_TO_DOTS t)\<rparr>) g"]
  by simp

lemma waits_change_phase:
  assumes "change_phase g = Some h"
  shows "waits (mode (ppu g) = PPU_HBLANK \<and> 144 \<le> ly (ppu g) + 1) (cpu g) (cpu h)"
  using assms waits_hblank [of g] waits_vblank_end [of "render_draw_framebuffer g" h] draw_end_keeps [of g h]
  by (cases "mode (ppu g)") (auto simp: change_phase_def render_draw_framebuffer_def)

text \<open>A refresh of a running PPU requests the vertical blank exactly when it enters that mode.\<close>

lemma clock_enters:
  assumes "clock_inv s"
  shows "pmode s \<noteq> PPU_VBLANK \<and> pmode (fst (clock_step t s)) = PPU_VBLANK \<longleftrightarrow>
    pdots s - 4 * t \<le> 0 \<and> pmode s = PPU_HBLANK \<and> 144 \<le> pline s + 1"
  using assms by (cases "pmode s") (auto simp: clock_step_def clock_inv_def Let_def)

lemma waits_refresh:
  assumes g: "ppu_running g" and t: "1 \<le> uint t" "uint t \<le> 6" and h: "ppu_refresh t g = Some h"
  shows "waits (mode (ppu g) \<noteq> PPU_VBLANK \<and> mode (ppu h) = PPU_VBLANK) (cpu g) (cpu h)"
proof -
  let ?s = "abs_clock (ppu g)" and ?g1 = "on_ppu (add_dots (- CYCLES_TO_DOTS t)) g"
  have inv: "clock_inv ?s" and on: "has (lcdc (ppu g)) LCDC_BITMASK_PPU_ENABLE" using g by (simp_all add: ppu_running_def)
  have tz: "t \<noteq> 0" using t by auto
  have b: "0 < pdots ?s" "pdots ?s \<le> 4560" using inv by (cases "pmode ?s"; simp add: clock_inv_def)+
  have d: "sint (dots_remaining (ppu ?g1)) = pdots ?s - 4 * uint t"
    using b t by (simp add: sint_add_dots CYCLES_TO_DOTS_eq abs_clock_def)
  have l: "uint (ly (ppu g)) \<le> 153" using inv by (cases "pmode ?s") (simp_all add: clock_inv_def abs_clock_def)
  then have ly: "144 \<le> ly (ppu g) + 1 \<longleftrightarrow> 144 \<le> pline ?s + 1" "ly (ppu g) = 0x99 \<longleftrightarrow> pline ?s = 153"
    by (simp_all add: word_le_def uint_plus1 abs_clock_def word_uint_eq_iff)
  obtain h' where "ppu_refresh t g = Some h'" "abs_clock (ppu h') = fst (clock_step (uint t) ?s)"
    using ppu_refresh_abs [OF g t] by metis
  with h have "pmode (fst (clock_step (uint t) ?s)) = mode (ppu h)"
    by (metis abs_clock_def option.inject pclock.select_convs(1))
  then have enters: "mode (ppu g) \<noteq> PPU_VBLANK \<and> mode (ppu h) = PPU_VBLANK \<longleftrightarrow>
      pdots ?s - 4 * uint t \<le> 0 \<and> mode (ppu g) = PPU_HBLANK \<and> 144 \<le> ly (ppu g) + 1"
    using clock_enters [OF inv, of "uint t"] ly(1) by (simp add: abs_clock_def)
  have r: "ppu_refresh t g =
    (if pdots ?s - 4 * uint t \<le> 0 \<or> pline ?s = 153 then change_phase ?g1
     else if mode (ppu g) = PPU_VBLANK then Some (vblank_line t ?g1) else Some ?g1)"
    using on tz d ly(2) by (simp add: ppu_refresh_def fix_ticks_def)
  show ?thesis
  proof (cases "pdots ?s - 4 * uint t \<le> 0 \<or> pline ?s = 153")
    case True
    then have "change_phase ?g1 = Some h" using r h by simp
    from waits_change_phase [OF this] have "waits (mode (ppu g) = PPU_HBLANK \<and> 144 \<le> ly (ppu g) + 1) (cpu g) (cpu h)"
      by simp
    moreover have "pdots ?s - 4 * uint t \<le> 0 \<and> mode (ppu g) = PPU_HBLANK \<and> 144 \<le> ly (ppu g) + 1 \<longleftrightarrow>
        mode (ppu g) = PPU_HBLANK \<and> 144 \<le> ly (ppu g) + 1"
      using True inv by (auto simp: clock_inv_def abs_clock_def)
    ultimately show ?thesis unfolding enters by (simp only:)
  next
    case False
    then show ?thesis
      unfolding enters using r h waits_vblank_line [of ?g1 t] by (auto split: if_splits)
  qed
qed

section \<open>One step of the wait\<close>

text \<open>A halted program that waits for the vertical blank and nothing else.\<close>

definition waiting :: "gb \<Rightarrow> bool" where
  "waiting g \<longleftrightarrow> is_halted (cpu g) \<and> ime_enabled (cpu g) \<and> ie_reg (cpu g) = 1"

lemma waiting_pending: "waiting g \<Longrightarrow> pending (cpu g) = (if bit (if_reg (cpu g)) 0 then {VBLANK_INTERRUPT} else {})"
proof -
  assume "waiting g"
  then have "x \<in> pending (cpu g) \<longleftrightarrow> x = VBLANK_INTERRUPT \<and> bit (if_reg (cpu g)) 0" for x
    by (cases x) (auto simp: pending_def waiting_def bit_and_iff bit_1_iff)
  then show ?thesis by auto
qed

lemma waits_waiting: "waits v (cpu g) (cpu h) \<Longrightarrow> waiting h = waiting g"
  by (simp add: waits_def waiting_def)

lemma waits_timers: "timer_step n (div_step n c) = Some d \<Longrightarrow> waits False c d"
  by (auto simp: timer_step_def div_step_def waits_def cpu_request_intr_def bit_or_iff bit_numeral_word_iff Let_def
      split: if_splits)

lemma cpu_halted:
  assumes "gb_ok g" "waiting g"
  obtains k where "gb_ok k" "ppu k = ppu g" "throttle k = throttle g" "waits False (cpu g) (cpu k)"
    "cpu_exec_next g = map_option (Pair 3) (handle_intrs k)"
proof -
  obtain c where c: "timer_step 3 (div_step 3 (cpu g)) = Some c" "cpu_ok c"
    using timer_step_ok [of "div_step 3 (cpu g)" 3] assms(1) by (auto simp: gb_ok_def)
  let ?k = "(on_cpu (div_step 3) g)\<lparr>cpu := c\<rparr>"
  have "gb_ok ?k" using assms(1) c(2) by (simp add: gb_ok_def)
  moreover have "waits False (cpu g) (cpu ?k)" using waits_timers [OF c(1)] by simp
  moreover have "cpu_exec_next g = map_option (Pair 3) (handle_intrs ?k)"
    using assms(2) c(1) by (cases "handle_intrs ?k") (simp_all add: cpu_exec_next_def execute_def waiting_def)
  ultimately show thesis by (intro that [of ?k]) simp_all
qed

text \<open>The dots until the vertical blank begins.\<close>

definition to_vblank :: "pclock \<Rightarrow> int" where
  "to_vblank s = remaining s - 4560 + (if pmode s = PPU_VBLANK then FRAME_DOTS else 0)"

lemma to_vblank_bounds: "clock_inv s \<Longrightarrow> 0 < to_vblank s \<and> to_vblank s \<le> FRAME_DOTS"
  by (cases "pmode s") (auto simp: clock_inv_def remaining_def to_vblank_def FRAME_DOTS_def)

lemma to_vblank_step:
  assumes "clock_inv s" "pmode (fst (clock_step 3 s)) = PPU_VBLANK \<longrightarrow> pmode s = PPU_VBLANK"
  shows "to_vblank (fst (clock_step 3 s)) = to_vblank s - 12"
  using assms
  by (cases "pmode s") (auto simp: clock_inv_def clock_step_def remaining_def to_vblank_def FRAME_DOTS_def Let_def)

lemma enters_line:
  assumes "clock_inv s" "pmode s \<noteq> PPU_VBLANK" "pmode (fst (clock_step t s)) = PPU_VBLANK"
  shows "pline (fst (clock_step t s)) = 144"
  using assms by (cases "pmode s") (auto simp: clock_inv_def clock_step_def Let_def split: if_splits)

lemma frame_ends_in_vblank: "clock_inv s \<Longrightarrow> snd (clock_step t s) \<Longrightarrow>
    pmode s = PPU_VBLANK \<and> pmode (fst (clock_step t s)) = PPU_OAM"
  by (cases "pmode s") (auto simp: clock_inv_def clock_step_def Let_def split: if_splits)

text \<open>The limiter is called once in the rest of a vertical blank.\<close>

definition limiter_fine :: "gb \<Rightarrow> bool" where
  "limiter_fine g \<longleftrightarrow> sleep_factor (throttle g) > (if mode (ppu g) = PPU_VBLANK then 2 else 1)"

definition asleep :: "gb \<Rightarrow> bool" where
  "asleep g \<longleftrightarrow> ppu_running g \<and> waiting g \<and> \<not> bit (if_reg (cpu g)) 0 \<and> limiter_fine g"

text \<open>A machine that sleeps goes on sleeping, or the vertical blank has just begun.\<close>

definition awoken :: "gb \<Rightarrow> bool" where
  "awoken h \<longleftrightarrow> gb_ok h \<and> waiting h \<and> bit (if_reg (cpu h)) 0 \<and> mode (ppu h) = PPU_VBLANK \<and> ly (ppu h) = 144"

lemma asleep_step:
  assumes "asleep g"
  obtains h where "exec_next g = Some h"
    "awoken h \<or> asleep h \<and> to_vblank (abs_clock (ppu h)) = to_vblank (abs_clock (ppu g)) - 12"
proof -
  have run: "ppu_running g" and w: "waiting g" and nb: "\<not> bit (if_reg (cpu g)) 0" and lim: "limiter_fine g"
    using assms by (simp_all add: asleep_def)
  have ok: "gb_ok g" using run by (simp add: ppu_running_def)
  obtain k where k: "gb_ok k" "ppu k = ppu g" "throttle k = throttle g" "waits False (cpu g) (cpu k)"
    "cpu_exec_next g = map_option (Pair 3) (handle_intrs k)"
    by (rule cpu_halted [OF ok w])
  have wk: "waiting k" "\<not> bit (if_reg (cpu k)) 0"
    using waits_waiting [OF k(4)] k(4) w nb by (simp_all add: waits_def)
  then have next_k: "exec_next g = ppu_refresh 3 k"
    using k(5) handle_intrs_none [OF k(1)] waiting_pending [of k] by (simp add: exec_next_def)
  have rk: "ppu_running k" using run k(1-3) by (simp add: ppu_running_def)
  let ?s = "abs_clock (ppu g)"
  obtain h where h: "ppu_refresh 3 k = Some h" "abs_clock (ppu h) = fst (clock_step 3 ?s)"
    "refresh_frame k (snd (clock_step 3 ?s)) h"
    using ppu_refresh_abs [OF rk, of 3] k(2) by auto
  have inv: "clock_inv ?s" using run by (simp add: ppu_running_def)
  have inv': "clock_inv (abs_clock (ppu h))" unfolding h(2) by (rule clock_inv_step [OF inv]) simp_all
  have "pmode (abs_clock (ppu h)) = mode (ppu h)" by (simp add: abs_clock_def)
  then have m: "pmode ?s = mode (ppu g)" "mode (ppu h) = pmode (fst (clock_step 3 ?s))"
    unfolding h(2) by (simp_all add: abs_clock_def)
  have wh: "waits (mode (ppu g) \<noteq> PPU_VBLANK \<and> mode (ppu h) = PPU_VBLANK) (cpu k) (cpu h)"
    using waits_refresh [OF rk _ _ h(1)] k(2) by simp
  have w': "waiting h" using waits_waiting [OF wh] wk(1) by simp
  show thesis
  proof (cases "mode (ppu g) \<noteq> PPU_VBLANK \<and> mode (ppu h) = PPU_VBLANK")
    case True
    then have "pline (abs_clock (ppu h)) = 144" using enters_line [OF inv] m unfolding h(2) by metis
    then have "ly (ppu h) = 144" by (simp add: abs_clock_def word_uint_eq_iff)
    moreover have "gb_ok h" using h(3) by (simp add: refresh_frame_def)
    moreover have "bit (if_reg (cpu h)) 0" using True wh by (simp add: waits_def)
    ultimately show thesis using that [of h] next_k h(1) w' True by (simp add: awoken_def)
  next
    case False
    have "\<not> bit (if_reg (cpu h)) 0" using False wh wk(2) by (simp add: waits_def)
    moreover have lh: "limiter_fine h \<and> sleep_factor (throttle h) > 1"
      using h(3) lim False frame_ends_in_vblank [OF inv, of 3] m k(3)
      by (auto simp: limiter_fine_def refresh_frame_def split: if_splits)
    moreover have "ppu_running h"
      using rk h(3) inv' lh by (simp add: ppu_running_def refresh_frame_def)
    moreover have "to_vblank (abs_clock (ppu h)) = to_vblank ?s - 12"
      unfolding h(2) using False m by (intro to_vblank_step [OF inv]) auto
    ultimately show thesis using that [of h] next_k h(1) w' by (simp add: asleep_def)
  qed
qed

section \<open>The whole wait\<close>

text \<open>\<open>monitor_run\<close> without a debugger: \<open>n\<close> rounds of its loop.\<close>

primrec exec_run :: "nat \<Rightarrow> gb \<Rightarrow> gb option" where
  "exec_run 0 g = Some g"
| "exec_run (Suc n) g = do { g \<leftarrow> exec_next g; exec_run n g }"

lemma asleep_wakes:
  "asleep g \<Longrightarrow> to_vblank (abs_clock (ppu g)) \<le> 12 * int n \<Longrightarrow> \<exists>k\<le>n. \<exists>h. exec_run k g = Some h \<and> awoken h"
proof (induction n arbitrary: g)
  case 0
  then have "clock_inv (abs_clock (ppu g))" by (simp add: asleep_def ppu_running_def)
  from to_vblank_bounds [OF this] 0 show ?case by simp
next
  case (Suc n)
  obtain h where h: "exec_next g = Some h"
    "awoken h \<or> asleep h \<and> to_vblank (abs_clock (ppu h)) = to_vblank (abs_clock (ppu g)) - 12"
    using asleep_step [OF Suc.prems(1)] .
  show ?case
  proof (cases "awoken h")
    case True
    then show ?thesis using h(1) by (intro exI [of _ 1]) simp
  next
    case False
    then have "asleep h" "to_vblank (abs_clock (ppu h)) \<le> 12 * int n" using h(2) Suc.prems(2) by simp_all
    from Suc.IH [OF this] obtain k h' where "k \<le> n" "exec_run k h = Some h'" "awoken h'" by blast
    then show ?thesis using h(1) by (intro exI [of _ "Suc k"]) simp
  qed
qed

lemma awoken_served:
  assumes "awoken h"
  obtains k where "cpu_exec_next h = Some (3, k)" "R16 REG_PC k = 0x40" "\<not> is_halted (cpu k)" "\<not> ime_enabled (cpu k)"
proof -
  have h: "gb_ok h" "waiting h" "bit (if_reg (cpu h)) 0" using assms by (simp_all add: awoken_def)
  obtain k where k: "gb_ok k" "waits False (cpu h) (cpu k)" "cpu_exec_next h = map_option (Pair 3) (handle_intrs k)"
    using cpu_halted [OF h(1,2)] by metis
  have wk: "waiting k" "bit (if_reg (cpu k)) 0"
    using waits_waiting [OF k(2)] k(2) h by (simp_all add: waits_def)
  then have p: "pending (cpu k) = {VBLANK_INTERRUPT}" by (simp add: waiting_pending)
  let ?k = "on_cpu (acknowledge (interrupt_value VBLANK_INTERRUPT)) k"
  have s: "handle_intrs k = process_intr (interrupt_value VBLANK_INTERRUPT) ?k"
    using handle_intrs_serves [OF k(1)] wk(1) p by (simp add: waiting_def)
  obtain z where z: "process_intr (interrupt_value VBLANK_INTERRUPT) ?k = Some z"
    "ime_enabled (cpu z) = ime_enabled (cpu ?k)" "is_halted (cpu z) = is_halted (cpu ?k)"
    using process_intr_ok [OF gb_ok_acknowledge [OF k(1)]] by metis
  have "R16 REG_PC z = 0x40"
    using z(1) by (auto simp: process_intr_def interrupt_handler_addr_def DO_LD_REG16_def bind_eq_Some)
  with z k(3) s that show thesis by (simp add: acknowledge_def)
qed

text \<open>C9: A program that halts until the vertical blank is always woken: with interrupts enabled, only the
  vertical blank selected and not yet requested, and the LCD on, within 5840 steps of the emulator, one
  frame, the vertical blank begins at line 144 and is requested, no earlier step wakes the CPU or fails,
  and the next step takes the program to the handler at 0x40 with interrupts disabled.\<close>

theorem halt_wakes_at_vblank:
  assumes "ppu_running g" "is_halted (cpu g)" "ime_enabled (cpu g)" "ie_reg (cpu g) = 1" "\<not> bit (if_reg (cpu g)) 0"
    "sleep_factor (throttle g) > 2"
  shows "\<exists>n h k. n \<le> 5840 \<and> exec_run n g = Some h \<and> is_halted (cpu h) \<and> mode (ppu h) = PPU_VBLANK \<and> ly (ppu h) = 144 \<and>
    cpu_exec_next h = Some (3, k) \<and> R16 REG_PC k = 0x40 \<and> \<not> is_halted (cpu k) \<and> \<not> ime_enabled (cpu k)"
proof -
  have a: "asleep g" using assms by (simp add: asleep_def waiting_def limiter_fine_def)
  have "clock_inv (abs_clock (ppu g))" using assms(1) by (simp add: ppu_running_def)
  then have "to_vblank (abs_clock (ppu g)) \<le> 12 * int 5840"
    using to_vblank_bounds by (fastforce simp: FRAME_DOTS_def)
  from asleep_wakes [OF a this] obtain n h where h: "n \<le> 5840" "exec_run n g = Some h" "awoken h" by blast
  obtain k where "cpu_exec_next h = Some (3, k)" "R16 REG_PC k = 0x40" "\<not> is_halted (cpu k)" "\<not> ime_enabled (cpu k)"
    using awoken_served [OF h(3)] .
  with h show ?thesis by (auto simp: awoken_def waiting_def)
qed

text \<open>A machine with the LCD on that has executed \<open>HALT\<close>.\<close>

definition halted_sample :: gb where
  "halted_sample = on_cpu (\<lambda>c. c\<lparr>is_halted := True, ime_enabled := True, ie_reg := 1\<rparr>) lcd_sample"

theorem halt_wakes_at_vblank_witness:
  "\<exists>n h. n \<le> 5840 \<and> exec_run n halted_sample = Some h \<and> mode (ppu h) = PPU_VBLANK \<and> ly (ppu h) = 144"
proof -
  have "ppu_running halted_sample"
    using lcd_sample_running by (simp add: halted_sample_def ppu_running_def gb_ok_def cpu_ok_def timer_ok_def)
  moreover have "sleep_factor (throttle halted_sample) = 60" "if_reg (cpu halted_sample) = 0"
    by (simp_all add: halted_sample_def lcd_sample_def sample_gb_def power_on_def throttle0_def cpu0_def)
  ultimately show ?thesis
    using halt_wakes_at_vblank [of halted_sample] by (auto simp: halted_sample_def)
qed

end
