(* ===== verification/Iopoll_Start.thy ===== *)
theory Iopoll_Start
  imports Prelude
begin

text \<open>
  The start of the event thread: \<open>iopoll_init\<close> and the first part of \<open>iopoll_thread\<close> of
  src/iopoll.c, two threads that meet at the mutex \<open>mtx_init\<close> and the condition \<open>cond_init\<close>.

  As in \<open>Threads\<close> a program point names the next statement of a thread, and \<open>None\<close> as the next
  state means that the thread is blocked or has ended.  Here a wait may also end without a signal, as
  POSIX permits, when the parameter of the step relation allows it.  The results of the system calls
  are an argument.
\<close>

section \<open>The two threads\<close>

datatype starter = Main_Thread | Event_Thread

datatype main_pc = M_Lock | M_Create | M_Block | M_Wait | M_Relock | M_Unlock | M_Check
  | M_Unlock_Err | M_Done int

datatype event_pc = I_None | I_Lock | I_Create | I_Add nat | I_Add_Server | I_Unlock | I_Signal | I_Test
  | I_Loop | I_Exit

record start =
  mtx_init :: "starter option"
  init_success :: bool
  mpc :: main_pc
  ipc :: event_pc

text \<open>Whether \<open>pthread_create\<close> succeeds, what \<open>epoll_create1\<close> and \<open>server_get_fd\<close> return, the
  descriptors of the backends, and whether \<open>epoll_ctl\<close> adds a descriptor to an epoll instance.\<close>

record start_env =
  thread_created :: bool
  epoll_fd :: int
  fds :: "int list"
  server_fd :: int
  epoll_add :: "int \<Rightarrow> int \<Rightarrow> bool"

definition lock_init :: "starter \<Rightarrow> start \<Rightarrow> start option" where
  "lock_init t s = (if mtx_init s = None then Some (s\<lparr>mtx_init := Some t\<rparr>) else None)"

definition iopoll_init :: "start_env \<Rightarrow> start \<Rightarrow> start option" where
  "iopoll_init e s =
    (case mpc s of
       M_Lock \<Rightarrow> map_option (mpc_update (\<lambda>_. M_Create)) (lock_init Main_Thread s)
     | M_Create \<Rightarrow> Some (if thread_created e then s\<lparr>mpc := M_Block, ipc := I_Lock\<rparr> else s\<lparr>mpc := M_Unlock_Err\<rparr>)
     | M_Block \<Rightarrow> Some (s\<lparr>mtx_init := None, mpc := M_Wait\<rparr>)
     | M_Wait \<Rightarrow> None
     | M_Relock \<Rightarrow> map_option (mpc_update (\<lambda>_. M_Unlock)) (lock_init Main_Thread s)
     | M_Unlock \<Rightarrow> Some (s\<lparr>mtx_init := None, mpc := M_Check\<rparr>)
     | M_Check \<Rightarrow> Some (s\<lparr>mpc := M_Done (if \<not> init_success s then - 1 else 0)\<rparr>)
     | M_Unlock_Err \<Rightarrow> Some (s\<lparr>mtx_init := None, mpc := M_Done (- 1)\<rparr>)
     | M_Done r \<Rightarrow> None)"

text \<open>\<open>pthread_cond_signal\<close>.\<close>

definition signal_main :: "start \<Rightarrow> start" where
  "signal_main s = (if mpc s = M_Wait then s\<lparr>mpc := M_Relock\<rparr> else s)"

definition iopoll_thread :: "start_env \<Rightarrow> start \<Rightarrow> start option" where
  "iopoll_thread e s =
    (case ipc s of
       I_None \<Rightarrow> None
     | I_Lock \<Rightarrow> map_option (ipc_update (\<lambda>_. I_Create)) (lock_init Event_Thread s)
     | I_Create \<Rightarrow> Some (s\<lparr>init_success := True, ipc := I_Add 0\<rparr>)
     | I_Add i \<Rightarrow>
         Some (if i < length (fds e) then
                 if epoll_add e (epoll_fd e) (fds e ! i) then s\<lparr>ipc := I_Add (i + 1)\<rparr>
                 else s\<lparr>init_success := False, ipc := I_Add_Server\<rparr>
               else s\<lparr>ipc := I_Add_Server\<rparr>)
     | I_Add_Server \<Rightarrow>
         Some (if server_fd e \<noteq> 0 \<and> \<not> epoll_add e (epoll_fd e) (server_fd e)
               then s\<lparr>init_success := False, ipc := I_Unlock\<rparr> else s\<lparr>ipc := I_Unlock\<rparr>)
     | I_Unlock \<Rightarrow> Some (s\<lparr>mtx_init := None, ipc := I_Signal\<rparr>)
     | I_Signal \<Rightarrow> Some ((signal_main s)\<lparr>ipc := I_Test\<rparr>)
     | I_Test \<Rightarrow> Some (s\<lparr>ipc := if init_success s then I_Loop else I_Exit\<rparr>)
     | I_Loop \<Rightarrow> None
     | I_Exit \<Rightarrow> None)"

definition start0 :: start where
  "start0 = \<lparr>mtx_init = None, init_success = False, mpc = M_Lock, ipc = I_None\<rparr>"

inductive start_step :: "bool \<Rightarrow> start_env \<Rightarrow> start \<Rightarrow> start \<Rightarrow> bool" for spurious e where
  main: "iopoll_init e s = Some s' \<Longrightarrow> start_step spurious e s s'"
| events: "iopoll_thread e s = Some s' \<Longrightarrow> start_step spurious e s s'"
| wake: "spurious \<Longrightarrow> mpc s = M_Wait \<Longrightarrow> start_step spurious e s (s\<lparr>mpc := M_Relock\<rparr>)"

inductive_cases start_stepE: "start_step spurious e s s'"

section \<open>The invariant\<close>

definition all_added :: "start_env \<Rightarrow> bool" where
  "all_added e \<longleftrightarrow> (\<forall>fd\<in>set (fds e). epoll_add e (epoll_fd e) fd) \<and>
    (server_fd e \<noteq> 0 \<longrightarrow> epoll_add e (epoll_fd e) (server_fd e))"

text \<open>Who holds the mutex, by the program points.\<close>

definition main_holds :: "main_pc \<Rightarrow> bool" where
  "main_holds p = (case p of M_Create \<Rightarrow> True | M_Block \<Rightarrow> True | M_Unlock \<Rightarrow> True | M_Unlock_Err \<Rightarrow> True | _ \<Rightarrow> False)"

definition events_holds :: "event_pc \<Rightarrow> bool" where
  "events_holds p = (case p of I_Create \<Rightarrow> True | I_Add i \<Rightarrow> True | I_Add_Server \<Rightarrow> True | I_Unlock \<Rightarrow> True | _ \<Rightarrow> False)"

definition mutex_ok :: "start \<Rightarrow> bool" where
  "mutex_ok s \<longleftrightarrow> mtx_init s =
    (if main_holds (mpc s) then Some Main_Thread else if events_holds (ipc s) then Some Event_Thread else None) \<and>
    \<not> (main_holds (mpc s) \<and> events_holds (ipc s))"

text \<open>The points of the event thread before and after the signal, and where each lets the main thread be.\<close>

definition signalled :: "event_pc \<Rightarrow> bool" where
  "signalled p = (case p of I_Test \<Rightarrow> True | I_Loop \<Rightarrow> True | I_Exit \<Rightarrow> True | _ \<Rightarrow> False)"

definition meets :: "start_env \<Rightarrow> start \<Rightarrow> bool" where
  "meets e s \<longleftrightarrow>
    (case mpc s of
       M_Lock \<Rightarrow> ipc s = I_None
     | M_Create \<Rightarrow> ipc s = I_None
     | M_Block \<Rightarrow> thread_created e \<and> ipc s = I_Lock
     | M_Wait \<Rightarrow> thread_created e \<and> ipc s \<noteq> I_None \<and> \<not> signalled (ipc s)
     | M_Unlock_Err \<Rightarrow> \<not> thread_created e \<and> ipc s = I_None
     | M_Done r \<Rightarrow> r = (if thread_created e \<and> all_added e then 0 else - 1) \<and>
         (if thread_created e then signalled (ipc s) else ipc s = I_None)
     | _ \<Rightarrow> thread_created e \<and> signalled (ipc s))"

text \<open>What the flag says at each point of the event thread.\<close>

definition flag_ok :: "start_env \<Rightarrow> start \<Rightarrow> bool" where
  "flag_ok e s \<longleftrightarrow>
    (case ipc s of
       I_Add i \<Rightarrow> init_success s \<and> i \<le> length (fds e) \<and> (\<forall>fd\<in>set (take i (fds e)). epoll_add e (epoll_fd e) fd)
     | I_Add_Server \<Rightarrow> init_success s \<longleftrightarrow> (\<forall>fd\<in>set (fds e). epoll_add e (epoll_fd e) fd)
     | I_Loop \<Rightarrow> init_success s \<and> all_added e
     | I_Exit \<Rightarrow> \<not> init_success s \<and> \<not> all_added e
     | I_None \<Rightarrow> True
     | I_Lock \<Rightarrow> True
     | I_Create \<Rightarrow> True
     | _ \<Rightarrow> init_success s \<longleftrightarrow> all_added e)"

lemmas start_ok_defs = mutex_ok_def meets_def flag_ok_def main_holds_def events_holds_def signalled_def

definition start_ok :: "start_env \<Rightarrow> start \<Rightarrow> bool" where
  "start_ok e s \<longleftrightarrow> mutex_ok s \<and> meets e s \<and> flag_ok e s"

lemma start_ok0: "start_ok e start0"
  by (simp add: start_ok_def start_ok_defs start0_def)

lemma mutex_ok_main: "mutex_ok s \<Longrightarrow> iopoll_init e s = Some s' \<Longrightarrow> mutex_ok s'"
  by (cases "mpc s")
    (auto simp: iopoll_init_def mutex_ok_def main_holds_def lock_init_def events_holds_def split: if_splits)

lemma mutex_ok_events: "mutex_ok s \<Longrightarrow> iopoll_thread e s = Some s' \<Longrightarrow> mutex_ok s'"
  by (cases "ipc s")
    (auto simp: iopoll_thread_def mutex_ok_def events_holds_def lock_init_def signal_main_def main_holds_def
      split: if_splits)

text \<open>The main thread gets hold of the mutex again only after the event thread has released it.\<close>

lemma meets_main:
  assumes "meets e s" "flag_ok e s" "iopoll_init e s = Some s'"
  shows "meets e s'"
proof (cases "mpc s")
  case M_Check
  then show ?thesis
    using assms by (cases "ipc s") (simp_all add: iopoll_init_def meets_def flag_ok_def signalled_def, auto simp: signalled_def)
qed (use assms in \<open>auto simp: iopoll_init_def meets_def lock_init_def signalled_def split: if_splits\<close>)

lemma meets_events:
  assumes "mutex_ok s" "meets e s" "iopoll_thread e s = Some s'"
  shows "meets e s'"
proof (cases "ipc s")
  case I_Lock
  then show ?thesis
    using assms by (cases "mpc s")
      (auto simp: iopoll_thread_def meets_def signalled_def lock_init_def mutex_ok_def main_holds_def split: if_splits)
qed (use assms in \<open>auto simp: iopoll_thread_def meets_def signalled_def signal_main_def
  split: if_splits main_pc.splits\<close>)

lemma flag_ok_main: "flag_ok e s \<Longrightarrow> iopoll_init e s = Some s' \<Longrightarrow> flag_ok e s'"
  by (cases "mpc s") (auto simp: iopoll_init_def flag_ok_def lock_init_def cong: event_pc.case_cong split: if_splits)

lemma flag_ok_events:
  assumes "flag_ok e s" "iopoll_thread e s = Some s'"
  shows "flag_ok e s'"
proof (cases "ipc s")
  case (I_Add i)
  then show ?thesis
    using assms by (auto simp: iopoll_thread_def flag_ok_def take_Suc_conv_app_nth split: if_splits) (meson nth_mem)
next
  case I_Add_Server
  then show ?thesis using assms by (auto simp: iopoll_thread_def flag_ok_def all_added_def split: if_splits)
qed (use assms in \<open>auto simp: iopoll_thread_def flag_ok_def lock_init_def signal_main_def split: if_splits\<close>)

lemma start_step_ok: "start_ok e s \<Longrightarrow> start_step False e s s' \<Longrightarrow> start_ok e s'"
  unfolding start_ok_def
  by (elim start_stepE)
    (use mutex_ok_main mutex_ok_events meets_main meets_events flag_ok_main flag_ok_events in blast)+

lemma start_run_ok: "(start_step False e ^^ n) start0 s \<Longrightarrow> start_ok e s"
  by (induction n arbitrary: s) (auto intro: start_ok0 start_step_ok)

section \<open>The start ends\<close>

text \<open>How many statements the two threads have before them, at most.\<close>

definition main_left :: "main_pc \<Rightarrow> nat" where
  "main_left p = (case p of M_Lock \<Rightarrow> 8 | M_Create \<Rightarrow> 7 | M_Block \<Rightarrow> 6 | M_Wait \<Rightarrow> 5 | M_Relock \<Rightarrow> 4
     | M_Unlock \<Rightarrow> 3 | M_Check \<Rightarrow> 2 | M_Unlock_Err \<Rightarrow> 1 | M_Done r \<Rightarrow> 0)"

definition events_left :: "start_env \<Rightarrow> event_pc \<Rightarrow> nat" where
  "events_left e p = (case p of I_None \<Rightarrow> length (fds e) + 7 | I_Lock \<Rightarrow> length (fds e) + 7
     | I_Create \<Rightarrow> length (fds e) + 6 | I_Add i \<Rightarrow> length (fds e) - i + 5 | I_Add_Server \<Rightarrow> 4 | I_Unlock \<Rightarrow> 3
     | I_Signal \<Rightarrow> 2 | I_Test \<Rightarrow> 1 | I_Loop \<Rightarrow> 0 | I_Exit \<Rightarrow> 0)"

definition statements_left :: "start_env \<Rightarrow> start \<Rightarrow> nat" where
  "statements_left e s = main_left (mpc s) + events_left e (ipc s)"

lemma main_step_left:
  assumes "meets e s" "iopoll_init e s = Some s'"
  shows "statements_left e s' < statements_left e s"
  using assms by (cases "mpc s")
    (auto simp: iopoll_init_def meets_def statements_left_def main_left_def events_left_def lock_init_def split: if_splits)

lemma events_step_left: "iopoll_thread e s = Some s' \<Longrightarrow> statements_left e s' < statements_left e s"
  by (cases "ipc s")
    (auto simp: iopoll_thread_def statements_left_def main_left_def events_left_def lock_init_def signal_main_def
      split: if_splits)

lemma start_not_stuck:
  assumes "start_ok e s" "\<nexists>s'. start_step False e s s'"
  shows "\<exists>r. mpc s = M_Done r"
proof -
  have m: "iopoll_init e s = None" and i: "iopoll_thread e s = None"
    using assms(2) start_step.intros by (metis not_Some_eq)+
  from m have main: "mpc s \<in> {M_Wait} \<union> range M_Done \<or>
      mpc s \<in> {M_Lock, M_Relock} \<and> mtx_init s \<noteq> None"
    by (cases "mpc s") (auto simp: iopoll_init_def lock_init_def split: if_splits)
  from i have events: "ipc s \<in> {I_None, I_Loop, I_Exit} \<or> ipc s = I_Lock \<and> mtx_init s \<noteq> None"
    by (cases "ipc s") (auto simp: iopoll_thread_def lock_init_def split: if_splits)
  show ?thesis
    using assms(1) main events
    by (auto simp: start_ok_def mutex_ok_def meets_def main_holds_def events_holds_def signalled_def)
qed

lemma start_run_length:
  "(start_step False e ^^ n) start0 s \<Longrightarrow> n + statements_left e s \<le> length (fds e) + 15"
proof (induction n arbitrary: s)
  case 0
  then have "s = start0" by simp
  then show ?case by (simp add: start0_def statements_left_def main_left_def events_left_def)
next
  case (Suc n)
  then obtain t where t: "(start_step False e ^^ n) start0 t" "start_step False e t s" by auto
  have "meets e t" using start_run_ok [OF t(1)] by (simp add: start_ok_def)
  with t(2) have "statements_left e s < statements_left e t"
    by (elim start_stepE) (use main_step_left events_step_left in auto)
  with Suc.IH [OF t(1)] show ?case by simp
qed


text \<open>A schedule: which thread runs at each step.\<close>

fun sched :: "start_env \<Rightarrow> starter list \<Rightarrow> start \<Rightarrow> start option" where
  "sched e [] s = Some s"
| "sched e (t # ts) s = (case t of Main_Thread \<Rightarrow> iopoll_init e s | Event_Thread \<Rightarrow> iopoll_thread e s) \<bind> sched e ts"

lemma sched_run: "sched e ts s = Some s' \<Longrightarrow> (start_step sp e ^^ length ts) s s'"
proof (induction ts arbitrary: s)
  case (Cons t ts)
  then obtain s1 where "start_step sp e s s1" "sched e ts s1 = Some s'"
    by (auto simp: bind_eq_Some split: starter.splits intro: start_step.intros)
  then show ?case using Cons.IH by (auto simp del: relpowp.simps intro: relpowp_Suc_I2)
qed simp


text \<open>The wait is not in a loop that tests what it waits for.  A wait that ends by itself, which POSIX
  permits, makes \<open>iopoll_init\<close> report a failure before the thread has run at all.\<close>

lemma spurious_wakeup:
  assumes "thread_created e"
  shows "\<exists>s. (start_step True e)\<^sup>*\<^sup>* start0 s \<and> mpc s = M_Done (- 1) \<and> ipc s = I_Lock"
proof -
  define m where "m p t = \<lparr>mtx_init = t, init_success = False, mpc = p, ipc = I_Lock\<rparr>" for p t
  have main: "start_step True e (m p t) (m q u)" if "iopoll_init e (m p t) = Some (m q u)" for p t q u
    using that by (rule start_step.main)
  note run = iopoll_init_def lock_init_def m_def assms
  have "(start_step True e)\<^sup>*\<^sup>* start0 (start0\<lparr>mtx_init := Some Main_Thread, mpc := M_Create\<rparr>)"
    by (intro r_into_rtranclp start_step.main) (simp add: iopoll_init_def start0_def lock_init_def)
  also have "start_step True e (start0\<lparr>mtx_init := Some Main_Thread, mpc := M_Create\<rparr>) (m M_Block (Some Main_Thread))"
    by (intro start_step.main) (simp add: run start0_def)
  also have "start_step True e (m M_Block (Some Main_Thread)) (m M_Wait None)" by (rule main) (simp add: run)
  also have "start_step True e (m M_Wait None) (m M_Relock None)"
    using start_step.wake [of True "m M_Wait None" e] by (simp add: m_def)
  also have "start_step True e (m M_Relock None) (m M_Unlock (Some Main_Thread))" by (rule main) (simp add: run)
  also have "start_step True e (m M_Unlock (Some Main_Thread)) (m M_Check None)" by (rule main) (simp add: run)
  also have "start_step True e (m M_Check None) (m (M_Done (- 1)) None)" by (rule main) (simp add: run)
  finally show ?thesis by (intro exI [of _ "m (M_Done (- 1)) None"]) (simp add: m_def)
qed

end
