(* ===== verification/Render_Setup.thy ===== *)
theory Render_Setup
  imports Ppu_Render
begin

text \<open>
  Setting up and releasing the picture: \<open>render_init\<close> and \<open>render_fini\<close> of src/render.c.

  The calls to the system and to pixman are recorded with their arguments, in order; their results
  are an argument.  A pointer is a 64-bit word, 0 is the null pointer, and \<open>MAP_FAILED\<close> is -1.
  The drawing functions of the file are in \<open>Ppu_Render\<close>.
\<close>

type_synonym ptr = u64

abbreviation NULL :: ptr where "NULL \<equiv> 0"
abbreviation MAP_FAILED :: ptr where "MAP_FAILED \<equiv> - 1"

record framebuffer =
  fb_fd :: int
  fb_width :: u64
  fb_height :: u64
  fb_stride :: u64
  fb_size :: u64

text \<open>The fields of \<open>render_t\<close>, and the global pointer \<open>dmg_buf\<close>.\<close>

record render_t =
  data :: ptr
  framebuffer :: framebuffer
  dst :: ptr
  src :: ptr
  framebuffer_fd :: int
  dmg_ptr :: ptr

text \<open>A transform is given by its scale factors, in 16.16 fixed point.  The arguments of
  \<open>Create_Bits\<close> are \<open>int\<close>: width, height, memory, bytes of a row.\<close>

datatype render_call = Memfd_Create | Fallocate int u64 | Mmap u64 int | Malloc u64
  | Create_Bits int int ptr int | Set_Transform ptr "(int \<times> int) option" | Set_Filter ptr
  | Free ptr | Munmap ptr u64 | Close int

record render_env =
  memfd_ret :: int
  fallocate_ret :: int
  mmap_ret :: ptr
  malloc_ret :: ptr
  src_ret :: ptr
  dst_ret :: ptr

definition render0 :: render_t where
  "render0 = \<lparr>data = NULL, framebuffer = \<lparr>fb_fd = 0, fb_width = 0, fb_height = 0, fb_stride = 0, fb_size = 0\<rparr>,
     dst = NULL, src = NULL, framebuffer_fd = 0, dmg_ptr = NULL\<rparr>"

section \<open>Operations\<close>

definition render_get_framebuffer_dimensions :: "render_t \<Rightarrow> framebuffer" where
  "render_get_framebuffer_dimensions r = framebuffer r"

definition render_get_framebuffer_fd :: "render_t \<Rightarrow> int" where
  "render_get_framebuffer_fd r = framebuffer_fd r"

definition render_fini :: "render_t \<Rightarrow> render_call list" where
  "render_fini r =
    [Set_Transform (src r) None, Free (src r), Free (dst r), Free (dmg_ptr r),
     Munmap (data r) (fb_size (framebuffer r) * 4), Close (framebuffer_fd r)]"

definition to_int :: "u64 \<Rightarrow> int" where
  "to_int x = sint (ucast x :: 32 word)"

definition set_dimensions :: "framebuffer \<Rightarrow> framebuffer" where
  "set_dimensions f =
    (let w = 160 * 4; h = 144 * 4; stride = w * (32 div 8)
     in f\<lparr>fb_width := w, fb_height := h, fb_stride := stride, fb_size := stride * h\<rparr>)"

text \<open>The label \<open>err\<close>.\<close>

definition render_err :: "render_t \<Rightarrow> render_call list \<Rightarrow> int \<times> render_t \<times> render_call list" where
  "render_err r cs = (- 1, r, cs @ render_fini r)"

definition render_images :: "render_env \<Rightarrow> render_t \<Rightarrow> render_call list \<Rightarrow> int \<times> render_t \<times> render_call list" where
  "render_images e r cs =
    (let f = framebuffer r;
         r = r\<lparr>dmg_ptr := malloc_ret e, src := src_ret e\<rparr>;
         cs = cs @ [Create_Bits 160 144 (malloc_ret e) (160 * (32 div 8))]
     in if src r = NULL then render_err r cs
        else
          let r = r\<lparr>dst := dst_ret e\<rparr>;
              cs = cs @ [Create_Bits (to_int (fb_width f)) (to_int (fb_height f)) (data r) (to_int (fb_stride f))]
          in if dst r = NULL then render_err r cs
             else (0, r, cs @ [Set_Transform (src r) (Some (65536 div 4, 65536 div 4)), Set_Filter (src r)]))"

definition render_init :: "render_env \<Rightarrow> render_t \<Rightarrow> int \<times> render_t \<times> render_call list" where
  "render_init e r =
    (let r = r\<lparr>framebuffer := set_dimensions (framebuffer r), framebuffer_fd := memfd_ret e\<rparr>;
         n = fb_size (framebuffer r) * 4
     in if framebuffer_fd r = - 1 then (- 1, r, [Memfd_Create])
        else if fallocate_ret e \<noteq> 0 then render_err r [Memfd_Create, Fallocate (framebuffer_fd r) n]
        else
          let r = r\<lparr>data := mmap_ret e\<rparr>;
              cs = [Memfd_Create, Fallocate (framebuffer_fd r) n, Mmap n (framebuffer_fd r)]
          in if data r = MAP_FAILED then render_err r cs
             else if malloc_ret e = NULL then render_err r (cs @ [Malloc n])
             else render_images e r (cs @ [Malloc n]))"

section \<open>Success\<close>

definition all_succeed :: "render_env \<Rightarrow> bool" where
  "all_succeed e \<longleftrightarrow> memfd_ret e \<noteq> - 1 \<and> fallocate_ret e = 0 \<and> mmap_ret e \<noteq> MAP_FAILED \<and>
    malloc_ret e \<noteq> NULL \<and> src_ret e \<noteq> NULL \<and> dst_ret e \<noteq> NULL"

lemmas render_init_defs = render_init_def render_images_def render_err_def render_fini_def
  set_dimensions_def to_int_def Let_def

lemma render_init_calls:
  "all_succeed e \<Longrightarrow> render_init e r =
    (0, r\<lparr>data := mmap_ret e,
          framebuffer := (framebuffer r)\<lparr>fb_width := 640, fb_height := 576, fb_stride := 2560, fb_size := 1474560\<rparr>,
          dst := dst_ret e, src := src_ret e, framebuffer_fd := memfd_ret e, dmg_ptr := malloc_ret e\<rparr>,
     [Memfd_Create, Fallocate (memfd_ret e) 5898240, Mmap 5898240 (memfd_ret e), Malloc 5898240,
      Create_Bits 160 144 (malloc_ret e) 640, Create_Bits 640 576 (mmap_ret e) 2560,
      Set_Transform (src_ret e) (Some (16384, 16384)), Set_Filter (src_ret e)])"
  by (simp add: all_succeed_def render_init_defs)

lemma render_init_ret: "fst (render_init e r) = (if all_succeed e then 0 else - 1)"
  by (simp add: all_succeed_def render_init_defs)

text \<open>The bytes behind the pointer of an image: the memory of the window or the buffer of the screen.\<close>

definition bytes_at :: "render_env \<Rightarrow> render_call list \<Rightarrow> ptr \<Rightarrow> int \<Rightarrow> bool" where
  "bytes_at e cs p n \<longleftrightarrow> (\<exists>c\<in>set cs. case c of
     Malloc k \<Rightarrow> p = malloc_ret e \<and> n \<le> uint k
   | Mmap k fd \<Rightarrow> p = mmap_ret e \<and> Fallocate fd k \<in> set cs \<and> n \<le> uint k
   | _ \<Rightarrow> False)"

text \<open>Every image fits the memory it is given, the factors scale the one exactly to the other, and the
  pool that the compositor maps fits the file.\<close>

lemma render_geometry:
  assumes "all_succeed e" "render_init e r = (0, r', cs)"
  shows "\<forall>w h p b. Create_Bits w h p b \<in> set cs \<longrightarrow> w * 4 \<le> b \<and> bytes_at e cs p (h * b)"
    and "Set_Transform (src r') (Some (sx, sy)) \<in> set cs \<Longrightarrow>
      sx * int 640 = 65536 * int 160 \<and> sy * int 576 = 65536 * int 144"
    and "bytes_at e cs (data r') (uint (fb_size (framebuffer r')))"
proof -
  note calls = assms(2) [unfolded render_init_calls [OF assms(1)], simplified]
  from calls have cs: "cs = [Memfd_Create, Fallocate (memfd_ret e) 5898240, Mmap 5898240 (memfd_ret e), Malloc 5898240,
      Create_Bits 160 144 (malloc_ret e) 640, Create_Bits 640 576 (mmap_ret e) 2560,
      Set_Transform (src_ret e) (Some (16384, 16384)), Set_Filter (src_ret e)]" by blast
  from calls have r': "data r' = mmap_ret e" "fb_size (framebuffer r') = 1474560" by auto
  show "\<forall>w h p b. Create_Bits w h p b \<in> set cs \<longrightarrow> w * 4 \<le> b \<and> bytes_at e cs p (h * b)"
    unfolding cs by (auto simp: bytes_at_def)
  show "Set_Transform (src r') (Some (sx, sy)) \<in> set cs \<Longrightarrow>
      sx * int 640 = 65536 * int 160 \<and> sy * int 576 = 65536 * int 144"
    unfolding cs by simp
  show "bytes_at e cs (data r') (uint (fb_size (framebuffer r')))"
    unfolding cs r' by (auto simp: bytes_at_def)
qed

text \<open>The buffer of the screen has the size that \<open>Ppu_Render\<close> checks writes against.\<close>

lemma screen_buffer_size:
  "all_succeed e \<Longrightarrow> Malloc k \<in> set (snd (snd (render_init e r))) \<Longrightarrow> uint k = 4 * int DMG_BUF_SIZE"
  by (simp add: render_init_calls DMG_BUF_SIZE_def)

section \<open>Failure\<close>

text \<open>Only when the last call fails does the cleanup have an image to pass to pixman: after every earlier
  failure that reaches it, \<open>render_fini\<close> resets the transform of a null image.\<close>

lemma render_init_failure:
  assumes "render_init e render0 = (- 1, r, cs)" "memfd_ret e \<noteq> - 1"
  shows "Close (memfd_ret e) \<in> set cs \<and>
    (Set_Transform NULL None \<in> set cs \<longleftrightarrow>
      \<not> (fallocate_ret e = 0 \<and> mmap_ret e \<noteq> MAP_FAILED \<and> malloc_ret e \<noteq> NULL \<and> src_ret e \<noteq> NULL)) \<and>
    (Munmap MAP_FAILED 5898240 \<in> set cs \<longleftrightarrow> fallocate_ret e = 0 \<and> mmap_ret e = MAP_FAILED)"
  using assms unfolding render_init_defs render0_def
  by (auto split: if_splits)

end
