(* ===== verification/Wayland.thy ===== *)
theory Wayland
  imports Render_Setup Keys
begin

text \<open>
  The window: the callbacks of src/backends/wayland/wayland.c, its set-up \<open>wayland_init\<close>, and the
  backend of src/backends/wayland/backend.c.

  libwayland is not part of the repository.  The events it delivers are an argument, each with the
  objects that the library returns to the calls made in its handler; an object is a number and 0 is
  the null pointer.  The calls are recorded in order.  \<open>configured\<close> is the \<open>static\<close> variable of
  \<open>handle_xdg_surface_configure\<close>; \<open>window_configured\<close> is never used.
\<close>

type_synonym obj = nat

datatype wl_call = Wl_Connect | Wl_Get_Registry obj | Wl_Roundtrip obj | Wl_Bind u32 string nat
  | Wl_Create_Surface obj | Wl_Get_Xdg_Surface obj obj | Wl_Get_Toplevel obj | Wl_Set_Title string
  | Wl_Set_App_Id string | Wl_Create_Pool obj int u64 | Wl_Create_Buffer obj u64 u64 u64 obj | Wl_Attach obj obj
  | Wl_Damage obj u64 u64 | Wl_Destroy_Callback obj | Wl_Frame obj obj | Wl_Commit obj | Wl_Flush obj
  | Wl_Ack_Configure obj u32 | Wl_Pong u32 | Wl_Get_Keyboard obj | Wl_Close_Keymap int
  | Wl_Add_Listener string obj | Wl_Disconnect obj | Wl_Dispatch obj

record wayland_t =
  w_framebuffer :: framebuffer
  w_display :: obj
  compositor :: obj
  keyboard :: obj
  registry :: obj
  shm :: obj
  seat :: obj
  shm_pool :: obj
  surface :: obj
  xdg_surface :: obj
  toplevel :: obj
  wm_base :: obj
  frame_callback :: obj
  is_surface_focused :: bool
  configured :: bool
  calls :: "wl_call list"

definition call :: "wl_call list \<Rightarrow> wayland_t \<Rightarrow> wayland_t" where
  "call cs w = w\<lparr>calls := calls w @ cs\<rparr>"

section \<open>Drawing\<close>

text \<open>\<open>buf\<close> and \<open>cb\<close> are the buffer and the callback that the library returns.\<close>

definition backend_wayland_update_frame :: "obj \<Rightarrow> obj \<Rightarrow> wayland_t \<Rightarrow> wayland_t" where
  "backend_wayland_update_frame buf cb w =
    (let fb = w_framebuffer w;
         w = call [Wl_Create_Buffer (shm_pool w) (fb_width fb) (fb_height fb) (fb_stride fb) buf,
                   Wl_Attach (surface w) buf, Wl_Damage (surface w) (fb_width fb) (fb_height fb)] w;
         w = (if frame_callback w \<noteq> 0 then call [Wl_Destroy_Callback (frame_callback w)] w else w);
         w = (call [Wl_Frame (surface w) cb] w)\<lparr>frame_callback := cb\<rparr>
     in call [Wl_Add_Listener ''frame'' (frame_callback w), Wl_Commit (surface w), Wl_Flush (w_display w)] w)"

section \<open>Handlers\<close>

text \<open>The events that the program listens to.  The handlers that the first clauses of \<open>handle_event\<close> do not
  name are empty functions.\<close>

datatype wl_event = Surface_Configure obj u32 obj obj | Frame_Done obj obj | Keyboard_Enter | Keyboard_Leave
  | Keyboard_Key u32 u32 | Keyboard_Keymap int | Keyboard_Modifiers | Keyboard_Repeat_Info
  | Seat_Capabilities u32 obj | Seat_Name | Wm_Base_Ping u32 | Registry_Global u32 string obj
  | Registry_Global_Remove u32 | Toplevel_Configure | Toplevel_Close | Toplevel_Configure_Bounds
  | Toplevel_Wm_Capabilities

definition handle_xdg_surface_configure :: "obj \<Rightarrow> u32 \<Rightarrow> obj \<Rightarrow> obj \<Rightarrow> wayland_t \<Rightarrow> wayland_t" where
  "handle_xdg_surface_configure surf serial buf cb w =
    (let w = call [Wl_Ack_Configure surf serial] w
     in if \<not> configured w then backend_wayland_update_frame buf cb (w\<lparr>configured := True\<rparr>) else w)"

definition handle_keyboard_enter :: "wayland_t \<Rightarrow> wayland_t" where
  "handle_keyboard_enter w = w\<lparr>is_surface_focused := True\<rparr>"

definition handle_keyboard_leave :: "wayland_t \<Rightarrow> wayland_t" where
  "handle_keyboard_leave w = w\<lparr>is_surface_focused := False\<rparr>"

definition wayland_is_focus :: "wayland_t \<Rightarrow> bool" where
  "wayland_is_focus w = is_surface_focused w"

definition handle_keymap :: "int \<Rightarrow> wayland_t \<Rightarrow> wayland_t" where
  "handle_keymap fd w = call [Wl_Close_Keymap fd] w"

definition xdg_wm_base_ping :: "u32 \<Rightarrow> wayland_t \<Rightarrow> wayland_t" where
  "xdg_wm_base_ping serial w = call [Wl_Pong serial] w"

text \<open>The function \<open>done\<close> of the frame listener.\<close>

definition frame_done :: "obj \<Rightarrow> obj \<Rightarrow> wayland_t \<Rightarrow> wayland_t" where
  "frame_done buf cb w = backend_wayland_update_frame buf cb w"

definition WL_SEAT_CAPABILITY_KEYBOARD :: u32 where "WL_SEAT_CAPABILITY_KEYBOARD = 2"

text \<open>\<open>None\<close> is the failed assertion.\<close>

definition handle_seat_capabilities :: "u32 \<Rightarrow> obj \<Rightarrow> wayland_t \<Rightarrow> wayland_t option" where
  "handle_seat_capabilities capabilities kb w =
    (if capabilities AND WL_SEAT_CAPABILITY_KEYBOARD \<noteq> 0 then
       let w = (call [Wl_Get_Keyboard (seat w)] w)\<lparr>keyboard := kb\<rparr>
       in if keyboard w = 0 then None else Some (call [Wl_Add_Listener ''keyboard'' (keyboard w)] w)
     else Some w)"

definition registry_handle_global :: "u32 \<Rightarrow> string \<Rightarrow> obj \<Rightarrow> wayland_t \<Rightarrow> wayland_t" where
  "registry_handle_global name interface ob w =
    (if interface = ''wl_compositor'' then (call [Wl_Bind name interface 6] w)\<lparr>compositor := ob\<rparr>
     else if interface = ''xdg_wm_base'' then
       call [Wl_Add_Listener ''wm_base'' ob] ((call [Wl_Bind name interface 5] w)\<lparr>wm_base := ob\<rparr>)
     else if interface = ''wl_shm'' then (call [Wl_Bind name interface 2] w)\<lparr>shm := ob\<rparr>
     else if interface = ''wl_seat'' then
       call [Wl_Add_Listener ''seat'' ob] ((call [Wl_Bind name interface 9] w)\<lparr>seat := ob\<rparr>)
     else w)"

fun handle_event :: "wl_event \<Rightarrow> wayland_t \<Rightarrow> wayland_t option" where
  "handle_event (Surface_Configure surf serial buf cb) w = Some (handle_xdg_surface_configure surf serial buf cb w)"
| "handle_event (Frame_Done buf cb) w = Some (frame_done buf cb w)"
| "handle_event Keyboard_Enter w = Some (handle_keyboard_enter w)"
| "handle_event Keyboard_Leave w = Some (handle_keyboard_leave w)"
| "handle_event (Keyboard_Keymap fd) w = Some (handle_keymap fd w)"
| "handle_event (Seat_Capabilities caps kb) w = handle_seat_capabilities caps kb w"
| "handle_event (Wm_Base_Ping serial) w = Some (xdg_wm_base_ping serial w)"
| "handle_event (Registry_Global name interface ob) w = Some (registry_handle_global name interface ob w)"
| "handle_event _ w = Some w"

section \<open>Set-up\<close>

definition set_framebuffer :: "framebuffer \<Rightarrow> obj \<Rightarrow> wayland_t \<Rightarrow> wayland_t" where
  "set_framebuffer fb pool w =
    (call [Wl_Create_Pool (shm w) (fb_fd fb) (fb_size fb)] (w\<lparr>w_framebuffer := fb\<rparr>))\<lparr>shm_pool := pool\<rparr>"

text \<open>What the library returns: \<open>globals\<close> are the events of the roundtrip.\<close>

record wl_env =
  e_display :: obj
  e_registry :: obj
  e_globals :: "wl_event list"
  e_surface :: obj
  e_xdg_surface :: obj
  e_toplevel :: obj
  e_pool :: obj

definition wayland_window :: "wl_env \<Rightarrow> render_t \<Rightarrow> wayland_t \<Rightarrow> wayland_t option" where
  "wayland_window e r w =
    do { let w = (call [Wl_Create_Surface (compositor w)] w)\<lparr>surface := e_surface e\<rparr>;
         let w = (call [Wl_Get_Xdg_Surface (wm_base w) (surface w)] w)\<lparr>xdg_surface := e_xdg_surface e\<rparr>;
         (if xdg_surface w = 0 then None else Some ());
         let w = call [Wl_Add_Listener ''xdg_surface'' (xdg_surface w)] w;
         let w = (call [Wl_Get_Toplevel (xdg_surface w)] w)\<lparr>toplevel := e_toplevel e\<rparr>;
         let w = call [Wl_Add_Listener ''toplevel'' (toplevel w), Wl_Set_Title ''realboy'',
           Wl_Set_App_Id ''org.freedesktop.realboy''] w;
         (if toplevel w = 0 then None else Some ());
         let w = call [Wl_Commit (surface w), Wl_Flush (w_display w)] w;
         let fb = (render_get_framebuffer_dimensions r)\<lparr>fb_fd := render_get_framebuffer_fd r\<rparr>;
         Some (set_framebuffer fb (e_pool e) w) }"

definition wayland_init :: "wl_env \<Rightarrow> render_t \<Rightarrow> wayland_t \<Rightarrow> (obj \<times> wayland_t) option" where
  "wayland_init e r w =
    (let w = (call [Wl_Connect] w)\<lparr>w_display := e_display e\<rparr>
     in if w_display w = 0 then Some (0, w)
        else
          do { let w = (call [Wl_Get_Registry (w_display w)] w)\<lparr>registry := e_registry e\<rparr>;
               w \<leftarrow> each handle_event (e_globals e)
                 (call [Wl_Add_Listener ''registry'' (registry w), Wl_Roundtrip (w_display w)] w);
               (if shm w = 0 then None else Some ());
               w \<leftarrow> wayland_window e r w;
               Some (w_display w, w) })"

text \<open>The backend: it drops the result of \<open>wayland_init\<close>.\<close>

definition backend_init :: "wl_env \<Rightarrow> render_t \<Rightarrow> wayland_t \<Rightarrow> (int \<times> wayland_t) option" where
  "backend_init e r w = map_option (\<lambda>(d, w). (0, w)) (wayland_init e r w)"

text \<open>The descriptor of the display is asked from the library, for which the display must not be
  null.\<close>

definition backend_get_fd :: "(obj \<Rightarrow> int) \<Rightarrow> wayland_t \<Rightarrow> int option" where
  "backend_get_fd get_fd w = (if w_display w = 0 then None else Some (get_fd (w_display w)))"

text \<open>\<open>evs\<close> are the events that \<open>wl_display_dispatch\<close> reads and hands to the handlers.\<close>

definition backend_dispatch :: "(obj \<Rightarrow> int) \<Rightarrow> int \<Rightarrow> wl_event list \<Rightarrow> wayland_t \<Rightarrow> wayland_t option" where
  "backend_dispatch get_fd fd evs w =
    do { d \<leftarrow> backend_get_fd get_fd w;
         if fd = d then each handle_event evs (call [Wl_Dispatch (w_display w)] w) else Some w }"

definition backend_fini :: "wayland_t \<Rightarrow> wayland_t" where
  "backend_fini w = call [Wl_Disconnect (w_display w)] w"

text \<open>Without a compositor to connect to, the initialisation is reported as a success, and the next call
  on the backend is undefined.\<close>

lemma no_display:
  assumes "e_display e = 0"
  shows "\<exists>w'. backend_init e r w = Some (0, w') \<and> backend_get_fd get_fd w' = None"
  using assms by (simp add: backend_init_def wayland_init_def backend_get_fd_def call_def)

section \<open>Frames\<close>

text \<open>What the calls of a run amount to: the frame callbacks asked for and destroyed, the buffers, the
  commits of a picture, and the acknowledged configurations.\<close>

definition frames :: "wl_call list \<Rightarrow> obj list" where
  "frames cs = [cb. Wl_Frame s cb \<leftarrow> cs]"

definition destroyed :: "wl_call list \<Rightarrow> obj list" where
  "destroyed cs = [cb. Wl_Destroy_Callback cb \<leftarrow> cs]"

definition buffers :: "wl_call list \<Rightarrow> obj list" where
  "buffers cs = [buf. Wl_Create_Buffer p w h st buf \<leftarrow> cs]"

definition attached :: "wl_call list \<Rightarrow> obj list" where
  "attached cs = [buf. Wl_Attach s buf \<leftarrow> cs]"

definition commits :: "wl_call list \<Rightarrow> nat" where
  "commits cs = length [s. Wl_Commit s \<leftarrow> cs]"

definition acks :: "wl_call list \<Rightarrow> u32 list" where
  "acks cs = [n. Wl_Ack_Configure s n \<leftarrow> cs]"

lemmas call_views = frames_def destroyed_def buffers_def attached_def commits_def acks_def

definition live_callback :: "wayland_t \<Rightarrow> obj list" where
  "live_callback w = (if frame_callback w = 0 then [] else [frame_callback w])"

text \<open>The objects of the events that lead to a new picture, in order.\<close>

fun pictures :: "bool \<Rightarrow> wl_event list \<Rightarrow> (obj \<times> obj) list" where
  "pictures conf [] = []"
| "pictures conf (Frame_Done buf cb # evs) = (buf, cb) # pictures conf evs"
| "pictures conf (Surface_Configure s n buf cb # evs) =
    (if conf then pictures True evs else (buf, cb) # pictures True evs)"
| "pictures conf (_ # evs) = pictures conf evs"

fun serials :: "wl_event list \<Rightarrow> u32 list" where
  "serials [] = []"
| "serials (Surface_Configure s n buf cb # evs) = n # serials evs"
| "serials (_ # evs) = serials evs"

lemma update_frame_calls:
  "calls (backend_wayland_update_frame buf cb w) = calls w @
    [Wl_Create_Buffer (shm_pool w) (fb_width (w_framebuffer w)) (fb_height (w_framebuffer w))
       (fb_stride (w_framebuffer w)) buf, Wl_Attach (surface w) buf,
     Wl_Damage (surface w) (fb_width (w_framebuffer w)) (fb_height (w_framebuffer w))] @
    map Wl_Destroy_Callback (live_callback w) @
    [Wl_Frame (surface w) cb, Wl_Add_Listener ''frame'' cb, Wl_Commit (surface w), Wl_Flush (w_display w)]"
  "frame_callback (backend_wayland_update_frame buf cb w) = cb"
  "configured (backend_wayland_update_frame buf cb w) = configured w"
  by (simp_all add: backend_wayland_update_frame_def call_def live_callback_def Let_def)

definition is_configure :: "wl_event \<Rightarrow> bool" where
  "is_configure ev = (case ev of Surface_Configure s n buf cb \<Rightarrow> True | _ \<Rightarrow> False)"

lemma pictures_step:
  "pictures conf (ev # evs) = pictures conf [ev] @ pictures (conf \<or> is_configure ev) evs"
  by (cases ev) (simp_all add: is_configure_def)

lemma serials_step: "serials (ev # evs) = serials [ev] @ serials evs"
  by (cases ev) simp_all

lemma call_views_append:
  "frames (xs @ ys) = frames xs @ frames ys" "destroyed (xs @ ys) = destroyed xs @ destroyed ys"
  "buffers (xs @ ys) = buffers xs @ buffers ys" "attached (xs @ ys) = attached xs @ attached ys"
  "commits (xs @ ys) = commits xs + commits ys" "acks (xs @ ys) = acks xs @ acks ys"
  by (simp_all add: call_views)

text \<open>What a run of handlers adds to the calls.\<close>

definition shows_pictures :: "(obj \<times> obj) list \<Rightarrow> u32 list \<Rightarrow> wayland_t \<Rightarrow> wayland_t \<Rightarrow> bool" where
  "shows_pictures ps ns w w' \<longleftrightarrow> (\<exists>cs. calls w' = calls w @ cs \<and>
    buffers cs = map fst ps \<and> attached cs = map fst ps \<and> frames cs = map snd ps \<and>
    commits cs = length ps \<and> acks cs = ns \<and> live_callback w @ frames cs = destroyed cs @ live_callback w')"

lemma shows_pictures_trans:
  assumes "shows_pictures ps ns w w1" "shows_pictures qs ms w1 w2"
  shows "shows_pictures (ps @ qs) (ns @ ms) w w2"
proof -
  obtain cs where cs: "calls w1 = calls w @ cs" "buffers cs = map fst ps" "attached cs = map fst ps"
    "frames cs = map snd ps" "commits cs = length ps" "acks cs = ns"
    "live_callback w @ frames cs = destroyed cs @ live_callback w1"
    using assms(1) unfolding shows_pictures_def by blast
  obtain ds where ds: "calls w2 = calls w1 @ ds" "buffers ds = map fst qs" "attached ds = map fst qs"
    "frames ds = map snd qs" "commits ds = length qs" "acks ds = ms"
    "live_callback w1 @ frames ds = destroyed ds @ live_callback w2"
    using assms(2) unfolding shows_pictures_def by blast
  have "live_callback w @ frames cs @ frames ds = (destroyed cs @ live_callback w1) @ frames ds"
    using cs(7) by (metis append_assoc)
  with cs(1-6) ds show ?thesis
    unfolding shows_pictures_def by (intro exI [of _ "cs @ ds"]) (simp add: call_views_append)
qed

lemma shows_nothing: "calls w' = calls w @ cs \<Longrightarrow> frame_callback w' = frame_callback w \<Longrightarrow>
    buffers cs = [] \<Longrightarrow> attached cs = [] \<Longrightarrow> frames cs = [] \<Longrightarrow> commits cs = 0 \<Longrightarrow> acks cs = ns \<Longrightarrow>
    destroyed cs = [] \<Longrightarrow> shows_pictures [] ns w w'"
  unfolding shows_pictures_def by (intro exI [of _ cs]) (simp add: live_callback_def)

lemma update_frame_shows:
  "cb \<noteq> 0 \<Longrightarrow> shows_pictures [(buf, cb)] [] w (backend_wayland_update_frame buf cb w)"
  unfolding shows_pictures_def
  by (auto simp: update_frame_calls call_views live_callback_def)

lemma handle_event_shows:
  assumes "handle_event ev w = Some w'" "0 \<notin> snd ` set (pictures (configured w) [ev])"
  shows "shows_pictures (pictures (configured w) [ev]) (serials [ev]) w w'"
    and "configured w' \<longleftrightarrow> configured w \<or> is_configure ev"
proof -
  have conf: "shows_pictures [] [n] w (call [Wl_Ack_Configure s n] w)"
    "shows_pictures [] [n] w (call [Wl_Ack_Configure s n] w\<lparr>configured := True\<rparr>)" for s n
    by (rule shows_nothing [where cs = "[Wl_Ack_Configure s n]"]; simp add: call_def call_views)+
  show "shows_pictures (pictures (configured w) [ev]) (serials [ev]) w w'"
  proof (cases ev)
    case (Surface_Configure s n buf cb)
    then show ?thesis
      using assms conf [where s = s and n = n] update_frame_shows [of cb buf]
        shows_pictures_trans [OF conf(2) [where s = s and n = n] update_frame_shows [of cb buf]]
      by (auto simp: handle_xdg_surface_configure_def Let_def call_def split: if_splits)
  next
    case (Frame_Done buf cb)
    then show ?thesis using assms update_frame_shows [of cb buf w] by (simp add: frame_done_def)
  next
    case (Seat_Capabilities caps kb)
    then show ?thesis
      using assms shows_nothing [of w' w "if caps AND WL_SEAT_CAPABILITY_KEYBOARD \<noteq> 0
        then [Wl_Get_Keyboard (seat w), Wl_Add_Listener ''keyboard'' kb] else []"]
      by (auto simp: handle_seat_capabilities_def call_def call_views Let_def split: if_splits)
  next
    case (Registry_Global name interface ob)
    have "\<exists>cs. calls w' = calls w @ cs \<and> (cs = [] \<or> (\<exists>v. cs = [Wl_Bind name interface v]) \<or>
        (\<exists>v l. cs = [Wl_Bind name interface v, Wl_Add_Listener l ob])) \<and> frame_callback w' = frame_callback w"
      using assms(1) Registry_Global by (auto simp: registry_handle_global_def call_def)
    then show ?thesis
      using Registry_Global by (auto intro!: shows_nothing simp: call_views)
  next
    case (Keyboard_Keymap fd)
    then show ?thesis
      using assms by (auto intro!: shows_nothing simp: handle_keymap_def xdg_wm_base_ping_def call_def call_views)
  next
    case (Wm_Base_Ping n)
    then show ?thesis
      using assms by (auto intro!: shows_nothing simp: handle_keymap_def xdg_wm_base_ping_def call_def call_views)
  qed (use assms in \<open>auto intro!: shows_nothing simp: call_views handle_keyboard_enter_def handle_keyboard_leave_def\<close>)
  show "configured w' \<longleftrightarrow> configured w \<or> is_configure ev"
    by (cases ev) (use assms in \<open>auto simp: is_configure_def handle_xdg_surface_configure_def update_frame_calls
      handle_seat_capabilities_def registry_handle_global_def handle_keyboard_enter_def handle_keyboard_leave_def
      handle_keymap_def xdg_wm_base_ping_def frame_done_def call_def Let_def split: if_splits\<close>)
qed

lemma shows_pictures_refl: "shows_pictures [] [] w w"
  by (rule shows_nothing [of _ _ "[]"]) (simp_all add: call_views)

definition keyboard_given :: "wl_event \<Rightarrow> bool" where
  "keyboard_given ev = (case ev of
     Seat_Capabilities caps kb \<Rightarrow> kb \<noteq> 0 \<or> caps AND WL_SEAT_CAPABILITY_KEYBOARD = 0 | _ \<Rightarrow> True)"

lemma handle_event_defined: "(\<exists>w'. handle_event ev w = Some w') \<longleftrightarrow> keyboard_given ev"
  by (cases ev) (simp_all add: keyboard_given_def handle_seat_capabilities_def Let_def)

lemma handlers_defined: "\<forall>ev\<in>set evs. keyboard_given ev \<Longrightarrow> \<exists>w'. each handle_event evs w = Some w'"
proof (induction evs arbitrary: w)
  case (Cons ev evs)
  then obtain w1 where "handle_event ev w = Some w1" using handle_event_defined [of ev w] by auto
  then show ?case using Cons by simp
qed simp

lemma handlers_show:
  "each handle_event evs w = Some w' \<Longrightarrow> 0 \<notin> snd ` set (pictures (configured w) evs) \<Longrightarrow>
    shows_pictures (pictures (configured w) evs) (serials evs) w w' \<and>
    (configured w' \<longleftrightarrow> configured w \<or> list_ex is_configure evs)"
proof (induction evs arbitrary: w)
  case Nil
  then show ?case by (simp add: shows_pictures_refl)
next
  case (Cons ev evs)
  then obtain w1 where w1: "handle_event ev w = Some w1" "each handle_event evs w1 = Some w'"
    by (auto simp: bind_eq_Some)
  note split = pictures_step [of "configured w" ev evs]
  note split = split serials_step [of ev evs]
  from Cons.prems(2) have nz: "0 \<notin> snd ` set (pictures (configured w) [ev])"
    "0 \<notin> snd ` set (pictures (configured w \<or> is_configure ev) evs)"
    by (auto simp only: split(1) set_append image_Un)
  note first = handle_event_shows [OF w1(1) nz(1)]
  have "shows_pictures (pictures (configured w1) evs) (serials evs) w1 w' \<and>
      (configured w' \<longleftrightarrow> configured w1 \<or> list_ex is_configure evs)"
    using Cons.IH [OF w1(2)] nz(2) first(2) by simp
  then show ?case
    unfolding split using first shows_pictures_trans [OF first(1)] by auto
qed

lemma no_pictures: "pictures False evs = [] \<Longrightarrow> serials evs = [] \<and> \<not> list_ex is_configure evs"
proof (induction evs)
  case (Cons ev evs)
  then show ?case by (cases ev) (simp_all add: is_configure_def)
qed simp

definition wayland0 :: wayland_t where
  "wayland0 = \<lparr>w_framebuffer = \<lparr>fb_fd = 0, fb_width = 0, fb_height = 0, fb_stride = 0, fb_size = 0\<rparr>, w_display = 0,
     compositor = 0, keyboard = 0, registry = 0, shm = 0, seat = 0, shm_pool = 0, surface = 0, xdg_surface = 0,
     toplevel = 0, wm_base = 0, frame_callback = 0, is_surface_focused = False, configured = False, calls = []\<rparr>"

lemma wayland_window_calls:
  "wayland_window e r w = Some w' \<Longrightarrow>
    calls w' = calls w @ [Wl_Create_Surface (compositor w), Wl_Get_Xdg_Surface (wm_base w) (e_surface e),
      Wl_Add_Listener ''xdg_surface'' (e_xdg_surface e), Wl_Get_Toplevel (e_xdg_surface e),
      Wl_Add_Listener ''toplevel'' (e_toplevel e), Wl_Set_Title ''realboy'',
      Wl_Set_App_Id ''org.freedesktop.realboy'', Wl_Commit (e_surface e), Wl_Flush (w_display w),
      Wl_Create_Pool (shm w) (framebuffer_fd r) (fb_size (framebuffer r))] \<and>
    frame_callback w' = frame_callback w \<and> configured w' = configured w \<and>
    w_framebuffer w' = (framebuffer r)\<lparr>fb_fd := framebuffer_fd r\<rparr>"
  by (auto simp: wayland_window_def call_def set_framebuffer_def render_get_framebuffer_dimensions_def
      render_get_framebuffer_fd_def Let_def split: if_splits)

lemma wayland_init_shows:
  assumes "wayland_init e r wayland0 = Some (d, w)" "d \<noteq> 0" "pictures False (e_globals e) = []"
  shows "frame_callback w = 0" "\<not> configured w"
    and "buffers (calls w) = []" "attached (calls w) = []" "frames (calls w) = []" "destroyed (calls w) = []"
    and "commits (calls w) = 1" "acks (calls w) = []"
    and "w_framebuffer w = (framebuffer r)\<lparr>fb_fd := framebuffer_fd r\<rparr>"
proof -
  define v where "v = call [Wl_Add_Listener ''registry'' (e_registry e), Wl_Roundtrip (e_display e)]
    ((call [Wl_Get_Registry (e_display e)] ((call [Wl_Connect] wayland0)\<lparr>w_display := e_display e\<rparr>))\<lparr>registry := e_registry e\<rparr>)"
  have v: "\<not> configured v" "frame_callback v = 0" "calls v = [Wl_Connect, Wl_Get_Registry (e_display e),
      Wl_Add_Listener ''registry'' (e_registry e), Wl_Roundtrip (e_display e)]"
    by (simp_all add: v_def call_def wayland0_def)
  obtain w1 where w1: "each handle_event (e_globals e) v = Some w1" "wayland_window e r w1 = Some w"
    using assms(1,2) unfolding wayland_init_def v_def
    by (auto simp: Let_def bind_eq_Some call_def split: if_splits)
  have g: "shows_pictures [] [] v w1" "\<not> configured w1"
    using handlers_show [OF w1(1)] assms(3) v(1) no_pictures [OF assms(3)] by simp_all
  then obtain cs where cs: "calls w1 = calls v @ cs" "buffers cs = []" "attached cs = []" "frames cs = []"
    "commits cs = 0" "acks cs = []" "live_callback v @ frames cs = destroyed cs @ live_callback w1"
    unfolding shows_pictures_def by auto
  then have "destroyed cs = []" "frame_callback w1 = 0"
    using v(2) by (auto simp: live_callback_def split: if_splits)
  note facts = wayland_window_calls [OF w1(2)] cs v this g(2) call_views_append
  show "frame_callback w = 0" "\<not> configured w" "w_framebuffer w = (framebuffer r)\<lparr>fb_fd := framebuffer_fd r\<rparr>"
    using facts by simp_all
  show "buffers (calls w) = []" "attached (calls w) = []" "frames (calls w) = []" "destroyed (calls w) = []"
    "commits (calls w) = 1" "acks (calls w) = []"
    using facts by (simp_all add: call_views)
qed

text \<open>C29: The window shows the picture once when the compositor first configures it and once for every
  frame callback, for any sequence of events: each time it attaches a new buffer and commits once.
  Every configuration is acknowledged, in order.  Each frame callback is destroyed exactly once, before the
  next one is asked for, so at most one is alive; the buffers are never destroyed.\<close>

theorem picture_per_frame:
  assumes "wayland_init e r wayland0 = Some (d, w)" "d \<noteq> 0" "pictures False (e_globals e) = []"
    "\<forall>ev\<in>set evs. keyboard_given ev" "0 \<notin> snd ` set (pictures False evs)"
  shows "\<exists>w'. each handle_event evs w = Some w' \<and>
    buffers (calls w') = map fst (pictures False evs) \<and> attached (calls w') = map fst (pictures False evs) \<and>
    commits (calls w') = 1 + length (pictures False evs) \<and> acks (calls w') = serials evs \<and>
    frames (calls w') = map snd (pictures False evs) \<and>
    frames (calls w') = destroyed (calls w') @ live_callback w'"
proof -
  note init = wayland_init_shows [OF assms(1-3)]
  obtain w' where w': "each handle_event evs w = Some w'" using handlers_defined [OF assms(4)] by blast
  have "shows_pictures (pictures False evs) (serials evs) w w'"
    using handlers_show [OF w'] assms(5) init(2) by simp
  with w' init show ?thesis
    unfolding shows_pictures_def by (auto simp: call_views_append live_callback_def)
qed

text \<open>A compositor, and a window that is configured twice and shows two pictures.\<close>

definition sample_wl :: wl_env where
  "sample_wl = \<lparr>e_display = 1, e_registry = 2,
     e_globals = [Registry_Global 1 ''wl_compositor'' 3, Registry_Global 2 ''wl_shm'' 4,
       Registry_Global 3 ''xdg_wm_base'' 5, Registry_Global 4 ''wl_seat'' 6, Registry_Global 5 ''wl_output'' 7],
     e_surface = 8, e_xdg_surface = 9, e_toplevel = 10, e_pool = 11\<rparr>"

lemma sample_wl_init: "\<exists>w. wayland_init sample_wl render0 wayland0 = Some (1, w)"
  by (simp add: wayland_init_def wayland_window_def sample_wl_def wayland0_def call_def set_framebuffer_def
      registry_handle_global_def Let_def)

theorem picture_per_frame_witness:
  "\<exists>w w'. wayland_init sample_wl render0 wayland0 = Some (1, w) \<and>
    each handle_event [Surface_Configure 9 70 20 21, Keyboard_Enter, Frame_Done 22 23, Surface_Configure 9 71 0 0] w
      = Some w' \<and> attached (calls w') = [20, 22] \<and> acks (calls w') = [70, 71] \<and> frame_callback w' = 23"
proof -
  obtain w where w: "wayland_init sample_wl render0 wayland0 = Some (1, w)" using sample_wl_init by blast
  let ?evs = "[Surface_Configure 9 70 20 21, Keyboard_Enter, Frame_Done 22 23, Surface_Configure 9 71 0 0]"
  obtain w' where w': "each handle_event ?evs w = Some w'" "attached (calls w') = [20, 22]" "acks (calls w') = [70, 71]"
    "[21, 23] = destroyed (calls w') @ live_callback w'" "commits (calls w') = 3"
    using picture_per_frame [OF w, of ?evs] by (auto simp: sample_wl_def keyboard_given_def)
  have "frame_callback w' = 23"
    using w'(1) by (auto simp: handle_xdg_surface_configure_def handle_keyboard_enter_def frame_done_def update_frame_calls call_def
        Let_def split: if_splits)
  with w w' show ?thesis by blast
qed

end
