(* ===== verification/Event_Loop.thy ===== *)
theory Event_Loop
  imports Wayland
begin

text \<open>
  The loop of the event thread: the \<open>while\<close> loop of \<open>iopoll_thread\<close> in src/iopoll.c with
  \<open>backends_dispatch\<close> of src/backends/backends.c and the dispatch functions of the three
  backends.  What \<open>epoll_wait\<close> returns is an argument, and with each descriptor what a dispatch
  can read from it: events of the window, and events of the input devices.  \<open>served\<close> counts the calls of
  \<open>server_recv_request_and_dispatch\<close>, which is the request thread of \<open>Threads\<close>.
\<close>

record io =
  window :: wayland_t
  emulator :: gb
  served :: nat

record input =
  win_events :: "wl_event list"
  dev_events :: "input_event list list"

text \<open>The descriptors: \<open>server_get_fd\<close>, the input devices' \<open>evdev_poll_fd\<close>, and libwayland's
  \<open>wl_display_get_fd\<close>.\<close>

record fd_env =
  srv_fd :: int
  evdev_fd :: int
  display_get_fd :: "obj \<Rightarrow> int"

section \<open>The table of backends\<close>

text \<open>An entry of \<open>backends\<close>; which of the three are in the table is decided by the build.  The backend
  of PipeWire declares itself a display, but its structure has no member \<open>is_focus\<close>.\<close>

datatype impl = Wayland_Backend | Pipewire_Backend | Evdev_Backend

definition backend_of :: "wayland_t \<Rightarrow> impl \<Rightarrow> backend" where
  "backend_of w i =
    (case i of
       Wayland_Backend \<Rightarrow> \<lparr>b_type = BACKEND_DISPLAY, b_init = 0, b_focus = Some (wayland_is_focus w)\<rparr>
     | Pipewire_Backend \<Rightarrow> \<lparr>b_type = BACKEND_DISPLAY, b_init = 0, b_focus = None\<rparr>
     | Evdev_Backend \<Rightarrow> \<lparr>b_type = BACKEND_INPUT, b_init = 0, b_focus = None\<rparr>)"

definition impl_get_fd :: "fd_env \<Rightarrow> wayland_t \<Rightarrow> impl \<Rightarrow> int option" where
  "impl_get_fd e w i =
    (case i of
       Wayland_Backend \<Rightarrow> backend_get_fd (display_get_fd e) w
     | Pipewire_Backend \<Rightarrow> Some 0
     | Evdev_Backend \<Rightarrow> Some (evdev_fd e))"

definition impl_dispatch :: "fd_env \<Rightarrow> impl list \<Rightarrow> int \<Rightarrow> input \<Rightarrow> impl \<Rightarrow> io \<Rightarrow> io option" where
  "impl_dispatch e impls fd inp i s =
    (case i of
       Wayland_Backend \<Rightarrow>
         do { w \<leftarrow> backend_dispatch (display_get_fd e) fd (win_events inp) (window s); Some (s\<lparr>window := w\<rparr>) }
     | Pipewire_Backend \<Rightarrow> Some s
     | Evdev_Backend \<Rightarrow>
         do { g \<leftarrow> evdev_dispatch fd (evdev_fd e) (map (backend_of (window s)) impls) (dev_events inp) (emulator s);
              Some (s\<lparr>emulator := g\<rparr>) })"

definition backends_dispatch :: "fd_env \<Rightarrow> impl list \<Rightarrow> int \<Rightarrow> input \<Rightarrow> io \<Rightarrow> io option" where
  "backends_dispatch e impls fd inp s = each (impl_dispatch e impls fd inp) impls s"

section \<open>The loop\<close>

definition io_event :: "fd_env \<Rightarrow> impl list \<Rightarrow> int \<times> input \<Rightarrow> io \<Rightarrow> io option" where
  "io_event e impls ev s =
    (case ev of (fd, inp) \<Rightarrow>
       if srv_fd e = fd then Some (s\<lparr>served := served s + 1\<rparr>) else backends_dispatch e impls fd inp s)"

text \<open>One round: the events that \<open>epoll_wait\<close> gives, \<open>None\<close> for its result -1.\<close>

definition io_round :: "fd_env \<Rightarrow> impl list \<Rightarrow> (int \<times> input) list option \<Rightarrow> io \<Rightarrow> io option" where
  "io_round e impls r s = (case r of None \<Rightarrow> Some s | Some evs \<Rightarrow> each (io_event e impls) evs s)"

section \<open>A reference\<close>

text \<open>The last change of the focus, and the first key that a device reports.\<close>

definition focus_after :: "wl_event list \<Rightarrow> bool \<Rightarrow> bool" where
  "focus_after evs f =
    (case filter (\<lambda>ev. ev = Keyboard_Enter \<or> ev = Keyboard_Leave) evs of
       [] \<Rightarrow> f | changes \<Rightarrow> last changes = Keyboard_Enter)"

definition first_key :: "input_event list \<Rightarrow> input_event option" where
  "first_key evs = find (\<lambda>ev. is_EV_KEY ev \<and> code ev \<noteq> KEY_OTHER) evs"

definition press :: "input_event option \<Rightarrow> joypad \<Rightarrow> joypad" where
  "press k j = (case k of None \<Rightarrow> j | Some ev \<Rightarrow> set_key (code ev) (ev_value ev = 0) j)"

record view =
  focused :: bool
  pad :: joypad
  requests :: nat

definition view_of :: "io \<Rightarrow> view" where
  "view_of s = \<lparr>focused = wayland_is_focus (window s), pad = joypad (emulator s), requests = served s\<rparr>"

text \<open>An event reaches exactly the owner of its descriptor.\<close>

definition view_event :: "fd_env \<Rightarrow> obj \<Rightarrow> int \<times> input \<Rightarrow> view \<Rightarrow> view" where
  "view_event e d ev v =
    (case ev of (fd, inp) \<Rightarrow>
       if fd = srv_fd e then v\<lparr>requests := requests v + 1\<rparr>
       else if fd = display_get_fd e d then v\<lparr>focused := focus_after (win_events inp) (focused v)\<rparr>
       else if fd = evdev_fd e \<and> focused v then v\<lparr>pad := press (first_key (concat (dev_events inp))) (pad v)\<rparr>
       else v)"

section \<open>The refinement\<close>

lemma handle_event_focus:
  assumes "handle_event ev w = Some w'"
  shows "w_display w' = w_display w"
    "wayland_is_focus w' = (ev = Keyboard_Enter \<or> wayland_is_focus w \<and> ev \<noteq> Keyboard_Leave)"
  using assms
  by (cases ev; auto simp: wayland_is_focus_def handle_xdg_surface_configure_def backend_wayland_update_frame_def
      handle_seat_capabilities_def registry_handle_global_def handle_keyboard_enter_def handle_keyboard_leave_def
      handle_keymap_def xdg_wm_base_ping_def frame_done_def call_def Let_def split: if_splits)+

lemma focus_after_Cons:
  "focus_after (ev # evs) f = focus_after evs (ev = Keyboard_Enter \<or> f \<and> ev \<noteq> Keyboard_Leave)"
  by (auto simp: focus_after_def split: list.splits)

lemma handlers_focus:
  "each handle_event evs w = Some w' \<Longrightarrow>
    w_display w' = w_display w \<and> wayland_is_focus w' = focus_after evs (wayland_is_focus w)"
proof (induction evs arbitrary: w)
  case Nil
  then show ?case by (simp add: focus_after_def)
next
  case (Cons ev evs)
  then obtain w1 where "handle_event ev w = Some w1" "each handle_event evs w1 = Some w'"
    by (auto simp: bind_eq_Some)
  with Cons.IH [OF this(2)] handle_event_focus [OF this(1)] show ?case by (simp add: focus_after_Cons)
qed

lemma call_focus: "wayland_is_focus (call cs w) = wayland_is_focus w" "w_display (call cs w) = w_display w"
  by (simp_all add: call_def wayland_is_focus_def)

lemma evdev_events_first:
  assumes "backends_get_backend_by_type BACKEND_DISPLAY bs = Some b" "b_focus b = Some f"
  shows "evdev_events bs evs g = Some (first_key evs \<noteq> None,
    if f then g\<lparr>joypad := press (first_key evs) (joypad g)\<rparr> else g)"
  using assms by (induction evs) (auto simp: first_key_def press_def monitor_set_key_def)

lemma first_key_append:
  "first_key (xs @ ys) = (if first_key xs = None then first_key ys else first_key xs)"
  by (induction xs) (simp_all add: first_key_def)

lemma evdev_devices_first:
  assumes "backends_get_backend_by_type BACKEND_DISPLAY bs = Some b" "b_focus b = Some f"
  shows "evdev_devices bs devs g =
    Some (if f then g\<lparr>joypad := press (first_key (concat devs)) (joypad g)\<rparr> else g)"
proof (induction devs)
  case Nil
  then show ?case by (simp add: first_key_def press_def)
next
  case (Cons evs devs)
  then show ?case
    by (cases "first_key evs")
      (simp_all add: evdev_events_first [OF assms] first_key_append press_def)
qed

text \<open>The builds that have a window and input devices.\<close>

definition full_build :: "impl list \<Rightarrow> bool" where
  "full_build impls \<longleftrightarrow> impls = [Wayland_Backend, Evdev_Backend] \<or>
    impls = [Wayland_Backend, Pipewire_Backend, Evdev_Backend]"

lemma full_build_display:
  "full_build impls \<Longrightarrow> \<exists>b. backends_get_backend_by_type BACKEND_DISPLAY (map (backend_of w) impls) = Some b \<and>
    b_focus b = Some (wayland_is_focus w)"
  by (auto simp: full_build_def backend_of_def)

text \<open>What the events change: the state of the window apart from its display, the joypad, the count.\<close>

definition io_rel :: "io \<Rightarrow> io \<Rightarrow> bool" where
  "io_rel s s' \<longleftrightarrow> w_display (window s') = w_display (window s) \<and>
    emulator s' = (emulator s)\<lparr>joypad := joypad (emulator s')\<rparr>"

lemma io_rel_refl: "io_rel s s"
  by (simp add: io_rel_def)

lemma joypad_twice: "g1 = g\<lparr>joypad := a\<rparr> \<Longrightarrow> g2 = g1\<lparr>joypad := b\<rparr> \<Longrightarrow> g2 = g\<lparr>joypad := b\<rparr>"
  by simp

lemma io_rel_trans: "io_rel s s1 \<Longrightarrow> io_rel s1 s2 \<Longrightarrow> io_rel s s2"
  using joypad_twice unfolding io_rel_def by metis

lemma window_event:
  assumes "w_display (window s) = d" "d \<noteq> 0" "\<forall>ev\<in>set (win_events inp). keyboard_given ev"
  shows "\<exists>w. impl_dispatch e impls fd inp Wayland_Backend s = Some (s\<lparr>window := w\<rparr>) \<and> w_display w = d \<and>
    wayland_is_focus w = (if fd = display_get_fd e d then focus_after (win_events inp) (wayland_is_focus (window s))
      else wayland_is_focus (window s))"
proof -
  obtain w where w: "each handle_event (win_events inp) (call [Wl_Dispatch d] (window s)) = Some w"
    using handlers_defined [OF assms(3)] by blast
  with handlers_focus [OF w] assms(1,2) show ?thesis
    by (auto simp: impl_dispatch_def backend_dispatch_def backend_get_fd_def call_focus intro: exI [of _ "window s"])
qed

lemma devices_event:
  assumes "full_build impls"
  shows "impl_dispatch e impls fd inp Evdev_Backend s =
    Some (if fd = evdev_fd e \<and> wayland_is_focus (window s)
      then s\<lparr>emulator := (emulator s)\<lparr>joypad := press (first_key (concat (dev_events inp))) (joypad (emulator s))\<rparr>\<rparr>
      else s)"
proof -
  obtain b where b: "backends_get_backend_by_type BACKEND_DISPLAY (map (backend_of (window s)) impls) = Some b"
    "b_focus b = Some (wayland_is_focus (window s))"
    using full_build_display [OF assms] by blast
  show ?thesis
    by (simp add: impl_dispatch_def evdev_dispatch_def evdev_devices_first [OF b])
qed

lemma io_event_view:
  assumes "full_build impls" "w_display (window s) = d" "d \<noteq> 0" "display_get_fd e d \<noteq> evdev_fd e"
    "\<forall>ev\<in>set (win_events inp). keyboard_given ev"
  shows "returns (io_event e impls (fd, inp) s)
    (\<lambda>s'. view_of s' = view_event e d (fd, inp) (view_of s) \<and> io_rel s s')"
proof (cases "srv_fd e = fd")
  case True
  then show ?thesis by (simp add: io_event_def view_of_def view_event_def io_rel_def)
next
  case False
  obtain w where w: "impl_dispatch e impls fd inp Wayland_Backend s = Some (s\<lparr>window := w\<rparr>)" "w_display w = d"
    "wayland_is_focus w = (if fd = display_get_fd e d then focus_after (win_events inp) (wayland_is_focus (window s))
      else wayland_is_focus (window s))"
    using window_event [OF assms(2,3,5)] by blast
  let ?s = "s\<lparr>window := w\<rparr>"
  have "backends_dispatch e impls fd inp s = impl_dispatch e impls fd inp Evdev_Backend ?s"
    using assms(1) w(1) by (auto simp: backends_dispatch_def full_build_def impl_dispatch_def)
  with False show ?thesis
    using assms(2-4) w(2,3)
    by (auto simp: io_event_def devices_event [OF assms(1)] view_of_def view_event_def io_rel_def)
qed

definition delivered :: "(int \<times> input) list option list \<Rightarrow> (int \<times> input) list" where
  "delivered rounds = concat [evs. Some evs \<leftarrow> rounds]"

lemma io_rounds: "each (io_round e impls) rounds s = each (io_event e impls) (delivered rounds) s"
proof (induction rounds arbitrary: s)
  case (Cons r rounds)
  then show ?case
    by (cases r) (simp_all add: io_round_def delivered_def cong: Option.bind_cong)
qed (simp add: delivered_def)

lemma io_events_view:
  assumes "full_build impls" "d \<noteq> 0" "display_get_fd e d \<noteq> evdev_fd e"
  shows "w_display (window s) = d \<Longrightarrow> \<forall>(fd, inp)\<in>set evs. \<forall>ev\<in>set (win_events inp). keyboard_given ev \<Longrightarrow>
    returns (each (io_event e impls) evs s) (\<lambda>s'. view_of s' = fold (view_event e d) evs (view_of s) \<and> io_rel s s')"
proof (induction evs arbitrary: s)
  case Nil
  then show ?case by (simp add: io_rel_refl)
next
  case (Cons ev evs)
  obtain fd inp where ev: "ev = (fd, inp)" by fastforce
  obtain s1 where s1: "io_event e impls ev s = Some s1" "view_of s1 = view_event e d ev (view_of s)" "io_rel s s1"
    using io_event_view [OF assms(1) Cons.prems(1) assms(2,3), of inp fd] Cons.prems(2)
    unfolding ev by (auto simp: returns_iff)
  then have "w_display (window s1) = d" using Cons.prems(1) by (simp add: io_rel_def)
  from Cons.IH [OF this] Cons.prems(2) s1 show ?case
    by (auto intro: io_rel_trans elim!: returns_mono)
qed



section \<open>The backend of PipeWire\<close>

text \<open>In a build without a window it is taken for the display, and a key makes the program read past its
  structure.\<close>

lemma pipewire_taken_for_display:
  "first_key evs \<noteq> None \<Longrightarrow>
    evdev_events (map (backend_of w) [Pipewire_Backend, Evdev_Backend]) evs g = None"
  by (induction evs) (auto simp: first_key_def monitor_set_key_def backend_of_def)

text \<open>It gives the descriptor 0, the standard input, and \<open>server_get_fd\<close> gives 0 for no server: an event there is
  taken for a request to the server.\<close>

lemma pipewire_standard_input:
  "srv_fd e = 0 \<Longrightarrow> impl_get_fd e w Pipewire_Backend = Some fd \<Longrightarrow>
    io_event e impls (fd, inp) s = Some (s\<lparr>served := served s + 1\<rparr>)"
  by (simp add: impl_get_fd_def io_event_def)

end
